(* ===== verification/Prelude.thy ===== *)
theory Prelude
  imports Main "HOL-Library.Word"
begin

text \<open>
  What the component theories share: the machine types, the state-and-exception monad in which
  the methods and callbacks of \<^verbatim>\<open>src/ngh2/_core.pyx\<close> are written, its weakest-precondition
  calculus (the collection \<open>wp_simps\<close>), and the notion of a computation that keeps an invariant
  (the collection \<open>keeps_intros\<close>).

  A method of the program may return a value, raise a Python exception, or run into undefined
  behaviour of C (a native call on a NULL session, a read of an unallocated buffer). These are the
  three outcomes. The last one is never caught by an \<open>except\<close> clause, so a theorem that excludes
  it is a memory-safety theorem.
\<close>

section \<open>Machine types\<close>

type_synonym byte = "8 word"
type_synonym size_t = "64 word"

text \<open>One byte of a freshly allocated C buffer: \<open>None\<close> until something is written to it.\<close>

type_synonym cell = "byte option"

definition SIZE_MAX :: nat where
  "SIZE_MAX = 2 ^ 64 - 1"

definition SSIZE_MAX :: nat where
  "SSIZE_MAX = 2 ^ 63 - 1"

section \<open>Outcomes and computations\<close>

datatype ('e, 'a) outcome = Ok 'a | Raise 'e | Crash

type_synonym ('w, 'e, 'a) py = "'w \<Rightarrow> ('e, 'a) outcome \<times> 'w"

definition returnM :: "'a \<Rightarrow> ('w, 'e, 'a) py" where
  "returnM x = (\<lambda>w. (Ok x, w))"

definition raiseM :: "'e \<Rightarrow> ('w, 'e, 'a) py" where
  "raiseM e = (\<lambda>w. (Raise e, w))"

definition crashM :: "('w, 'e, 'a) py" where
  "crashM = (\<lambda>w. (Crash, w))"

definition bindM :: "('w, 'e, 'a) py \<Rightarrow> ('a \<Rightarrow> ('w, 'e, 'b) py) \<Rightarrow> ('w, 'e, 'b) py" where
  "bindM m f = (\<lambda>w. case m w of
       (Ok x, w') \<Rightarrow> f x w'
     | (Raise e, w') \<Rightarrow> (Raise e, w')
     | (Crash, w') \<Rightarrow> (Crash, w'))"

definition thenM :: "('w, 'e, 'a) py \<Rightarrow> ('w, 'e, 'b) py \<Rightarrow> ('w, 'e, 'b) py" where
  "thenM m k = bindM m (\<lambda>_. k)"

definition getsM :: "('w \<Rightarrow> 'a) \<Rightarrow> ('w, 'e, 'a) py" where
  "getsM f = (\<lambda>w. (Ok (f w), w))"

definition modifyM :: "('w \<Rightarrow> 'w) \<Rightarrow> ('w, 'e, unit) py" where
  "modifyM f = (\<lambda>w. (Ok (), f w))"

text \<open>\<open>if bad: raise e\<close>\<close>

definition raise_if :: "bool \<Rightarrow> 'e \<Rightarrow> ('w, 'e, unit) py" where
  "raise_if bad e = (if bad then raiseM e else returnM ())"

definition whenM :: "bool \<Rightarrow> ('w, 'e, unit) py \<Rightarrow> ('w, 'e, unit) py" where
  "whenM b m = (if b then m else returnM ())"

text \<open>\<open>try: m except e: h e\<close>; the handler decides which exceptions it re-raises.\<close>

definition catchM :: "('w, 'e, 'a) py \<Rightarrow> ('e \<Rightarrow> ('w, 'e, 'a) py) \<Rightarrow> ('w, 'e, 'a) py" where
  "catchM m h = (\<lambda>w. case m w of
       (Ok x, w') \<Rightarrow> (Ok x, w')
     | (Raise e, w') \<Rightarrow> h e w'
     | (Crash, w') \<Rightarrow> (Crash, w'))"

text \<open>A \<open>for\<close> loop that appends one converted item per iteration.\<close>

primrec mapM :: "('a \<Rightarrow> ('w, 'e, 'b) py) \<Rightarrow> 'a list \<Rightarrow> ('w, 'e, 'b list) py" where
  "mapM f [] = returnM []"
| "mapM f (x # xs) = bindM (f x) (\<lambda>y. bindM (mapM f xs) (\<lambda>ys. returnM (y # ys)))"

section \<open>Equations of the monad\<close>

lemma bindM_returnM [simp]: "bindM (returnM x) f = f x"
  by (simp add: bindM_def returnM_def)

lemma bindM_raiseM [simp]: "bindM (raiseM e) f = raiseM e"
  by (simp add: bindM_def raiseM_def)

lemma bindM_crashM [simp]: "bindM crashM f = crashM"
  by (simp add: bindM_def crashM_def)

lemma catchM_returnM [simp]: "catchM (returnM x) h = returnM x"
  by (simp add: catchM_def returnM_def)

lemma catchM_raiseM [simp]: "catchM (raiseM e) h = h e"
  by (simp add: catchM_def raiseM_def)

lemma mapM_returnM_id [simp]: "mapM returnM xs = returnM xs"
  by (induction xs) simp_all

section \<open>Weakest preconditions\<close>

named_theorems wp_simps

definition wp ::
  "('w, 'e, 'a) py \<Rightarrow> ('a \<Rightarrow> 'w \<Rightarrow> bool) \<Rightarrow> ('e \<Rightarrow> 'w \<Rightarrow> bool) \<Rightarrow> 'w \<Rightarrow> bool" where
  "wp m Q R w = (case m w of
       (Ok x, w') \<Rightarrow> Q x w'
     | (Raise e, w') \<Rightarrow> R e w'
     | (Crash, w') \<Rightarrow> False)"

lemma wp_returnM [wp_simps]: "wp (returnM x) Q R = Q x"
  by (simp add: wp_def returnM_def fun_eq_iff)

lemma wp_raiseM [wp_simps]: "wp (raiseM e) Q R = R e"
  by (simp add: wp_def raiseM_def fun_eq_iff)

lemma wp_crashM [wp_simps]: "wp crashM Q R = (\<lambda>w. False)"
  by (simp add: wp_def crashM_def fun_eq_iff)

lemma wp_bindM [wp_simps]: "wp (bindM m f) Q R = wp m (\<lambda>x. wp (f x) Q R) R"
  by (auto simp: wp_def bindM_def fun_eq_iff split: prod.splits outcome.splits)

lemma wp_thenM [wp_simps]: "wp (thenM m k) Q R = wp m (\<lambda>_. wp k Q R) R"
  by (simp add: thenM_def wp_bindM)

lemma wp_getsM [wp_simps]: "wp (getsM f) Q R = (\<lambda>w. Q (f w) w)"
  by (simp add: wp_def getsM_def fun_eq_iff)

lemma wp_modifyM [wp_simps]: "wp (modifyM f) Q R = (\<lambda>w. Q () (f w))"
  by (simp add: wp_def modifyM_def fun_eq_iff)

lemma wp_raise_if [wp_simps]: "wp (raise_if b e) Q R = (\<lambda>w. if b then R e w else Q () w)"
  by (simp add: raise_if_def wp_simps)

lemma wp_whenM [wp_simps]: "wp (whenM b m) Q R = (\<lambda>w. if b then wp m Q R w else Q () w)"
  by (simp add: whenM_def wp_simps)

lemma wp_catchM [wp_simps]: "wp (catchM m h) Q R = wp m Q (\<lambda>e. wp (h e) Q R)"
  by (auto simp: wp_def catchM_def fun_eq_iff split: prod.splits outcome.splits)

lemma wp_if [wp_simps]:
  "wp (if b then m else n) Q R = (\<lambda>w. if b then wp m Q R w else wp n Q R w)"
  by simp

lemma wp_case_option [wp_simps]:
  "wp (case x of None \<Rightarrow> m | Some y \<Rightarrow> f y) Q R =
     (\<lambda>w. case x of None \<Rightarrow> wp m Q R w | Some y \<Rightarrow> wp (f y) Q R w)"
  by (simp split: option.splits)

lemma wp_case_prod [wp_simps]:
  "wp (case p of (x, y) \<Rightarrow> f x y) Q R = (\<lambda>w. case p of (x, y) \<Rightarrow> wp (f x y) Q R w)"
  by (simp split: prod.splits)

lemma wp_Let [wp_simps]: "wp (Let t f) Q R = wp (f t) Q R"
  by simp

lemma wp_mono:
  assumes "wp m Q R w"
    and "\<And>x w'. Q x w' \<Longrightarrow> Q' x w'" and "\<And>e w'. R e w' \<Longrightarrow> R' e w'"
  shows "wp m Q' R' w"
  using assms by (auto simp: wp_def split: prod.splits outcome.splits)

lemma wp_conj:
  "wp m Q R w \<Longrightarrow> wp m Q' R' w \<Longrightarrow> wp m (\<lambda>x w. Q x w \<and> Q' x w) (\<lambda>e w. R e w \<and> R' e w) w"
  by (auto simp: wp_def split: prod.splits outcome.splits)

lemma wp_Ok: "wp m Q R w \<Longrightarrow> m w = (Ok x, w') \<Longrightarrow> Q x w'"
  by (simp add: wp_def)

lemma wp_Raise: "wp m Q R w \<Longrightarrow> m w = (Raise e, w') \<Longrightarrow> R e w'"
  by (simp add: wp_def)

lemma wp_no_crash: "wp m Q R w \<Longrightarrow> fst (m w) \<noteq> Crash"
  by (auto simp: wp_def split: prod.splits)

lemma wp_result: "wp m Q (\<lambda>_ _. False) w \<Longrightarrow> \<exists>x w'. m w = (Ok x, w') \<and> Q x w'"
  by (auto simp: wp_def split: prod.splits outcome.splits)

lemma wp_snd: "wp m (\<lambda>_. I) (\<lambda>_. I) w \<Longrightarrow> I (snd (m w))"
  by (auto simp: wp_def split: prod.splits outcome.splits)

section \<open>Keeping an invariant\<close>

text \<open>
  \<open>keeps I m\<close>: from a state with \<open>I\<close> the computation ends in one, whether it returns or
  raises, and it does not run into undefined behaviour.
\<close>

named_theorems keeps_intros

definition keeps :: "('w \<Rightarrow> bool) \<Rightarrow> ('w, 'e, 'a) py \<Rightarrow> bool" where
  "keeps I m \<longleftrightarrow> (\<forall>w. I w \<longrightarrow> wp m (\<lambda>_. I) (\<lambda>_. I) w)"

lemma keepsI: "(\<And>w. I w \<Longrightarrow> wp m (\<lambda>_. I) (\<lambda>_. I) w) \<Longrightarrow> keeps I m"
  by (simp add: keeps_def)

lemma keepsD: "keeps I m \<Longrightarrow> I w \<Longrightarrow> wp m (\<lambda>_. I) (\<lambda>_. I) w"
  by (simp add: keeps_def)

lemma keeps_wp: "keeps I m \<Longrightarrow> I w \<Longrightarrow> (\<And>x w'. I w' \<Longrightarrow> Q x w') \<Longrightarrow> (\<And>e w'. I w' \<Longrightarrow> R e w')
    \<Longrightarrow> wp m Q R w"
  by (blast intro: wp_mono dest: keepsD)

lemma keeps_returnM [keeps_intros]: "keeps I (returnM x)"
  by (simp add: keeps_def wp_simps)

lemma keeps_raiseM [keeps_intros]: "keeps I (raiseM e)"
  by (simp add: keeps_def wp_simps)

lemma keeps_getsM [keeps_intros]: "keeps I (getsM f)"
  by (simp add: keeps_def wp_simps)

lemma keeps_raise_if [keeps_intros]: "keeps I (raise_if b e)"
  by (simp add: keeps_def wp_simps)

lemma keeps_bindM [keeps_intros]:
  "keeps I m \<Longrightarrow> (\<And>x. keeps I (f x)) \<Longrightarrow> keeps I (bindM m f)"
  by (auto simp: keeps_def wp_simps intro: wp_mono)

lemma keeps_thenM [keeps_intros]: "keeps I m \<Longrightarrow> keeps I k \<Longrightarrow> keeps I (thenM m k)"
  by (simp add: thenM_def keeps_bindM)

lemma keeps_catchM [keeps_intros]:
  "keeps I m \<Longrightarrow> (\<And>e. keeps I (h e)) \<Longrightarrow> keeps I (catchM m h)"
  by (auto simp: keeps_def wp_simps intro: wp_mono)

lemma keeps_whenM [keeps_intros]: "keeps I m \<Longrightarrow> keeps I (whenM b m)"
  by (simp add: keeps_def wp_simps)

lemma keeps_if [keeps_intros]: "keeps I m \<Longrightarrow> keeps I n \<Longrightarrow> keeps I (if b then m else n)"
  by simp

lemma keeps_mapM [keeps_intros]: "(\<And>x. x \<in> set xs \<Longrightarrow> keeps I (f x)) \<Longrightarrow> keeps I (mapM f xs)"
  by (induction xs) (auto intro!: keeps_intros)

end
