(* ===== verification/Exceptions.thy ===== *)
theory Exceptions
  imports Prelude
begin

text \<open>
  The exception classes of \<^verbatim>\<open>src/ngh2/exceptions.py\<close> with the Python built-ins the binding
  raises, the engine's error codes named in \<^verbatim>\<open>src/ngh2/_nghttp2.pxd\<close>, and the two translations
  \<open>_nghttp2_error\<close> and \<open>_frame_not_sent_error\<close> of \<^verbatim>\<open>src/ngh2/_core.pyx\<close>. An exception is its
  class; message texts are not modelled.
\<close>

section \<open>Exception classes\<close>

text \<open>
  \<open>ApplicationError n\<close> stands for any other exception that code of the application raises while
  one of its objects is converted or iterated.
\<close>

datatype exc =
    TypeError | ValueError | MemoryError | BufferError | KeyError | AttributeError
  | ApplicationError nat
  | NGH2Error
  | ConnectionStateError
  | ConnectionClosingError
  | NoAvailableStreamIDError
  | StreamStateError
  | StreamUnavailableError
  | PushDisabledError
  | ProtocolError
  | ConnectionProtocolError
  | StreamProtocolError
  | DenialOfServiceError
  | InternalError

text \<open>The class each ngh2 class statement names as its base; \<open>None\<close> for a built-in base.\<close>

fun base_class :: "exc \<Rightarrow> exc option" where
  "base_class ConnectionStateError = Some NGH2Error"
| "base_class ConnectionClosingError = Some ConnectionStateError"
| "base_class NoAvailableStreamIDError = Some ConnectionStateError"
| "base_class StreamStateError = Some NGH2Error"
| "base_class StreamUnavailableError = Some StreamStateError"
| "base_class PushDisabledError = Some StreamStateError"
| "base_class ProtocolError = Some NGH2Error"
| "base_class ConnectionProtocolError = Some ProtocolError"
| "base_class StreamProtocolError = Some ProtocolError"
| "base_class DenialOfServiceError = Some ConnectionProtocolError"
| "base_class InternalError = Some NGH2Error"
| "base_class _ = None"

fun class_depth :: "exc \<Rightarrow> nat" where
  "class_depth DenialOfServiceError = 3"
| "class_depth c = (if base_class c = None then 0 else if base_class c = Some NGH2Error then 1 else 2)"

function mro :: "exc \<Rightarrow> exc list" where
  "mro c = c # (case base_class c of None \<Rightarrow> [] | Some b \<Rightarrow> mro b)"
  by pat_completeness auto
termination
proof (relation "measure class_depth")
  fix c b
  assume "base_class c = Some b"
  then show "(b, c) \<in> measure class_depth"
    by (cases c) auto
qed simp

declare mro.simps [simp del]

text \<open>\<open>isinstance(error, cls)\<close> for an error of exact class \<open>c\<close>.\<close>

definition isinstance :: "exc \<Rightarrow> exc \<Rightarrow> bool" where
  "isinstance c cls \<longleftrightarrow> cls \<in> set (mro c)"

lemma mro_unfold:
  "mro c = c # (case base_class c of None \<Rightarrow> [] | Some b \<Rightarrow> mro b)"
  by (rule mro.simps)

lemmas isinstance_eval = isinstance_def mro_unfold

lemma isinstance_refl [simp]: "isinstance c c"
  by (simp add: isinstance_def mro_unfold [of c])

lemma isinstance_NGH2Error:
  "isinstance c NGH2Error \<longleftrightarrow> c = NGH2Error \<or> base_class c \<noteq> None"
  by (cases c) (simp_all add: isinstance_eval)

section \<open>Engine error codes\<close>

text \<open>
  The library's negative return codes, by the names the binding uses; \<open>ERR_OTHER\<close> is any other
  negative code. A return value of the engine is a non-negative result or one of them. The C
  constants have their values in nghttp2's own header, which is not part of the repository, so
  they are kept symbolic.
\<close>

datatype err =
    ERR_WOULDBLOCK | ERR_NOMEM | ERR_CALLBACK_FAILURE | ERR_DEFERRED | ERR_PAUSE
  | ERR_TEMPORAL_CALLBACK_FAILURE | ERR_INVALID_ARGUMENT | ERR_PROTO
  | ERR_STREAM_ID_NOT_AVAILABLE | ERR_STREAM_CLOSED | ERR_STREAM_CLOSING | ERR_STREAM_SHUT_WR
  | ERR_INVALID_STREAM_ID | ERR_INVALID_STREAM_STATE | ERR_START_STREAM_NOT_ALLOWED
  | ERR_PUSH_DISABLED | ERR_DATA_EXIST | ERR_SESSION_CLOSING | ERR_TOO_MANY_SETTINGS
  | ERR_FRAME_SIZE_ERROR | ERR_BAD_CLIENT_MAGIC | ERR_FLOODED | ERR_TOO_MANY_CONTINUATIONS
  | ERR_OTHER nat

datatype status = RcOk nat | RcErr err

fun failed_rc :: "status \<Rightarrow> bool" where
  "failed_rc (RcOk n) = False"
| "failed_rc (RcErr e) = True"

section \<open>Translation of engine errors\<close>

definition nghttp2_error :: "err \<Rightarrow> exc" where
  "nghttp2_error code =
    (if code = ERR_NOMEM then MemoryError
     else if code = ERR_STREAM_ID_NOT_AVAILABLE then NoAvailableStreamIDError
     else if code \<in> {ERR_INVALID_STREAM_ID, ERR_STREAM_CLOSED, ERR_STREAM_CLOSING,
                     ERR_STREAM_SHUT_WR} then StreamUnavailableError
     else if code = ERR_PUSH_DISABLED then PushDisabledError
     else if code \<in> {ERR_START_STREAM_NOT_ALLOWED, ERR_SESSION_CLOSING}
       then ConnectionClosingError
     else if code = ERR_DATA_EXIST then StreamStateError
     else if code = ERR_BAD_CLIENT_MAGIC then ConnectionProtocolError
     else if code \<in> {ERR_FLOODED, ERR_TOO_MANY_CONTINUATIONS} then DenialOfServiceError
     else if code = ERR_INVALID_ARGUMENT then ValueError
     else if code = ERR_TOO_MANY_SETTINGS then ValueError
     else InternalError)"

definition frame_not_sent_error :: "err \<Rightarrow> exc" where
  "frame_not_sent_error code =
    (if code = ERR_FRAME_SIZE_ERROR then StreamProtocolError
     else if code \<in> {ERR_PROTO, ERR_INVALID_STREAM_STATE} then StreamProtocolError
     else (let error = nghttp2_error code
           in if isinstance error NGH2Error then error else InternalError))"

lemma nghttp2_error_cases:
  "nghttp2_error code = MemoryError \<and> code = ERR_NOMEM
   \<or> nghttp2_error code = ValueError \<and> code \<in> {ERR_INVALID_ARGUMENT, ERR_TOO_MANY_SETTINGS}
   \<or> isinstance (nghttp2_error code) NGH2Error"
  by (auto simp: nghttp2_error_def isinstance_NGH2Error)

lemma frame_not_sent_error_is_ngh2: "isinstance (frame_not_sent_error code) NGH2Error"
  by (simp add: frame_not_sent_error_def Let_def) (simp add: isinstance_NGH2Error)

end
