(* ===== verification/Enums.thy ===== *)
theory Enums
  imports Exceptions "HOL-Library.AList"
begin

text \<open>
  The enumerations of \<^verbatim>\<open>src/ngh2/enums.py\<close> and the role of \<^verbatim>\<open>src/ngh2/config.py\<close>, with the
  lookups by wire value that \<^verbatim>\<open>src/ngh2/events.pyx\<close> builds from them. An event reports a known
  wire value as the enumeration member and any other as the plain integer.
\<close>

section \<open>Role\<close>

datatype role = CLIENT | SERVER

section \<open>Setting\<close>

datatype setting =
    HEADER_TABLE_SIZE
  | ENABLE_PUSH
  | MAX_CONCURRENT_STREAMS
  | INITIAL_WINDOW_SIZE
  | MAX_FRAME_SIZE
  | MAX_HEADER_LIST_SIZE
  | ENABLE_CONNECT_PROTOCOL
  | NO_RFC7540_PRIORITIES

fun setting_value :: "setting \<Rightarrow> int" where
  "setting_value HEADER_TABLE_SIZE = 0x01"
| "setting_value ENABLE_PUSH = 0x02"
| "setting_value MAX_CONCURRENT_STREAMS = 0x03"
| "setting_value INITIAL_WINDOW_SIZE = 0x04"
| "setting_value MAX_FRAME_SIZE = 0x05"
| "setting_value MAX_HEADER_LIST_SIZE = 0x06"
| "setting_value ENABLE_CONNECT_PROTOCOL = 0x08"
| "setting_value NO_RFC7540_PRIORITIES = 0x09"

text \<open>Iteration over the enumeration, in definition order.\<close>

definition all_settings :: "setting list" where
  "all_settings = [HEADER_TABLE_SIZE, ENABLE_PUSH, MAX_CONCURRENT_STREAMS, INITIAL_WINDOW_SIZE,
     MAX_FRAME_SIZE, MAX_HEADER_LIST_SIZE, ENABLE_CONNECT_PROTOCOL, NO_RFC7540_PRIORITIES]"

lemma set_all_settings [simp]: "set all_settings = UNIV"
proof -
  have "s \<in> set all_settings" for s by (cases s) (simp_all add: all_settings_def)
  then show ?thesis by auto
qed

lemma setting_value_inj: "setting_value a = setting_value b \<longleftrightarrow> a = b"
  by (cases a; cases b) simp_all

datatype setting_key = KnownSetting setting | UnknownSetting int

definition SETTINGS :: "(int \<times> setting) list" where
  "SETTINGS = map (\<lambda>s. (setting_value s, s)) all_settings"

text \<open>\<open>_SETTINGS.get(key, key)\<close>\<close>

definition setting_key_of :: "int \<Rightarrow> setting_key" where
  "setting_key_of key = (case map_of SETTINGS key of
       Some s \<Rightarrow> KnownSetting s | None \<Rightarrow> UnknownSetting key)"

lemma map_of_SETTINGS: "map_of SETTINGS k = Some s \<longleftrightarrow> setting_value s = k"
proof
  assume "map_of SETTINGS k = Some s"
  then show "setting_value s = k"
    using map_of_SomeD by (fastforce simp: SETTINGS_def)
next
  assume "setting_value s = k"
  then show "map_of SETTINGS k = Some s"
    by (cases s) (auto simp: SETTINGS_def all_settings_def)
qed

fun setting_key_value :: "setting_key \<Rightarrow> int" where
  "setting_key_value (KnownSetting s) = setting_value s"
| "setting_key_value (UnknownSetting k) = k"

lemma setting_key_value_of [simp]: "setting_key_value (setting_key_of k) = k"
  by (auto simp: setting_key_of_def map_of_SETTINGS split: option.splits)

section \<open>ErrorCode\<close>

datatype error_code =
    NO_ERROR
  | PROTOCOL_ERROR
  | INTERNAL_ERROR
  | FLOW_CONTROL_ERROR
  | SETTINGS_TIMEOUT
  | STREAM_CLOSED
  | FRAME_SIZE_ERROR
  | REFUSED_STREAM
  | CANCEL
  | COMPRESSION_ERROR
  | CONNECT_ERROR
  | ENHANCE_YOUR_CALM
  | INADEQUATE_SECURITY
  | HTTP_1_1_REQUIRED

fun wire_code :: "error_code \<Rightarrow> int" where
  "wire_code NO_ERROR = 0x00"
| "wire_code PROTOCOL_ERROR = 0x01"
| "wire_code INTERNAL_ERROR = 0x02"
| "wire_code FLOW_CONTROL_ERROR = 0x03"
| "wire_code SETTINGS_TIMEOUT = 0x04"
| "wire_code STREAM_CLOSED = 0x05"
| "wire_code FRAME_SIZE_ERROR = 0x06"
| "wire_code REFUSED_STREAM = 0x07"
| "wire_code CANCEL = 0x08"
| "wire_code COMPRESSION_ERROR = 0x09"
| "wire_code CONNECT_ERROR = 0x0A"
| "wire_code ENHANCE_YOUR_CALM = 0x0B"
| "wire_code INADEQUATE_SECURITY = 0x0C"
| "wire_code HTTP_1_1_REQUIRED = 0x0D"

definition all_error_codes :: "error_code list" where
  "all_error_codes = [NO_ERROR, PROTOCOL_ERROR, INTERNAL_ERROR, FLOW_CONTROL_ERROR,
     SETTINGS_TIMEOUT, STREAM_CLOSED, FRAME_SIZE_ERROR, REFUSED_STREAM, CANCEL,
     COMPRESSION_ERROR, CONNECT_ERROR, ENHANCE_YOUR_CALM, INADEQUATE_SECURITY,
     HTTP_1_1_REQUIRED]"

lemma wire_code_inj: "wire_code a = wire_code b \<longleftrightarrow> a = b"
  by (cases a; cases b) simp_all

text \<open>Members of an \<open>IntEnum\<close> compare as their integers.\<close>

instantiation error_code :: linorder
begin

definition less_eq_error_code :: "error_code \<Rightarrow> error_code \<Rightarrow> bool" where
  "less_eq_error_code a b \<longleftrightarrow> wire_code a \<le> wire_code b"

definition less_error_code :: "error_code \<Rightarrow> error_code \<Rightarrow> bool" where
  "less_error_code a b \<longleftrightarrow> wire_code a < wire_code b"

instance
  by standard (auto simp: less_eq_error_code_def less_error_code_def wire_code_inj)

end

text \<open>
  \<open>ErrorCode(code)\<close> looks a member up by its value and raises \<open>ValueError\<close> for a value no member
  has; the table \<open>_ERROR_CODES\<close> calls it for every index below the number of members, once, when
  the module is imported.
\<close>

fun find_code :: "error_code list \<Rightarrow> int \<Rightarrow> exc + error_code" where
  "find_code [] v = Inl ValueError"
| "find_code (c # cs) v = (if wire_code c = v then Inr c else find_code cs v)"

definition error_code_member :: "int \<Rightarrow> exc + error_code" where
  "error_code_member v = find_code all_error_codes v"

fun error_code_table :: "nat list \<Rightarrow> exc + error_code list" where
  "error_code_table [] = Inr []"
| "error_code_table (i # is) = (case error_code_member (int i) of
     Inl e \<Rightarrow> Inl e
   | Inr c \<Rightarrow> (case error_code_table is of Inl e \<Rightarrow> Inl e | Inr cs \<Rightarrow> Inr (c # cs)))"

definition import_ERROR_CODES :: "exc + error_code list" where
  "import_ERROR_CODES = error_code_table [0 ..< length all_error_codes]"

text \<open>The value the import leaves in \<open>_ERROR_CODES\<close>.\<close>

definition ERROR_CODES :: "error_code list" where
  "ERROR_CODES = (case import_ERROR_CODES of Inl e \<Rightarrow> [] | Inr cs \<Rightarrow> cs)"

datatype error_value = KnownCode error_code | UnknownCode int

definition error_value :: "int \<Rightarrow> error_value" where
  "error_value value =
     (if value < int (length ERROR_CODES) then KnownCode (ERROR_CODES ! nat value)
      else UnknownCode value)"

fun error_value_code :: "error_value \<Rightarrow> int" where
  "error_value_code (KnownCode c) = wire_code c"
| "error_value_code (UnknownCode v) = v"

lemma import_ERROR_CODES_ok: "import_ERROR_CODES = Inr all_error_codes"
  by (simp add: import_ERROR_CODES_def all_error_codes_def error_code_member_def upt_rec)

lemma ERROR_CODES_eq: "ERROR_CODES = all_error_codes"
  by (simp add: ERROR_CODES_def import_ERROR_CODES_ok)

lemma length_ERROR_CODES [simp]: "length ERROR_CODES = 14"
  by (simp add: ERROR_CODES_eq all_error_codes_def)

lemma wire_code_nth: "i < 14 \<Longrightarrow> wire_code (all_error_codes ! i) = int i"
proof -
  have "map wire_code all_error_codes = map int [0..<14]"
    by (simp add: all_error_codes_def upt_rec)
  moreover assume "i < 14"
  ultimately show ?thesis
    by (metis add_0 diff_zero length_ERROR_CODES ERROR_CODES_eq length_upt nth_map nth_upt)
qed

lemma error_value_roundtrip: "0 \<le> v \<Longrightarrow> error_value_code (error_value v) = v"
  by (simp add: error_value_def ERROR_CODES_eq wire_code_nth all_error_codes_def)
    (metis ERROR_CODES_eq all_error_codes_def int_nat_eq length_ERROR_CODES nat_less_iff
      of_nat_numeral wire_code_nth)

lemma error_value_wire_code: "error_value (wire_code c) = KnownCode c"
  by (cases c) (simp_all add: error_value_def ERROR_CODES_eq all_error_codes_def)

end
