(* ===== verification/PyObjects.thy ===== *)
theory PyObjects
  imports Enums
begin

text \<open>
  The Python objects an application passes in, as far as the binding can tell them apart, and the
  protocols it runs on them: \<open>__index__\<close>, \<open>__bool__\<close>, the buffer protocol, tuple unpacking and
  iteration. A conversion can execute code of the application, which may call the connection
  again; such an object carries that code as a computation on the world \<open>'w\<close> (the connection).
\<close>

section \<open>Objects\<close>

text \<open>
  The Boolean of \<open>PyBytes\<close> says whether the exact type is \<open>bytes\<close> (as opposed to a subclass), that
  of \<open>PyMemoryView\<close> whether the view is contiguous. \<open>PyByteArraySub\<close> is a \<open>bytearray\<close> subclass
  whose \<open>__bytes__\<close> is the given hook, \<open>PyBuffer\<close> an object whose \<open>__buffer__\<close> is. \<open>PyIterable\<close>
  is an object of an application class that can be iterated: each step runs a hook and then yields
  an item; the flag says whether the class is a subclass of \<open>NeverIndexedHeader\<close>. \<open>PyMapping\<close> is
  an object with \<open>items()\<close>, whose iteration likewise runs a hook before each pair. \<open>PyOpaque\<close> is
  an object with none of these protocols.
\<close>

datatype 'w pyobj =
    PyNone
  | PyBool bool
  | PyInt int
  | PyBytes bool "byte list"
  | PyByteArray "byte list"
  | PyByteArraySub "'w \<Rightarrow> (exc, byte list) outcome \<times> 'w" "byte list"
  | PyMemoryView bool "byte list"
  | PyBuffer "'w \<Rightarrow> (exc, byte list) outcome \<times> 'w"
  | PyIndexable "'w \<Rightarrow> (exc, int) outcome \<times> 'w"
  | PyBoolable "'w \<Rightarrow> (exc, bool) outcome \<times> 'w"
  | PyTuple "'w pyobj list"
  | PyList "'w pyobj list"
  | PyNeverIndexed "'w pyobj" "'w pyobj"
  | PyIterable bool "(('w \<Rightarrow> (exc, unit) outcome \<times> 'w) \<times> 'w pyobj) list"
  | PyMapping "(('w \<Rightarrow> (exc, unit) outcome \<times> 'w) \<times> 'w pyobj \<times> 'w pyobj) list"
  | PyPriority "'w pyobj" "'w pyobj"
  | PyOpaque

text \<open>Objects whose code keeps an invariant of the world whenever it runs.\<close>

fun polite :: "('w \<Rightarrow> bool) \<Rightarrow> 'w pyobj \<Rightarrow> bool" where
  "polite I (PyByteArraySub h bs) = keeps I h"
| "polite I (PyBuffer h) = keeps I h"
| "polite I (PyIndexable h) = keeps I h"
| "polite I (PyBoolable h) = keeps I h"
| "polite I (PyTuple xs) = (\<forall>x \<in> set xs. polite I x)"
| "polite I (PyList xs) = (\<forall>x \<in> set xs. polite I x)"
| "polite I (PyNeverIndexed a b) = (polite I a \<and> polite I b)"
| "polite I (PyIterable n xs) = (\<forall>p \<in> set xs. keeps I (fst p) \<and> polite I (snd p))"
| "polite I (PyMapping xs) =
     (\<forall>p \<in> set xs. keeps I (fst p) \<and> polite I (fst (snd p)) \<and> polite I (snd (snd p)))"
| "polite I (PyPriority a b) = (polite I a \<and> polite I b)"
| "polite I _ = True"

section \<open>Protocols\<close>

text \<open>\<open>PyNumber_Index\<close>\<close>

fun integer_index :: "'w pyobj \<Rightarrow> ('w, exc, int) py" where
  "integer_index (PyInt n) = returnM n"
| "integer_index (PyBool b) = returnM (if b then 1 else 0)"
| "integer_index (PyIndexable h) = h"
| "integer_index _ = raiseM TypeError"

text \<open>Truth value testing; Cython runs it on \<open>bint\<close> arguments before the method body.\<close>

fun truth :: "'w pyobj \<Rightarrow> ('w, exc, bool) py" where
  "truth PyNone = returnM False"
| "truth (PyBool b) = returnM b"
| "truth (PyInt n) = returnM (n \<noteq> 0)"
| "truth (PyBytes ex bs) = returnM (bs \<noteq> [])"
| "truth (PyByteArray bs) = returnM (bs \<noteq> [])"
| "truth (PyByteArraySub h bs) = returnM (bs \<noteq> [])"
| "truth (PyMemoryView c bs) = returnM (bs \<noteq> [])"
| "truth (PyBoolable h) = h"
| "truth (PyTuple xs) = returnM (xs \<noteq> [])"
| "truth (PyList xs) = returnM (xs \<noteq> [])"
| "truth _ = returnM True"

fun is_none :: "'w pyobj \<Rightarrow> bool" where
  "is_none PyNone = True"
| "is_none _ = False"

text \<open>\<open>PyBytes_Check\<close>: \<open>bytes\<close> or a subclass, with the bytes of the underlying object.\<close>

fun bytes_check :: "'w pyobj \<Rightarrow> byte list option" where
  "bytes_check (PyBytes ex bs) = Some bs"
| "bytes_check _ = None"

text \<open>\<open>PyObject_GetBuffer\<close> with \<open>PyBUF_CONTIG_RO\<close>\<close>

fun get_buffer :: "'w pyobj \<Rightarrow> ('w, exc, byte list) py" where
  "get_buffer (PyBytes ex bs) = returnM bs"
| "get_buffer (PyByteArray bs) = returnM bs"
| "get_buffer (PyByteArraySub h bs) = returnM bs"
| "get_buffer (PyMemoryView contiguous bs) =
     (if contiguous then returnM bs else raiseM BufferError)"
| "get_buffer (PyBuffer h) = h"
| "get_buffer _ = raiseM TypeError"

text \<open>One run of an iterator that yields after running a hook.\<close>

fun iterate_hooked :: "(('w \<Rightarrow> (exc, unit) outcome \<times> 'w) \<times> 'a) list \<Rightarrow> ('a \<Rightarrow> ('w, exc, 'b) py)
    \<Rightarrow> ('w, exc, 'b list) py" where
  "iterate_hooked [] body = returnM []"
| "iterate_hooked ((h, x) # rest) body =
     bindM h (\<lambda>_. bindM (body x) (\<lambda>y. bindM (iterate_hooked rest body) (\<lambda>ys. returnM (y # ys))))"

text \<open>
  \<open>for item in obj: result.append(body(item))\<close>. A \<open>bytes\<close> object iterates over its integers, which
  is how a byte string passed in place of a header list is found out item by item.
\<close>

fun for_each :: "'w pyobj \<Rightarrow> ('w pyobj \<Rightarrow> ('w, exc, 'b) py) \<Rightarrow> ('w, exc, 'b list) py" where
  "for_each (PyTuple xs) body = mapM body xs"
| "for_each (PyList xs) body = mapM body xs"
| "for_each (PyNeverIndexed a b) body = mapM body [a, b]"
| "for_each (PyIterable n xs) body = iterate_hooked xs body"
| "for_each (PyMapping xs) body = iterate_hooked (map (\<lambda>(h, k, v). (h, k)) xs) body"
| "for_each (PyBytes ex bs) body = mapM body (map (\<lambda>b. PyInt (uint b)) bs)"
| "for_each (PyByteArray bs) body = mapM body (map (\<lambda>b. PyInt (uint b)) bs)"
| "for_each (PyByteArraySub h bs) body = mapM body (map (\<lambda>b. PyInt (uint b)) bs)"
| "for_each (PyMemoryView c bs) body = mapM body (map (\<lambda>b. PyInt (uint b)) bs)"
| "for_each _ body = raiseM TypeError"

text \<open>
  \<open>a, b = item\<close>: iterates the item; any other number of items is a \<open>ValueError\<close>. Python asks a
  third item of the iterator before it reports too many.
\<close>

definition unpack_pair :: "'w pyobj \<Rightarrow> ('w, exc, 'w pyobj \<times> 'w pyobj) py" where
  "unpack_pair item =
     (let first_three = (case item of PyIterable n xs \<Rightarrow> PyIterable n (take 3 xs)
                         | PyMapping xs \<Rightarrow> PyMapping (take 3 xs) | _ \<Rightarrow> item)
      in bindM (for_each first_three returnM)
           (\<lambda>xs. case xs of [a, b] \<Rightarrow> returnM (a, b) | _ \<Rightarrow> raiseM ValueError))"

section \<open>Conversions of polite objects keep the invariant\<close>

lemma polite_simple: "polite I PyNone" "polite I (PyInt n)" "polite I (PyBool b)"
  "polite I (PyBytes ex bs)"
  by simp_all

lemma keeps_integer_index [keeps_intros]: "polite I v \<Longrightarrow> keeps I (integer_index v)"
  by (cases v) (auto intro: keeps_intros)

lemma keeps_truth [keeps_intros]: "polite I v \<Longrightarrow> keeps I (truth v)"
  by (cases v) (auto intro: keeps_intros)

lemma keeps_get_buffer [keeps_intros]: "polite I v \<Longrightarrow> keeps I (get_buffer v)"
  by (cases v) (auto intro: keeps_intros)

lemma keeps_iterate_hooked:
  "(\<And>p. p \<in> set xs \<Longrightarrow> keeps I (fst p) \<and> keeps I (body (snd p))) \<Longrightarrow> keeps I (iterate_hooked xs body)"
proof (induction xs)
  case Nil
  then show ?case by (simp add: keeps_intros)
next
  case (Cons p xs)
  have "keeps I (fst p)" "keeps I (body (snd p))" "keeps I (iterate_hooked xs body)"
    using Cons by simp_all
  then show ?case by (cases p) (auto intro!: keeps_intros)
qed

lemma keeps_for_each [keeps_intros]:
  "polite I v \<Longrightarrow> (\<And>x. polite I x \<Longrightarrow> keeps I (body x)) \<Longrightarrow> keeps I (for_each v body)"
  by (cases v) (fastforce intro!: keeps_intros keeps_iterate_hooked)+

text \<open>What an iteration collects is polite when the object is.\<close>

definition collects :: "('w \<Rightarrow> bool) \<Rightarrow> ('a \<Rightarrow> bool) \<Rightarrow> ('w, exc, 'a) py \<Rightarrow> bool" where
  "collects I P m \<longleftrightarrow> (\<forall>w. I w \<longrightarrow> wp m (\<lambda>x w. I w \<and> P x) (\<lambda>_. I) w)"

lemma collectsD: "collects I P m \<Longrightarrow> I w \<Longrightarrow> wp m (\<lambda>x w. I w \<and> P x) (\<lambda>_. I) w"
  by (simp add: collects_def)

lemma collects_keeps: "collects I P m \<Longrightarrow> keeps I m"
  by (auto simp: collects_def keeps_def intro: wp_mono)

lemma collects_returnM: "P x \<Longrightarrow> collects I P (returnM x)"
  by (simp add: collects_def wp_simps)

lemma collects_raiseM: "collects I P (raiseM e)"
  by (simp add: collects_def wp_simps)

lemma collects_bindM:
  assumes "collects I P m" and "\<And>x. P x \<Longrightarrow> collects I Q (f x)"
  shows "collects I Q (bindM m f)"
  unfolding collects_def
  by (auto simp: wp_simps intro: wp_mono [OF collectsD [OF assms(1)]] collectsD [OF assms(2)])

lemma collects_keeps_bindM:
  assumes "keeps I m" and "\<And>x. collects I Q (f x)"
  shows "collects I Q (bindM m f)"
  unfolding collects_def
  by (auto simp: wp_simps intro: wp_mono [OF keepsD [OF assms(1)]] collectsD [OF assms(2)])

lemma collects_mapM:
  "(\<And>x. x \<in> set xs \<Longrightarrow> collects I P (f x)) \<Longrightarrow> collects I (list_all P) (mapM f xs)"
  by (induction xs)
    (auto intro!: collects_returnM collects_bindM [where P = P] collects_bindM [where P = "list_all P"])

lemma collects_iterate_hooked:
  "(\<And>p. p \<in> set xs \<Longrightarrow> keeps I (fst p) \<and> collects I P (body (snd p)))
   \<Longrightarrow> collects I (list_all P) (iterate_hooked xs body)"
proof (induction xs)
  case Nil
  then show ?case by (simp add: collects_returnM)
next
  case (Cons p xs)
  have "keeps I (fst p)" "collects I P (body (snd p))"
    "collects I (list_all P) (iterate_hooked xs body)"
    using Cons by simp_all
  then show ?case
    by (cases p) (auto intro!: collects_returnM collects_keeps_bindM collects_bindM [where P = P]
        collects_bindM [where P = "list_all P"])
qed

lemma collects_for_each:
  "polite I v \<Longrightarrow> (\<And>x. polite I x \<Longrightarrow> collects I P (body x)) \<Longrightarrow> collects I (list_all P) (for_each v body)"
  by (cases v) (fastforce intro!: collects_mapM collects_iterate_hooked collects_raiseM
      simp del: mapM.simps)+

lemma collects_unpack_pair:
  assumes "polite I v"
  shows "collects I (\<lambda>p. polite I (fst p) \<and> polite I (snd p)) (unpack_pair v)"
proof -
  have "polite I (case v of PyIterable n xs \<Rightarrow> PyIterable n (take 3 xs)
                         | PyMapping xs \<Rightarrow> PyMapping (take 3 xs) | _ \<Rightarrow> v)"
    using assms by (fastforce split: pyobj.splits dest: in_set_takeD)
  then have "collects I (list_all (polite I)) (for_each (case v of PyIterable n xs \<Rightarrow> PyIterable n (take 3 xs)
                         | PyMapping xs \<Rightarrow> PyMapping (take 3 xs) | _ \<Rightarrow> v) returnM)"
    by (rule collects_for_each) (rule collects_returnM)
  then show ?thesis
    unfolding unpack_pair_def Let_def
    by (rule collects_bindM) (auto intro!: collects_returnM collects_raiseM split: list.splits)
qed

lemma keeps_unpack_pair [keeps_intros]: "polite I v \<Longrightarrow> keeps I (unpack_pair v)"
  by (blast intro: collects_keeps collects_unpack_pair)

end
