(* ===== verification/Conversions.thy ===== *)
theory Conversions
  imports PyObjects
begin

text \<open>
  The integer conversions of \<^verbatim>\<open>src/ngh2/_core.pyx\<close> (\<open>_integer\<close> to \<open>_nonnegative_size\<close>). Each
  turns a Python object into a C integer of some range. The code checks the range in C after a
  conversion that reports overflow separately; the locale \<open>checked_integer\<close> states what its
  clients rely on, an exact range check on the unbounded Python integer, and every converter is
  an instance of it.
\<close>

section \<open>The converters\<close>

definition LLONG_MAX :: int where
  "LLONG_MAX = 2 ^ 63 - 1"

definition LLONG_MIN :: int where
  "LLONG_MIN = - (2 ^ 63)"

text \<open>\<open>PyLong_AsLongLongAndOverflow\<close>: the value, or \<open>-1\<close> and the sign of the overflow.\<close>

definition as_long_long :: "int \<Rightarrow> int \<times> int" where
  "as_long_long n =
     (if n > LLONG_MAX then (-1, 1) else if n < LLONG_MIN then (-1, -1) else (n, 0))"

text \<open>The C cast to \<open>size_t\<close>.\<close>

definition as_size_t :: "int \<Rightarrow> nat" where
  "as_size_t n = nat (n mod 2 ^ 64)"

text \<open>\<open>integer_index(value)\<close> with its \<open>TypeError\<close> replaced by one that names the argument.\<close>

definition index_argument :: "'w pyobj \<Rightarrow> ('w, exc, int) py" where
  "index_argument v =
     catchM (integer_index v)
       (\<lambda>e. if isinstance e TypeError then raiseM TypeError else raiseM e)"

definition integer_argument :: "'w pyobj \<Rightarrow> ('w, exc, int \<times> int) py" where
  "integer_argument v = bindM (index_argument v) (\<lambda>n. returnM (as_long_long n))"

definition conv_stream_id :: "'w pyobj \<Rightarrow> ('w, exc, int) py" where
  "conv_stream_id v =
     bindM (integer_argument v) (\<lambda>(result, overflow).
       if overflow \<noteq> 0 \<or> result \<le> 0 \<or> result > 0x7FFFFFFF then raiseM ValueError
       else returnM result)"

definition conv_uint32 :: "'w pyobj \<Rightarrow> ('w, exc, int) py" where
  "conv_uint32 v =
     bindM (integer_argument v) (\<lambda>(result, overflow).
       if overflow \<noteq> 0 \<or> result < 0 \<or> result > 0xFFFFFFFF then raiseM ValueError
       else returnM result)"

definition conv_uint64 :: "'w pyobj \<Rightarrow> ('w, exc, int) py" where
  "conv_uint64 v =
     bindM (index_argument v) (\<lambda>n.
       if \<not> (0 \<le> n \<and> n \<le> 0xFFFFFFFFFFFFFFFF) then raiseM ValueError else returnM n)"

definition conv_size :: "'w pyobj \<Rightarrow> ('w, exc, int) py" where
  "conv_size v =
     bindM (index_argument v) (\<lambda>n.
       if n < 0 then raiseM ValueError
       else if n > int SIZE_MAX then raiseM ValueError
       else returnM n)"

definition conv_positive_size :: "'w pyobj \<Rightarrow> ('w, exc, int) py" where
  "conv_positive_size v =
     bindM (conv_size v) (\<lambda>n. if n = 0 then raiseM ValueError else returnM n)"

definition conv_uint31 :: "'w pyobj \<Rightarrow> ('w, exc, int) py" where
  "conv_uint31 v =
     bindM (integer_argument v) (\<lambda>(result, overflow).
       if overflow \<noteq> 0 \<or> result < 0 \<or> result > 0x7FFFFFFF then raiseM ValueError
       else returnM result)"

definition conv_nonnegative_size :: "'w pyobj \<Rightarrow> ('w, exc, int) py" where
  "conv_nonnegative_size v =
     bindM (integer_argument v) (\<lambda>(result, overflow).
       if overflow < 0 \<or> overflow = 0 \<and> result < 0 then raiseM ValueError
       else if overflow \<noteq> 0 \<or> as_size_t result > SIZE_MAX div 2 then raiseM ValueError
       else returnM result)"

section \<open>The contract of a converter\<close>

definition checked_index :: "int \<Rightarrow> int \<Rightarrow> 'w pyobj \<Rightarrow> ('w, exc, int) py" where
  "checked_index lo hi v =
     bindM (integer_index v) (\<lambda>n. if lo \<le> n \<and> n \<le> hi then returnM n else raiseM ValueError)"

locale checked_integer =
  fixes conv :: "'w pyobj \<Rightarrow> ('w, exc, int) py" and lo hi :: int
  assumes conv_exact: "conv v = checked_index lo hi v"
begin

lemma wp_conv:
  "wp (conv v) Q R w =
     wp (integer_index v) (\<lambda>n w'. if lo \<le> n \<and> n \<le> hi then Q n w' else R ValueError w') R w"
  by (simp add: conv_exact checked_index_def wp_simps)

lemma in_range: "conv v w = (Ok n, w') \<Longrightarrow> lo \<le> n \<and> n \<le> hi"
  by (auto simp: conv_exact checked_index_def bindM_def returnM_def raiseM_def
      split: prod.splits outcome.splits if_splits)

lemma of_int: "conv (PyInt n) w = (if lo \<le> n \<and> n \<le> hi then (Ok n, w) else (Raise ValueError, w))"
  by (simp add: conv_exact checked_index_def bindM_def returnM_def raiseM_def)

lemma not_integer: "integer_index v = raiseM TypeError \<Longrightarrow> conv v w = (Raise TypeError, w)"
  by (simp add: conv_exact checked_index_def bindM_def raiseM_def)

lemma keeps_conv: "polite I v \<Longrightarrow> keeps I (conv v)"
  by (simp add: conv_exact checked_index_def keeps_intros)

lemma collects_conv: "polite I v \<Longrightarrow> collects I (\<lambda>n. lo \<le> n \<and> n \<le> hi) (conv v)"
  unfolding conv_exact checked_index_def
  by (auto intro!: collects_keeps_bindM keeps_integer_index collects_returnM collects_raiseM)

end

text \<open>A converter whose range is not negative: its result can be stored in an unsigned C type.\<close>

locale unsigned_integer = checked_integer +
  assumes lo_nonneg: "0 \<le> lo"
begin

lemma nonneg: "conv v w = (Ok n, w') \<Longrightarrow> 0 \<le> n"
  using in_range lo_nonneg by fastforce

end

section \<open>Every converter satisfies it\<close>

lemma index_argument_eq: "index_argument v = integer_index v"
proof -
  have "isinstance e TypeError \<Longrightarrow> e = TypeError" for e
    by (cases e) (simp_all add: isinstance_eval)
  then show ?thesis
    by (auto simp: index_argument_def catchM_def raiseM_def fun_eq_iff
        split: prod.splits outcome.splits)
qed

lemmas conv_defs = integer_argument_def index_argument_eq as_long_long_def LLONG_MAX_def
  LLONG_MIN_def as_size_t_def SIZE_MAX_def checked_index_def bindM_def returnM_def raiseM_def

interpretation conv_stream_id: unsigned_integer conv_stream_id 1 "0x7FFFFFFF"
  by unfold_locales
    (auto simp: conv_stream_id_def conv_defs fun_eq_iff split: prod.splits outcome.splits)

interpretation conv_uint32: unsigned_integer conv_uint32 0 "0xFFFFFFFF"
  by unfold_locales
    (auto simp: conv_uint32_def conv_defs fun_eq_iff split: prod.splits outcome.splits)

interpretation conv_uint64: unsigned_integer conv_uint64 0 "0xFFFFFFFFFFFFFFFF"
  by unfold_locales
    (auto simp: conv_uint64_def conv_defs fun_eq_iff split: prod.splits outcome.splits)

interpretation conv_size: unsigned_integer conv_size 0 "2 ^ 64 - 1"
  by unfold_locales
    (auto simp: conv_size_def conv_defs fun_eq_iff split: prod.splits outcome.splits)

interpretation conv_positive_size: unsigned_integer conv_positive_size 1 "2 ^ 64 - 1"
  by unfold_locales
    (auto simp: conv_positive_size_def conv_size_def conv_defs fun_eq_iff
      split: prod.splits outcome.splits)

interpretation conv_uint31: unsigned_integer conv_uint31 0 "0x7FFFFFFF"
  by unfold_locales
    (auto simp: conv_uint31_def conv_defs fun_eq_iff split: prod.splits outcome.splits)

interpretation conv_nonnegative_size: unsigned_integer conv_nonnegative_size 0 "2 ^ 63 - 1"
  by unfold_locales
    (auto simp: conv_nonnegative_size_def conv_defs fun_eq_iff split: prod.splits outcome.splits)

lemmas conv_wp_simps [wp_simps] =
  conv_stream_id.wp_conv conv_uint32.wp_conv conv_uint64.wp_conv conv_size.wp_conv
  conv_positive_size.wp_conv conv_uint31.wp_conv conv_nonnegative_size.wp_conv

lemmas conv_keeps_intros [keeps_intros] =
  conv_stream_id.keeps_conv conv_uint32.keeps_conv conv_uint64.keeps_conv conv_size.keeps_conv
  conv_positive_size.keeps_conv conv_uint31.keeps_conv conv_nonnegative_size.keeps_conv

end
