(* ===== verification/Headers.thy ===== *)
theory Headers
  imports Conversions
begin

text \<open>
  Header lists and SETTINGS mappings on their way into the engine: \<open>NeverIndexedHeader\<close> of
  \<^verbatim>\<open>src/ngh2/types.py\<close> and \<open>_normalize_headers\<close>, \<open>_make_headers\<close>, \<open>_normalize_settings\<close>,
  \<open>_make_settings\<close> of \<^verbatim>\<open>src/ngh2/_core.pyx\<close>. The first of each pair runs application code and
  freezes what it yields, the second builds the C array. The parameter \<open>alloc\<close> says whether an
  allocation of so many bytes succeeds in the current state of the world.
\<close>

section \<open>Header fields\<close>

datatype header =
    PlainHeader (header_name: "byte list") (header_value: "byte list")
  | NeverIndexedHeader (header_name: "byte list") (header_value: "byte list")

text \<open>One entry of the array of \<open>nghttp2_nv\<close>; the flag is \<open>NGHTTP2_NV_FLAG_NO_INDEX\<close>.\<close>

record nv =
  nv_name :: "byte list"
  nv_value :: "byte list"
  nv_no_index :: bool

definition NV_SIZE :: nat where
  "NV_SIZE = 40"

definition SETTINGS_ENTRY_SIZE :: nat where
  "SETTINGS_ENTRY_SIZE = 8"

fun exact_bytes :: "'w pyobj \<Rightarrow> bool" where
  "exact_bytes (PyBytes exact bs) = exact"
| "exact_bytes _ = False"

text \<open>\<open>isinstance(item, NeverIndexedHeader)\<close>\<close>

fun is_never_indexed :: "'w pyobj \<Rightarrow> bool" where
  "is_never_indexed (PyNeverIndexed a b) = True"
| "is_never_indexed (PyIterable never_indexed xs) = never_indexed"
| "is_never_indexed _ = False"

text \<open>\<open>type(item) is tuple or type(item) is NeverIndexedHeader\<close>\<close>

fun is_exact_pair :: "'w pyobj \<Rightarrow> bool" where
  "is_exact_pair (PyTuple xs) = True"
| "is_exact_pair (PyNeverIndexed a b) = True"
| "is_exact_pair _ = False"

text \<open>\<open>name, value = item\<close>, with \<open>TypeError\<close> and \<open>ValueError\<close> reported as \<open>TypeError\<close>.\<close>

definition header_pair :: "'w pyobj \<Rightarrow> ('w, exc, 'w pyobj \<times> 'w pyobj) py" where
  "header_pair item =
     catchM (unpack_pair item)
       (\<lambda>e. if isinstance e TypeError \<or> isinstance e ValueError then raiseM TypeError else raiseM e)"

definition normalize_item :: "bool \<Rightarrow> 'w pyobj \<Rightarrow> ('w, exc, 'w pyobj) py" where
  "normalize_item deferred_fields item =
     bindM (header_pair item) (\<lambda>(name, value).
       case (bytes_check name, bytes_check value) of
         (Some n, Some v) \<Rightarrow>
           (let copy_pair = \<not> is_exact_pair item;
                fresh_name = (deferred_fields \<and> \<not> exact_bytes name);
                fresh_value = (deferred_fields \<and> \<not> exact_bytes value);
                name' = (if fresh_name then PyBytes True n else name);
                value' = (if fresh_value then PyBytes True v else value)
            in returnM
                 (if copy_pair \<or> fresh_name \<or> fresh_value then
                    (if is_never_indexed item then PyNeverIndexed name' value'
                     else PyTuple [name', value'])
                  else item))
       | _ \<Rightarrow> raiseM TypeError)"

definition normalize_headers :: "'w pyobj \<Rightarrow> bool \<Rightarrow> ('w, exc, 'w pyobj list) py" where
  "normalize_headers headers deferred_fields =
     (case headers of
        PyList xs \<Rightarrow> if \<not> deferred_fields then returnM xs
                     else for_each headers (normalize_item deferred_fields)
      | PyTuple xs \<Rightarrow> if \<not> deferred_fields then returnM xs
                      else for_each headers (normalize_item deferred_fields)
      | _ \<Rightarrow> for_each headers (normalize_item deferred_fields))"

definition make_header :: "'w pyobj \<Rightarrow> ('w, exc, nv) py" where
  "make_header header =
     bindM (header_pair header) (\<lambda>(name, value).
       case (bytes_check name, bytes_check value) of
         (Some n, Some v) \<Rightarrow>
           returnM \<lparr>nv_name = n, nv_value = v, nv_no_index = is_never_indexed header\<rparr>
       | _ \<Rightarrow> raiseM TypeError)"

definition make_headers :: "('w \<Rightarrow> nat \<Rightarrow> bool) \<Rightarrow> 'w pyobj list \<Rightarrow> ('w, exc, nv list) py" where
  "make_headers alloc headers =
     bindM (getsM (\<lambda>w. alloc w ((if headers \<noteq> [] then length headers else 1) * NV_SIZE)))
       (\<lambda>allocated. if \<not> allocated then raiseM MemoryError else mapM make_header headers)"

section \<open>SETTINGS\<close>

definition normalize_setting :: "'w pyobj \<times> 'w pyobj \<Rightarrow> ('w, exc, int \<times> int) py" where
  "normalize_setting entry =
     bindM
       (catchM
         (bindM (integer_index (fst entry)) (\<lambda>key.
          bindM (integer_index (snd entry)) (\<lambda>value. returnM (key, value))))
         (\<lambda>e. if isinstance e TypeError then raiseM TypeError else raiseM e))
       (\<lambda>(key, value).
         if \<not> (0 \<le> key \<and> key \<le> 0xFFFF) \<or> \<not> (0 \<le> value \<and> value \<le> 0xFFFFFFFF)
         then raiseM ValueError else returnM (key, value))"

text \<open>An object without \<open>items()\<close> is a \<open>TypeError\<close>.\<close>

definition normalize_settings :: "'w pyobj \<Rightarrow> ('w, exc, (int \<times> int) list) py" where
  "normalize_settings settings =
     (case settings of
        PyNone \<Rightarrow> returnM []
      | PyMapping items \<Rightarrow> iterate_hooked items normalize_setting
      | _ \<Rightarrow> raiseM TypeError)"

definition make_settings ::
  "('w \<Rightarrow> nat \<Rightarrow> bool) \<Rightarrow> (int \<times> int) list \<Rightarrow> ('w, exc, (int \<times> int) list) py" where
  "make_settings alloc entries =
     bindM (getsM (\<lambda>w. entries = [] \<or> alloc w (length entries * SETTINGS_ENTRY_SIZE)))
       (\<lambda>allocated. if \<not> allocated then raiseM MemoryError else returnM entries)"

section \<open>Frozen fields\<close>

text \<open>
  What a frozen field looks like as a Python object, and back. Trailers stay queued between calls,
  so they are normalised with \<open>deferred=True\<close> to objects without application code.
\<close>

fun thaw_header :: "header \<Rightarrow> 'w pyobj" where
  "thaw_header (PlainHeader n v) = PyTuple [PyBytes True n, PyBytes True v]"
| "thaw_header (NeverIndexedHeader n v) = PyNeverIndexed (PyBytes True n) (PyBytes True v)"

definition freeze_header :: "'w pyobj \<Rightarrow> header option" where
  "freeze_header x =
     (case x of
        PyTuple [a, b] \<Rightarrow> (case (exact_bytes a \<and> exact_bytes b, bytes_check a, bytes_check b) of
            (True, Some n, Some v) \<Rightarrow> Some (PlainHeader n v) | _ \<Rightarrow> None)
      | PyNeverIndexed a b \<Rightarrow> (case (exact_bytes a \<and> exact_bytes b, bytes_check a, bytes_check b) of
            (True, Some n, Some v) \<Rightarrow> Some (NeverIndexedHeader n v) | _ \<Rightarrow> None)
      | _ \<Rightarrow> None)"

fun header_nv :: "header \<Rightarrow> nv" where
  "header_nv (PlainHeader n v) = \<lparr>nv_name = n, nv_value = v, nv_no_index = False\<rparr>"
| "header_nv (NeverIndexedHeader n v) = \<lparr>nv_name = n, nv_value = v, nv_no_index = True\<rparr>"

lemma freeze_thaw [simp]: "freeze_header (thaw_header h) = Some h"
  by (cases h) (simp_all add: freeze_header_def)

lemma thaw_freeze: "freeze_header x = Some h \<Longrightarrow> thaw_header h = x"
  by (auto simp: freeze_header_def split: pyobj.splits list.splits bool.splits option.splits
      elim!: exact_bytes.elims)

lemma header_pair_tuple [simp]: "header_pair (PyTuple [a, b]) = returnM (a, b)"
  by (simp add: header_pair_def unpack_pair_def)

lemma header_pair_never_indexed [simp]: "header_pair (PyNeverIndexed a b) = returnM (a, b)"
  by (simp add: header_pair_def unpack_pair_def)

lemma make_header_thaw [simp]: "make_header (thaw_header h) = returnM (header_nv h)"
  by (cases h) (simp_all add: make_header_def)

lemma mapM_make_header_thaw [simp]:
  "mapM make_header (map thaw_header hs) = returnM (map header_nv hs)"
  by (induction hs) simp_all

lemma make_headers_thaw:
  "make_headers alloc (map thaw_header hs) =
     bindM (getsM (\<lambda>w. alloc w ((if hs \<noteq> [] then length hs else 1) * NV_SIZE)))
       (\<lambda>allocated. if \<not> allocated then raiseM MemoryError else returnM (map header_nv hs))"
  unfolding make_headers_def by (simp cong: if_cong)

section \<open>Invariants survive, results are in range\<close>

lemma keeps_header_pair [keeps_intros]: "polite I x \<Longrightarrow> keeps I (header_pair x)"
  unfolding header_pair_def by (intro keeps_intros)

lemma collects_header_pair:
  assumes "polite I v"
  shows "collects I (\<lambda>p. polite I (fst p) \<and> polite I (snd p)) (header_pair v)"
  using collects_unpack_pair [OF assms]
  by (auto simp: header_pair_def collects_def wp_simps split: if_splits elim!: wp_mono)

lemma collects_normalize_item: "polite I x \<Longrightarrow> collects I (polite I) (normalize_item d x)"
  unfolding normalize_item_def
  by (rule collects_bindM [OF collects_header_pair])
    (auto simp: Let_def split: option.splits intro!: collects_returnM collects_raiseM)

text \<open>With \<open>deferred=True\<close> every field that is kept is frozen.\<close>

lemma header_pair_exact:
  assumes "is_exact_pair x"
  shows "header_pair x = (case x of PyTuple [a, b] \<Rightarrow> returnM (a, b)
     | PyNeverIndexed a b \<Rightarrow> returnM (a, b) | _ \<Rightarrow> raiseM TypeError)"
  using assms by (cases x) (auto simp: header_pair_def unpack_pair_def split: list.splits)

lemma collects_normalize_item_frozen:
  assumes "polite I x"
  shows "collects I (\<lambda>y. freeze_header y \<noteq> None) (normalize_item True x)"
proof (cases "is_exact_pair x")
  case True
  then show ?thesis
    by (cases x) (auto simp: normalize_item_def header_pair_exact Let_def freeze_header_def
        split: list.splits option.splits intro!: collects_returnM collects_raiseM)
next
  case False
  then show ?thesis
    unfolding normalize_item_def
    by (intro collects_bindM [OF collects_header_pair [OF assms]])
      (auto simp: Let_def freeze_header_def split: option.splits
        intro!: collects_returnM collects_raiseM)
qed

lemma collects_normalize_headers:
  assumes "polite I v"
  shows "collects I (list_all (polite I)) (normalize_headers v d)"
proof -
  have "collects I (list_all (polite I)) (for_each v (normalize_item d))"
    using assms by (rule collects_for_each) (rule collects_normalize_item)
  with assms show ?thesis
    by (auto simp: normalize_headers_def list_all_iff split: pyobj.splits intro!: collects_returnM)
qed

lemma keeps_make_header [keeps_intros]: "polite I x \<Longrightarrow> keeps I (make_header x)"
  unfolding make_header_def
  by (rule keeps_bindM) (auto intro!: keeps_intros split: option.splits)

lemma keeps_make_headers: "list_all (polite I) xs \<Longrightarrow> keeps I (make_headers alloc xs)"
  unfolding make_headers_def by (auto intro!: keeps_intros simp: list_all_iff)

definition settings_ok :: "int \<times> int \<Rightarrow> bool" where
  "settings_ok e \<longleftrightarrow> 0 \<le> fst e \<and> fst e \<le> 0xFFFF \<and> 0 \<le> snd e \<and> snd e \<le> 0xFFFFFFFF"

lemma collects_normalize_setting:
  "polite I (fst e) \<Longrightarrow> polite I (snd e) \<Longrightarrow> collects I settings_ok (normalize_setting e)"
  unfolding normalize_setting_def
  by (rule collects_keeps_bindM)
    (auto intro!: keeps_intros collects_returnM collects_raiseM simp: settings_ok_def)

lemma collects_normalize_settings:
  "polite I v \<Longrightarrow> collects I (list_all settings_ok) (normalize_settings v)"
  unfolding normalize_settings_def
  by (cases v) (auto intro!: collects_raiseM collects_returnM collects_iterate_hooked
      collects_normalize_setting)

lemma keeps_make_settings [keeps_intros]: "keeps I (make_settings alloc es)"
  unfolding make_settings_def by (intro keeps_intros)

end
