(* ===== verification/BodyQueue.thy ===== *)
theory BodyQueue
  imports Headers
begin

text \<open>
  The outbound body of one stream: the class \<open>_BodySource\<close> of \<^verbatim>\<open>src/ngh2/_core.pyx\<close>, the append
  that \<open>send_data\<close> performs on it, and \<open>_copy_body\<close>, which drains it into a DATA frame. The
  abstract view of a body is the byte string still to be sent; the locale \<open>byte_queue\<close> states the
  contract of a FIFO of bytes, and the body source satisfies it, compaction of the chunk list
  included.
\<close>

section \<open>The body source\<close>

text \<open>
  \<open>chunks\<close> holds \<open>None\<close> in the slots whose chunk was sent; \<open>head\<close> is the first unsent slot and
  \<open>offset\<close> the number of bytes already sent of its chunk.
\<close>

record body_source =
  chunks :: "byte list option list"
  head :: nat
  offset :: nat
  queued_size :: size_t
  ended :: bool
  deferred :: bool
  trailers :: "header list option"

definition new_body :: body_source where
  "new_body = \<lparr>chunks = [], head = 0, offset = 0, queued_size = 0, ended = False,
     deferred = False, trailers = None\<rparr>"

text \<open>The part of \<open>send_data\<close> that queues the chunk; an empty chunk is not queued.\<close>

definition append_chunk :: "byte list \<Rightarrow> body_source \<Rightarrow> body_source" where
  "append_chunk chunk b =
     (if chunk \<noteq> [] then b\<lparr>chunks := chunks b @ [Some chunk],
        queued_size := queued_size b + of_nat (length chunk)\<rparr>
      else b)"

text \<open>
  The loop of \<open>_copy_body\<close>. \<open>queued\<close> is the connection's \<open>_queued_body_size\<close>, \<open>out\<close> what has
  been copied. \<open>len(chunk)\<close> of a released slot would raise \<open>TypeError\<close>, and an offset beyond the
  chunk would make the subtraction wrap and the \<open>memcpy\<close> read out of bounds.
\<close>

function copy_loop :: "nat \<Rightarrow> body_source \<Rightarrow> size_t \<Rightarrow> byte list
    \<Rightarrow> (exc, byte list) outcome \<times> body_source \<times> size_t" where
  "copy_loop n b queued out =
     (if head b < length (chunks b) \<and> length out < n then
        (case chunks b ! head b of
           None \<Rightarrow> (Raise TypeError, b, queued)
         | Some chunk \<Rightarrow>
             if offset b > length chunk then (Crash, b, queued)
             else
               (let available = length chunk - offset b;
                    take_n = min available (n - length out);
                    out' = out @ take take_n (drop (offset b) chunk);
                    b' = b\<lparr>offset := offset b + take_n,
                           queued_size := queued_size b - of_nat take_n\<rparr>;
                    queued' = queued - of_nat take_n
                in if offset b' = length chunk
                   then copy_loop n (b'\<lparr>chunks := (chunks b')[head b' := None],
                          head := head b' + 1, offset := 0\<rparr>) queued' out'
                   else copy_loop n b' queued' out'))
      else (Ok out, b, queued))"
  by pat_completeness auto
termination
  by (relation "measure (\<lambda>(n, b, queued, out). (length (chunks b) - head b) + (n - length out))")
    (auto simp: Let_def min_def split: if_splits)

declare copy_loop.simps [simp del]

text \<open>Removing the sent prefix of the chunk list.\<close>

definition compact :: "body_source \<Rightarrow> body_source" where
  "compact b =
     (if head b = length (chunks b) then b\<lparr>chunks := [], head := 0\<rparr>
      else if head b \<ge> 32 \<and> 2 * head b \<ge> length (chunks b)
      then b\<lparr>chunks := drop (head b) (chunks b), head := 0\<rparr>
      else b)"

definition copy_body :: "nat \<Rightarrow> body_source \<Rightarrow> size_t
    \<Rightarrow> (exc, byte list) outcome \<times> body_source \<times> size_t" where
  "copy_body n b queued =
     (case copy_loop n b queued [] of
        (Ok out, b', queued') \<Rightarrow> (Ok out, compact b', queued')
      | (r, b', queued') \<Rightarrow> (r, b', queued'))"

section \<open>Contents and well-formedness\<close>

definition body_contents :: "body_source \<Rightarrow> byte list" where
  "body_contents b = drop (offset b) (concat (map the (drop (head b) (chunks b))))"

definition live_chunk :: "byte list option \<Rightarrow> bool" where
  "live_chunk c \<longleftrightarrow> (case c of None \<Rightarrow> False | Some bs \<Rightarrow> bs \<noteq> [])"

fun offset_ok :: "nat \<Rightarrow> byte list option list \<Rightarrow> bool" where
  "offset_ok off [] \<longleftrightarrow> off = 0"
| "offset_ok off (c # cs) \<longleftrightarrow> off < length (the c)"

definition body_wf :: "body_source \<Rightarrow> bool" where
  "body_wf b \<longleftrightarrow>
     head b \<le> length (chunks b) \<and> list_all live_chunk (drop (head b) (chunks b)) \<and>
     offset_ok (offset b) (drop (head b) (chunks b)) \<and>
     queued_size b = of_nat (length (body_contents b))"

lemma body_wf_new [simp]: "body_wf new_body"
  by (simp add: body_wf_def new_body_def body_contents_def)

lemma body_contents_new [simp]: "body_contents new_body = []"
  by (simp add: new_body_def body_contents_def)

lemma body_contents_frame [simp]:
  "body_contents (b\<lparr>ended := e\<rparr>) = body_contents b"
  "body_contents (b\<lparr>deferred := d\<rparr>) = body_contents b"
  "body_contents (b\<lparr>trailers := t\<rparr>) = body_contents b"
  "body_contents (b\<lparr>queued_size := q\<rparr>) = body_contents b"
  by (simp_all add: body_contents_def)

lemma body_wf_frame [simp]:
  "body_wf (b\<lparr>ended := e\<rparr>) = body_wf b"
  "body_wf (b\<lparr>deferred := d\<rparr>) = body_wf b"
  "body_wf (b\<lparr>trailers := t\<rparr>) = body_wf b"
  by (simp_all add: body_wf_def)

lemma body_wf_queued: "body_wf b \<Longrightarrow> queued_size b = of_nat (length (body_contents b))"
  by (simp add: body_wf_def)

text \<open>A well-formed body is drained exactly when no live chunk is left.\<close>

lemma body_contents_Nil_iff: "body_wf b \<Longrightarrow> body_contents b = [] \<longleftrightarrow> head b = length (chunks b)"
  by (cases "drop (head b) (chunks b)")
    (auto simp: body_wf_def body_contents_def live_chunk_def split: option.splits)

lemma body_contents_append:
  assumes "body_wf b"
  shows "body_contents (append_chunk c b) = body_contents b @ c"
proof (cases "drop (head b) (chunks b)")
  case Nil
  with assms show ?thesis
    by (auto simp: append_chunk_def body_contents_def body_wf_def)
next
  case (Cons x xs)
  with assms have "offset b \<le> length (concat (map the (drop (head b) (chunks b))))"
    by (auto simp: body_wf_def)
  with assms show ?thesis
    by (auto simp: append_chunk_def body_contents_def body_wf_def)
qed

lemma body_wf_append:
  assumes "body_wf b"
  shows "body_wf (append_chunk c b)"
proof (cases "c = []")
  case True
  with assms show ?thesis by (simp add: append_chunk_def)
next
  case False
  have len: "length (body_contents (append_chunk c b)) = length (body_contents b) + length c"
    by (simp add: body_contents_append assms)
  have "offset_ok (offset b) (drop (head b) (chunks b) @ [Some c])"
    using assms False by (cases "drop (head b) (chunks b)") (auto simp: body_wf_def)
  with assms False len show ?thesis
    unfolding body_wf_def by (auto simp: append_chunk_def live_chunk_def)
qed

lemma append_chunk_frame [simp]:
  "ended (append_chunk c b) = ended b" "deferred (append_chunk c b) = deferred b"
  "trailers (append_chunk c b) = trailers b"
  by (simp_all add: append_chunk_def)

section \<open>Draining\<close>

text \<open>The two ways one iteration of the loop changes a body: part of a chunk, or the rest of it.\<close>

definition take_part :: "nat \<Rightarrow> body_source \<Rightarrow> body_source" where
  "take_part k b = b\<lparr>offset := offset b + k, queued_size := queued_size b - of_nat k\<rparr>"

definition finish_chunk :: "body_source \<Rightarrow> body_source" where
  "finish_chunk b = b\<lparr>chunks := (chunks b)[head b := None], head := head b + 1, offset := 0\<rparr>"

lemma body_head_chunk:
  assumes "body_wf b" and "head b < length (chunks b)"
  obtains c where "chunks b ! head b = Some c" and "offset b < length c"
    and "body_contents b = drop (offset b) c @ concat (map the (drop (Suc (head b)) (chunks b)))"
proof -
  have split: "drop (head b) (chunks b) = chunks b ! head b # drop (Suc (head b)) (chunks b)"
    using assms(2) by (simp add: Cons_nth_drop_Suc)
  with assms(1) obtain c where c: "chunks b ! head b = Some c" "offset b < length c"
    by (auto simp: body_wf_def live_chunk_def split: option.splits)
  with split have "body_contents b = drop (offset b) c @ concat (map the (drop (Suc (head b)) (chunks b)))"
    by (simp add: body_contents_def)
  with c show thesis by (rule that)
qed

lemma take_part_contents:
  assumes "body_wf b" and "head b < length (chunks b)"
  shows "body_contents (take_part k b) = drop k (body_contents b)"
  by (simp add: take_part_def body_contents_def add.commute)

lemma take_part_wf:
  assumes wf: "body_wf b" and h: "head b < length (chunks b)"
    and c: "chunks b ! head b = Some c" and k: "offset b + k < length c"
  shows "body_wf (take_part k b)"
proof -
  obtain c' where "chunks b ! head b = Some c'" "offset b < length c'"
    and eq: "body_contents b = drop (offset b) c' @ concat (map the (drop (Suc (head b)) (chunks b)))"
    using wf h by (rule body_head_chunk)
  with c k have "k \<le> length (body_contents b)" by simp
  then have "queued_size b - of_nat k = of_nat (length (drop k (body_contents b)))"
    using wf by (simp add: body_wf_queued of_nat_diff)
  moreover have "drop (head b) (chunks b) = Some c # drop (Suc (head b)) (chunks b)"
    using h c by (metis Cons_nth_drop_Suc)
  ultimately show ?thesis
    using wf k by (simp add: body_wf_def take_part_contents [OF wf h])
      (simp add: take_part_def)
qed

lemma finish_chunk_contents:
  assumes wf: "body_wf b" and h: "head b < length (chunks b)"
    and c: "chunks b ! head b = Some c" and k: "offset b + k = length c"
  shows "body_contents (finish_chunk (take_part k b)) = drop k (body_contents b)"
proof -
  obtain c' where "chunks b ! head b = Some c'"
    and eq: "body_contents b = drop (offset b) c' @ concat (map the (drop (Suc (head b)) (chunks b)))"
    using wf h by (rule body_head_chunk)
  with c k have "drop k (body_contents b) = concat (map the (drop (Suc (head b)) (chunks b)))"
    by simp
  then show ?thesis
    by (simp add: finish_chunk_def take_part_def body_contents_def)
qed

lemma finish_chunk_wf:
  assumes wf: "body_wf b" and h: "head b < length (chunks b)"
    and c: "chunks b ! head b = Some c" and k: "offset b + k = length c"
  shows "body_wf (finish_chunk (take_part k b))"
proof -
  obtain c' where "chunks b ! head b = Some c'"
    and eq: "body_contents b = drop (offset b) c' @ concat (map the (drop (Suc (head b)) (chunks b)))"
    using wf h by (rule body_head_chunk)
  with c k have "k \<le> length (body_contents b)" by simp
  then have q: "queued_size b - of_nat k = of_nat (length (drop k (body_contents b)))"
    using wf by (simp add: body_wf_queued of_nat_diff)
  have live: "list_all live_chunk (drop (Suc (head b)) (chunks b))"
    using wf h by (auto simp: body_wf_def Cons_nth_drop_Suc [symmetric])
  then have "offset_ok 0 (drop (Suc (head b)) (chunks b))"
    by (cases "drop (Suc (head b)) (chunks b)") (auto simp: live_chunk_def split: option.splits)
  with live h show ?thesis
    using q unfolding body_wf_def finish_chunk_contents [OF assms]
    by (simp add: finish_chunk_def take_part_def)
qed

text \<open>
  Draining up to \<open>n\<close> bytes: the loop copies exactly the next bytes of the stream, as many as there
  are, and leaves a well-formed body holding the rest.
\<close>

definition drained :: "nat \<Rightarrow> body_source \<Rightarrow> body_source \<Rightarrow> bool" where
  "drained k b b' \<longleftrightarrow> body_wf b' \<and> body_contents b' = drop k (body_contents b) \<and>
     ended b' = ended b \<and> deferred b' = deferred b \<and> trailers b' = trailers b"

lemma finish_drained:
  assumes "body_wf b" "head b < length (chunks b)" "chunks b ! head b = Some c"
    and "offset b + k = length c"
  shows "drained k b (finish_chunk (take_part k b))"
  using finish_chunk_wf [OF assms] finish_chunk_contents [OF assms]
  by (simp add: drained_def) (simp add: finish_chunk_def take_part_def)

lemma part_drained:
  assumes "body_wf b" "head b < length (chunks b)" "chunks b ! head b = Some c"
    and "offset b + k < length c"
  shows "drained k b (take_part k b)"
  using take_part_wf [OF assms] take_part_contents [OF assms(1,2)]
  by (simp add: drained_def) (simp add: take_part_def)

lemma drained_trans: "drained k b b' \<Longrightarrow> drained m b' b'' \<Longrightarrow> drained (k + m) b b''"
  by (simp add: drained_def add.commute)

lemma copy_loop_step:
  assumes wf: "body_wf b" and h: "head b < length (chunks b)" and n: "length out < n"
  obtains k b' where "0 < k" "k \<le> length (body_contents b)" "k \<le> n - length out"
    and "drained k b b'"
    and "copy_loop n b queued out = copy_loop n b' (queued - of_nat k) (out @ take k (body_contents b))"
proof -
  obtain c where c: "chunks b ! head b = Some c" "offset b < length c"
    and eq: "body_contents b = drop (offset b) c @ concat (map the (drop (Suc (head b)) (chunks b)))"
    using wf h by (rule body_head_chunk)
  define k where "k = min (length c - offset b) (n - length out)"
  define b' where "b' = (if offset b + k = length c then finish_chunk (take_part k b) else take_part k b)"
  have k: "0 < k" "k \<le> length (body_contents b)" "k \<le> n - length out"
    and tk: "take k (drop (offset b) c) = take k (body_contents b)"
    using c eq n by (auto simp: k_def)
  have "drained k b b'"
    using finish_drained [OF wf h c(1)] part_drained [OF wf h c(1)] c(2)
    by (auto simp: b'_def k_def)
  moreover have "copy_loop n b queued out = copy_loop n b' (queued - of_nat k) (out @ take k (body_contents b))"
    using h n c unfolding copy_loop.simps [of n b queued out] tk [symmetric]
    by (simp add: Let_def k_def [symmetric] b'_def finish_chunk_def take_part_def)
  ultimately show thesis by (rule that [OF k])
qed

lemma copy_loop_correct:
  assumes "body_wf b" and "length out \<le> n"
  shows "\<exists>b'. copy_loop n b queued out =
      (Ok (out @ take (n - length out) (body_contents b)), b',
       queued - of_nat (min (n - length out) (length (body_contents b))))
    \<and> drained (n - length out) b b'"
  using assms
proof (induction "n - length out" arbitrary: b queued out rule: less_induct)
  case less
  show ?case
  proof (cases "head b < length (chunks b) \<and> length out < n")
    case False
    then have "body_contents b = [] \<or> n = length out"
      using less.prems body_contents_Nil_iff [of b] by (auto simp: body_wf_def)
    with False less.prems show ?thesis
      by (auto simp: copy_loop.simps [of n b queued out] drained_def)
  next
    case True
    then obtain k b' where k: "0 < k" "k \<le> length (body_contents b)" "k \<le> n - length out"
      and b': "drained k b b'"
      and run: "copy_loop n b queued out
        = copy_loop n b' (queued - of_nat k) (out @ take k (body_contents b))"
      using less.prems(1) by (blast intro: copy_loop_step)
    let ?out = "out @ take k (body_contents b)" and ?m = "n - length out - k"
    have lens: "n - length ?out = ?m" "?m < n - length out" "length ?out \<le> n"
      using k by auto
    obtain b'' where b'': "copy_loop n b' (queued - of_nat k) ?out
        = (Ok (?out @ take ?m (body_contents b')), b'',
           queued - of_nat k - of_nat (min ?m (length (body_contents b'))))" "drained ?m b' b''"
      using less.hyps [of ?out b'] b' lens by (auto simp: drained_def)
    have rest: "body_contents b' = drop k (body_contents b)"
      using b' by (simp add: drained_def)
    have "take k (body_contents b) @ take ?m (body_contents b') = take (n - length out) (body_contents b)"
      using k by (simp add: rest flip: take_add)
    moreover have "k + min ?m (length (body_contents b')) = min (n - length out) (length (body_contents b))"
      using k by (simp add: rest min_def) arith
    then have "queued - of_nat k - of_nat (min ?m (length (body_contents b')))
        = queued - of_nat (min (n - length out) (length (body_contents b)))"
      by (metis diff_diff_eq of_nat_add)
    ultimately show ?thesis
      using b'' drained_trans [OF b' b''(2)] k run by (intro exI [of _ b'']) simp
  qed
qed

lemma compact_correct: "body_wf b \<Longrightarrow> drained 0 b (compact b)"
  unfolding drained_def compact_def body_wf_def
  by (auto simp: body_contents_def)

lemma copy_body_correct:
  assumes "body_wf b"
  shows "\<exists>b'. copy_body n b queued =
      (Ok (take n (body_contents b)), b', queued - of_nat (min n (length (body_contents b))))
    \<and> drained n b b'"
proof -
  obtain b' where "copy_loop n b queued [] =
      (Ok (take n (body_contents b)), b', queued - of_nat (min n (length (body_contents b))))"
    and "drained n b b'"
    using copy_loop_correct [OF assms, of "[]" n queued] by auto
  then show ?thesis
    using drained_trans [OF _ compact_correct]
    by (intro exI [of _ "compact b'"]) (auto simp: copy_body_def drained_def)
qed

section \<open>The body source is a FIFO of bytes\<close>

datatype queue_op = Push "byte list" | Pull nat

fun queue_run :: "(byte list \<Rightarrow> 'q \<Rightarrow> 'q) \<Rightarrow> (nat \<Rightarrow> 'q \<Rightarrow> byte list \<times> 'q) \<Rightarrow> queue_op list \<Rightarrow> 'q
    \<Rightarrow> byte list \<times> 'q" where
  "queue_run push pull [] q = ([], q)"
| "queue_run push pull (Push c # ops) q = queue_run push pull ops (push c q)"
| "queue_run push pull (Pull n # ops) q =
     (case pull n q of (out, q') \<Rightarrow>
        (case queue_run push pull ops q' of (out', q'') \<Rightarrow> (out @ out', q'')))"

fun pushed :: "queue_op list \<Rightarrow> byte list" where
  "pushed [] = []"
| "pushed (Push c # ops) = c @ pushed ops"
| "pushed (Pull n # ops) = pushed ops"

locale byte_queue =
  fixes invar :: "'q \<Rightarrow> bool" and contents :: "'q \<Rightarrow> byte list"
    and push :: "byte list \<Rightarrow> 'q \<Rightarrow> 'q" and pull :: "nat \<Rightarrow> 'q \<Rightarrow> byte list \<times> 'q"
  assumes push_invar: "invar q \<Longrightarrow> invar (push c q)"
    and push_contents: "invar q \<Longrightarrow> contents (push c q) = contents q @ c"
    and pull_invar: "invar q \<Longrightarrow> pull n q = (out, q') \<Longrightarrow> invar q'"
    and pull_out: "invar q \<Longrightarrow> pull n q = (out, q') \<Longrightarrow> out = take n (contents q)"
    and pull_contents: "invar q \<Longrightarrow> pull n q = (out, q') \<Longrightarrow> contents q' = drop n (contents q)"
begin

lemma run_fifo:
  "invar q \<Longrightarrow> queue_run push pull ops q = (out, q') \<Longrightarrow>
     invar q' \<and> out @ contents q' = contents q @ pushed ops"
proof (induction ops arbitrary: q out)
  case Nil
  then show ?case by simp
next
  case (Cons op ops)
  show ?case
  proof (cases op)
    case (Push c)
    with Cons.prems have "invar q' \<and> out @ contents q' = contents (push c q) @ pushed ops"
      using Cons.IH [of "push c q" out] by (simp add: push_invar)
    with Cons.prems Push show ?thesis by (simp add: push_contents)
  next
    case (Pull n)
    obtain o1 q1 where p: "pull n q = (o1, q1)" by fastforce
    obtain o2 where r: "queue_run push pull ops q1 = (o2, q')" and out: "out = o1 @ o2"
      using Cons.prems(2) Pull p by (auto split: prod.splits)
    have "invar q' \<and> o2 @ contents q' = contents q1 @ pushed ops"
      using Cons.IH r pull_invar [OF Cons.prems(1) p] by simp
    then show ?thesis
      using pull_out [OF Cons.prems(1) p] pull_contents [OF Cons.prems(1) p] out Pull by simp
  qed
qed

end

text \<open>\<open>_copy_body\<close> on one body, with the connection's counter left aside.\<close>

definition pull_body :: "nat \<Rightarrow> body_source \<Rightarrow> byte list \<times> body_source" where
  "pull_body n b = (case copy_body n b 0 of
       (Ok out, b', _) \<Rightarrow> (out, b') | (_, b', _) \<Rightarrow> ([], b'))"

lemma pull_body_correct:
  "body_wf b \<Longrightarrow> pull_body n b = (out, b') \<Longrightarrow> out = take n (body_contents b) \<and> drained n b b'"
  using copy_body_correct [of b n 0] by (auto simp: pull_body_def)

interpretation body_queue: byte_queue body_wf body_contents append_chunk pull_body
  by unfold_locales
    (auto simp: body_wf_append body_contents_append drained_def dest: pull_body_correct)

end
