(* ===== verification/Events.thy ===== *)
theory Events
  imports BodyQueue
begin

text \<open>
  The events of \<^verbatim>\<open>src/ngh2/events.pyx\<close>, with the conversions their constructors perform: a wire
  error code becomes an \<open>ErrorCode\<close> member when it is known, the keys of a SETTINGS mapping become
  \<open>Setting\<close> members when they are known. The payload of \<open>DataReceived\<close> is a list of cells, so
  that an event could be seen to expose memory nothing was written to. The constructors that Python
  code can call check the types of byte strings, and \<open>__repr__\<close> is built from \<open>__match_args__\<close>.
\<close>

datatype event =
    RequestReceived int "header list" bool
  | ResponseReceived int "header list" bool
  | InformationalResponseReceived int "header list"
  | TrailersReceived int "header list"
  | PushedStreamReceived int int "header list"
  | DataReceived int "cell list" bool
  | StreamReset int error_value
  | StreamClosed int error_value "exc option"
  | SettingsReceived "(setting_key \<times> int) list"
  | SettingsAcknowledged
  | PingReceived "byte list"
  | PingAcknowledged "byte list"
  | WindowUpdated int int
  | GoAwayReceived int error_value "byte list"
  | ConnectionClosed error_value "byte list"
  | AltSvcReceived int "byte list" "byte list"
  | OriginReceived "byte list list"
  | PriorityUpdateReceived int "byte list"

text \<open>A Python \<open>dict\<close> built by assignment in a loop: first position, last value.\<close>

definition dict_of :: "('k \<times> 'v) list \<Rightarrow> ('k \<times> 'v) list" where
  "dict_of xs = fold (\<lambda>(k, v) d. AList.update k v d) xs []"

definition stream_reset_event :: "int \<Rightarrow> int \<Rightarrow> event" where
  "stream_reset_event stream_id code = StreamReset stream_id (error_value code)"

definition stream_closed_event :: "int \<Rightarrow> int \<Rightarrow> exc option \<Rightarrow> event" where
  "stream_closed_event stream_id code local_error =
     StreamClosed stream_id (error_value code) local_error"

definition settings_received_event :: "(int \<times> int) list \<Rightarrow> event" where
  "settings_received_event settings =
     SettingsReceived (dict_of (map (\<lambda>(key, value). (setting_key_of key, value)) settings))"

definition goaway_received_event :: "int \<Rightarrow> int \<Rightarrow> byte list \<Rightarrow> event" where
  "goaway_received_event last_stream_id code debug_data =
     GoAwayReceived last_stream_id (error_value code) debug_data"

definition connection_closed_event :: "int \<Rightarrow> byte list \<Rightarrow> event" where
  "connection_closed_event code debug_data = ConnectionClosed (error_value code) debug_data"

text \<open>
  The constructors that take byte strings from Python check them; this one is called with the
  payload object. The binding itself only passes \<open>bytes\<close>.
\<close>

definition data_received_init :: "int \<Rightarrow> 'w pyobj \<Rightarrow> bool \<Rightarrow> exc + event" where
  "data_received_init stream_id data end_stream =
     (case bytes_check data of
        None \<Rightarrow> Inl TypeError
      | Some bs \<Rightarrow> Inr (DataReceived stream_id (map Some bs) end_stream))"

definition ping_received_init :: "'w pyobj \<Rightarrow> exc + event" where
  "ping_received_init opaque_data =
     (case bytes_check opaque_data of None \<Rightarrow> Inl TypeError | Some bs \<Rightarrow> Inr (PingReceived bs))"

definition ping_acknowledged_init :: "'w pyobj \<Rightarrow> exc + event" where
  "ping_acknowledged_init opaque_data =
     (case bytes_check opaque_data of None \<Rightarrow> Inl TypeError | Some bs \<Rightarrow> Inr (PingAcknowledged bs))"

definition goaway_received_init :: "int \<Rightarrow> int \<Rightarrow> 'w pyobj \<Rightarrow> exc + event" where
  "goaway_received_init last_stream_id code debug_data =
     (case bytes_check debug_data of
        None \<Rightarrow> Inl TypeError
      | Some bs \<Rightarrow> Inr (goaway_received_event last_stream_id code bs))"

definition connection_closed_init :: "int \<Rightarrow> 'w pyobj \<Rightarrow> exc + event" where
  "connection_closed_init code debug_data =
     (case bytes_check debug_data of
        None \<Rightarrow> Inl TypeError | Some bs \<Rightarrow> Inr (connection_closed_event code bs))"

definition window_updated_init :: "int \<Rightarrow> int \<Rightarrow> event" where
  "window_updated_init stream_id increment = WindowUpdated stream_id increment"

definition origin_received_init :: "byte list list \<Rightarrow> event" where
  "origin_received_init origins = OriginReceived origins"

definition altsvc_received_init :: "int \<Rightarrow> 'w pyobj \<Rightarrow> 'w pyobj \<Rightarrow> exc + event" where
  "altsvc_received_init stream_id origin field_value =
     (case bytes_check origin of
        None \<Rightarrow> Inl TypeError
      | Some o_bytes \<Rightarrow> (case bytes_check field_value of
          None \<Rightarrow> Inl TypeError
        | Some value \<Rightarrow> Inr (AltSvcReceived stream_id o_bytes value)))"

definition priority_update_received_init :: "int \<Rightarrow> 'w pyobj \<Rightarrow> exc + event" where
  "priority_update_received_init prioritized_stream_id field_value =
     (case bytes_check field_value of
        None \<Rightarrow> Inl TypeError
      | Some value \<Rightarrow> Inr (PriorityUpdateReceived prioritized_stream_id value))"

section \<open>Names of classes and attributes\<close>

fun class_name :: "event \<Rightarrow> string" where
  "class_name (RequestReceived i hs e) = ''RequestReceived''"
| "class_name (ResponseReceived i hs e) = ''ResponseReceived''"
| "class_name (InformationalResponseReceived i hs) = ''InformationalResponseReceived''"
| "class_name (TrailersReceived i hs) = ''TrailersReceived''"
| "class_name (PushedStreamReceived i j hs) = ''PushedStreamReceived''"
| "class_name (DataReceived i data e) = ''DataReceived''"
| "class_name (StreamReset i code) = ''StreamReset''"
| "class_name (StreamClosed i code error) = ''StreamClosed''"
| "class_name (SettingsReceived d) = ''SettingsReceived''"
| "class_name SettingsAcknowledged = ''SettingsAcknowledged''"
| "class_name (PingReceived d) = ''PingReceived''"
| "class_name (PingAcknowledged d) = ''PingAcknowledged''"
| "class_name (WindowUpdated i n) = ''WindowUpdated''"
| "class_name (GoAwayReceived l code d) = ''GoAwayReceived''"
| "class_name (ConnectionClosed code d) = ''ConnectionClosed''"
| "class_name (AltSvcReceived i origin v) = ''AltSvcReceived''"
| "class_name (OriginReceived origins) = ''OriginReceived''"
| "class_name (PriorityUpdateReceived i v) = ''PriorityUpdateReceived''"

text \<open>\<open>__match_args__\<close>, the base class with none for \<open>SettingsAcknowledged\<close>.\<close>

fun match_args :: "event \<Rightarrow> string list" where
  "match_args (RequestReceived i hs e) = [''stream_id'', ''headers'', ''end_stream'']"
| "match_args (ResponseReceived i hs e) = [''stream_id'', ''headers'', ''end_stream'']"
| "match_args (InformationalResponseReceived i hs) = [''stream_id'', ''headers'']"
| "match_args (TrailersReceived i hs) = [''stream_id'', ''headers'']"
| "match_args (PushedStreamReceived i j hs) = [''stream_id'', ''promised_stream_id'', ''headers'']"
| "match_args (DataReceived i data e) = [''stream_id'', ''data'', ''end_stream'']"
| "match_args (StreamReset i code) = [''stream_id'', ''error_code'']"
| "match_args (StreamClosed i code error) = [''stream_id'', ''error_code'', ''local_error'']"
| "match_args (SettingsReceived d) = [''settings'']"
| "match_args SettingsAcknowledged = []"
| "match_args (PingReceived d) = [''opaque_data'']"
| "match_args (PingAcknowledged d) = [''opaque_data'']"
| "match_args (WindowUpdated i n) = [''stream_id'', ''increment'']"
| "match_args (GoAwayReceived l code d) = [''last_stream_id'', ''error_code'', ''debug_data'']"
| "match_args (ConnectionClosed code d) = [''error_code'', ''debug_data'']"
| "match_args (AltSvcReceived i origin v) = [''stream_id'', ''origin'', ''field_value'']"
| "match_args (OriginReceived origins) = [''origins'']"
| "match_args (PriorityUpdateReceived i v) = [''prioritized_stream_id'', ''field_value'']"

fun join :: "string \<Rightarrow> string list \<Rightarrow> string" where
  "join sep [] = []"
| "join sep [s] = s"
| "join sep (s # t # ss) = s @ sep @ join sep (t # ss)"

text \<open>
  \<open>__repr__\<close>; \<open>attribute_repr e name\<close> is Python's \<open>repr\<close> of the attribute.
\<close>

definition event_repr :: "(event \<Rightarrow> string \<Rightarrow> string) \<Rightarrow> event \<Rightarrow> string" where
  "event_repr attribute_repr e =
     class_name e @ ''('' @
       join '', '' (map (\<lambda>name. name @ ''='' @ attribute_repr e name) (match_args e)) @ '')''"

section \<open>Dictionaries\<close>

lemma map_of_dict_of: "map_of (dict_of xs) = map_of (rev xs)"
proof -
  have "map_of (fold (\<lambda>(k, v) d. AList.update k v d) xs d) = map_of d ++ map_of (rev xs)" for d
    by (induction xs arbitrary: d) (auto simp: update_conv' fun_eq_iff map_add_def split: option.splits)
  then show ?thesis by (simp add: dict_of_def)
qed

lemma distinct_dict_of: "distinct (map fst (dict_of xs))"
proof -
  have "distinct (map fst d) \<Longrightarrow> distinct (map fst (fold (\<lambda>(k, v) d. AList.update k v d) xs d))" for d
    by (induction xs arbitrary: d) (auto simp: distinct_update)
  then show ?thesis by (simp add: dict_of_def)
qed

end
