(* ===== verification/Engine.thy ===== *)
theory Engine
  imports Events
begin

text \<open>
  The boundary to libnghttp2 as \<^verbatim>\<open>src/ngh2/_nghttp2.pxd\<close> declares it, and the state of a
  \<open>Connection\<close> of \<^verbatim>\<open>src/ngh2/_core.pyx\<close>. The library itself is not part of the repository: it is
  the parameter \<open>'s engine\<close> of every definition that calls it, with its session state \<open>'s\<close> opaque.
  A library call that runs callbacks is an interaction tree (\<open>'s run\<close>): it returns, or it invokes
  a callback with its session as it then is and continues with the callback's answer and with
  the session the callback left behind (callbacks may themselves call the library). The trees are
  an inductive datatype, since every library call terminates.
\<close>

section \<open>Frames\<close>

datatype frame_type =
    FT_DATA | FT_HEADERS | FT_RST_STREAM | FT_SETTINGS | FT_PUSH_PROMISE | FT_PING | FT_GOAWAY
  | FT_WINDOW_UPDATE | FT_ALTSVC | FT_ORIGIN | FT_PRIORITY_UPDATE | FT_OTHER nat

datatype headers_category = HCAT_REQUEST | HCAT_RESPONSE | HCAT_PUSH_RESPONSE | HCAT_HEADERS

text \<open>
  The union \<open>nghttp2_frame\<close> with its members flattened: the header \<open>hd\<close> first, its two flags the
  binding tests as Booleans.
\<close>

record frame =
  hd_type :: frame_type
  hd_stream_id :: int
  hd_end_stream :: bool
  hd_ack :: bool
  data_padlen :: nat
  headers_cat :: headers_category
  promised_stream_id :: int
  settings_iv :: "(int \<times> int) list"
  rst_error_code :: int
  ping_opaque_data :: "byte list"
  window_size_increment :: int
  goaway_last_stream_id :: int
  goaway_error_code :: int
  goaway_opaque_data :: "byte list"
  altsvc_origin :: "byte list"
  altsvc_field_value :: "byte list"
  origin_ov :: "byte list list"
  priority_stream_id :: int
  priority_field_value :: "byte list"

section \<open>Callback invocations and answers\<close>

datatype call =
    CollectOutput "byte list"
  | SendBody frame "byte list" nat
  | DataFrameLength int nat
  | ReadBody int nat
  | BeginFrame frame_type nat int
  | BeginHeaders
  | HeaderField "byte list" "byte list" bool
  | InvalidHeader
  | DataChunk int "byte list"
  | FrameReceived frame
  | StreamClosedCall int int
  | FrameSent frame
  | FrameNotSent frame err

text \<open>
  A callback's return value; \<open>_read_body\<close> also sets DATA flags and may fill the engine's buffer.
\<close>

record answer =
  ans_rc :: status
  ans_eof :: bool
  ans_no_end_stream :: bool
  ans_no_copy :: bool
  ans_buffer :: "byte list"

definition plain_answer :: "status \<Rightarrow> answer" where
  "plain_answer rc = \<lparr>ans_rc = rc, ans_eof = False, ans_no_end_stream = False,
     ans_no_copy = False, ans_buffer = []\<rparr>"

datatype (dead 's) run =
    Return status 's
  | Invoke call 's "answer \<Rightarrow> 's \<Rightarrow> 's run"

section \<open>The library\<close>

text \<open>Session options, as \<open>_apply_configuration\<close> sets them.\<close>

record options =
  opt_no_auto_window_update :: bool
  opt_peer_max_concurrent_streams :: int
  opt_max_reserved_remote_streams :: int
  opt_max_send_header_block_length :: int
  opt_max_deflate_dynamic_table_size :: int
  opt_max_outbound_ack :: int
  opt_max_settings :: int
  opt_stream_reset_rate_limit :: "int \<times> int"
  opt_max_continuations :: int
  opt_glitch_rate_limit :: "int \<times> int"

text \<open>
  One function per library call, in the order of the declarations. \<open>eng_alloc\<close> says whether an
  allocation of so many bytes succeeds now; the environment it depends on is part of the state
  \<open>'s\<close> (\<open>None\<close> when the connection has no session).
\<close>

record 's engine =
  eng_alloc :: "'s option \<Rightarrow> nat \<Rightarrow> bool"
  eng_is_fatal :: "err \<Rightarrow> bool"
  eng_callbacks_new :: status
  eng_option_new :: status
  eng_session_new :: "bool \<Rightarrow> options \<Rightarrow> status \<times> 's"
  eng_session_send :: "'s \<Rightarrow> 's run"
  eng_session_mem_recv :: "byte list \<Rightarrow> 's \<Rightarrow> 's run"
  eng_session_upgrade :: "byte list \<Rightarrow> bool \<Rightarrow> 's \<Rightarrow> 's run"
  eng_session_resume_data :: "int \<Rightarrow> 's \<Rightarrow> status \<times> 's"
  eng_submit_settings :: "(int \<times> int) list \<Rightarrow> 's \<Rightarrow> status \<times> 's"
  eng_submit_request :: "nv list \<Rightarrow> bool \<Rightarrow> 's \<Rightarrow> status \<times> 's"
  eng_submit_response :: "int \<Rightarrow> nv list \<Rightarrow> bool \<Rightarrow> 's \<Rightarrow> status \<times> 's"
  eng_submit_headers :: "int \<Rightarrow> nv list \<Rightarrow> 's \<Rightarrow> status \<times> 's"
  eng_submit_trailer :: "int \<Rightarrow> nv list \<Rightarrow> 's \<Rightarrow> status \<times> 's"
  eng_submit_push_promise :: "int \<Rightarrow> nv list \<Rightarrow> 's \<Rightarrow> status \<times> 's"
  eng_submit_rst_stream :: "int \<Rightarrow> int \<Rightarrow> 's \<Rightarrow> status \<times> 's"
  eng_submit_ping :: "byte list \<Rightarrow> 's \<Rightarrow> status \<times> 's"
  eng_submit_goaway :: "int \<Rightarrow> int \<Rightarrow> byte list \<Rightarrow> 's \<Rightarrow> status \<times> 's"
  eng_session_consume :: "int \<Rightarrow> int \<Rightarrow> 's \<Rightarrow> status \<times> 's"
  eng_session_consume_connection :: "nat \<Rightarrow> 's \<Rightarrow> status \<times> 's"
  eng_session_want_read :: "'s \<Rightarrow> bool"
  eng_session_want_write :: "'s \<Rightarrow> bool"
  eng_session_get_next_stream_id :: "'s \<Rightarrow> int"
  eng_session_check_request_allowed :: "'s \<Rightarrow> bool"
  eng_session_get_last_proc_stream_id :: "'s \<Rightarrow> int"
  eng_submit_shutdown_notice :: "'s \<Rightarrow> status \<times> 's"
  eng_session_terminate_session :: "int \<Rightarrow> 's \<Rightarrow> status \<times> 's"
  eng_session_terminate_session2 :: "int \<Rightarrow> int \<Rightarrow> 's \<Rightarrow> status \<times> 's"
  eng_session_set_local_window_size :: "int \<Rightarrow> int \<Rightarrow> 's \<Rightarrow> status \<times> 's"
  eng_pack_settings_payload :: "nat \<Rightarrow> (int \<times> int) list \<Rightarrow> status \<times> byte list"
  eng_submit_altsvc :: "int \<Rightarrow> byte list \<Rightarrow> byte list \<Rightarrow> 's \<Rightarrow> status \<times> 's"
  eng_submit_origin :: "byte list list \<Rightarrow> 's \<Rightarrow> status \<times> 's"
  eng_submit_priority_update :: "int \<Rightarrow> byte list \<Rightarrow> 's \<Rightarrow> status \<times> 's"
  eng_session_change_extpri_stream_priority :: "int \<Rightarrow> int \<Rightarrow> bool \<Rightarrow> bool \<Rightarrow> 's \<Rightarrow> status \<times> 's"
  eng_session_get_extpri_stream_priority :: "int \<Rightarrow> 's \<Rightarrow> int \<times> bool"
  eng_session_get_remote_window_size :: "'s \<Rightarrow> int"
  eng_session_get_stream_remote_window_size :: "int \<Rightarrow> 's \<Rightarrow> int"
  eng_session_get_local_window_size :: "'s \<Rightarrow> int"
  eng_session_get_stream_local_window_size :: "int \<Rightarrow> 's \<Rightarrow> int"
  eng_session_get_stream_local_close :: "int \<Rightarrow> 's \<Rightarrow> int"
  eng_session_get_stream_remote_close :: "int \<Rightarrow> 's \<Rightarrow> int"
  eng_session_get_local_settings :: "int \<Rightarrow> 's \<Rightarrow> int"
  eng_session_get_remote_settings :: "int \<Rightarrow> 's \<Rightarrow> int"

section \<open>The connection\<close>

text \<open>
  The fields of \<open>Connection\<close>, \<open>c_x\<close> for \<open>_x\<close>, in declaration order. \<open>c_session\<close> and \<open>c_output\<close>
  are the two owned pointers (\<open>None\<close> is NULL); \<open>c_data_size\<close> counts the bytes of the open DATA
  payload that were written. The attribute \<open>config\<close> is never read after construction and is
  left out.
\<close>

record 's conn =
  c_role :: "role option"
  c_server :: bool
  c_session :: "'s option"
  c_output :: "cell list option"
  c_output_size :: nat
  c_output_remaining :: int
  c_callback_error :: "exc option"
  c_initialized :: bool
  c_active :: bool
  c_failed :: bool
  c_terminating :: bool
  c_closing :: bool
  c_closed :: bool
  c_close_error_code :: int
  c_close_debug_data :: "byte list"
  c_local_extensible_priority :: bool
  c_auto_window_update :: bool
  c_max_settings :: int
  c_max_inbound_header_list_size :: int
  c_max_inbound_header_count :: int
  c_events :: "event list"
  c_bodies :: "int \<Rightarrow> body_source option"
  c_queued_body_size :: size_t
  c_current_headers :: "header list"
  c_current_header_size :: size_t
  c_max_send_data_frame_size :: int
  c_data_payload :: "cell list option"
  c_data_size :: nat
  c_data_stream_id :: int
  c_responses :: "int set"
  c_unconsumed :: "int \<Rightarrow> int option"
  c_local_stream_errors :: "int \<Rightarrow> exc option"
  c_deferred_resets :: "int \<Rightarrow> int option"

text \<open>\<open>__cinit__\<close>; the fields it leaves out are zeroed by the allocation of the object.\<close>

definition new_conn :: "'s conn" where
  "new_conn = \<lparr>c_role = None, c_server = False, c_session = None, c_output = None,
     c_output_size = 0, c_output_remaining = 0, c_callback_error = None, c_initialized = False,
     c_active = False, c_failed = False, c_terminating = False, c_closing = False,
     c_closed = False, c_close_error_code = 0, c_close_debug_data = [],
     c_local_extensible_priority = False, c_auto_window_update = False, c_max_settings = 0,
     c_max_inbound_header_list_size = 0, c_max_inbound_header_count = 0, c_events = [],
     c_bodies = Map.empty, c_queued_body_size = 0, c_current_headers = [],
     c_current_header_size = 0, c_max_send_data_frame_size = 0, c_data_payload = None,
     c_data_size = 0, c_data_stream_id = 0, c_responses = {}, c_unconsumed = Map.empty,
     c_local_stream_errors = Map.empty, c_deferred_resets = Map.empty\<rparr>"

type_synonym ('s, 'a) meth = "('s conn, exc, 'a) py"

section \<open>Calling the library\<close>

text \<open>
  Every call dereferences the session pointer. On NULL that is undefined behaviour, which the
  model makes visible as a crash.
\<close>

definition native_query :: "('s \<Rightarrow> 'a) \<Rightarrow> ('s, 'a) meth" where
  "native_query f = (\<lambda>c. case c_session c of None \<Rightarrow> (Crash, c) | Some s \<Rightarrow> (Ok (f s), c))"

definition native_call :: "('s \<Rightarrow> status \<times> 's) \<Rightarrow> ('s, status) meth" where
  "native_call f = (\<lambda>c. case c_session c of
       None \<Rightarrow> (Crash, c)
     | Some s \<Rightarrow> (case f s of (rc, s') \<Rightarrow> (Ok rc, c\<lparr>c_session := Some s'\<rparr>)))"

lemma wp_native_query [wp_simps]:
  "wp (native_query f) Q R = (\<lambda>c. case c_session c of None \<Rightarrow> False | Some s \<Rightarrow> Q (f s) c)"
  by (simp add: native_query_def wp_def fun_eq_iff split: option.splits)

lemma wp_native_call [wp_simps]:
  "wp (native_call f) Q R = (\<lambda>c. case c_session c of None \<Rightarrow> False
     | Some s \<Rightarrow> Q (fst (f s)) (c\<lparr>c_session := Some (snd (f s))\<rparr>))"
  by (simp add: native_call_def wp_def fun_eq_iff split: option.splits prod.splits)

text \<open>Allocations of the binding itself, by size.\<close>

definition alloc_ok :: "'s engine \<Rightarrow> 's conn \<Rightarrow> nat \<Rightarrow> bool" where
  "alloc_ok E c n = eng_alloc E (c_session c) n"

text \<open>\<open>PyBytes_FromStringAndSize(pointer, length)\<close>: a copy, or \<open>MemoryError\<close>.\<close>

definition new_bytes :: "'s engine \<Rightarrow> 'b list \<Rightarrow> ('s, 'b list) meth" where
  "new_bytes E bs =
     bindM (getsM (\<lambda>c. alloc_ok E c (length bs)))
       (\<lambda>ok. if ok then returnM bs else raiseM MemoryError)"

lemma wp_new_bytes [wp_simps]:
  "wp (new_bytes E bs) Q R =
     (\<lambda>c. if alloc_ok E c (length bs) then Q bs c else R MemoryError c)"
  by (simp add: new_bytes_def wp_simps)

end
