(* ===== verification/Lifecycle.thy ===== *)
theory Lifecycle
  imports Engine
begin

text \<open>
  The private methods of \<open>Connection\<close> (\<^verbatim>\<open>src/ngh2/_core.pyx\<close>) that guard its state machine and
  end it: \<open>_require_created\<close>, \<open>_require_active\<close>, \<open>_require_drivable\<close>, \<open>_require_stream\<close>,
  \<open>_raise_native_error\<close>, \<open>_raise_callback_or_native\<close>, \<open>_fail\<close>, \<open>_discard_pending_state\<close> and
  \<open>_update_terminal_state\<close>. The first half of the class invariant, \<open>flags_ok\<close>, relates the
  lifecycle flags to each other and to the session pointer.
\<close>

section \<open>Guards\<close>

definition require_created :: "('s, unit) meth" where
  "require_created =
     bindM (getsM id) (\<lambda>c.
       if \<not> c_initialized c then raiseM ConnectionStateError
       else if c_failed c then raiseM ConnectionStateError
       else if c_active c then raiseM ConnectionStateError
       else returnM ())"

definition require_drivable :: "('s, unit) meth" where
  "require_drivable =
     bindM (getsM id) (\<lambda>c.
       if c_failed c then raiseM ConnectionStateError
       else if \<not> c_active c then raiseM ConnectionStateError
       else returnM ())"

definition require_active :: "('s, unit) meth" where
  "require_active =
     thenM require_drivable
       (bindM (getsM c_terminating) (\<lambda>t. raise_if t ConnectionStateError))"

definition require_stream :: "'s engine \<Rightarrow> int \<Rightarrow> ('s, unit) meth" where
  "require_stream E stream_id =
     bindM (native_query (eng_session_get_stream_local_close E stream_id)) (\<lambda>r.
       raise_if (r < 0) StreamUnavailableError)"

section \<open>Releasing state\<close>

definition discard_pending_state :: "'s conn \<Rightarrow> 's conn" where
  "discard_pending_state c = c\<lparr>
     c_bodies := Map.empty,
     c_queued_body_size := 0,
     c_current_headers := [],
     c_current_header_size := 0,
     c_data_payload := None,
     c_data_size := 0,
     c_responses := {},
     c_unconsumed := Map.empty,
     c_local_stream_errors := Map.empty,
     c_deferred_resets := Map.empty\<rparr>"

definition fail_conn :: "'s conn \<Rightarrow> 's conn" where
  "fail_conn c = (discard_pending_state (c\<lparr>
     c_session := None,
     c_output := None,
     c_output_remaining := 0,
     c_callback_error := None\<rparr>))\<lparr>
     c_failed := True,
     c_active := False,
     c_terminating := False,
     c_closing := False,
     c_closed := True\<rparr>"

definition update_terminal_state :: "'s engine \<Rightarrow> ('s, unit) meth" where
  "update_terminal_state E =
     bindM (getsM id) (\<lambda>c.
       if c_active c \<and> \<not> c_closed c then
         bindM (native_query (eng_session_want_read E)) (\<lambda>want_read.
           if want_read then returnM ()
           else bindM (native_query (eng_session_want_write E)) (\<lambda>want_write.
             if want_write then returnM ()
             else modifyM (\<lambda>c.
               (discard_pending_state (c\<lparr>c_terminating := True\<rparr>))\<lparr>
                 c_closed := True,
                 c_events := c_events c @
                   [connection_closed_event (c_close_error_code c) (c_close_debug_data c)]\<rparr>)))
       else returnM ())"

section \<open>Raising engine errors\<close>

definition raise_native_error :: "'s engine \<Rightarrow> err \<Rightarrow> ('s, unit) meth" where
  "raise_native_error E code =
     thenM (whenM (eng_is_fatal E code) (modifyM fail_conn)) (raiseM (nghttp2_error code))"

text \<open>\<open>if result < 0: self._raise_native_error(result)\<close>\<close>

definition check_native :: "'s engine \<Rightarrow> status \<Rightarrow> ('s, unit) meth" where
  "check_native E result =
     (case result of RcOk n \<Rightarrow> returnM () | RcErr code \<Rightarrow> raise_native_error E code)"

text \<open>\<open>if result < 0: _raise_nghttp2_error(result)\<close>, as the callbacks do.\<close>

definition check_result :: "status \<Rightarrow> ('s, unit) meth" where
  "check_result result =
     (case result of RcOk n \<Rightarrow> returnM () | RcErr code \<Rightarrow> raiseM (nghttp2_error code))"

definition raise_callback_or_native :: "'s engine \<Rightarrow> status \<Rightarrow> ('s, unit) meth" where
  "raise_callback_or_native E result =
     (case result of
        RcOk n \<Rightarrow> returnM ()
      | RcErr code \<Rightarrow>
          bindM (getsM c_callback_error) (\<lambda>error.
            case error of
              Some e \<Rightarrow> thenM (modifyM fail_conn) (raiseM e)
            | None \<Rightarrow>
                thenM (whenM (eng_is_fatal E code) (modifyM fail_conn))
                  (raiseM (nghttp2_error code))))"

definition callback_failed :: "exc \<Rightarrow> ('s, status) meth" where
  "callback_failed error =
     thenM (modifyM (\<lambda>c. c\<lparr>c_callback_error := Some error\<rparr>))
       (returnM (RcErr ERR_CALLBACK_FAILURE))"

section \<open>Rules of the calculus\<close>

lemma wp_require_created [wp_simps]:
  "wp require_created Q R = (\<lambda>c.
     if c_initialized c \<and> \<not> c_failed c \<and> \<not> c_active c then Q () c else R ConnectionStateError c)"
  by (auto simp: require_created_def wp_simps fun_eq_iff)

lemma wp_require_drivable [wp_simps]:
  "wp require_drivable Q R = (\<lambda>c.
     if \<not> c_failed c \<and> c_active c then Q () c else R ConnectionStateError c)"
  by (auto simp: require_drivable_def wp_simps fun_eq_iff)

lemma wp_require_active [wp_simps]:
  "wp require_active Q R = (\<lambda>c.
     if \<not> c_failed c \<and> c_active c \<and> \<not> c_terminating c then Q () c else R ConnectionStateError c)"
  by (auto simp: require_active_def wp_simps fun_eq_iff)

lemma wp_require_stream [wp_simps]:
  "wp (require_stream E sid) Q R = (\<lambda>c. case c_session c of None \<Rightarrow> False
     | Some s \<Rightarrow> if eng_session_get_stream_local_close E sid s < 0 then R StreamUnavailableError c
                 else Q () c)"
  by (auto simp: require_stream_def wp_simps fun_eq_iff split: option.splits)

lemma wp_raise_native_error [wp_simps]:
  "wp (raise_native_error E code) Q R = (\<lambda>c.
     R (nghttp2_error code) (if eng_is_fatal E code then fail_conn c else c))"
  by (auto simp: raise_native_error_def wp_simps fun_eq_iff)

lemma wp_check_native [wp_simps]:
  "wp (check_native E result) Q R = (\<lambda>c. case result of
     RcOk n \<Rightarrow> Q () c
   | RcErr code \<Rightarrow> R (nghttp2_error code) (if eng_is_fatal E code then fail_conn c else c))"
  by (auto simp: check_native_def wp_simps fun_eq_iff split: status.splits)

lemma wp_check_result [wp_simps]:
  "wp (check_result result) Q R = (\<lambda>c. case result of
     RcOk n \<Rightarrow> Q () c | RcErr code \<Rightarrow> R (nghttp2_error code) c)"
  by (auto simp: check_result_def wp_simps fun_eq_iff split: status.splits)

lemma wp_raise_callback_or_native [wp_simps]:
  "wp (raise_callback_or_native E result) Q R = (\<lambda>c. case result of
     RcOk n \<Rightarrow> Q () c
   | RcErr code \<Rightarrow> (case c_callback_error c of
         Some e \<Rightarrow> R e (fail_conn c)
       | None \<Rightarrow> R (nghttp2_error code) (if eng_is_fatal E code then fail_conn c else c)))"
  by (auto simp: raise_callback_or_native_def wp_simps fun_eq_iff
      split: status.splits option.splits)

lemma wp_callback_failed [wp_simps]:
  "wp (callback_failed e) Q R =
     (\<lambda>c. Q (RcErr ERR_CALLBACK_FAILURE) (c\<lparr>c_callback_error := Some e\<rparr>))"
  by (simp add: callback_failed_def wp_simps)

section \<open>The lifecycle flags\<close>

text \<open>
  A connection is uninitialised, created, active, terminating or failed; only the states before
  failure own a session, and a closed connection has either failed or finished terminating.
\<close>

definition flags_ok :: "'s conn \<Rightarrow> bool" where
  "flags_ok c \<longleftrightarrow>
     (c_session c \<noteq> None \<longleftrightarrow> c_initialized c \<and> \<not> c_failed c) \<and>
     (c_active c \<longrightarrow> c_initialized c \<and> \<not> c_failed c) \<and>
     (c_failed c \<longrightarrow> c_initialized c) \<and>
     (c_terminating c \<longrightarrow> c_active c \<and> c_closing c) \<and>
     (c_failed c \<longrightarrow> c_closed c) \<and>
     (c_closed c \<longrightarrow> c_failed c \<or> c_terminating c)"

lemma flags_ok_new [simp]: "flags_ok new_conn"
  by (simp add: flags_ok_def new_conn_def)

end
