(* ===== verification/Outbound.thy ===== *)
theory Outbound
  imports Lifecycle
begin

text \<open>
  The callbacks of \<^verbatim>\<open>src/ngh2/_core.pyx\<close> through which the engine produces output:
  \<open>_reserve_output\<close>, \<open>_collect_output\<close>, \<open>_copy_body\<close> on a connection, \<open>_send_body\<close>,
  \<open>_data_frame_length\<close>, \<open>_read_body\<close>, \<open>_frame_sent\<close> and \<open>_frame_not_sent\<close>. The output buffer is a
  list of cells; a write outside it is a crash.
\<close>

section \<open>The output buffer\<close>

definition output_capacity :: "'s conn \<Rightarrow> nat" where
  "output_capacity c = (case c_output c of None \<Rightarrow> 0 | Some b \<Rightarrow> length b)"

text \<open>
  \<open>_reserve_output\<close>: the offset at which the caller may write \<open>length\<close> bytes. A buffer grows in
  place, at least doubling; when it cannot, it is released.
\<close>

definition grow_output :: "'s engine \<Rightarrow> nat \<Rightarrow> ('s, unit) meth" where
  "grow_output E target =
     bindM (getsM id) (\<lambda>c.
       case c_output c of
         None \<Rightarrow>
           if alloc_ok E c target
           then modifyM (\<lambda>c. c\<lparr>c_output := Some (replicate target None)\<rparr>)
           else raiseM MemoryError
       | Some b \<Rightarrow>
           if alloc_ok E c target
           then modifyM (\<lambda>c. c\<lparr>c_output := Some (b @ replicate (target - length b) None)\<rparr>)
           else thenM (modifyM (\<lambda>c. c\<lparr>c_output := None\<rparr>)) (raiseM MemoryError))"

definition reserve_output :: "'s engine \<Rightarrow> nat \<Rightarrow> ('s, nat) meth" where
  "reserve_output E len =
     bindM (getsM id) (\<lambda>c.
       let used = c_output_size c; capacity = output_capacity c in
       if len > SSIZE_MAX - used then raiseM MemoryError
       else
         (let target = used + len;
              grown = (if capacity < SIZE_MAX div 4 then max target (max (2 * capacity) 4096)
                       else target)
          in thenM (whenM (target > capacity) (grow_output E grown))
               (thenM (modifyM (\<lambda>c. c\<lparr>c_output_size := used + len\<rparr>)) (returnM used))))"

text \<open>\<open>memcpy\<close> into the buffer.\<close>

definition overwrite :: "cell list \<Rightarrow> nat \<Rightarrow> byte list \<Rightarrow> cell list" where
  "overwrite b off data = take off b @ map Some data @ drop (off + length data) b"

definition write_output :: "nat \<Rightarrow> byte list \<Rightarrow> ('s, unit) meth" where
  "write_output off data =
     bindM (getsM c_output) (\<lambda>out.
       case out of
         None \<Rightarrow> if data = [] then returnM () else crashM
       | Some b \<Rightarrow>
           if off + length data \<le> length b
           then modifyM (\<lambda>c. c\<lparr>c_output := Some (overwrite b off data)\<rparr>)
           else crashM)"

section \<open>Serialized bytes\<close>

definition collect_output :: "'s engine \<Rightarrow> byte list \<Rightarrow> ('s, status) meth" where
  "collect_output E data =
     bindM (getsM c_output_remaining) (\<lambda>remaining.
       if remaining = 0 then returnM (RcErr ERR_WOULDBLOCK)
       else
         (let accepted = (if remaining \<ge> 0 then min (length data) (nat remaining)
                          else length data)
          in catchM
               (bindM (reserve_output E accepted) (\<lambda>off.
                thenM (write_output off (take accepted data))
                (thenM (whenM (remaining \<ge> 0)
                   (modifyM (\<lambda>c. c\<lparr>c_output_remaining := remaining - int accepted\<rparr>)))
                 (returnM (RcOk accepted)))))
               callback_failed))"

section \<open>Bodies\<close>

text \<open>
  \<open>_copy_body(connection, body, ..., length)\<close> for the body stored under \<open>stream_id\<close>, which it
  updates in place.
\<close>

definition copy_body_of :: "int \<Rightarrow> nat \<Rightarrow> ('s, byte list) meth" where
  "copy_body_of stream_id len =
     bindM (getsM id) (\<lambda>c.
       case c_bodies c stream_id of
         None \<Rightarrow> crashM
       | Some body \<Rightarrow>
           (case copy_body len body (c_queued_body_size c) of (result, body', queued) \<Rightarrow>
             thenM (modifyM (\<lambda>c. c\<lparr>c_bodies := (c_bodies c)(stream_id \<mapsto> body'),
                                   c_queued_body_size := queued\<rparr>))
               (case result of
                  Ok out \<Rightarrow> returnM out | Raise e \<Rightarrow> raiseM e | Crash \<Rightarrow> crashM)))"

text \<open>C arithmetic on \<open>size_t\<close>: \<open>a + b\<close> modulo the word size.\<close>

definition size_add :: "nat \<Rightarrow> nat \<Rightarrow> nat" where
  "size_add a b = (a + b) mod 2 ^ 64"

definition send_body :: "'s engine \<Rightarrow> frame \<Rightarrow> byte list \<Rightarrow> nat \<Rightarrow> ('s, status) meth" where
  "send_body E frame frame_header len =
     bindM (getsM c_output_remaining) (\<lambda>remaining.
     catchM
       (if data_padlen frame \<noteq> 0 \<or> 0 \<le> remaining \<and> nat remaining < size_add len 9
        then raiseM InternalError
        else bindM (getsM (\<lambda>c. c_bodies c (hd_stream_id frame))) (\<lambda>body.
          if body = None then raiseM KeyError
          else if len > SSIZE_MAX - 9 then raiseM MemoryError
          else bindM (reserve_output E (len + 9)) (\<lambda>off.
            if length frame_header < 9 then crashM
            else thenM (write_output off (take 9 frame_header))
              (bindM (copy_body_of (hd_stream_id frame) len) (\<lambda>copied.
               thenM (write_output (off + 9) copied)
                 (if length copied \<noteq> len then raiseM InternalError
                  else thenM (whenM (remaining \<ge> 0)
                         (modifyM (\<lambda>c. c\<lparr>c_output_remaining := remaining - int (len + 9)\<rparr>)))
                    (returnM (RcOk 0))))))))
       callback_failed)"

definition data_frame_length :: "int \<Rightarrow> nat \<Rightarrow> ('s, status) meth" where
  "data_frame_length stream_id remote_max_frame_size =
     bindM (getsM id) (\<lambda>c.
       let len = min (nat (c_max_send_data_frame_size c)) remote_max_frame_size in
       returnM (RcOk (case c_bodies c stream_id of
           None \<Rightarrow> len
         | Some body \<Rightarrow> max 1 (min len (unat (queued_size body))))))"

definition eof_answer :: "status \<Rightarrow> bool \<Rightarrow> bool \<Rightarrow> byte list \<Rightarrow> answer" where
  "eof_answer rc no_end_stream no_copy buffer = \<lparr>ans_rc = rc, ans_eof = True,
     ans_no_end_stream = no_end_stream, ans_no_copy = no_copy, ans_buffer = buffer\<rparr>"

text \<open>
  The part of \<open>_read_body\<close> that chooses between the two output modes. It returns the number of
  bytes taken, the bytes copied to the engine's buffer, whether \<open>NO_COPY\<close> is set, and whether
  the body is complete.
\<close>

definition take_body :: "int \<Rightarrow> nat \<Rightarrow> int \<Rightarrow> body_source
    \<Rightarrow> ('s, nat \<times> byte list \<times> bool \<times> bool) meth" where
  "take_body stream_id len remaining body =
     (let copied = min len (unat (queued_size body)) in
      if remaining < 0 \<or> size_add copied 9 \<le> nat remaining
      then returnM (copied, [], True, ended body \<and> copied = unat (queued_size body))
      else bindM (copy_body_of stream_id len) (\<lambda>out.
        bindM (getsM (\<lambda>c. c_bodies c stream_id)) (\<lambda>after.
          case after of
            None \<Rightarrow> crashM
          | Some b \<Rightarrow> returnM (length out, out, False, ended b \<and> head b = length (chunks b)))))"

definition update_body :: "int \<Rightarrow> (body_source \<Rightarrow> body_source) \<Rightarrow> ('s, unit) meth" where
  "update_body stream_id f =
     modifyM (\<lambda>c. c\<lparr>c_bodies := (c_bodies c)(stream_id := map_option f (c_bodies c stream_id))\<rparr>)"

text \<open>The rest of \<open>_read_body\<close>, once \<open>copied\<close> bytes are taken.\<close>

fun answer_body :: "'s engine \<Rightarrow> int \<Rightarrow> body_source \<Rightarrow> nat \<times> byte list \<times> bool \<times> bool \<Rightarrow> ('s, answer) meth" where
  "answer_body E stream_id body (copied, buffer, no_copy, complete) =
     (if complete then
        (case trailers body of
           None \<Rightarrow> returnM (eof_answer (RcOk copied) False no_copy buffer)
         | Some queued_fields \<Rightarrow>
             bindM (make_headers (alloc_ok E) (map thaw_header queued_fields)) (\<lambda>native.
             bindM (native_call (eng_submit_trailer E stream_id native)) (\<lambda>result.
             thenM (check_result result)
             (thenM (update_body stream_id (\<lambda>b. b\<lparr>trailers := None\<rparr>))
               (returnM (eof_answer (RcOk copied) True no_copy buffer))))))
      else if copied \<noteq> 0 then
        returnM ((plain_answer (RcOk copied))\<lparr>ans_no_copy := no_copy, ans_buffer := buffer\<rparr>)
      else thenM (update_body stream_id (\<lambda>b. b\<lparr>deferred := True\<rparr>))
        (returnM ((plain_answer (RcErr ERR_DEFERRED))\<lparr>ans_no_copy := no_copy\<rparr>)))"

definition read_body :: "'s engine \<Rightarrow> int \<Rightarrow> nat \<Rightarrow> ('s, answer) meth" where
  "read_body E stream_id len =
     bindM (getsM c_output_remaining) (\<lambda>remaining.
     if remaining = 0 then returnM (plain_answer (RcErr ERR_PAUSE))
     else catchM
       (bindM (getsM (\<lambda>c. c_bodies c stream_id)) (\<lambda>found.
        case found of
          None \<Rightarrow> raiseM KeyError
        | Some body \<Rightarrow>
            bindM (take_body stream_id len remaining body) (answer_body E stream_id body)))
       (\<lambda>e. bindM (callback_failed e) (\<lambda>rc. returnM (plain_answer rc))))"

section \<open>Frames that were sent, or could not be\<close>

definition frame_sent :: "'s engine \<Rightarrow> frame \<Rightarrow> ('s, status) meth" where
  "frame_sent E frame =
     bindM (getsM id) (\<lambda>c.
       let ends_stream = c_deferred_resets c \<noteq> Map.empty \<and> hd_end_stream frame \<and>
             (hd_type frame = FT_DATA \<or> hd_type frame = FT_HEADERS) in
       if \<not> ends_stream \<and> hd_type frame \<noteq> FT_GOAWAY then returnM (RcOk 0)
       else catchM
         (if ends_stream then
            (let error_code = c_deferred_resets c (hd_stream_id frame) in
             thenM (modifyM (\<lambda>c. c\<lparr>c_deferred_resets :=
                      (c_deferred_resets c)(hd_stream_id frame := None)\<rparr>))
               (case error_code of
                  None \<Rightarrow> returnM (RcOk 0)
                | Some code \<Rightarrow>
                    bindM (native_query
                        (eng_session_get_stream_remote_close E (hd_stream_id frame))) (\<lambda>closed.
                      if closed \<noteq> 0 then returnM (RcOk 0)
                      else bindM (native_call
                          (eng_submit_rst_stream E (hd_stream_id frame) code)) (\<lambda>result.
                        thenM (check_result result) (returnM (RcOk 0))))))
          else
            thenM (modifyM (\<lambda>c. c\<lparr>c_closing := True,
                     c_close_error_code := goaway_error_code frame\<rparr>))
              (bindM (new_bytes E (goaway_opaque_data frame)) (\<lambda>debug_data.
               thenM (modifyM (\<lambda>c. c\<lparr>c_close_debug_data := debug_data\<rparr>))
                 (returnM (RcOk 0)))))
         callback_failed)"

definition reset_failed_stream :: "'s engine \<Rightarrow> frame \<Rightarrow> int \<Rightarrow> ('s, status) meth" where
  "reset_failed_stream E frame stream_id =
     (if hd_type frame = FT_HEADERS \<and> headers_cat frame \<noteq> HCAT_REQUEST then
        bindM (native_call
            (eng_submit_rst_stream E stream_id (wire_code INTERNAL_ERROR))) (\<lambda>result.
          case result of
            RcOk n \<Rightarrow> returnM (RcOk 0)
          | RcErr e \<Rightarrow>
              if e \<notin> {ERR_STREAM_CLOSED, ERR_STREAM_CLOSING, ERR_SESSION_CLOSING}
              then raiseM (nghttp2_error e) else returnM (RcOk 0))
      else returnM (RcOk 0))"

definition frame_not_sent :: "'s engine \<Rightarrow> frame \<Rightarrow> err \<Rightarrow> ('s, status) meth" where
  "frame_not_sent E frame code =
     catchM
       (let target = (if hd_type frame = FT_HEADERS then Some (hd_stream_id frame)
            else if hd_type frame = FT_PUSH_PROMISE then Some (promised_stream_id frame)
            else None)
        in case target of
             None \<Rightarrow> returnM (RcOk 0)
           | Some stream_id \<Rightarrow>
               if code \<in> {ERR_STREAM_CLOSED, ERR_STREAM_CLOSING, ERR_STREAM_SHUT_WR,
                          ERR_SESSION_CLOSING}
               then returnM (RcOk 0)
               else thenM (modifyM (\<lambda>c. c\<lparr>c_local_stream_errors :=
                        (c_local_stream_errors c)(stream_id \<mapsto> frame_not_sent_error code)\<rparr>))
                      (reset_failed_stream E frame stream_id))
       callback_failed"

end
