(* ===== verification/Inbound.thy ===== *)
theory Inbound
  imports Outbound
begin

text \<open>
  The callbacks of \<^verbatim>\<open>src/ngh2/_core.pyx\<close> through which the engine reports received frames, from
  \<open>_begin_headers\<close> to \<open>_stream_closed\<close>: header blocks are collected under the configured limits,
  a DATA frame is assembled in one buffer, and a complete frame is published as an event.
\<close>

section \<open>Header blocks\<close>

definition begin_headers :: "('s, status) meth" where
  "begin_headers =
     thenM (modifyM (\<lambda>c. c\<lparr>c_current_headers := [], c_current_header_size := 0\<rparr>))
       (returnM (RcOk 0))"

definition header_field :: "'s engine \<Rightarrow> byte list \<Rightarrow> byte list \<Rightarrow> bool \<Rightarrow> ('s, status) meth" where
  "header_field E name value no_index =
     catchM
       (thenM (modifyM (\<lambda>c. c\<lparr>c_current_header_size :=
            c_current_header_size c + of_nat (length name + length value + 32)\<rparr>))
       (bindM (getsM id) (\<lambda>c.
          if c_current_header_size c > word_of_int (c_max_inbound_header_list_size c)
          then raiseM DenialOfServiceError
          else if int (length (c_current_headers c)) \<ge> c_max_inbound_header_count c
          then raiseM DenialOfServiceError
          else bindM (new_bytes E name) (\<lambda>header_name.
            bindM (new_bytes E value) (\<lambda>header_value.
              let header = (if no_index then NeverIndexedHeader header_name header_value
                            else PlainHeader header_name header_value)
              in thenM (modifyM (\<lambda>c. c\<lparr>c_current_headers := c_current_headers c @ [header]\<rparr>))
                   (returnM (RcOk 0)))))))
       callback_failed"

definition invalid_header :: "('s, status) meth" where
  "invalid_header = returnM (RcErr ERR_TEMPORAL_CALLBACK_FAILURE)"

section \<open>DATA payloads\<close>

definition discard_data_payload :: "'s engine \<Rightarrow> ('s, unit) meth" where
  "discard_data_payload E =
     bindM (getsM c_data_size) (\<lambda>size.
     thenM (modifyM (\<lambda>c. c\<lparr>c_data_payload := None, c_data_size := 0\<rparr>))
     (bindM (getsM c_auto_window_update) (\<lambda>auto.
        if size \<noteq> 0 \<and> \<not> auto
        then bindM (native_call (eng_session_consume_connection E size)) check_result
        else returnM ())))"

definition begin_frame :: "'s engine \<Rightarrow> frame_type \<Rightarrow> nat \<Rightarrow> int \<Rightarrow> ('s, status) meth" where
  "begin_frame E type len stream_id =
     (if type \<noteq> FT_DATA then returnM (RcOk 0)
      else catchM
        (thenM (discard_data_payload E)
        (bindM (new_bytes E (replicate len None)) (\<lambda>payload.
         thenM (modifyM (\<lambda>c. c\<lparr>c_data_payload := Some payload, c_data_stream_id := stream_id\<rparr>))
           (returnM (RcOk 0)))))
        callback_failed)"

definition data_chunk :: "'s engine \<Rightarrow> int \<Rightarrow> byte list \<Rightarrow> ('s, status) meth" where
  "data_chunk E stream_id data =
     catchM
       (bindM (getsM id) (\<lambda>c.
          case c_data_payload c of
            None \<Rightarrow> raiseM InternalError
          | Some payload \<Rightarrow>
              if stream_id \<noteq> c_data_stream_id c
                 \<or> size_add (c_data_size c) (length data) > length payload
              then raiseM InternalError
              else if c_data_size c + length data > length payload then crashM
              else thenM (modifyM (\<lambda>c. c\<lparr>
                       c_data_payload := Some (overwrite payload (c_data_size c) data),
                       c_data_size := c_data_size c + length data\<rparr>))
                     (returnM (RcOk 0))))
       callback_failed"

section \<open>Complete frames\<close>

definition publish :: "event \<Rightarrow> ('s, unit) meth" where
  "publish e = modifyM (\<lambda>c. c\<lparr>c_events := c_events c @ [e]\<rparr>)"

text \<open>\<open>b":status"\<close> and the test \<open>status.startswith(b"1")\<close>\<close>

definition STATUS :: "byte list" where
  "STATUS = [0x3A, 0x73, 0x74, 0x61, 0x74, 0x75, 0x73]"

fun find_status :: "header list \<Rightarrow> byte list" where
  "find_status [] = []"
| "find_status (h # hs) = (if header_name h = STATUS then header_value h else find_status hs)"

definition is_informational :: "byte list \<Rightarrow> bool" where
  "is_informational status = (case status of [] \<Rightarrow> False | b # bs \<Rightarrow> b = 0x31)"

definition headers_event :: "frame \<Rightarrow> header list \<Rightarrow> event" where
  "headers_event frame headers =
     (if headers_cat frame = HCAT_REQUEST
      then RequestReceived (hd_stream_id frame) headers (hd_end_stream frame)
      else
        (let status = find_status headers in
         if is_informational status then InformationalResponseReceived (hd_stream_id frame) headers
         else if status \<noteq> [] then ResponseReceived (hd_stream_id frame) headers (hd_end_stream frame)
         else TrailersReceived (hd_stream_id frame) headers))"

definition headers_received :: "frame \<Rightarrow> ('s, unit) meth" where
  "headers_received frame =
     bindM (getsM c_current_headers) (\<lambda>headers.
     thenM (publish (headers_event frame headers))
       (modifyM (\<lambda>c. c\<lparr>c_current_headers := []\<rparr>)))"

definition push_promise_received :: "frame \<Rightarrow> ('s, unit) meth" where
  "push_promise_received frame =
     bindM (getsM c_current_headers) (\<lambda>headers.
     thenM (publish (PushedStreamReceived (hd_stream_id frame) (promised_stream_id frame) headers))
       (modifyM (\<lambda>c. c\<lparr>c_current_headers := []\<rparr>)))"

definition data_frame_received :: "'s engine \<Rightarrow> frame \<Rightarrow> ('s, unit) meth" where
  "data_frame_received E frame =
     bindM (getsM id) (\<lambda>c.
     let payload = c_data_payload c; size = c_data_size c; sid = hd_stream_id frame in
     thenM (modifyM (\<lambda>c. c\<lparr>c_data_payload := None, c_data_size := 0\<rparr>))
     (bindM
       (case payload of
          None \<Rightarrow> returnM []
        | Some p \<Rightarrow>
            if size = 0 then returnM []
            else if size \<noteq> length p then new_bytes E (take size p)
            else returnM p)
       (\<lambda>data.
        thenM (whenM (data \<noteq> [] \<and> \<not> c_auto_window_update c)
           (modifyM (\<lambda>c. c\<lparr>c_unconsumed := (c_unconsumed c)(sid \<mapsto>
              (case c_unconsumed c sid of None \<Rightarrow> 0 | Some n \<Rightarrow> n) + int (length data))\<rparr>)))
          (publish (DataReceived sid data (hd_end_stream frame))))))"

definition settings_received :: "frame \<Rightarrow> ('s, unit) meth" where
  "settings_received frame =
     (if hd_ack frame then publish SettingsAcknowledged
      else publish (settings_received_event (dict_of (settings_iv frame))))"

definition reset_received :: "frame \<Rightarrow> ('s, unit) meth" where
  "reset_received frame =
     publish (stream_reset_event (hd_stream_id frame) (rst_error_code frame))"

definition ping_received :: "'s engine \<Rightarrow> frame \<Rightarrow> ('s, unit) meth" where
  "ping_received E frame =
     bindM (new_bytes E (ping_opaque_data frame)) (\<lambda>opaque_data.
       publish (if hd_ack frame then PingAcknowledged opaque_data else PingReceived opaque_data))"

definition window_update_received :: "frame \<Rightarrow> ('s, unit) meth" where
  "window_update_received frame =
     publish (WindowUpdated (hd_stream_id frame) (window_size_increment frame))"

definition goaway_received :: "'s engine \<Rightarrow> frame \<Rightarrow> ('s, unit) meth" where
  "goaway_received E frame =
     thenM (modifyM (\<lambda>c. c\<lparr>c_closing := True, c_close_error_code := goaway_error_code frame\<rparr>))
     (bindM (new_bytes E (goaway_opaque_data frame)) (\<lambda>debug_data.
      thenM (modifyM (\<lambda>c. c\<lparr>c_close_debug_data := debug_data\<rparr>))
        (publish (goaway_received_event (goaway_last_stream_id frame)
           (goaway_error_code frame) debug_data))))"

definition altsvc_received :: "'s engine \<Rightarrow> frame \<Rightarrow> ('s, unit) meth" where
  "altsvc_received E frame =
     bindM (new_bytes E (altsvc_origin frame)) (\<lambda>origin.
     bindM (new_bytes E (altsvc_field_value frame)) (\<lambda>field_value.
       publish (AltSvcReceived (hd_stream_id frame) origin field_value)))"

definition origin_received :: "'s engine \<Rightarrow> frame \<Rightarrow> ('s, unit) meth" where
  "origin_received E frame =
     bindM (mapM (new_bytes E) (origin_ov frame)) (\<lambda>origins. publish (OriginReceived origins))"

definition priority_update_received :: "'s engine \<Rightarrow> frame \<Rightarrow> ('s, unit) meth" where
  "priority_update_received E frame =
     bindM (new_bytes E (priority_field_value frame)) (\<lambda>field_value.
       publish (PriorityUpdateReceived (priority_stream_id frame) field_value))"

definition dispatch_frame :: "'s engine \<Rightarrow> frame \<Rightarrow> ('s, unit) meth" where
  "dispatch_frame E frame =
     (case hd_type frame of
        FT_HEADERS \<Rightarrow> headers_received frame
      | FT_PUSH_PROMISE \<Rightarrow> push_promise_received frame
      | FT_DATA \<Rightarrow> data_frame_received E frame
      | FT_SETTINGS \<Rightarrow> settings_received frame
      | FT_RST_STREAM \<Rightarrow> reset_received frame
      | FT_PING \<Rightarrow> ping_received E frame
      | FT_WINDOW_UPDATE \<Rightarrow> window_update_received frame
      | FT_GOAWAY \<Rightarrow> goaway_received E frame
      | FT_ALTSVC \<Rightarrow> altsvc_received E frame
      | FT_ORIGIN \<Rightarrow> origin_received E frame
      | FT_PRIORITY_UPDATE \<Rightarrow> priority_update_received E frame
      | FT_OTHER n \<Rightarrow> returnM ())"

definition frame_received :: "'s engine \<Rightarrow> frame \<Rightarrow> ('s, status) meth" where
  "frame_received E frame =
     catchM (thenM (dispatch_frame E frame) (returnM (RcOk 0))) callback_failed"

section \<open>Closed streams\<close>

definition stream_closed :: "'s engine \<Rightarrow> int \<Rightarrow> int \<Rightarrow> ('s, status) meth" where
  "stream_closed E stream_id code =
     catchM
       (thenM (modifyM (\<lambda>c. case c_bodies c stream_id of
            None \<Rightarrow> c
          | Some body \<Rightarrow> c\<lparr>c_bodies := (c_bodies c)(stream_id := None),
                           c_queued_body_size := c_queued_body_size c - queued_size body\<rparr>))
       (thenM (bindM (getsM c_data_stream_id) (\<lambda>open_id.
            whenM (open_id = stream_id) (discard_data_payload E)))
       (thenM (modifyM (\<lambda>c. c\<lparr>c_responses := c_responses c - {stream_id},
            c_deferred_resets := (c_deferred_resets c)(stream_id := None)\<rparr>))
       (bindM (getsM (\<lambda>c. c_local_stream_errors c stream_id)) (\<lambda>local_error.
        thenM (modifyM (\<lambda>c. c\<lparr>c_local_stream_errors :=
            (c_local_stream_errors c)(stream_id := None)\<rparr>))
       (thenM (publish (stream_closed_event stream_id code local_error))
         (returnM (RcOk 0))))))))
       callback_failed"

section \<open>The registered callbacks\<close>

text \<open>\<open>_configure_callbacks\<close>: which function the engine calls for which purpose.\<close>

fun handle :: "'s engine \<Rightarrow> call \<Rightarrow> ('s, answer) meth" where
  "handle E (CollectOutput data) = bindM (collect_output E data) (\<lambda>rc. returnM (plain_answer rc))"
| "handle E (SendBody frame header len) =
     bindM (send_body E frame header len) (\<lambda>rc. returnM (plain_answer rc))"
| "handle E (DataFrameLength sid remote_max) =
     bindM (data_frame_length sid remote_max) (\<lambda>rc. returnM (plain_answer rc))"
| "handle E (ReadBody sid len) = read_body E sid len"
| "handle E (BeginFrame type len sid) =
     bindM (begin_frame E type len sid) (\<lambda>rc. returnM (plain_answer rc))"
| "handle E BeginHeaders = bindM begin_headers (\<lambda>rc. returnM (plain_answer rc))"
| "handle E (HeaderField name value no_index) =
     bindM (header_field E name value no_index) (\<lambda>rc. returnM (plain_answer rc))"
| "handle E InvalidHeader = bindM invalid_header (\<lambda>rc. returnM (plain_answer rc))"
| "handle E (DataChunk sid data) =
     bindM (data_chunk E sid data) (\<lambda>rc. returnM (plain_answer rc))"
| "handle E (FrameReceived frame) =
     bindM (frame_received E frame) (\<lambda>rc. returnM (plain_answer rc))"
| "handle E (StreamClosedCall sid code) =
     bindM (stream_closed E sid code) (\<lambda>rc. returnM (plain_answer rc))"
| "handle E (FrameSent frame) = bindM (frame_sent E frame) (\<lambda>rc. returnM (plain_answer rc))"
| "handle E (FrameNotSent frame code) =
     bindM (frame_not_sent E frame code) (\<lambda>rc. returnM (plain_answer rc))"

section \<open>Running a library call\<close>

text \<open>
  Callbacks are declared \<open>noexcept\<close>: an exception that escaped one would not reach the engine, so
  the model treats it, like a lost session, as undefined behaviour.
\<close>

primrec run_engine :: "'s engine \<Rightarrow> 's run \<Rightarrow> 's conn \<Rightarrow> (exc, status) outcome \<times> 's conn" where
  "run_engine E (Return rc s) = (\<lambda>c. (Ok rc, c\<lparr>c_session := Some s\<rparr>))"
| "run_engine E (Invoke q s k) = (\<lambda>c.
     case handle E q (c\<lparr>c_session := Some s\<rparr>) of
       (Ok ans, c') \<Rightarrow> (case c_session c' of
           None \<Rightarrow> (Crash, c') | Some s' \<Rightarrow> run_engine E (k ans s') c')
     | (Raise e, c') \<Rightarrow> (Crash, c')
     | (Crash, c') \<Rightarrow> (Crash, c'))"

definition native_run :: "'s engine \<Rightarrow> ('s \<Rightarrow> 's run) \<Rightarrow> ('s, status) meth" where
  "native_run E f = (\<lambda>c. case c_session c of None \<Rightarrow> (Crash, c) | Some s \<Rightarrow> run_engine E (f s) c)"

end
