(* ===== verification/Connection.thy ===== *)
theory Connection
  imports Inbound
begin

text \<open>
  Construction and driving of a \<open>Connection\<close> (\<^verbatim>\<open>src/ngh2/_core.pyx\<close>): \<open>__init__\<close> with
  \<open>_apply_configuration\<close> and the \<open>Configuration\<close> of \<^verbatim>\<open>src/ngh2/config.py\<close>,
  \<open>initiate_connection\<close>, \<open>initiate_upgrade\<close>, \<open>receive_data\<close>, \<open>events\<close>, \<open>data_to_send\<close>, and the
  module function \<open>pack_settings_payload\<close>.
\<close>

section \<open>Configuration\<close>

record 'w configuration =
  auto_window_update :: "'w pyobj"
  initial_peer_max_concurrent_streams :: "'w pyobj"
  max_reserved_remote_streams :: "'w pyobj"
  max_send_header_block_length :: "'w pyobj"
  max_send_data_frame_size :: "'w pyobj"
  max_deflate_dynamic_table_size :: "'w pyobj"
  max_outbound_ack :: "'w pyobj"
  max_settings :: "'w pyobj"
  stream_reset_rate_limit :: "'w pyobj"
  max_continuations :: "'w pyobj"
  glitch_rate_limit :: "'w pyobj"
  max_inbound_header_list_size :: "'w pyobj"
  max_inbound_header_count :: "'w pyobj"

definition default_configuration :: "'w configuration" where
  "default_configuration = \<lparr>
     auto_window_update = PyBool True,
     initial_peer_max_concurrent_streams = PyInt 100,
     max_reserved_remote_streams = PyInt 200,
     max_send_header_block_length = PyInt 65536,
     max_send_data_frame_size = PyInt 65536,
     max_deflate_dynamic_table_size = PyInt 4096,
     max_outbound_ack = PyInt 1000,
     max_settings = PyInt 32,
     stream_reset_rate_limit = PyTuple [PyInt 1000, PyInt 33],
     max_continuations = PyInt 8,
     glitch_rate_limit = PyTuple [PyInt 10000, PyInt 330],
     max_inbound_header_list_size = PyInt 65536,
     max_inbound_header_count = PyInt 1024\<rparr>"

fun exact_bool :: "'w pyobj \<Rightarrow> bool option" where
  "exact_bool (PyBool b) = Some b"
| "exact_bool _ = None"

definition apply_configuration :: "('s conn) configuration \<Rightarrow> ('s, options) meth" where
  "apply_configuration config =
     bindM (conv_uint32 (initial_peer_max_concurrent_streams config)) (\<lambda>peer_max.
     bindM (conv_uint32 (max_reserved_remote_streams config)) (\<lambda>reserved.
     bindM (conv_size (max_send_header_block_length config)) (\<lambda>header_block.
     bindM (conv_size (max_deflate_dynamic_table_size config)) (\<lambda>deflate.
     bindM (conv_size (max_outbound_ack config)) (\<lambda>outbound_ack.
     bindM (conv_positive_size (max_settings config)) (\<lambda>settings_limit.
     bindM (conv_size (max_continuations config)) (\<lambda>continuations.
     bindM (conv_uint32 (max_send_data_frame_size config)) (\<lambda>frame_size.
     case exact_bool (auto_window_update config) of None \<Rightarrow> raiseM TypeError | Some auto \<Rightarrow>
     bindM (header_pair (stream_reset_rate_limit config)) (\<lambda>(reset_burst_value, reset_rate_value).
     bindM (header_pair (glitch_rate_limit config)) (\<lambda>(glitch_burst_value, glitch_rate_value).
     bindM (conv_uint64 reset_burst_value) (\<lambda>reset_burst.
     bindM (conv_uint64 reset_rate_value) (\<lambda>reset_rate.
     bindM (conv_uint64 glitch_burst_value) (\<lambda>glitch_burst.
     bindM (conv_uint64 glitch_rate_value) (\<lambda>glitch_rate.
     if \<not> (1 \<le> frame_size \<and> frame_size \<le> 0xFFFFFF) then raiseM ValueError else
     thenM (modifyM (\<lambda>c. c\<lparr>c_auto_window_update := auto,
              c_max_send_data_frame_size := frame_size, c_max_settings := settings_limit\<rparr>))
     (bindM (conv_nonnegative_size (max_inbound_header_list_size config)) (\<lambda>list_size.
     thenM (modifyM (\<lambda>c. c\<lparr>c_max_inbound_header_list_size := list_size\<rparr>))
     (bindM (conv_nonnegative_size (max_inbound_header_count config)) (\<lambda>header_count.
     thenM (modifyM (\<lambda>c. c\<lparr>c_max_inbound_header_count := header_count\<rparr>))
     (returnM \<lparr>opt_no_auto_window_update = (\<not> auto),
        opt_peer_max_concurrent_streams = peer_max,
        opt_max_reserved_remote_streams = reserved,
        opt_max_send_header_block_length = header_block,
        opt_max_deflate_dynamic_table_size = deflate,
        opt_max_outbound_ack = outbound_ack,
        opt_max_settings = settings_limit,
        opt_stream_reset_rate_limit = (reset_burst, reset_rate),
        opt_max_continuations = continuations,
        opt_glitch_rate_limit = (glitch_burst, glitch_rate)\<rparr>)))))))))))))))))))"

text \<open>The arguments of \<open>Connection(role, config)\<close>, as \<open>isinstance\<close> tells them apart.\<close>

datatype 's config_arg = NoConfig | NotAConfig | AConfig "('s conn) configuration"

definition connection_init :: "'s engine \<Rightarrow> role option \<Rightarrow> 's config_arg \<Rightarrow> ('s, unit) meth" where
  "connection_init E role_arg config_arg =
     bindM (getsM c_initialized) (\<lambda>already.
     thenM (raise_if already ConnectionStateError)
     (case role_arg of None \<Rightarrow> raiseM TypeError | Some r \<Rightarrow>
      bindM (case config_arg of NoConfig \<Rightarrow> returnM default_configuration
             | NotAConfig \<Rightarrow> raiseM TypeError | AConfig config \<Rightarrow> returnM config) (\<lambda>config.
      thenM (check_result (eng_callbacks_new E))
      (thenM (check_result (eng_option_new E))
      (bindM (apply_configuration config) (\<lambda>option.
       case eng_session_new E (r = SERVER) option of (result, session) \<Rightarrow>
       thenM (check_result result)
         (modifyM (\<lambda>c. c\<lparr>c_role := Some r, c_server := (r = SERVER),
            c_session := Some session, c_initialized := True\<rparr>))))))))"

section \<open>Starting\<close>

definition native_settings :: "'s engine \<Rightarrow> (int \<times> int) list \<Rightarrow> ('s, (int \<times> int) list) meth" where
  "native_settings E entries =
     bindM (getsM c_max_settings) (\<lambda>limit.
     thenM (raise_if (int (length entries) > limit) ValueError)
       (if entries \<noteq> [] then make_settings (alloc_ok E) entries else returnM []))"

definition extensible_priority :: "(int \<times> int) list \<Rightarrow> bool" where
  "extensible_priority entries \<longleftrightarrow> (9, 1) \<in> set entries"

definition initiate_connection :: "'s engine \<Rightarrow> 's conn pyobj \<Rightarrow> ('s, unit) meth" where
  "initiate_connection E settings =
     bindM (normalize_settings settings) (\<lambda>entries.
     thenM require_created
     (bindM (native_settings E entries) (\<lambda>native.
      bindM (native_call (eng_submit_settings E native)) (\<lambda>result.
      thenM (check_native E result)
        (modifyM (\<lambda>c. c\<lparr>c_local_extensible_priority := extensible_priority entries,
                        c_active := True\<rparr>))))))"

text \<open>What a server submits once the engine accepted the upgrade.\<close>

definition upgrade_settings ::
  "'s engine \<Rightarrow> (int \<times> int) list \<Rightarrow> (int \<times> int) list \<Rightarrow> ('s, unit) meth" where
  "upgrade_settings E entries native =
     bindM (native_call (eng_submit_settings E native)) (\<lambda>result.
       case result of
         RcErr code \<Rightarrow> thenM (modifyM fail_conn) (raiseM (nghttp2_error code))
       | RcOk n \<Rightarrow> modifyM (\<lambda>c. c\<lparr>c_local_extensible_priority := extensible_priority entries\<rparr>))"

definition initiate_upgrade ::
  "'s engine \<Rightarrow> 's conn pyobj \<Rightarrow> 's conn pyobj \<Rightarrow> 's conn pyobj \<Rightarrow> ('s, unit) meth" where
  "initiate_upgrade E settings_payload local_settings head_request =
     bindM (truth head_request) (\<lambda>head_req.
     bindM (getsM c_server) (\<lambda>server.
     thenM (raise_if (\<not> server \<and> \<not> is_none local_settings) ValueError)
     (case bytes_check settings_payload of None \<Rightarrow> raiseM TypeError | Some payload \<Rightarrow>
      bindM (if server then normalize_settings local_settings else returnM []) (\<lambda>entries.
      thenM require_created
      (bindM (getsM c_server) (\<lambda>server.
      bindM (if server then native_settings E entries else returnM []) (\<lambda>native.
      thenM (modifyM (\<lambda>c. c\<lparr>c_callback_error := None\<rparr>))
      (bindM (native_run E (eng_session_upgrade E payload head_req)) (\<lambda>result.
      thenM (raise_callback_or_native E result)
      (thenM (if server then upgrade_settings E entries native else returnM ())
        (modifyM (\<lambda>c. c\<lparr>c_active := True\<rparr>))))))))))))"

section \<open>Driving\<close>

definition receive_data :: "'s engine \<Rightarrow> 's conn pyobj \<Rightarrow> ('s, unit) meth" where
  "receive_data E data =
     bindM (get_buffer data) (\<lambda>view.
     thenM require_active
     (thenM (modifyM (\<lambda>c. c\<lparr>c_callback_error := None\<rparr>))
     (bindM (native_run E (eng_session_mem_recv E view)) (\<lambda>result.
      thenM (raise_callback_or_native E result)
      (thenM
        (if result \<noteq> RcOk (length view)
         then thenM (modifyM fail_conn) (raiseM InternalError) else returnM ())
        (bindM (getsM c_closing) (\<lambda>closing. whenM closing (update_terminal_state E))))))))"

definition events :: "('s, event list) meth" where
  "events =
     bindM (getsM c_events) (\<lambda>result.
     thenM (modifyM (\<lambda>c. c\<lparr>c_events := []\<rparr>)) (returnM result))"

text \<open>\<open>_PyBytes_Resize\<close> to the written size; what it would add is not initialised.\<close>

definition resize_cells :: "cell list \<Rightarrow> nat \<Rightarrow> cell list" where
  "resize_cells b n = take n b @ replicate (n - length b) None"

definition take_output :: "'s engine \<Rightarrow> ('s, cell list) meth" where
  "take_output E =
     bindM (getsM id) (\<lambda>c.
       case c_output c of
         None \<Rightarrow> returnM []
       | Some b \<Rightarrow>
           thenM (modifyM (\<lambda>c. c\<lparr>c_output := None\<rparr>))
             (if alloc_ok E c (c_output_size c)
              then returnM (resize_cells b (c_output_size c)) else raiseM MemoryError))"

text \<open>The limit, negative for none.\<close>

definition output_limit :: "'w pyobj \<Rightarrow> ('w, exc, int) py" where
  "output_limit amount = (if is_none amount then returnM (-1) else conv_nonnegative_size amount)"

text \<open>The rest of \<open>data_to_send\<close>, once its limit is converted.\<close>

definition produce_output :: "'s engine \<Rightarrow> int \<Rightarrow> ('s, cell list) meth" where
  "produce_output E limit =
     bindM (getsM c_failed) (\<lambda>failed.
     thenM (raise_if failed ConnectionStateError)
     (bindM (getsM c_active) (\<lambda>active.
      if limit = 0 \<or> \<not> active then returnM []
      else
        thenM (modifyM (\<lambda>c. c\<lparr>c_output_size := 0, c_output_remaining := limit,
                              c_callback_error := None\<rparr>))
        (bindM
          (catchM
            (bindM (native_run E (eng_session_send E)) (\<lambda>result.
             thenM (raise_callback_or_native E result)
             (thenM (bindM (getsM c_closing) (\<lambda>closing. whenM closing (update_terminal_state E)))
               (take_output E))))
            (\<lambda>e. thenM (modifyM fail_conn) (raiseM e)))
          (\<lambda>output.
           thenM (modifyM (\<lambda>c. c\<lparr>c_output_remaining := 0\<rparr>)) (returnM output))))))"

definition data_to_send :: "'s engine \<Rightarrow> 's conn pyobj \<Rightarrow> ('s, cell list) meth" where
  "data_to_send E amount = bindM (output_limit amount) (produce_output E)"

section \<open>The h2c settings payload\<close>

text \<open>
  A module function: it has no connection, only an allocator. The engine packs at most as many
  bytes as the array given to it.
\<close>

definition pack_settings_payload ::
  "'s engine \<Rightarrow> (unit \<Rightarrow> nat \<Rightarrow> bool) \<Rightarrow> unit pyobj \<Rightarrow> (unit, exc, byte list) py" where
  "pack_settings_payload E alloc settings =
     bindM (normalize_settings settings) (\<lambda>entries.
     bindM (getsM (\<lambda>w. entries = [] \<or> alloc w (length entries * 6))) (\<lambda>allocated.
       if \<not> allocated then raiseM MemoryError
       else if entries = [] then returnM []
       else bindM (make_settings alloc entries) (\<lambda>native.
         case eng_pack_settings_payload E (length entries * 6) native of
           (RcErr code, output) \<Rightarrow> raiseM (nghttp2_error code)
         | (RcOk n, output) \<Rightarrow>
             bindM (getsM (\<lambda>w. alloc w n)) (\<lambda>allocated.
               if \<not> allocated then raiseM MemoryError else returnM (take n output)))))"

text \<open>
  \<open>_random_bytes\<close> fills the destination with zeros first; \<open>None\<close> is a failed \<open>urandom\<close>.
\<close>

definition random_bytes :: "byte list option \<Rightarrow> nat \<Rightarrow> byte list" where
  "random_bytes urandom len =
     (case urandom of None \<Rightarrow> replicate len 0 | Some value \<Rightarrow> take len value)"

end
