(* ===== verification/Streams.thy ===== *)
theory Streams
  imports Connection
begin

text \<open>
  The methods of \<open>Connection\<close> (\<^verbatim>\<open>src/ngh2/_core.pyx\<close>) that act on one stream: requests, responses,
  trailers, push promises, body bytes, resets, and the queries about queued bodies. Each converts
  its arguments first, which can run application code, and checks the connection's state after
  that.
\<close>

section \<open>Header arguments\<close>

text \<open>\<open>_normalize_headers\<close> and \<open>_make_headers\<close>, as every submitting method calls them.\<close>

definition native_headers :: "'s engine \<Rightarrow> 's conn pyobj \<Rightarrow> ('s, nv list) meth" where
  "native_headers E headers =
     bindM (normalize_headers headers False) (\<lambda>items. make_headers (alloc_ok E) items)"

definition require_server :: "bool \<Rightarrow> ('s, unit) meth" where
  "require_server wanted =
     bindM (getsM c_server) (\<lambda>server. raise_if (server \<noteq> wanted) ConnectionStateError)"

definition open_body :: "int \<Rightarrow> ('s, unit) meth" where
  "open_body stream_id = modifyM (\<lambda>c. c\<lparr>c_bodies := (c_bodies c)(stream_id \<mapsto> new_body)\<rparr>)"

text \<open>An identifier returned by a submit call: negative results are raised.\<close>

definition native_id :: "'s engine \<Rightarrow> status \<Rightarrow> ('s, int) meth" where
  "native_id E result =
     thenM (check_native E result)
       (returnM (case result of RcOk n \<Rightarrow> int n | RcErr e \<Rightarrow> -1))"

section \<open>Submitting messages\<close>

definition send_request :: "'s engine \<Rightarrow> 's conn pyobj \<Rightarrow> 's conn pyobj \<Rightarrow> ('s, int) meth" where
  "send_request E headers end_stream_arg =
     bindM (truth end_stream_arg) (\<lambda>end_stream.
     bindM (native_headers E headers) (\<lambda>native.
     thenM require_active
     (thenM (require_server False)
     (bindM (native_query (eng_session_check_request_allowed E)) (\<lambda>allowed.
     thenM (raise_if (\<not> allowed) ConnectionClosingError)
     (bindM (native_call (eng_submit_request E native (\<not> end_stream))) (\<lambda>result.
      bindM (native_id E result) (\<lambda>stream_id.
      thenM (whenM (\<not> end_stream) (open_body stream_id)) (returnM stream_id)))))))))"

definition send_response ::
  "'s engine \<Rightarrow> 's conn pyobj \<Rightarrow> 's conn pyobj \<Rightarrow> 's conn pyobj \<Rightarrow> ('s, unit) meth" where
  "send_response E stream_id_arg headers end_stream_arg =
     bindM (truth end_stream_arg) (\<lambda>end_stream.
     bindM (conv_stream_id stream_id_arg) (\<lambda>stream_id.
     bindM (native_headers E headers) (\<lambda>native.
     thenM require_active
     (thenM (require_server True)
     (thenM (require_stream E stream_id)
     (bindM (getsM c_responses) (\<lambda>responses.
     thenM (raise_if (stream_id \<in> responses) StreamStateError)
     (bindM (native_call (eng_submit_response E stream_id native (\<not> end_stream))) (\<lambda>result.
      thenM (check_native E result)
      (thenM (modifyM (\<lambda>c. c\<lparr>c_responses := insert stream_id (c_responses c)\<rparr>))
        (whenM (\<not> end_stream) (open_body stream_id))))))))))))"

definition send_informational_response ::
  "'s engine \<Rightarrow> 's conn pyobj \<Rightarrow> 's conn pyobj \<Rightarrow> ('s, unit) meth" where
  "send_informational_response E stream_id_arg headers =
     bindM (conv_stream_id stream_id_arg) (\<lambda>stream_id.
     bindM (native_headers E headers) (\<lambda>native.
     thenM require_active
     (thenM (require_server True)
     (thenM (require_stream E stream_id)
     (bindM (getsM c_responses) (\<lambda>responses.
     thenM (raise_if (stream_id \<in> responses) StreamStateError)
     (bindM (native_call (eng_submit_headers E stream_id native)) (check_native E))))))))"

definition send_push_promise ::
  "'s engine \<Rightarrow> 's conn pyobj \<Rightarrow> 's conn pyobj \<Rightarrow> ('s, int) meth" where
  "send_push_promise E stream_id_arg headers =
     bindM (conv_stream_id stream_id_arg) (\<lambda>stream_id.
     bindM (native_headers E headers) (\<lambda>native.
     thenM require_active
     (thenM (require_server True)
     (thenM (require_stream E stream_id)
     (bindM (native_call (eng_submit_push_promise E stream_id native)) (native_id E))))))"

section \<open>Bodies\<close>

text \<open>\<open>resume_data\<close> for a deferred body, which is no longer deferred when it succeeds.\<close>

definition resume_body :: "'s engine \<Rightarrow> int \<Rightarrow> ('s, unit) meth" where
  "resume_body E stream_id =
     bindM (native_call (eng_session_resume_data E stream_id)) (\<lambda>result.
     thenM (check_native E result) (update_body stream_id (\<lambda>b. b\<lparr>deferred := False\<rparr>)))"

text \<open>
  Trailers stay queued, so they are normalised to frozen fields; the items that result hold no
  application code.
\<close>

definition send_trailers :: "'s engine \<Rightarrow> 's conn pyobj \<Rightarrow> 's conn pyobj \<Rightarrow> ('s, unit) meth" where
  "send_trailers E stream_id_arg headers =
     bindM (conv_stream_id stream_id_arg) (\<lambda>stream_id.
     bindM (normalize_headers headers True) (\<lambda>normalized.
     thenM require_active
     (bindM (getsM (\<lambda>c. c_bodies c stream_id)) (\<lambda>found.
      case found of None \<Rightarrow> raiseM StreamStateError | Some body \<Rightarrow>
      thenM (raise_if (ended body) StreamStateError)
      (thenM (update_body stream_id (\<lambda>b. b\<lparr>trailers := Some (List.map_filter freeze_header normalized),
                                         ended := True\<rparr>))
        (whenM (deferred body) (resume_body E stream_id)))))))"

definition body_chunk :: "'s engine \<Rightarrow> 's conn pyobj \<Rightarrow> ('s, byte list) meth" where
  "body_chunk E data =
     (case data of
        PyBytes exact bs \<Rightarrow> if exact then returnM bs else new_bytes E bs
      | PyByteArray bs \<Rightarrow> new_bytes E bs
      | PyByteArraySub h bs \<Rightarrow> h
      | PyMemoryView contiguous bs \<Rightarrow> new_bytes E bs
      | _ \<Rightarrow> raiseM TypeError)"

definition queue_chunk :: "int \<Rightarrow> byte list \<Rightarrow> bool \<Rightarrow> ('s, unit) meth" where
  "queue_chunk stream_id chunk end_stream =
     thenM (update_body stream_id (\<lambda>b. (append_chunk chunk b)\<lparr>ended := end_stream\<rparr>))
       (whenM (chunk \<noteq> [])
         (modifyM (\<lambda>c. c\<lparr>c_queued_body_size := c_queued_body_size c + of_nat (length chunk)\<rparr>)))"

definition send_data ::
  "'s engine \<Rightarrow> 's conn pyobj \<Rightarrow> 's conn pyobj \<Rightarrow> 's conn pyobj \<Rightarrow> ('s, unit) meth" where
  "send_data E stream_id_arg data end_stream_arg =
     bindM (truth end_stream_arg) (\<lambda>end_stream.
     bindM (conv_stream_id stream_id_arg) (\<lambda>stream_id.
     bindM (body_chunk E data) (\<lambda>chunk.
     thenM require_active
     (bindM (getsM (\<lambda>c. c_bodies c stream_id)) (\<lambda>found.
      case found of None \<Rightarrow> raiseM StreamStateError | Some body \<Rightarrow>
      thenM (raise_if (ended body) StreamStateError)
      (thenM (queue_chunk stream_id chunk end_stream)
        (whenM (deferred body \<and> (chunk \<noteq> [] \<or> end_stream)) (resume_body E stream_id))))))))"

definition end_stream :: "'s engine \<Rightarrow> 's conn pyobj \<Rightarrow> ('s, unit) meth" where
  "end_stream E stream_id_arg = send_data E stream_id_arg (PyBytes True []) (PyBool True)"

section \<open>Resets\<close>

text \<open>Whether the local direction of a stream is ended although the engine has not sent it all.\<close>

definition locally_ended :: "int \<Rightarrow> 's conn \<Rightarrow> bool" where
  "locally_ended stream_id c =
     (case c_bodies c stream_id of
        Some body \<Rightarrow> ended body
      | None \<Rightarrow> \<not> c_server c \<or> stream_id \<in> c_responses c)"

definition submit_reset :: "'s engine \<Rightarrow> int \<Rightarrow> int \<Rightarrow> ('s, unit) meth" where
  "submit_reset E stream_id error_code =
     bindM (native_call (eng_submit_rst_stream E stream_id error_code)) (check_native E)"

definition reset_stream ::
  "'s engine \<Rightarrow> 's conn pyobj \<Rightarrow> 's conn pyobj \<Rightarrow> 's conn pyobj \<Rightarrow> ('s, unit) meth" where
  "reset_stream E stream_id_arg error_code_arg after_end_stream_arg =
     bindM (truth after_end_stream_arg) (\<lambda>after_end_stream.
     bindM (conv_stream_id stream_id_arg) (\<lambda>stream_id.
     bindM (conv_uint32 error_code_arg) (\<lambda>error_code.
     thenM require_active
     (if \<not> after_end_stream then submit_reset E stream_id error_code
      else thenM (require_stream E stream_id)
        (bindM (native_query (eng_session_get_stream_local_close E stream_id)) (\<lambda>closed.
          if closed \<noteq> 0 then submit_reset E stream_id error_code
          else bindM (getsM (locally_ended stream_id)) (\<lambda>ended.
            if \<not> ended then raiseM StreamStateError
            else modifyM (\<lambda>c. c\<lparr>c_deferred_resets :=
                   (c_deferred_resets c)(stream_id \<mapsto> error_code)\<rparr>))))))))"

section \<open>Queries\<close>

definition queued_body_size_of :: "'s conn pyobj \<Rightarrow> ('s, int) meth" where
  "queued_body_size_of stream_id_arg =
     (if is_none stream_id_arg then getsM (\<lambda>c. uint (c_queued_body_size c))
      else bindM (conv_stream_id stream_id_arg) (\<lambda>stream_id.
        getsM (\<lambda>c. case c_bodies c stream_id of
            None \<Rightarrow> 0 | Some body \<Rightarrow> uint (queued_size body))))"

end
