(* ===== verification/Control.thy ===== *)
theory Control
  imports Streams
begin

text \<open>
  The connection-level methods of \<open>Connection\<close> (\<^verbatim>\<open>src/ngh2/_core.pyx\<close>): SETTINGS, PING, GOAWAY,
  termination, receive flow control, extensible priorities, ALTSVC, ORIGIN, and the properties
  and queries.
\<close>

section \<open>SETTINGS, PING, GOAWAY\<close>

definition update_settings :: "'s engine \<Rightarrow> 's conn pyobj \<Rightarrow> ('s, unit) meth" where
  "update_settings E settings =
     bindM (normalize_settings settings) (\<lambda>entries.
     thenM require_active
     (bindM (native_settings E entries) (\<lambda>native.
      bindM (native_call (eng_submit_settings E native)) (check_native E))))"

definition send_ping :: "'s engine \<Rightarrow> 's conn pyobj \<Rightarrow> ('s, unit) meth" where
  "send_ping E opaque_data =
     thenM require_active
     (case bytes_check opaque_data of None \<Rightarrow> raiseM TypeError | Some bs \<Rightarrow>
      thenM (raise_if (length bs \<noteq> 8) ValueError)
        (bindM (native_call (eng_submit_ping E bs)) (check_native E)))"

definition optional_stream_id :: "'s conn pyobj \<Rightarrow> ('s, int option) meth" where
  "optional_stream_id v =
     (if is_none v then returnM None else bindM (conv_uint31 v) (\<lambda>n. returnM (Some n)))"

definition send_goaway ::
  "'s engine \<Rightarrow> 's conn pyobj \<Rightarrow> 's conn pyobj \<Rightarrow> 's conn pyobj \<Rightarrow> ('s, unit) meth" where
  "send_goaway E error_code_arg last_stream_id_arg debug_data =
     bindM (conv_uint32 error_code_arg) (\<lambda>error_code.
     bindM (optional_stream_id last_stream_id_arg) (\<lambda>last_stream_id.
     case bytes_check debug_data of None \<Rightarrow> raiseM TypeError | Some debug \<Rightarrow>
     thenM require_active
     (bindM (case last_stream_id of
               None \<Rightarrow> native_query (eng_session_get_last_proc_stream_id E)
             | Some n \<Rightarrow> returnM n) (\<lambda>last.
      bindM (native_call (eng_submit_goaway E last error_code debug)) (check_native E)))))"

definition send_shutdown_notice :: "'s engine \<Rightarrow> ('s, unit) meth" where
  "send_shutdown_notice E =
     thenM require_active
     (thenM (require_server True)
       (bindM (native_call (eng_submit_shutdown_notice E)) (check_native E)))"

definition terminate_connection ::
  "'s engine \<Rightarrow> 's conn pyobj \<Rightarrow> 's conn pyobj \<Rightarrow> ('s, unit) meth" where
  "terminate_connection E error_code_arg last_stream_id_arg =
     bindM (conv_uint32 error_code_arg) (\<lambda>error_code.
     bindM (optional_stream_id last_stream_id_arg) (\<lambda>last_stream_id.
     thenM require_active
     (bindM (native_call (case last_stream_id of
               None \<Rightarrow> eng_session_terminate_session E error_code
             | Some n \<Rightarrow> eng_session_terminate_session2 E n error_code)) (\<lambda>result.
      thenM (check_native E result)
        (modifyM (\<lambda>c. discard_pending_state (c\<lparr>c_terminating := True, c_closing := True\<rparr>)))))))"

section \<open>Receive flow control\<close>

definition consume_received_data ::
  "'s engine \<Rightarrow> 's conn pyobj \<Rightarrow> 's conn pyobj \<Rightarrow> ('s, unit) meth" where
  "consume_received_data E stream_id_arg amount_arg =
     bindM (conv_stream_id stream_id_arg) (\<lambda>stream_id.
     bindM (conv_nonnegative_size amount_arg) (\<lambda>amount.
     thenM require_active
     (bindM (getsM id) (\<lambda>c.
      if c_auto_window_update c then raiseM ConnectionStateError
      else if amount = 0 then returnM ()
      else
        (let remaining = (case c_unconsumed c stream_id of None \<Rightarrow> 0 | Some n \<Rightarrow> n) - amount in
         if remaining < 0 then raiseM ValueError
         else bindM (native_call (eng_session_consume E stream_id amount)) (\<lambda>result.
           thenM (check_native E result)
             (modifyM (\<lambda>c. c\<lparr>c_unconsumed := (c_unconsumed c)(stream_id :=
                (if remaining \<noteq> 0 then Some remaining else None))\<rparr>))))))))"

definition set_local_window_size ::
  "'s engine \<Rightarrow> 's conn pyobj \<Rightarrow> 's conn pyobj \<Rightarrow> ('s, unit) meth" where
  "set_local_window_size E window_size_arg stream_id_arg =
     bindM (conv_uint31 window_size_arg) (\<lambda>window_size.
     bindM (conv_uint31 stream_id_arg) (\<lambda>stream_id.
     thenM require_active
     (thenM (if stream_id \<noteq> 0 then require_stream E stream_id else returnM ())
       (bindM (native_call (eng_session_set_local_window_size E stream_id window_size))
         (check_native E)))))"

section \<open>Priorities\<close>

definition send_priority_update ::
  "'s engine \<Rightarrow> 's conn pyobj \<Rightarrow> 's conn pyobj \<Rightarrow> ('s, bool) meth" where
  "send_priority_update E stream_id_arg field_value =
     bindM (conv_stream_id stream_id_arg) (\<lambda>stream_id.
     thenM require_active
     (thenM (require_server False)
     (bindM (native_query (eng_session_get_remote_settings E 9)) (\<lambda>disabled.
      if disabled = 0 then returnM False
      else (case bytes_check field_value of None \<Rightarrow> raiseM TypeError | Some bs \<Rightarrow>
        bindM (native_call (eng_submit_priority_update E stream_id bs)) (\<lambda>result.
        thenM (check_native E result) (returnM True)))))))"

definition set_stream_priority ::
  "'s engine \<Rightarrow> 's conn pyobj \<Rightarrow> 's conn pyobj \<Rightarrow> 's conn pyobj \<Rightarrow> ('s, bool) meth" where
  "set_stream_priority E stream_id_arg priority ignore_client_signal =
     bindM (truth ignore_client_signal) (\<lambda>ignore.
     bindM (conv_stream_id stream_id_arg) (\<lambda>stream_id.
     case priority of
       PyPriority urgency incremental \<Rightarrow>
         bindM (conv_uint32 urgency) (\<lambda>native_urgency.
         bindM (truth incremental) (\<lambda>native_inc.
         thenM require_active
         (thenM (require_server True)
         (bindM (getsM c_local_extensible_priority) (\<lambda>enabled.
          if \<not> enabled then returnM False
          else thenM (require_stream E stream_id)
            (bindM (native_call (eng_session_change_extpri_stream_priority E stream_id
                 native_urgency native_inc ignore)) (\<lambda>result.
             thenM (check_native E result) (returnM True))))))))
     | _ \<Rightarrow> raiseM TypeError))"

definition get_stream_priority ::
  "'s engine \<Rightarrow> 's conn pyobj \<Rightarrow> ('s, (int \<times> bool) option) meth" where
  "get_stream_priority E stream_id_arg =
     bindM (conv_stream_id stream_id_arg) (\<lambda>stream_id.
     thenM require_active
     (thenM (require_server True)
     (bindM (getsM c_local_extensible_priority) (\<lambda>enabled.
      if \<not> enabled then returnM None
      else thenM (require_stream E stream_id)
        (bindM (native_query (eng_session_get_extpri_stream_priority E stream_id))
          (\<lambda>p. returnM (Some p)))))))"

section \<open>Extension frames\<close>

definition send_alt_svc ::
  "'s engine \<Rightarrow> 's conn pyobj \<Rightarrow> 's conn pyobj \<Rightarrow> 's conn pyobj \<Rightarrow> ('s, unit) meth" where
  "send_alt_svc E field_value stream_id_arg origin =
     bindM (conv_uint31 stream_id_arg) (\<lambda>stream_id.
     case bytes_check field_value of None \<Rightarrow> raiseM TypeError | Some field_bytes \<Rightarrow>
     (case bytes_check origin of None \<Rightarrow> raiseM TypeError | Some origin_bytes \<Rightarrow>
     thenM require_active
     (thenM (require_server True)
       (bindM (native_call (eng_submit_altsvc E stream_id origin_bytes field_bytes))
         (check_native E)))))"

definition ORIGIN_ENTRY_SIZE :: nat where
  "ORIGIN_ENTRY_SIZE = 16"

definition send_origins :: "'s engine \<Rightarrow> 's conn pyobj \<Rightarrow> ('s, unit) meth" where
  "send_origins E origins =
     bindM (for_each origins (\<lambda>value. case bytes_check value of
         None \<Rightarrow> raiseM TypeError | Some bs \<Rightarrow> returnM bs)) (\<lambda>values.
     thenM require_active
     (thenM (require_server True)
     (bindM (getsM (\<lambda>c. values = [] \<or> alloc_ok E c (length values * ORIGIN_ENTRY_SIZE))) (\<lambda>allocated.
      thenM (raise_if (\<not> allocated) MemoryError)
        (bindM (native_call (eng_submit_origin E values)) (check_native E))))))"

section \<open>Properties and queries\<close>

definition want_read :: "'s engine \<Rightarrow> ('s, bool) meth" where
  "want_read E = thenM require_drivable (native_query (eng_session_want_read E))"

definition want_write :: "'s engine \<Rightarrow> ('s, bool) meth" where
  "want_write E = thenM require_drivable (native_query (eng_session_want_write E))"

definition next_stream_id :: "'s engine \<Rightarrow> ('s, int) meth" where
  "next_stream_id E = thenM require_active (native_query (eng_session_get_next_stream_id E))"

definition can_send_request :: "'s engine \<Rightarrow> ('s, bool) meth" where
  "can_send_request E =
     thenM require_drivable
     (bindM (getsM c_terminating) (\<lambda>terminating.
      if terminating then returnM False
      else native_query (eng_session_check_request_allowed E)))"

definition remote_window_size :: "'s engine \<Rightarrow> 's conn pyobj \<Rightarrow> ('s, int) meth" where
  "remote_window_size E stream_id_arg =
     bindM (conv_uint31 stream_id_arg) (\<lambda>stream_id.
     thenM require_active
     (if stream_id = 0 then native_query (eng_session_get_remote_window_size E)
      else thenM (require_stream E stream_id)
        (native_query (eng_session_get_stream_remote_window_size E stream_id))))"

definition local_window_size :: "'s engine \<Rightarrow> 's conn pyobj \<Rightarrow> ('s, int) meth" where
  "local_window_size E stream_id_arg =
     bindM (conv_uint31 stream_id_arg) (\<lambda>stream_id.
     thenM require_active
     (if stream_id = 0 then native_query (eng_session_get_local_window_size E)
      else thenM (require_stream E stream_id)
        (native_query (eng_session_get_stream_local_window_size E stream_id))))"

definition settings_snapshot :: "(int \<Rightarrow> 's \<Rightarrow> int) \<Rightarrow> 's \<Rightarrow> (setting \<times> int) list" where
  "settings_snapshot get s = map (\<lambda>k. (k, get (setting_value k) s)) all_settings"

definition local_settings :: "'s engine \<Rightarrow> ('s, (setting \<times> int) list) meth" where
  "local_settings E =
     thenM require_active (native_query (settings_snapshot (eng_session_get_local_settings E)))"

definition remote_settings :: "'s engine \<Rightarrow> ('s, (setting \<times> int) list) meth" where
  "remote_settings E =
     thenM require_active (native_query (settings_snapshot (eng_session_get_remote_settings E)))"

end
