(* ===== verification/Contract.thy ===== *)
theory Contract
  imports Control
begin

text \<open>
  What the binding relies on libnghttp2 for, as a predicate \<open>engine_ok\<close> on the parameter: the
  documented behaviour of the declarations in \<^verbatim>\<open>src/ngh2/_nghttp2.pxd\<close>. A failed callback aborts
  the call that ran it, the buffers passed to callbacks are C objects, and stream identifiers of
  requests increase. \<open>Demo\<close> has a concrete library that meets the contract; the witnesses of the
  properties run it.
\<close>

section \<open>What callbacks are given\<close>

text \<open>
  Buffers passed to a callback are no larger than a C object can be; the frame header passed to
  the send-data callback has its nine bytes.
\<close>

fun call_ok :: "call \<Rightarrow> bool" where
  "call_ok (SendBody frame header len) \<longleftrightarrow> length header = 9"
| "call_ok (DataChunk sid data) \<longleftrightarrow> length data \<le> SSIZE_MAX"
| "call_ok (BeginFrame type len sid) \<longleftrightarrow> len < 2 ^ 24"
| "call_ok (HeaderField name value no_index) \<longleftrightarrow> length name + length value + 32 \<le> SSIZE_MAX"
| "call_ok _ \<longleftrightarrow> True"

section \<open>How library calls proceed\<close>

text \<open>
  The next identifier of a locally opened stream never decreases, whatever the library or a
  callback does to the session. A call whose callback answers \<open>NGHTTP2_ERR_CALLBACK_FAILURE\<close>
  returns that code without running another callback.
\<close>

definition next_id :: "'s engine \<Rightarrow> 's \<Rightarrow> int" where
  "next_id E s = eng_session_get_next_stream_id E s"

primrec run_ok :: "'s engine \<Rightarrow> 's run \<Rightarrow> int \<Rightarrow> bool" where
  "run_ok E (Return rc s) = (\<lambda>n. n \<le> next_id E s)"
| "run_ok E (Invoke q s k) = (\<lambda>n. n \<le> next_id E s \<and> call_ok q \<and>
     (\<forall>ans s'. next_id E s \<le> next_id E s' \<longrightarrow>
        (if ans_rc ans = RcErr ERR_CALLBACK_FAILURE
         then \<exists>s''. k ans s' = Return (RcErr ERR_CALLBACK_FAILURE) s'' \<and> next_id E s' \<le> next_id E s''
         else run_ok E (k ans s') (next_id E s'))))"

definition runs_ok :: "'s engine \<Rightarrow> ('s \<Rightarrow> 's run) \<Rightarrow> bool" where
  "runs_ok E f \<longleftrightarrow> (\<forall>s. run_ok E (f s) (next_id E s))"

definition advances :: "'s engine \<Rightarrow> ('s \<Rightarrow> status \<times> 's) \<Rightarrow> bool" where
  "advances E f \<longleftrightarrow> (\<forall>s. next_id E s \<le> next_id E (snd (f s)))"

definition engine_ok :: "'s engine \<Rightarrow> bool" where
  "engine_ok E \<longleftrightarrow>
     runs_ok E (eng_session_send E) \<and>
     (\<forall>data. runs_ok E (eng_session_mem_recv E data)) \<and>
     (\<forall>payload head. runs_ok E (eng_session_upgrade E payload head)) \<and>
     (\<forall>i. advances E (eng_session_resume_data E i)) \<and>
     (\<forall>iv. advances E (eng_submit_settings E iv)) \<and>
     (\<forall>nva prd. advances E (eng_submit_request E nva prd)) \<and>
     (\<forall>i nva prd. advances E (eng_submit_response E i nva prd)) \<and>
     (\<forall>i nva. advances E (eng_submit_headers E i nva)) \<and>
     (\<forall>i nva. advances E (eng_submit_trailer E i nva)) \<and>
     (\<forall>i nva. advances E (eng_submit_push_promise E i nva)) \<and>
     (\<forall>i code. advances E (eng_submit_rst_stream E i code)) \<and>
     (\<forall>data. advances E (eng_submit_ping E data)) \<and>
     (\<forall>i code data. advances E (eng_submit_goaway E i code data)) \<and>
     (\<forall>i n. advances E (eng_session_consume E i n)) \<and>
     (\<forall>n. advances E (eng_session_consume_connection E n)) \<and>
     advances E (eng_submit_shutdown_notice E) \<and>
     (\<forall>code. advances E (eng_session_terminate_session E code)) \<and>
     (\<forall>i code. advances E (eng_session_terminate_session2 E i code)) \<and>
     (\<forall>i n. advances E (eng_session_set_local_window_size E i n)) \<and>
     (\<forall>i origin value. advances E (eng_submit_altsvc E i origin value)) \<and>
     (\<forall>origins. advances E (eng_submit_origin E origins)) \<and>
     (\<forall>i value. advances E (eng_submit_priority_update E i value)) \<and>
     (\<forall>i u inc ign. advances E (eng_session_change_extpri_stream_priority E i u inc ign)) \<and>
     (\<forall>nva prd s n s'. eng_submit_request E nva prd s = (RcOk n, s') \<longrightarrow>
        next_id E s \<le> int n \<and> int n < next_id E s')"

lemma engine_okD:
  assumes "engine_ok E"
  shows engine_ok_send: "runs_ok E (eng_session_send E)"
    and engine_ok_recv: "runs_ok E (eng_session_mem_recv E data)"
    and engine_ok_upgrade: "runs_ok E (eng_session_upgrade E payload hd_req)"
    and engine_ok_request: "eng_submit_request E nva prd s = (RcOk n, s') \<Longrightarrow>
        next_id E s \<le> int n \<and> int n < next_id E s'"
  using assms by (simp_all add: engine_ok_def)

text \<open>The calls that run no callback, as facts about the session after them.\<close>

lemma engine_ok_advances:
  assumes "engine_ok E"
  shows "next_id E s \<le> next_id E (snd (eng_session_resume_data E i s))"
    "next_id E s \<le> next_id E (snd (eng_submit_settings E iv s))"
    "next_id E s \<le> next_id E (snd (eng_submit_request E nva prd s))"
    "next_id E s \<le> next_id E (snd (eng_submit_response E i nva prd s))"
    "next_id E s \<le> next_id E (snd (eng_submit_headers E i nva s))"
    "next_id E s \<le> next_id E (snd (eng_submit_trailer E i nva s))"
    "next_id E s \<le> next_id E (snd (eng_submit_push_promise E i nva s))"
    "next_id E s \<le> next_id E (snd (eng_submit_rst_stream E i code s))"
    "next_id E s \<le> next_id E (snd (eng_submit_ping E data s))"
    "next_id E s \<le> next_id E (snd (eng_submit_goaway E i code data s))"
    "next_id E s \<le> next_id E (snd (eng_session_consume E i a s))"
    "next_id E s \<le> next_id E (snd (eng_session_consume_connection E m s))"
    "next_id E s \<le> next_id E (snd (eng_submit_shutdown_notice E s))"
    "next_id E s \<le> next_id E (snd (eng_session_terminate_session E code s))"
    "next_id E s \<le> next_id E (snd (eng_session_terminate_session2 E i code s))"
    "next_id E s \<le> next_id E (snd (eng_session_set_local_window_size E i a s))"
    "next_id E s \<le> next_id E (snd (eng_submit_altsvc E i data data' s))"
    "next_id E s \<le> next_id E (snd (eng_submit_origin E origins s))"
    "next_id E s \<le> next_id E (snd (eng_submit_priority_update E i data s))"
    "next_id E s \<le> next_id E (snd (eng_session_change_extpri_stream_priority E i a inc ign s))"
  using assms unfolding engine_ok_def advances_def by simp_all

end
