(* ===== verification/Demo.thy ===== *)
theory Demo
  imports Contract
begin

text \<open>
  A small concrete library that meets the contract of \<open>Contract\<close>. The witnesses of the properties
  instantiate the engine with it. It serialises a submitted frame as one byte, sends one DATA frame
  per stream and call, and takes the input of \<open>session_mem_recv\<close> for the payload of a DATA frame
  of stream 1.
\<close>

record demo =
  dm_next :: int
  dm_out :: "byte list"
  dm_streams :: "int list"
  dm_open :: bool

definition demo_queue :: "byte list \<Rightarrow> demo \<Rightarrow> status \<times> demo" where
  "demo_queue bs s = (RcOk 0, s\<lparr>dm_out := dm_out s @ bs\<rparr>)"

definition blank_frame :: "frame_type \<Rightarrow> int \<Rightarrow> bool \<Rightarrow> frame" where
  "blank_frame type sid ends = \<lparr>hd_type = type, hd_stream_id = sid, hd_end_stream = ends,
     hd_ack = False, data_padlen = 0, headers_cat = HCAT_REQUEST, promised_stream_id = 0,
     settings_iv = [], rst_error_code = 0, ping_opaque_data = [], window_size_increment = 0,
     goaway_last_stream_id = 0, goaway_error_code = 0, goaway_opaque_data = [],
     altsvc_origin = [], altsvc_field_value = [], origin_ov = [], priority_stream_id = 0,
     priority_field_value = []\<rparr>"

text \<open>What follows a callback: nothing when it failed.\<close>

definition after :: "answer \<Rightarrow> demo \<Rightarrow> demo run \<Rightarrow> demo run" where
  "after ans s k = (if ans_rc ans = RcErr ERR_CALLBACK_FAILURE
     then Return (RcErr ERR_CALLBACK_FAILURE) s else k)"

definition demo_body :: "int \<Rightarrow> demo \<Rightarrow> demo run" where
  "demo_body sid s =
     Invoke (ReadBody sid 16384) s (\<lambda>ans s. after ans s (case ans_rc ans of
       RcErr e \<Rightarrow> Return (RcOk 0) s
     | RcOk n \<Rightarrow>
         if ans_no_copy ans then
           Invoke (SendBody (blank_frame FT_DATA sid (ans_eof ans)) (replicate 9 0) n) s (\<lambda>ans' s.
             after ans' s (Invoke (FrameSent (blank_frame FT_DATA sid (ans_eof ans))) s (\<lambda>ans'' s.
               after ans'' s (Return (RcOk 0) s))))
         else Return (RcOk 0) (s\<lparr>dm_out := dm_out s @ replicate 9 0 @ ans_buffer ans\<rparr>)))"

definition demo_send :: "demo \<Rightarrow> demo run" where
  "demo_send s =
     (if dm_out s \<noteq> [] then
        Invoke (CollectOutput (dm_out s)) s (\<lambda>ans s. after ans s (case ans_rc ans of
          RcErr e \<Rightarrow> Return (RcOk 0) s
        | RcOk n \<Rightarrow> Return (RcOk 0) (s\<lparr>dm_out := drop n (dm_out s)\<rparr>)))
      else case dm_streams s of
        [] \<Rightarrow> Return (RcOk 0) s
      | sid # rest \<Rightarrow> demo_body sid s)"

definition demo_recv :: "byte list \<Rightarrow> demo \<Rightarrow> demo run" where
  "demo_recv bs s =
     (if length bs < 16384 then
        Invoke (BeginFrame FT_DATA (length bs) 1) s (\<lambda>ans s. after ans s
          (Invoke (DataChunk 1 bs) s (\<lambda>ans s. after ans s
            (Invoke (FrameReceived (blank_frame FT_DATA 1 False)) s (\<lambda>ans s. after ans s
              (Return (RcOk (length bs)) s))))))
      else Return (RcErr ERR_PROTO) s)"

definition demo :: "demo engine" where
  "demo = \<lparr>eng_alloc = \<lambda>s n. n \<le> 2 ^ 40,
     eng_is_fatal = \<lambda>e. e \<in> {ERR_NOMEM, ERR_CALLBACK_FAILURE, ERR_BAD_CLIENT_MAGIC, ERR_FLOODED},
     eng_callbacks_new = RcOk 0,
     eng_option_new = RcOk 0,
     eng_session_new = \<lambda>server opts. (RcOk 0,
       \<lparr>dm_next = (if server then 2 else 1), dm_out = [], dm_streams = [], dm_open = True\<rparr>),
     eng_session_send = demo_send,
     eng_session_mem_recv = demo_recv,
     eng_session_upgrade = \<lambda>payload head s. Return (RcOk 0) s,
     eng_session_resume_data = \<lambda>i s. (RcOk 0, s),
     eng_submit_settings = \<lambda>iv. demo_queue [4],
     eng_submit_request = \<lambda>nva prd s. (RcOk (nat (max 1 (dm_next s))),
       s\<lparr>dm_next := max 1 (dm_next s) + 2, dm_out := dm_out s @ [1],
         dm_streams := (if prd then [dm_next s] else []) @ dm_streams s\<rparr>),
     eng_submit_response = \<lambda>i nva prd s. (RcOk 0,
       s\<lparr>dm_out := dm_out s @ [1], dm_streams := (if prd then [i] else []) @ dm_streams s\<rparr>),
     eng_submit_headers = \<lambda>i nva. demo_queue [1],
     eng_submit_trailer = \<lambda>i nva. demo_queue [1],
     eng_submit_push_promise = \<lambda>i nva. demo_queue [5],
     eng_submit_rst_stream = \<lambda>i code. demo_queue [3],
     eng_submit_ping = \<lambda>data. demo_queue [6],
     eng_submit_goaway = \<lambda>i code data. demo_queue [7],
     eng_session_consume = \<lambda>i n. demo_queue [8],
     eng_session_consume_connection = \<lambda>n. demo_queue [8],
     eng_session_want_read = dm_open,
     eng_session_want_write = \<lambda>s. dm_out s \<noteq> [],
     eng_session_get_next_stream_id = dm_next,
     eng_session_check_request_allowed = dm_open,
     eng_session_get_last_proc_stream_id = \<lambda>s. 0,
     eng_submit_shutdown_notice = demo_queue [7],
     eng_session_terminate_session = \<lambda>code s.
       (RcOk 0, s\<lparr>dm_open := False, dm_out := dm_out s @ [7]\<rparr>),
     eng_session_terminate_session2 = \<lambda>i code s.
       (RcOk 0, s\<lparr>dm_open := False, dm_out := dm_out s @ [7]\<rparr>),
     eng_session_set_local_window_size = \<lambda>i n. demo_queue [8],
     eng_pack_settings_payload = \<lambda>len iv. (RcOk len, replicate len 0),
     eng_submit_altsvc = \<lambda>i origin value. demo_queue [10],
     eng_submit_origin = \<lambda>origins. demo_queue [12],
     eng_submit_priority_update = \<lambda>i value. demo_queue [16],
     eng_session_change_extpri_stream_priority = \<lambda>i u inc ign s. (RcOk 0, s),
     eng_session_get_extpri_stream_priority = \<lambda>i s. (3, False),
     eng_session_get_remote_window_size = \<lambda>s. 65535,
     eng_session_get_stream_remote_window_size = \<lambda>i s. 65535,
     eng_session_get_local_window_size = \<lambda>s. 65535,
     eng_session_get_stream_local_window_size = \<lambda>i s. 65535,
     eng_session_get_stream_local_close = \<lambda>i s. 0,
     eng_session_get_stream_remote_close = \<lambda>i s. 0,
     eng_session_get_local_settings = \<lambda>i s. 0,
     eng_session_get_remote_settings = \<lambda>i s. 0\<rparr>"

section \<open>It meets the contract\<close>

lemma demo_sel [simp]:
  "eng_alloc demo = (\<lambda>s n. n \<le> 2 ^ 40)"
  "eng_is_fatal demo =
     (\<lambda>e. e \<in> {ERR_NOMEM, ERR_CALLBACK_FAILURE, ERR_BAD_CLIENT_MAGIC, ERR_FLOODED})"
  "eng_callbacks_new demo = (RcOk 0)"
  "eng_option_new demo = (RcOk 0)"
  "eng_session_new demo =
     (\<lambda>server opts. (RcOk 0, \<lparr>dm_next = (if server then 2 else 1), dm_out = [], dm_streams = [], dm_open = True\<rparr>))"
  "eng_session_send demo = (demo_send)"
  "eng_session_mem_recv demo = (demo_recv)"
  "eng_session_upgrade demo = (\<lambda>payload head s. Return (RcOk 0) s)"
  "eng_session_resume_data demo = (\<lambda>i s. (RcOk 0, s))"
  "eng_submit_settings demo = (\<lambda>iv. demo_queue [4])"
  "eng_submit_request demo =
     (\<lambda>nva prd s. (RcOk (nat (max 1 (dm_next s))), s\<lparr>dm_next := max 1 (dm_next s) + 2, dm_out := dm_out s @ [1], dm_streams := (if prd then [dm_next s] else []) @ dm_streams s\<rparr>))"
  "eng_submit_response demo =
     (\<lambda>i nva prd s. (RcOk 0, s\<lparr>dm_out := dm_out s @ [1], dm_streams := (if prd then [i] else []) @ dm_streams s\<rparr>))"
  "eng_submit_headers demo = (\<lambda>i nva. demo_queue [1])"
  "eng_submit_trailer demo = (\<lambda>i nva. demo_queue [1])"
  "eng_submit_push_promise demo = (\<lambda>i nva. demo_queue [5])"
  "eng_submit_rst_stream demo = (\<lambda>i code. demo_queue [3])"
  "eng_submit_ping demo = (\<lambda>data. demo_queue [6])"
  "eng_submit_goaway demo = (\<lambda>i code data. demo_queue [7])"
  "eng_session_consume demo = (\<lambda>i n. demo_queue [8])"
  "eng_session_consume_connection demo = (\<lambda>n. demo_queue [8])"
  "eng_session_want_read demo = (dm_open)"
  "eng_session_want_write demo = (\<lambda>s. dm_out s \<noteq> [])"
  "eng_session_get_next_stream_id demo = (dm_next)"
  "eng_session_check_request_allowed demo = (dm_open)"
  "eng_session_get_last_proc_stream_id demo = (\<lambda>s. 0)"
  "eng_submit_shutdown_notice demo = (demo_queue [7])"
  "eng_session_terminate_session demo =
     (\<lambda>code s. (RcOk 0, s\<lparr>dm_open := False, dm_out := dm_out s @ [7]\<rparr>))"
  "eng_session_terminate_session2 demo =
     (\<lambda>i code s. (RcOk 0, s\<lparr>dm_open := False, dm_out := dm_out s @ [7]\<rparr>))"
  "eng_session_set_local_window_size demo = (\<lambda>i n. demo_queue [8])"
  "eng_pack_settings_payload demo = (\<lambda>len iv. (RcOk len, replicate len 0))"
  "eng_submit_altsvc demo = (\<lambda>i origin value. demo_queue [10])"
  "eng_submit_origin demo = (\<lambda>origins. demo_queue [12])"
  "eng_submit_priority_update demo = (\<lambda>i value. demo_queue [16])"
  "eng_session_change_extpri_stream_priority demo = (\<lambda>i u inc ign s. (RcOk 0, s))"
  "eng_session_get_extpri_stream_priority demo = (\<lambda>i s. (3, False))"
  "eng_session_get_remote_window_size demo = (\<lambda>s. 65535)"
  "eng_session_get_stream_remote_window_size demo = (\<lambda>i s. 65535)"
  "eng_session_get_local_window_size demo = (\<lambda>s. 65535)"
  "eng_session_get_stream_local_window_size demo = (\<lambda>i s. 65535)"
  "eng_session_get_stream_local_close demo = (\<lambda>i s. 0)"
  "eng_session_get_stream_remote_close demo = (\<lambda>i s. 0)"
  "eng_session_get_local_settings demo = (\<lambda>i s. 0)"
  "eng_session_get_remote_settings demo = (\<lambda>i s. 0)"
  by (simp_all add: demo_def)

lemma next_id_demo [simp]: "next_id demo s = dm_next s"
  by (simp add: next_id_def)

lemma runs_ok_demo:
  "runs_ok demo demo_send" "runs_ok demo (demo_recv bs)" "runs_ok demo (Return rc)"
  by (auto simp: runs_ok_def demo_send_def demo_body_def demo_recv_def after_def SSIZE_MAX_def
      split: list.splits status.splits)

lemma engine_ok_demo: "engine_ok demo"
  unfolding engine_ok_def
  by (auto simp: advances_def demo_queue_def runs_ok_demo)

end
