(* ===== verification/Invariant.thy ===== *)
theory Invariant
  imports Demo
begin

text \<open>
  The class invariant of \<open>Connection\<close> (\<^verbatim>\<open>src/ngh2/_core.pyx\<close>), as a conjunction of predicates on
  groups of fields: the lifecycle flags, the configured limits, the open DATA payload, the header
  block being collected, the receive credits, the outbound bodies with their counter, and the
  pending events. \<open>conn_inv\<close> is what holds between two method calls, \<open>running\<close> what holds when
  the engine invokes a callback, and \<open>broken\<close> what is left after a callback has failed.
\<close>

section \<open>Groups of fields\<close>

text \<open>RFC 9113's size of a header list, as the binding counts it.\<close>

definition header_list_size :: "header list \<Rightarrow> nat" where
  "header_list_size hs = sum_list (map (\<lambda>h. length (header_name h) + length (header_value h) + 32) hs)"

definition headers_within :: "int \<Rightarrow> int \<Rightarrow> header list \<Rightarrow> bool" where
  "headers_within max_size max_count hs \<longleftrightarrow>
     int (header_list_size hs) \<le> max_size \<and> int (length hs) \<le> max_count"

fun event_ok :: "int \<Rightarrow> int \<Rightarrow> event \<Rightarrow> bool" where
  "event_ok m n (RequestReceived i hs e) \<longleftrightarrow> headers_within m n hs"
| "event_ok m n (ResponseReceived i hs e) \<longleftrightarrow> headers_within m n hs"
| "event_ok m n (InformationalResponseReceived i hs) \<longleftrightarrow> headers_within m n hs"
| "event_ok m n (TrailersReceived i hs) \<longleftrightarrow> headers_within m n hs"
| "event_ok m n (PushedStreamReceived i j hs) \<longleftrightarrow> headers_within m n hs"
| "event_ok m n (DataReceived i data e) \<longleftrightarrow> None \<notin> set data"
| "event_ok m n _ \<longleftrightarrow> True"

fun is_closing_event :: "event \<Rightarrow> bool" where
  "is_closing_event (ConnectionClosed code data) = True"
| "is_closing_event _ = False"

definition closings :: "event list \<Rightarrow> nat" where
  "closings es = length (filter is_closing_event es)"

text \<open>\<open>drained\<close>: the application has already been given \<open>ConnectionClosed\<close>.\<close>

definition events_ok :: "bool \<Rightarrow> bool \<Rightarrow> int \<Rightarrow> int \<Rightarrow> event list \<Rightarrow> bool" where
  "events_ok seen closed max_size max_count es \<longleftrightarrow>
     list_all (event_ok max_size max_count) es \<and>
     closings es \<le> (if closed \<and> \<not> seen then 1 else 0) \<and> (seen \<longrightarrow> closed)"

definition block_ok :: "int \<Rightarrow> int \<Rightarrow> size_t \<Rightarrow> header list \<Rightarrow> bool" where
  "block_ok max_size max_count filled hs \<longleftrightarrow>
     header_list_size hs \<le> unat filled \<and> unat filled \<le> nat max_size \<and> int (length hs) \<le> max_count"

definition payload_ok :: "cell list option \<Rightarrow> nat \<Rightarrow> bool" where
  "payload_ok payload filled \<longleftrightarrow> (case payload of
       None \<Rightarrow> filled = 0
     | Some p \<Rightarrow> filled \<le> length p \<and> length p \<le> SSIZE_MAX \<and> None \<notin> set (take filled p))"

definition credits_ok :: "bool \<Rightarrow> (int \<Rightarrow> int option) \<Rightarrow> bool" where
  "credits_ok auto unconsumed \<longleftrightarrow>
     (\<forall>i n. unconsumed i = Some n \<longrightarrow> 0 < n) \<and> (auto \<longrightarrow> unconsumed = Map.empty)"

definition total_queued :: "(int \<Rightarrow> body_source option) \<Rightarrow> size_t" where
  "total_queued bodies = (\<Sum>i\<in>dom bodies. queued_size (the (bodies i)))"

definition bodies_ok :: "(int \<Rightarrow> body_source option) \<Rightarrow> size_t \<Rightarrow> bool" where
  "bodies_ok bodies queued \<longleftrightarrow>
     finite (dom bodies) \<and> (\<forall>i b. bodies i = Some b \<longrightarrow> body_wf b \<and> (trailers b \<noteq> None \<longrightarrow> ended b)) \<and>
     queued = total_queued bodies"

text \<open>Which streams can have a body: of a server, those with a response; of a client, those it
  has opened.\<close>

definition owners_ok ::
  "'s engine \<Rightarrow> bool \<Rightarrow> 's option \<Rightarrow> (int \<Rightarrow> body_source option) \<Rightarrow> int set \<Rightarrow> bool" where
  "owners_ok E server session bodies responses \<longleftrightarrow>
     (if server then dom bodies \<subseteq> responses
      else (\<forall>i\<in>dom bodies. case session of None \<Rightarrow> False | Some s \<Rightarrow> i < next_id E s))"

definition limits_ok :: "bool \<Rightarrow> int \<Rightarrow> int \<Rightarrow> int \<Rightarrow> int \<Rightarrow> bool" where
  "limits_ok initialized max_size max_count frame_size settings_limit \<longleftrightarrow>
     0 \<le> max_size \<and> max_size \<le> int SSIZE_MAX \<and> 0 \<le> max_count \<and>
     (initialized \<longrightarrow> 1 \<le> frame_size \<and> frame_size \<le> 0xFFFFFF \<and> 1 \<le> settings_limit)"

definition blank :: "'s conn \<Rightarrow> bool" where
  "blank c \<longleftrightarrow> c_session c = None \<and> c_bodies c = Map.empty \<and> c_queued_body_size c = 0 \<and>
     c_responses c = {} \<and> c_unconsumed c = Map.empty \<and> c_events c = [] \<and>
     c_current_headers c = [] \<and> c_current_header_size c = 0 \<and> c_data_payload c = None \<and>
     c_data_size c = 0 \<and> c_deferred_resets c = Map.empty"

text \<open>
  Staged output under a limit \<open>L\<close>: zero when no output is being produced, negative when there is no
  limit. What was written so far and what may still be written add up to the limit.
\<close>

definition output_ok :: "int \<Rightarrow> cell list option \<Rightarrow> nat \<Rightarrow> int \<Rightarrow> bool" where
  "output_ok L out filled remaining \<longleftrightarrow>
     (if L = 0 then out = None \<and> remaining = 0
      else (case out of None \<Rightarrow> filled = 0 | Some b \<Rightarrow> filled \<le> length b \<and> None \<notin> set (take filled b)) \<and>
        (if L < 0 then remaining = L else 0 \<le> remaining \<and> remaining + int filled = L))"

section \<open>The invariant\<close>

text \<open>What survives a failed callback, and what the rest of the invariant builds on.\<close>

definition base_inv :: "bool \<Rightarrow> 's conn \<Rightarrow> bool" where
  "base_inv seen c \<longleftrightarrow>
     flags_ok c \<and>
     limits_ok (c_initialized c) (c_max_inbound_header_list_size c) (c_max_inbound_header_count c)
       (c_max_send_data_frame_size c) (c_max_settings c) \<and>
     events_ok seen (c_closed c) (c_max_inbound_header_list_size c) (c_max_inbound_header_count c)
       (c_events c)"

text \<open>Nothing is left of the state of a connection that failed.\<close>

definition released :: "'s conn \<Rightarrow> bool" where
  "released c \<longleftrightarrow> c_session c = None \<and> c_output c = None \<and> c_bodies c = Map.empty \<and>
     c_queued_body_size c = 0 \<and> c_current_headers c = [] \<and> c_data_payload c = None \<and>
     c_responses c = {} \<and> c_unconsumed c = Map.empty \<and> c_local_stream_errors c = Map.empty \<and>
     c_deferred_resets c = Map.empty"

definition core_inv :: "'s engine \<Rightarrow> bool \<Rightarrow> 's conn \<Rightarrow> bool" where
  "core_inv E seen c \<longleftrightarrow>
     base_inv seen c \<and>
     (\<not> c_initialized c \<longrightarrow> blank c) \<and>
     (c_failed c \<longrightarrow> released c) \<and>
     payload_ok (c_data_payload c) (c_data_size c) \<and>
     block_ok (c_max_inbound_header_list_size c) (c_max_inbound_header_count c)
       (c_current_header_size c) (c_current_headers c) \<and>
     credits_ok (c_auto_window_update c) (c_unconsumed c) \<and>
     bodies_ok (c_bodies c) (c_queued_body_size c) \<and>
     owners_ok E (c_server c) (c_session c) (c_bodies c) (c_responses c) \<and>
     (c_terminating c \<longrightarrow> c_bodies c = Map.empty \<and> c_responses c = {} \<and> c_deferred_resets c = Map.empty)"

definition conn_inv :: "'s engine \<Rightarrow> bool \<Rightarrow> 's conn \<Rightarrow> bool" where
  "conn_inv E seen c \<longleftrightarrow> core_inv E seen c \<and> c_callback_error c = None \<and>
     output_ok 0 (c_output c) (c_output_size c) (c_output_remaining c)"

definition running :: "'s engine \<Rightarrow> bool \<Rightarrow> int \<Rightarrow> 's conn \<Rightarrow> bool" where
  "running E seen L c \<longleftrightarrow> engine_ok E \<and> core_inv E seen c \<and> c_callback_error c = None \<and>
     c_session c \<noteq> None \<and> output_ok L (c_output c) (c_output_size c) (c_output_remaining c)"

definition broken :: "bool \<Rightarrow> 's conn \<Rightarrow> bool" where
  "broken seen c \<longleftrightarrow> base_inv seen c \<and> c_session c \<noteq> None \<and> c_callback_error c \<noteq> None"

text \<open>What a callback leaves: the session is still there, and either it failed or the invariant
  holds.\<close>

definition handled :: "'s engine \<Rightarrow> bool \<Rightarrow> int \<Rightarrow> int \<Rightarrow> status \<Rightarrow> 's conn \<Rightarrow> bool" where
  "handled E seen L n rc c \<longleftrightarrow> (\<exists>s. c_session c = Some s \<and> n \<le> next_id E s) \<and>
     (if rc = RcErr ERR_CALLBACK_FAILURE then broken seen c else running E seen L c)"

section \<open>Framing\<close>

lemma released_events [simp]: "released (c\<lparr>c_events := es\<rparr>) = released c"
  by (simp add: released_def)

lemma flags_ok_frame [simp]:
  "flags_ok (c\<lparr>c_role := v0\<rparr>) = flags_ok c"
  "flags_ok (c\<lparr>c_server := v1\<rparr>) = flags_ok c"
  "flags_ok (c\<lparr>c_output := v2\<rparr>) = flags_ok c"
  "flags_ok (c\<lparr>c_output_size := v3\<rparr>) = flags_ok c"
  "flags_ok (c\<lparr>c_output_remaining := v4\<rparr>) = flags_ok c"
  "flags_ok (c\<lparr>c_callback_error := v5\<rparr>) = flags_ok c"
  "flags_ok (c\<lparr>c_close_error_code := v6\<rparr>) = flags_ok c"
  "flags_ok (c\<lparr>c_close_debug_data := v7\<rparr>) = flags_ok c"
  "flags_ok (c\<lparr>c_local_extensible_priority := v8\<rparr>) = flags_ok c"
  "flags_ok (c\<lparr>c_auto_window_update := v9\<rparr>) = flags_ok c"
  "flags_ok (c\<lparr>c_max_settings := v10\<rparr>) = flags_ok c"
  "flags_ok (c\<lparr>c_max_inbound_header_list_size := v11\<rparr>) = flags_ok c"
  "flags_ok (c\<lparr>c_max_inbound_header_count := v12\<rparr>) = flags_ok c"
  "flags_ok (c\<lparr>c_events := v13\<rparr>) = flags_ok c"
  "flags_ok (c\<lparr>c_bodies := v14\<rparr>) = flags_ok c"
  "flags_ok (c\<lparr>c_queued_body_size := v15\<rparr>) = flags_ok c"
  "flags_ok (c\<lparr>c_current_headers := v16\<rparr>) = flags_ok c"
  "flags_ok (c\<lparr>c_current_header_size := v17\<rparr>) = flags_ok c"
  "flags_ok (c\<lparr>c_max_send_data_frame_size := v18\<rparr>) = flags_ok c"
  "flags_ok (c\<lparr>c_data_payload := v19\<rparr>) = flags_ok c"
  "flags_ok (c\<lparr>c_data_size := v20\<rparr>) = flags_ok c"
  "flags_ok (c\<lparr>c_data_stream_id := v21\<rparr>) = flags_ok c"
  "flags_ok (c\<lparr>c_responses := v22\<rparr>) = flags_ok c"
  "flags_ok (c\<lparr>c_unconsumed := v23\<rparr>) = flags_ok c"
  "flags_ok (c\<lparr>c_local_stream_errors := v24\<rparr>) = flags_ok c"
  "flags_ok (c\<lparr>c_deferred_resets := v25\<rparr>) = flags_ok c"
  by (simp_all add: flags_ok_def)

lemma flags_ok_closing [simp]: "flags_ok c \<Longrightarrow> flags_ok (c\<lparr>c_closing := True\<rparr>)"
  by (simp add: flags_ok_def)

lemma flags_ok_session [simp]:
  "flags_ok c \<Longrightarrow> c_session c \<noteq> None \<Longrightarrow> flags_ok (c\<lparr>c_session := Some s\<rparr>)"
  by (auto simp: flags_ok_def)

lemma owners_ok_mono:
  "owners_ok E server (Some s) bodies responses \<Longrightarrow> next_id E s \<le> next_id E s' \<Longrightarrow>
   owners_ok E server (Some s') bodies responses"
  by (cases server) (simp_all add: owners_ok_def, metis order.strict_trans2)

lemma base_inv_session [simp]:
  "base_inv seen c \<Longrightarrow> c_session c \<noteq> None \<Longrightarrow> base_inv seen (c\<lparr>c_session := Some s\<rparr>)"
  by (simp add: base_inv_def)

lemma base_inv_callback_error [simp]:
  "base_inv seen (c\<lparr>c_callback_error := e\<rparr>) = base_inv seen c"
  by (simp add: base_inv_def)

lemma base_inv_initialized: "base_inv seen c \<Longrightarrow> c_session c \<noteq> None \<Longrightarrow> c_initialized c \<and> \<not> c_failed c"
  by (simp add: base_inv_def flags_ok_def)

lemma running_base: "running E seen L c \<Longrightarrow> base_inv seen c \<and> c_initialized c"
  by (auto simp: running_def core_inv_def blank_def)

lemma running_session:
  "running E seen L c \<Longrightarrow> c_session c = Some s \<Longrightarrow> next_id E s \<le> next_id E s' \<Longrightarrow>
   running E seen L (c\<lparr>c_session := Some s'\<rparr>)"
  by (frule running_base) (auto simp: running_def core_inv_def intro: owners_ok_mono
      dest: base_inv_initialized)

lemma broken_session: "broken seen c \<Longrightarrow> broken seen (c\<lparr>c_session := Some s\<rparr>)"
  by (simp add: broken_def)

lemma running_broken: "running E seen L c \<Longrightarrow> broken seen (c\<lparr>c_callback_error := Some e\<rparr>)"
  by (frule running_base) (simp add: broken_def running_def)

text \<open>A state with nothing in it but flags, limits and events satisfies the rest of the invariant.\<close>

lemma empty_groups [simp]:
  "payload_ok None 0" "bodies_ok Map.empty 0" "owners_ok E server session Map.empty responses"
  "credits_ok auto Map.empty" "output_ok 0 None filled 0"
  by (auto simp: payload_ok_def bodies_ok_def owners_ok_def credits_ok_def output_ok_def
      total_queued_def)

lemma block_ok_empty:
  "limits_ok i m n f l \<Longrightarrow> block_ok m n 0 []"
  by (simp add: block_ok_def limits_ok_def header_list_size_def)

lemma events_ok_Nil [simp]: "events_ok seen closed m n [] \<longleftrightarrow> (seen \<longrightarrow> closed)"
  by (simp add: events_ok_def closings_def)

lemma events_ok_closed: "events_ok seen closed m n es \<Longrightarrow> events_ok seen True m n es"
  by (auto simp: events_ok_def split: if_splits)

lemma fail_conn_inv:
  assumes "base_inv seen c" and "c_initialized c"
  shows "conn_inv E seen (fail_conn c)"
proof -
  have "flags_ok (fail_conn c)"
    using assms(2) by (simp add: flags_ok_def fail_conn_def discard_pending_state_def)
  moreover have "events_ok seen True (c_max_inbound_header_list_size c)
      (c_max_inbound_header_count c) (c_events c)"
    using assms(1) by (auto simp: base_inv_def intro: events_ok_closed)
  ultimately show ?thesis
    using assms unfolding conn_inv_def core_inv_def base_inv_def
    by (auto simp: fail_conn_def discard_pending_state_def released_def intro: block_ok_empty)
qed

lemma conn_inv_base: "conn_inv E seen c \<Longrightarrow> base_inv seen c"
  by (simp add: conn_inv_def core_inv_def)

end
