(* ===== verification/Staging.thy ===== *)
theory Staging
  imports Invariant
begin

text \<open>
  The output buffer of \<^verbatim>\<open>src/ngh2/_core.pyx\<close> as an append-only byte string: \<open>staged\<close> is what was
  written so far. \<open>_reserve_output\<close> followed by a copy of as many bytes appends these bytes, and
  \<open>_copy_body\<close> on a connection takes bytes of one body and keeps the accounting.
\<close>

section \<open>Staged output\<close>

definition buffer_cells :: "cell list option \<Rightarrow> cell list" where
  "buffer_cells out = (case out of None \<Rightarrow> [] | Some b \<Rightarrow> b)"

definition staged :: "'s conn \<Rightarrow> cell list" where
  "staged c = take (c_output_size c) (buffer_cells (c_output c))"

lemma buffer_cells_simps [simp]: "buffer_cells None = []" "buffer_cells (Some b) = b"
  by (simp_all add: buffer_cells_def)

lemma output_capacity_eq: "output_capacity c = length (buffer_cells (c_output c))"
  by (simp add: output_capacity_def buffer_cells_def split: option.splits)

lemma length_overwrite:
  "off + length data \<le> length b \<Longrightarrow> length (overwrite b off data) = length b"
  by (simp add: overwrite_def)

lemma take_overwrite:
  "off + length data \<le> length b \<Longrightarrow>
   take (off + length data) (overwrite b off data) = take off b @ map Some data"
  by (simp add: overwrite_def)

lemma take_overwrite_less:
  "n \<le> off \<Longrightarrow> off + length data \<le> length b \<Longrightarrow> take n (overwrite b off data) = take n b"
  by (simp add: overwrite_def min_def)

text \<open>Space for \<open>n\<close> bytes: the bytes written so far are still there and the rest fits.\<close>

definition room :: "nat \<Rightarrow> nat \<Rightarrow> cell list option \<Rightarrow> cell list option \<Rightarrow> bool" where
  "room used n out out' \<longleftrightarrow> used + n \<le> length (buffer_cells out') \<and>
     take used (buffer_cells out') = take used (buffer_cells out)"

lemma wp_grow_output:
  assumes "output_capacity c < target"
    and "\<And>out. length (buffer_cells out) = target \<Longrightarrow>
      take (output_capacity c) (buffer_cells out) = buffer_cells (c_output c) \<Longrightarrow>
      Q () (c\<lparr>c_output := out\<rparr>)"
    and "R MemoryError (c\<lparr>c_output := None\<rparr>)"
  shows "wp (grow_output E target) Q R c"
proof (cases "c_output c")
  case None
  then have "c\<lparr>c_output := None\<rparr> = c" by simp
  with None assms show ?thesis
    by (simp add: grow_output_def wp_simps output_capacity_def)
next
  case (Some b)
  with assms show ?thesis
    by (simp add: grow_output_def wp_simps output_capacity_def)
qed

lemma wp_reserve_output:
  assumes used: "c_output_size c \<le> output_capacity c"
    and ok: "\<And>out. room (c_output_size c) n (c_output c) out \<Longrightarrow>
      Q (c_output_size c) (c\<lparr>c_output := out, c_output_size := c_output_size c + n\<rparr>)"
    and err: "\<And>out. R MemoryError (c\<lparr>c_output := out\<rparr>)"
  shows "wp (reserve_output E n) Q R c"
proof -
  let ?used = "c_output_size c" and ?cap = "output_capacity c"
  have err': "R MemoryError c"
    using err [of "c_output c"] by simp
  have no_growth: "Q ?used (c\<lparr>c_output_size := ?used + n\<rparr>)" if "?used + n \<le> ?cap"
    using ok [of "c_output c"] that by (simp add: room_def output_capacity_eq)
  have grown: "wp (grow_output E t) (\<lambda>_ c'. Q ?used (c'\<lparr>c_output_size := ?used + n\<rparr>)) R c"
    if "?cap < ?used + n" "?used + n \<le> t" for t
  proof (rule wp_grow_output)
    show "?cap < t" using that by simp
    show "R MemoryError (c\<lparr>c_output := None\<rparr>)" by (rule err)
  next
    fix out
    assume "length (buffer_cells out) = t"
      and "take ?cap (buffer_cells out) = buffer_cells (c_output c)"
    then have "room ?used n (c_output c) out"
      using that used by (simp add: room_def flip: \<open>take ?cap _ = _\<close>)
    then show "Q ?used ((c\<lparr>c_output := out\<rparr>)\<lparr>c_output_size := ?used + n\<rparr>)"
      by (rule ok)
  qed
  show ?thesis
    unfolding reserve_output_def
    by (auto simp: wp_simps Let_def err' not_less intro!: no_growth grown)
qed

text \<open>A copy into reserved space is an append.\<close>

lemma wp_write_reserved:
  assumes "room used n out out'" and "c_output c = out'" and "off + length data \<le> used + n"
    and "used \<le> off"
    and "\<And>out''. room used n out out'' \<Longrightarrow>
      take off (buffer_cells out'') = take off (buffer_cells out') \<Longrightarrow>
      take (off + length data) (buffer_cells out'') = take off (buffer_cells out') @ map Some data \<Longrightarrow>
      Q () (c\<lparr>c_output := out''\<rparr>)"
  shows "wp (write_output off data) Q R c"
proof (cases out')
  case None
  with assms(1,3,4) have "data = []" "off = 0" by (simp_all add: room_def)
  moreover have eq: "c\<lparr>c_output := None\<rparr> = c" using assms(2) None by simp
  ultimately have "Q () (c\<lparr>c_output := None\<rparr>)"
    using assms(1) None by (intro assms(5)) simp_all
  then have "Q () c" by (simp only: eq)
  with \<open>data = []\<close> assms(2) None show ?thesis
    by (simp add: write_output_def wp_simps)
next
  case (Some b)
  have fits: "off + length data \<le> length b"
    using assms(1,3) Some by (simp add: room_def)
  then have "room used n out (Some (overwrite b off data))"
    using assms(1,4) Some by (simp add: room_def length_overwrite take_overwrite_less)
  then show ?thesis
    using assms(2) assms(5) [of "Some (overwrite b off data)"] Some fits
    by (simp add: write_output_def wp_simps take_overwrite take_overwrite_less)
qed

lemma wp_append_output:
  assumes used: "c_output_size c \<le> output_capacity c" and n: "n = length data"
    and ok: "\<And>out. c_output_size c + n \<le> length (buffer_cells out) \<Longrightarrow>
      take (c_output_size c + n) (buffer_cells out) = staged c @ map Some data \<Longrightarrow>
      wp m Q R (c\<lparr>c_output_size := c_output_size c + n, c_output := out\<rparr>)"
    and err: "\<And>out. R MemoryError (c\<lparr>c_output := out\<rparr>)"
  shows "wp (bindM (reserve_output E n) (\<lambda>off. thenM (write_output off data) m)) Q R c"
  unfolding wp_bindM
proof (rule wp_reserve_output [OF used])
  show "R MemoryError (c\<lparr>c_output := out\<rparr>)" for out
    by (rule err)
  fix out
  assume out: "room (c_output_size c) n (c_output c) out"
  show "wp (thenM (write_output (c_output_size c) data) m) Q R
      (c\<lparr>c_output := out, c_output_size := c_output_size c + n\<rparr>)"
    unfolding wp_thenM
  proof (rule wp_write_reserved [OF out])
    fix out'
    assume "room (c_output_size c) n (c_output c) out'"
      and "take (c_output_size c + length data) (buffer_cells out') =
        take (c_output_size c) (buffer_cells out) @ map Some data"
    then have "wp m Q R (c\<lparr>c_output_size := c_output_size c + n, c_output := out'\<rparr>)"
      using n out by (intro ok) (simp_all add: room_def staged_def)
    then show "wp m Q R ((c\<lparr>c_output := out, c_output_size := c_output_size c + n\<rparr>)
        \<lparr>c_output := out'\<rparr>)"
      by simp
  qed (use n in simp_all)
qed

lemma output_ok_capacity:
  "output_ok L (c_output c) (c_output_size c) (c_output_remaining c) \<Longrightarrow> L \<noteq> 0 \<Longrightarrow>
   c_output_size c \<le> output_capacity c"
  by (auto simp: output_ok_def output_capacity_def split: option.splits if_splits)

lemma output_ok_staged:
  "L \<noteq> 0 \<Longrightarrow> output_ok L out n remaining \<longleftrightarrow>
     n \<le> length (buffer_cells out) \<and> None \<notin> set (take n (buffer_cells out)) \<and>
     (if L < 0 then remaining = L else 0 \<le> remaining \<and> remaining + int n = L)"
  by (auto simp: output_ok_def buffer_cells_def split: option.splits)

section \<open>Taking bytes of a body\<close>

lemma total_queued_update:
  assumes "finite (dom bodies)" and "bodies i = Some b"
  shows "total_queued (bodies(i \<mapsto> b')) = total_queued bodies - queued_size b + queued_size b'"
proof -
  have "total_queued (bodies(i \<mapsto> b')) =
      queued_size b' + (\<Sum>j\<in>dom bodies - {i}. queued_size (the ((bodies(i \<mapsto> b')) j)))"
    unfolding total_queued_def using assms
    by (subst sum.remove [of _ i]) (auto simp: insert_absorb domI)
  also have "(\<Sum>j\<in>dom bodies - {i}. queued_size (the ((bodies(i \<mapsto> b')) j))) =
      (\<Sum>j\<in>dom bodies - {i}. queued_size (the (bodies j)))"
    by (rule sum.cong) auto
  also have "\<dots> = total_queued bodies - queued_size b"
    unfolding total_queued_def using assms by (subst sum.remove [of "dom bodies" i]) auto
  finally show ?thesis by (simp only: add.commute)
qed

lemma total_queued_insert:
  assumes "finite (dom bodies)" and "bodies i = None"
  shows "total_queued (bodies(i \<mapsto> b)) = total_queued bodies + queued_size b"
proof -
  have i: "i \<notin> dom bodies" using assms(2) by auto
  have "(\<Sum>j\<in>dom bodies. queued_size (the ((bodies(i \<mapsto> b)) j))) = total_queued bodies"
    unfolding total_queued_def using i by (intro sum.cong) auto
  with i assms show ?thesis
    by (simp add: total_queued_def)
qed

lemma total_queued_remove:
  assumes "finite (dom bodies)" and "bodies i = Some b"
  shows "total_queued (bodies(i := None)) = total_queued bodies - queued_size b"
proof -
  have "(\<Sum>j\<in>dom bodies - {i}. queued_size (the ((bodies(i := None)) j))) =
      (\<Sum>j\<in>dom bodies - {i}. queued_size (the (bodies j)))"
    by (rule sum.cong) auto
  moreover have "total_queued bodies =
      queued_size b + (\<Sum>j\<in>dom bodies - {i}. queued_size (the (bodies j)))"
    unfolding total_queued_def using assms by (subst sum.remove [of "dom bodies" i]) auto
  ultimately show ?thesis
    by (simp add: total_queued_def)
qed

lemma bodies_ok_update:
  assumes "bodies_ok bodies q" and "bodies i = Some b"
    and "body_wf b'" and "trailers b' \<noteq> None \<Longrightarrow> ended b'"
    and "q' = q - queued_size b + queued_size b'"
  shows "bodies_ok (bodies(i \<mapsto> b')) q'"
  using assms total_queued_update [of bodies i b b']
  by (auto simp: bodies_ok_def split: if_splits)

lemma bodies_ok_insert:
  "bodies_ok bodies q \<Longrightarrow> bodies i = None \<Longrightarrow> bodies_ok (bodies(i \<mapsto> new_body)) q"
  using total_queued_insert [of bodies i new_body] body_wf_new
  by (auto simp: bodies_ok_def new_body_def split: if_splits)

lemma bodies_ok_remove:
  "bodies_ok bodies q \<Longrightarrow> bodies i = Some b \<Longrightarrow> bodies_ok (bodies(i := None)) (q - queued_size b)"
  using total_queued_remove [of bodies i b] by (auto simp: bodies_ok_def split: if_splits)

lemma bodies_okD:
  "bodies_ok bodies q \<Longrightarrow> bodies i = Some b \<Longrightarrow> body_wf b \<and> (trailers b \<noteq> None \<longrightarrow> ended b)"
  by (auto simp: bodies_ok_def)

lemma owners_ok_update:
  "owners_ok E server session bodies responses \<Longrightarrow> bodies i = Some b \<Longrightarrow>
   owners_ok E server session (bodies(i \<mapsto> b')) responses"
  by (auto simp: owners_ok_def split: if_splits)

lemma owners_ok_remove:
  "owners_ok E server session bodies responses \<Longrightarrow>
   owners_ok E server session (bodies(i := None)) (responses - {i})"
  "owners_ok E server session bodies responses \<Longrightarrow>
   owners_ok E server session (bodies(i := None)) responses"
  by (auto simp: owners_ok_def split: if_splits)

text \<open>\<open>_copy_body\<close> on the body of a stream, with the bytes it takes.\<close>

lemma wp_copy_body_of:
  assumes ok: "bodies_ok (c_bodies c) (c_queued_body_size c)" and b: "c_bodies c i = Some b"
    and Q: "\<And>b' q'. drained n b b' \<Longrightarrow> bodies_ok ((c_bodies c)(i \<mapsto> b')) q' \<Longrightarrow>
      Q (take n (body_contents b))
        (c\<lparr>c_bodies := (c_bodies c)(i \<mapsto> b'), c_queued_body_size := q'\<rparr>)"
  shows "wp (copy_body_of i n) Q R c"
proof -
  have wf: "body_wf b" and tr: "trailers b \<noteq> None \<longrightarrow> ended b"
    using bodies_okD [OF ok b] by simp_all
  obtain b' where run: "copy_body n b (c_queued_body_size c) = (Ok (take n (body_contents b)), b',
      c_queued_body_size c - of_nat (min n (length (body_contents b))))" and d: "drained n b b'"
    using copy_body_correct [OF wf] by blast
  let ?q = "c_queued_body_size c - of_nat (min n (length (body_contents b)))"
  have "queued_size b - of_nat (min n (length (body_contents b))) = queued_size b'"
    using d wf by (auto simp: drained_def body_wf_queued min_def of_nat_diff)
  then have "?q = c_queued_body_size c - queued_size b + queued_size b'"
    by (simp add: algebra_simps)
  then have "bodies_ok ((c_bodies c)(i \<mapsto> b')) ?q"
    using d tr by (intro bodies_ok_update [OF ok b]) (auto simp: drained_def)
  with Q [OF d] b run show ?thesis
    by (simp add: copy_body_of_def wp_simps)
qed

text \<open>
  A whole DATA frame: header and body bytes are appended together; on failure nothing is claimed
  about the buffer, the body or the counter.
\<close>

lemma wp_append_frame:
  assumes used: "c_output_size c \<le> output_capacity c" and hdr: "length hdr = 9"
    and bodies: "bodies_ok (c_bodies c) (c_queued_body_size c)" and b: "c_bodies c i = Some b"
    and ok: "\<And>out b' q'. len \<le> length (body_contents b) \<Longrightarrow> drained len b b' \<Longrightarrow>
      bodies_ok ((c_bodies c)(i \<mapsto> b')) q' \<Longrightarrow>
      c_output_size c + (len + 9) \<le> length (buffer_cells out) \<Longrightarrow>
      take (c_output_size c + (len + 9)) (buffer_cells out) =
        staged c @ map Some (hdr @ take len (body_contents b)) \<Longrightarrow>
      wp m Q R (c\<lparr>c_output_size := c_output_size c + (len + 9), c_bodies := (c_bodies c)(i \<mapsto> b'),
        c_queued_body_size := q', c_output := out\<rparr>)"
    and err: "\<And>e out n bs q. R e (c\<lparr>c_output_size := n, c_bodies := bs, c_queued_body_size := q,
        c_output := out\<rparr>)"
  shows "wp (bindM (reserve_output E (len + 9)) (\<lambda>off. thenM (write_output off hdr)
      (bindM (copy_body_of i len) (\<lambda>copied. thenM (write_output (off + 9) copied)
        (if length copied \<noteq> len then raiseM InternalError else m))))) Q R c"
    (is "wp (bindM _ (\<lambda>off. ?write off)) _ _ _")
  unfolding wp_bindM [of "reserve_output _ _"]
proof (rule wp_reserve_output [OF used])
  let ?u = "c_output_size c"
  show "R MemoryError (c\<lparr>c_output := out\<rparr>)" for out
    using err [of MemoryError out "c_queued_body_size c" "c_bodies c" ?u] by simp
  fix out0
  assume room0: "room ?u (len + 9) (c_output c) out0"
  show "wp (?write ?u) Q R (c\<lparr>c_output := out0, c_output_size := ?u + (len + 9)\<rparr>)"
    unfolding wp_thenM [of "write_output ?u _"] wp_bindM
  proof (rule wp_write_reserved [OF room0])
    fix out1
    assume room1: "room ?u (len + 9) (c_output c) out1"
      and hdr1: "take (?u + length hdr) (buffer_cells out1) = take ?u (buffer_cells out0) @ map Some hdr"
    let ?c1 = "(c\<lparr>c_output := out0, c_output_size := ?u + (len + 9)\<rparr>)\<lparr>c_output := out1\<rparr>"
    show "wp (copy_body_of i len) (\<lambda>copied. wp (thenM (write_output (?u + 9) copied)
        (if length copied \<noteq> len then raiseM InternalError else m)) Q R) R ?c1"
    proof (rule wp_copy_body_of)
      fix b' q'
      assume dr: "drained len b b'" and bok: "bodies_ok ((c_bodies ?c1)(i \<mapsto> b')) q'"
      let ?copied = "take len (body_contents b)"
      show "wp (thenM (write_output (?u + 9) ?copied)
        (if length ?copied \<noteq> len then raiseM InternalError else m)) Q R
        (?c1\<lparr>c_bodies := (c_bodies ?c1)(i \<mapsto> b'), c_queued_body_size := q'\<rparr>)"
        unfolding wp_thenM
      proof (rule wp_write_reserved [OF room1])
        fix out2
        assume "room ?u (len + 9) (c_output c) out2"
          and "take (?u + 9 + length ?copied) (buffer_cells out2) =
            take (?u + 9) (buffer_cells out1) @ map Some ?copied"
        then have "wp m Q R (c\<lparr>c_output_size := ?u + (len + 9), c_bodies := (c_bodies c)(i \<mapsto> b'),
             c_queued_body_size := q', c_output := out2\<rparr>)" if "length ?copied = len"
          using room0 hdr1 hdr dr bok that
          by (intro ok) (simp_all add: room_def staged_def add.assoc add.commute [of 9])
        then have "wp (if length ?copied \<noteq> len then raiseM InternalError else m) Q R
          (c\<lparr>c_output_size := ?u + (len + 9), c_bodies := (c_bodies c)(i \<mapsto> b'),
             c_queued_body_size := q', c_output := out2\<rparr>)"
          by (simp add: wp_raiseM err)
        then show "wp (if length ?copied \<noteq> len then raiseM InternalError else m) Q R
          ((?c1\<lparr>c_bodies := (c_bodies ?c1)(i \<mapsto> b'), c_queued_body_size := q'\<rparr>)\<lparr>c_output := out2\<rparr>)"
          by simp
      qed simp_all
    qed (use bodies b in simp_all)
  qed (use hdr in simp_all)
qed

end
