(* ===== verification/Callbacks.thy ===== *)
theory Callbacks
  imports Staging
begin

text \<open>
  Every callback of \<^verbatim>\<open>src/ngh2/_core.pyx\<close> keeps the invariant \<open>running\<close>, or fails with the
  deferred exception stored; the locale \<open>callback_contract\<close> turns this into a statement about whole
  library calls.
\<close>

section \<open>Outcomes of one callback\<close>

lemma handled_okI:
  "running E seen L c \<Longrightarrow> c_session c = Some s \<Longrightarrow> n \<le> next_id E s \<Longrightarrow>
   rc \<noteq> RcErr ERR_CALLBACK_FAILURE \<Longrightarrow> handled E seen L n rc c"
  by (simp add: handled_def)

lemma handled_failI:
  "base_inv seen c \<Longrightarrow> c_initialized c \<Longrightarrow> c_session c = Some s \<Longrightarrow> n \<le> next_id E s \<Longrightarrow>
   handled E seen L n (RcErr ERR_CALLBACK_FAILURE) (c\<lparr>c_callback_error := Some e\<rparr>)"
  by (simp add: handled_def broken_def)

lemma base_inv_frame [simp]:
  "base_inv seen (c\<lparr>c_output := v1\<rparr>) = base_inv seen c"
  "base_inv seen (c\<lparr>c_output_size := v2\<rparr>) = base_inv seen c"
  "base_inv seen (c\<lparr>c_output_remaining := v3\<rparr>) = base_inv seen c"
  "base_inv seen (c\<lparr>c_bodies := v4\<rparr>) = base_inv seen c"
  "base_inv seen (c\<lparr>c_queued_body_size := v5\<rparr>) = base_inv seen c"
  "base_inv seen (c\<lparr>c_current_headers := v6\<rparr>) = base_inv seen c"
  "base_inv seen (c\<lparr>c_current_header_size := v7\<rparr>) = base_inv seen c"
  "base_inv seen (c\<lparr>c_data_payload := v8\<rparr>) = base_inv seen c"
  "base_inv seen (c\<lparr>c_data_size := v9\<rparr>) = base_inv seen c"
  "base_inv seen (c\<lparr>c_data_stream_id := v10\<rparr>) = base_inv seen c"
  "base_inv seen (c\<lparr>c_responses := v11\<rparr>) = base_inv seen c"
  "base_inv seen (c\<lparr>c_unconsumed := v12\<rparr>) = base_inv seen c"
  "base_inv seen (c\<lparr>c_local_stream_errors := v13\<rparr>) = base_inv seen c"
  "base_inv seen (c\<lparr>c_deferred_resets := v14\<rparr>) = base_inv seen c"
  "base_inv seen (c\<lparr>c_close_error_code := v15\<rparr>) = base_inv seen c"
  "base_inv seen (c\<lparr>c_close_debug_data := v16\<rparr>) = base_inv seen c"
  "base_inv seen (c\<lparr>c_local_extensible_priority := v17\<rparr>) = base_inv seen c"
  by (simp_all add: base_inv_def)

lemma base_inv_closing [simp]: "base_inv seen c \<Longrightarrow> base_inv seen (c\<lparr>c_closing := True\<rparr>)"
  by (simp add: base_inv_def)

lemma events_ok_append:
  "events_ok seen closed m n es \<Longrightarrow> event_ok m n e \<Longrightarrow> \<not> is_closing_event e \<Longrightarrow>
   events_ok seen closed m n (es @ [e])"
  by (simp add: events_ok_def closings_def)

lemma base_inv_publish:
  "base_inv seen c \<Longrightarrow>
   event_ok (c_max_inbound_header_list_size c) (c_max_inbound_header_count c) e \<Longrightarrow>
   \<not> is_closing_event e \<Longrightarrow> base_inv seen (c\<lparr>c_events := c_events c @ [e]\<rparr>)"
  by (simp add: base_inv_def events_ok_append)

text \<open>The conditions of \<open>running\<close>, given what every callback leaves alone.\<close>

lemma runningI:
  "engine_ok E \<Longrightarrow> base_inv seen c \<Longrightarrow> c_initialized c \<Longrightarrow> c_session c \<noteq> None \<Longrightarrow>
   payload_ok (c_data_payload c) (c_data_size c) \<Longrightarrow>
   block_ok (c_max_inbound_header_list_size c) (c_max_inbound_header_count c)
       (c_current_header_size c) (c_current_headers c) \<Longrightarrow>
   credits_ok (c_auto_window_update c) (c_unconsumed c) \<Longrightarrow>
   bodies_ok (c_bodies c) (c_queued_body_size c) \<Longrightarrow>
   owners_ok E (c_server c) (c_session c) (c_bodies c) (c_responses c) \<Longrightarrow>
   (c_terminating c \<Longrightarrow> c_bodies c = Map.empty \<and> c_responses c = {} \<and> c_deferred_resets c = Map.empty) \<Longrightarrow>
   c_callback_error c = None \<Longrightarrow>
   output_ok L (c_output c) (c_output_size c) (c_output_remaining c) \<Longrightarrow> running E seen L c"
  unfolding running_def core_inv_def using base_inv_initialized by blast

lemma runningD:
  assumes "running E seen L c"
  shows "engine_ok E" "base_inv seen c" "c_initialized c"
    "payload_ok (c_data_payload c) (c_data_size c)"
    "block_ok (c_max_inbound_header_list_size c) (c_max_inbound_header_count c)
       (c_current_header_size c) (c_current_headers c)"
    "credits_ok (c_auto_window_update c) (c_unconsumed c)"
    "bodies_ok (c_bodies c) (c_queued_body_size c)"
    "owners_ok E (c_server c) (c_session c) (c_bodies c) (c_responses c)"
    "c_terminating c \<longrightarrow> c_bodies c = Map.empty \<and> c_responses c = {} \<and> c_deferred_resets c = Map.empty"
    "c_callback_error c = None"
    "output_ok L (c_output c) (c_output_size c) (c_output_remaining c)"
    "base_inv seen (c\<lparr>c_session := Some s\<rparr>)"
    "c_session c \<noteq> None"
  using assms running_base [OF assms] unfolding running_def core_inv_def by simp_all

text \<open>The part of the invariant that depends on the body of one stream.\<close>

lemma running_body:
  "running E seen L c \<Longrightarrow> c_bodies c i = Some b \<Longrightarrow> \<not> c_terminating c"
  by (auto dest: runningD(9))

section \<open>Callbacks that produce output\<close>

lemma collect_output_handled:
  assumes c: "running E seen L c" and s: "c_session c = Some s"
  shows "wp (collect_output E data) (handled E seen L (next_id E s)) (\<lambda>_ _. False) c"
proof (cases "c_output_remaining c = 0")
  case True
  then show ?thesis
    using c s by (simp add: collect_output_def wp_simps handled_okI)
next
  case False
  note inv = runningD [OF c]
  have L: "L \<noteq> 0" using inv(11) False by (auto simp: output_ok_def)
  let ?r = "c_output_remaining c"
  define acc where "acc = (if ?r \<ge> 0 then min (length data) (nat ?r) else length data)"
  have acc: "acc = length (take acc data)" "?r \<ge> 0 \<Longrightarrow> int acc \<le> ?r"
    by (auto simp: acc_def)
  let ?finish = "thenM (whenM (?r \<ge> 0) (modifyM (\<lambda>c. c\<lparr>c_output_remaining := ?r - int acc\<rparr>)))
    (returnM (RcOk acc))"
  have "wp (bindM (reserve_output E acc) (\<lambda>off. thenM (write_output off (take acc data)) ?finish))
      (handled E seen L (next_id E s))
      (\<lambda>e. wp (callback_failed e) (handled E seen L (next_id E s)) (\<lambda>_ _. False)) c"
  proof (rule wp_append_output [OF output_ok_capacity [OF inv(11) L] acc(1)])
    fix out
    assume out: "c_output_size c + acc \<le> length (buffer_cells out)"
      "take (c_output_size c + acc) (buffer_cells out) = staged c @ map Some (take acc data)"
    have "output_ok L out (c_output_size c + acc) (if ?r \<ge> 0 then ?r - int acc else ?r)"
      using inv(11) L acc(2) out by (auto simp: output_ok_staged staged_def split: if_splits)
    with inv s show "wp ?finish (handled E seen L (next_id E s)) R
        (c\<lparr>c_output_size := c_output_size c + acc, c_output := out\<rparr>)" for R
      by (auto simp: wp_simps intro!: handled_okI runningI)
  qed (use inv s in \<open>simp add: wp_simps handled_failI\<close>)
  then show ?thesis
    using False unfolding collect_output_def
    by (simp add: wp_bindM wp_getsM wp_if wp_catchM wp_Let flip: acc_def)
qed

lemma send_body_handled:
  assumes c: "running E seen L c" and s: "c_session c = Some s" and hdr: "length hdr = 9"
  shows "wp (send_body E frame hdr len) (handled E seen L (next_id E s)) (\<lambda>_ _. False) c"
proof -
  note inv = runningD [OF c]
  let ?r = "c_output_remaining c" and ?i = "hd_stream_id frame"
  let ?H = "handled E seen L (next_id E s)"
  have fail: "wp (callback_failed e) ?H (\<lambda>_ _. False) (c\<lparr>c_output_size := n, c_bodies := bs,
      c_queued_body_size := q, c_output := out\<rparr>)" for e n bs q out
    using inv s by (simp add: wp_simps handled_failI)
  have fail0: "wp (callback_failed e) ?H (\<lambda>_ _. False) c" for e
    using inv s by (simp add: wp_simps handled_failI)
  let ?finish = "thenM (whenM (?r \<ge> 0) (modifyM (\<lambda>c. c\<lparr>c_output_remaining := ?r - int (len + 9)\<rparr>)))
    (returnM (RcOk 0))"
  have frame: "wp (bindM (reserve_output E (len + 9)) (\<lambda>off. thenM (write_output off hdr)
      (bindM (copy_body_of ?i len) (\<lambda>copied. thenM (write_output (off + 9) copied)
        (if length copied \<noteq> len then raiseM InternalError else ?finish)))))
      ?H (\<lambda>e. wp (callback_failed e) ?H (\<lambda>_ _. False)) c"
    if fits: "\<not> (0 \<le> ?r \<and> nat ?r < size_add len 9)" "len \<le> SSIZE_MAX - 9"
      and b: "c_bodies c ?i = Some b" for b
  proof (rule wp_append_frame [OF _ hdr inv(7) b])
    have len: "size_add len 9 = len + 9"
      using fits(2) by (simp add: size_add_def SSIZE_MAX_def)
    then have L: "L \<noteq> 0" using inv(11) fits(1) by (auto simp: output_ok_def)
    then show "c_output_size c \<le> output_capacity c"
      by (rule output_ok_capacity [OF inv(11)])
    fix out b' q'
    assume b': "drained len b b'" "bodies_ok ((c_bodies c)(?i \<mapsto> b')) q'"
      and out: "c_output_size c + (len + 9) \<le> length (buffer_cells out)"
        "take (c_output_size c + (len + 9)) (buffer_cells out) =
          staged c @ map Some (hdr @ take len (body_contents b))"
    have "None \<notin> set (take (c_output_size c + (len + 9)) (buffer_cells out))"
      using inv(11) L unfolding out(2) by (auto simp: output_ok_staged staged_def)
    then have "output_ok L out (c_output_size c + (len + 9))
        (if ?r \<ge> 0 then ?r - int (len + 9) else ?r)"
      using inv(11) L fits(1) len out(1) by (auto simp: output_ok_staged split: if_splits)
    with inv s b' b running_body [OF c b] show "wp ?finish ?H
        (\<lambda>e. wp (callback_failed e) ?H (\<lambda>_ _. False))
        (c\<lparr>c_output_size := c_output_size c + (len + 9), c_bodies := (c_bodies c)(?i \<mapsto> b'),
          c_queued_body_size := q', c_output := out\<rparr>)"
      by (auto simp: wp_simps intro!: handled_okI runningI owners_ok_update)
  qed (rule fail)
  show ?thesis
    unfolding send_body_def using hdr
    by (auto simp: wp_bindM wp_getsM wp_if wp_catchM wp_raiseM fail0 not_le not_less
        intro!: frame [unfolded wp_bindM [of "reserve_output E (len + 9)"]])
qed

lemma data_frame_length_handled:
  assumes c: "running E seen L c" and s: "c_session c = Some s"
  shows "wp (data_frame_length sid m) (handled E seen L (next_id E s)) (\<lambda>_ _. False) c"
  using assms by (auto simp: data_frame_length_def wp_simps Let_def intro!: handled_okI)

lemma running_copied:
  assumes c: "running E seen L c" and b: "c_bodies c i = Some b"
    and ok: "bodies_ok ((c_bodies c)(i \<mapsto> b')) q'"
  shows "running E seen L (c\<lparr>c_bodies := (c_bodies c)(i \<mapsto> b'), c_queued_body_size := q'\<rparr>)"
  using runningD [OF c] running_body [OF c b] ok b
  by (intro runningI) (simp_all add: owners_ok_update)

lemma running_update_body:
  assumes c: "running E seen L c" and b: "c_bodies c i = Some b"
    and f: "body_wf (f b)" "queued_size (f b) = queued_size b" "trailers (f b) \<noteq> None \<Longrightarrow> ended (f b)"
  shows "running E seen L (c\<lparr>c_bodies := (c_bodies c)(i \<mapsto> f b)\<rparr>)"
proof -
  have "bodies_ok ((c_bodies c)(i \<mapsto> f b)) (c_queued_body_size c)"
    using f by (intro bodies_ok_update [OF runningD(7) [OF c] b]) auto
  from running_copied [OF c b this] show ?thesis by simp
qed

lemma wp_update_body [wp_simps]:
  "wp (update_body i f) Q R =
     (\<lambda>c. Q () (c\<lparr>c_bodies := (c_bodies c)(i := map_option f (c_bodies c i))\<rparr>))"
  by (simp add: update_body_def wp_simps)

text \<open>Both output modes leave a body with the same terminal state, and complete only an ended one.\<close>

lemma wp_take_body:
  assumes ok: "bodies_ok (c_bodies c) (c_queued_body_size c)" and b: "c_bodies c i = Some b"
    and Q: "\<And>n buffer no_copy complete b' q'. (complete \<longrightarrow> ended b) \<Longrightarrow>
      trailers b' = trailers b \<Longrightarrow> ended b' = ended b \<Longrightarrow> body_wf b' \<Longrightarrow>
      bodies_ok ((c_bodies c)(i \<mapsto> b')) q' \<Longrightarrow>
      Q (n, buffer, no_copy, complete) (c\<lparr>c_bodies := (c_bodies c)(i \<mapsto> b'), c_queued_body_size := q'\<rparr>)"
  shows "wp (take_body i len remaining b) Q R c"
proof -
  have upd: "(c_bodies c)(i \<mapsto> b) = c_bodies c" using b by (simp add: map_upd_triv)
  have same: "Q (n, buffer, no_copy, complete) c" if "complete \<longrightarrow> ended b" for n buffer no_copy complete
    using Q [of complete b "c_queued_body_size c" n buffer no_copy] that ok bodies_okD [OF ok b]
    by (simp add: upd)
  show ?thesis
    unfolding take_body_def
    by (auto simp: wp_simps Let_def drained_def intro!: same wp_copy_body_of [OF ok b] Q)
qed

lemma answer_body_handled:
  assumes c: "running E seen L c" and s: "c_session c = Some s"
    and b: "c_bodies c i = Some b'" "trailers b' = trailers b" "ended b' = ended b" "body_wf b'"
    and tr: "trailers b \<noteq> None \<longrightarrow> ended b"
  shows "wp (answer_body E i b (n, buffer, no_copy, complete))
    (\<lambda>ans. handled E seen L (next_id E s) (ans_rc ans))
    (\<lambda>e. wp (bindM (callback_failed e) (\<lambda>rc. returnM (plain_answer rc)))
      (\<lambda>ans. handled E seen L (next_id E s) (ans_rc ans)) (\<lambda>_ _. False)) c"
proof -
  note inv = runningD [OF c]
  have up: "running E seen L (c\<lparr>c_bodies := (c_bodies c)(i \<mapsto> b'\<lparr>deferred := True\<rparr>)\<rparr>)"
    using running_update_body [OF c b(1), of "\<lambda>b. b\<lparr>deferred := True\<rparr>"] b(2-) tr by simp
  let ?s = "\<lambda>f. snd (eng_submit_trailer E i (map header_nv f) s)"
  have adv: "next_id E s \<le> next_id E (?s f)" for f
    using engine_ok_advances [OF inv(1)] by simp
  have c2: "running E seen L (c\<lparr>c_session := Some (?s f)\<rparr>)" for f
    by (rule running_session [OF c s adv])
  have up2: "running E seen L (c\<lparr>c_session := Some (?s f), c_bodies := (c_bodies c)(i \<mapsto> b'\<lparr>trailers := None\<rparr>)\<rparr>)" for f
    using running_update_body [OF c2, where i = i and b = b' and f = "\<lambda>b. b\<lparr>trailers := None\<rparr>"] b by simp
  show ?thesis
  proof (cases "trailers b")
    case None
    then show ?thesis
      using c s b inv up
      by (auto simp: wp_simps eof_answer_def plain_answer_def intro!: handled_okI)
  next
    case (Some f)
    then show ?thesis
      using c s b inv up c2 [of f] up2 [of f] adv [of f]
      by (auto simp: wp_simps make_headers_thaw eof_answer_def plain_answer_def
          split: status.splits intro!: handled_okI handled_failI)
  qed
qed

lemma read_body_handled:
  assumes c: "running E seen L c" and s: "c_session c = Some s"
  shows "wp (read_body E i len) (\<lambda>ans. handled E seen L (next_id E s) (ans_rc ans)) (\<lambda>_ _. False) c"
proof (cases "c_output_remaining c = 0 \<or> c_bodies c i = None")
  case True
  then show ?thesis
    using c s runningD [OF c]
    by (auto simp: read_body_def wp_simps plain_answer_def intro!: handled_okI handled_failI)
next
  case False
  then obtain b where b: "c_bodies c i = Some b" by auto
  let ?H = "\<lambda>ans. handled E seen L (next_id E s) (ans_rc ans)"
  let ?fail = "\<lambda>e. wp (bindM (callback_failed e) (\<lambda>rc. returnM (plain_answer rc))) ?H (\<lambda>_ _. False)"
  have tr: "trailers b \<noteq> None \<longrightarrow> ended b" using bodies_okD [OF runningD(7) [OF c] b] by simp
  have "wp (take_body i len (c_output_remaining c) b) (\<lambda>x. wp (answer_body E i b x) ?H ?fail) ?fail c"
  proof (rule wp_take_body [OF runningD(7) [OF c] b])
    fix n buffer no_copy complete b' q'
    assume b': "complete \<longrightarrow> ended b" "trailers b' = trailers b" "ended b' = ended b" "body_wf b'"
      and ok: "bodies_ok ((c_bodies c)(i \<mapsto> b')) q'"
    show "wp (answer_body E i b (n, buffer, no_copy, complete)) ?H ?fail
        (c\<lparr>c_bodies := (c_bodies c)(i \<mapsto> b'), c_queued_body_size := q'\<rparr>)"
      by (rule answer_body_handled [OF running_copied [OF c b ok] _ _ b'(2-4) tr]) (simp_all add: s)
  qed
  then show ?thesis
    using False b unfolding read_body_def
    by (simp add: wp_bindM wp_getsM wp_if wp_catchM)
qed

lemma frame_sent_handled:
  assumes c: "running E seen L c" and s: "c_session c = Some s"
  shows "wp (frame_sent E frame) (handled E seen L (next_id E s)) (\<lambda>_ _. False) c"
proof -
  note inv = runningD [OF c]
  let ?drop = "c\<lparr>c_deferred_resets := (c_deferred_resets c)(hd_stream_id frame := None)\<rparr>"
  have drop: "running E seen L ?drop"
    using inv by (intro runningI) auto
  have reset: "running E seen L (?drop\<lparr>c_session :=
      Some (snd (eng_submit_rst_stream E (hd_stream_id frame) code s))\<rparr>)" for code
    using engine_ok_advances [OF inv(1)] s by (intro running_session [OF drop, of s]) auto
  have goaway: "running E seen L (c\<lparr>c_closing := True, c_close_error_code := goaway_error_code frame,
      c_close_debug_data := goaway_opaque_data frame\<rparr>)"
    using inv by (intro runningI) auto
  show ?thesis
    using c s inv drop reset goaway engine_ok_advances(8) [OF inv(1)]
    by (auto simp: frame_sent_def wp_simps Let_def split: option.splits status.splits
        intro!: handled_okI handled_failI)
qed

lemma frame_not_sent_handled:
  assumes c: "running E seen L c" and s: "c_session c = Some s"
  shows "wp (frame_not_sent E frame code) (handled E seen L (next_id E s)) (\<lambda>_ _. False) c"
proof -
  note inv = runningD [OF c]
  have noted: "running E seen L (c\<lparr>c_local_stream_errors := errors\<rparr>)" for errors
    using inv by (intro runningI) auto
  have reset: "running E seen L ((c\<lparr>c_local_stream_errors := errors\<rparr>)\<lparr>c_session :=
      Some (snd (eng_submit_rst_stream E i n s))\<rparr>)" for errors i n
    using engine_ok_advances [OF inv(1)] s by (intro running_session [OF noted, where s = s]) auto
  show ?thesis
    using c s inv noted reset engine_ok_advances(8) [OF inv(1)]
    by (auto simp: frame_not_sent_def reset_failed_stream_def wp_simps Let_def
        split: option.splits status.splits intro!: handled_okI handled_failI)
qed

section \<open>Callbacks that report input\<close>

lemma begin_headers_handled:
  assumes c: "running E seen L c" and s: "c_session c = Some s"
  shows "wp begin_headers (handled E seen L (next_id E s)) (\<lambda>_ _. False) c"
proof -
  note inv = runningD [OF c]
  have "running E seen L (c\<lparr>c_current_headers := [], c_current_header_size := 0\<rparr>)"
    using inv by (intro runningI) (auto simp: base_inv_def intro: block_ok_empty)
  with s show ?thesis
    by (auto simp: begin_headers_def wp_simps intro!: handled_okI)
qed

lemma block_ok_add:
  assumes "block_ok m n filled hs" and "limits_ok i m n f l" and "k \<le> SSIZE_MAX"
  shows "unat (filled + of_nat k) = unat filled + k"
proof -
  have "unat filled \<le> SSIZE_MAX"
    using assms(1,2) unfolding block_ok_def limits_ok_def by linarith
  with assms(3) have "unat filled + k < 2 ^ 64" "unat (of_nat k :: size_t) = k"
    by (simp_all add: SSIZE_MAX_def unat_of_nat)
  then show ?thesis
    by (subst unat_add_lem [THEN iffD1]) auto
qed

lemma header_field_handled:
  assumes c: "running E seen L c" and s: "c_session c = Some s"
    and len: "length name + length value + 32 \<le> SSIZE_MAX"
  shows "wp (header_field E name value no_index) (handled E seen L (next_id E s)) (\<lambda>_ _. False) c"
proof -
  note inv = runningD [OF c]
  let ?k = "length name + length value + 32"
  let ?filled = "c_current_header_size c + of_nat ?k"
  have limits: "limits_ok (c_initialized c) (c_max_inbound_header_list_size c)
      (c_max_inbound_header_count c) (c_max_send_data_frame_size c) (c_max_settings c)"
    using inv(2) by (simp add: base_inv_def)
  have add: "unat ?filled = unat (c_current_header_size c) + ?k"
    by (rule block_ok_add [OF inv(5) limits len])
  have max: "unat (word_of_int (c_max_inbound_header_list_size c) :: size_t)
      = nat (c_max_inbound_header_list_size c)"
    using limits by (simp add: limits_ok_def SSIZE_MAX_def unat_eq_nat_uint uint_word_of_int_eq take_bit_int_eq_self)
  have field: "running E seen L (c\<lparr>c_current_header_size := ?filled,
      c_current_headers := c_current_headers c @ [h]\<rparr>)"
    if "\<not> word_of_int (c_max_inbound_header_list_size c) < ?filled"
      and "\<not> c_max_inbound_header_count c \<le> int (length (c_current_headers c))"
      and "length (header_name h) + length (header_value h) + 32 = ?k" for h
  proof -
    have "unat ?filled \<le> nat (c_max_inbound_header_list_size c)"
      using that(1) by (simp add: word_less_nat_alt max)
    then have "block_ok (c_max_inbound_header_list_size c) (c_max_inbound_header_count c)
        ?filled (c_current_headers c @ [h])"
      using inv(5) that(2,3) add limits unfolding block_ok_def header_list_size_def limits_ok_def
      by simp
    with inv show ?thesis by (intro runningI) auto
  qed
  show ?thesis
    using s inv field
    by (auto simp: header_field_def wp_simps Let_def intro!: handled_okI handled_failI)
qed

lemma invalid_header_handled:
  "running E seen L c \<Longrightarrow> c_session c = Some s \<Longrightarrow>
   wp invalid_header (handled E seen L (next_id E s)) (\<lambda>_ _. False) c"
  by (auto simp: invalid_header_def wp_simps intro!: handled_okI)

text \<open>Dropping a payload: the credit of its bytes goes back to the engine, which may refuse.\<close>

lemma wp_discard_data_payload:
  assumes c: "running E seen L c" and s: "c_session c = Some s"
    and ok: "\<And>s'. running E seen L (c\<lparr>c_data_payload := None, c_data_size := 0, c_session := Some s'\<rparr>) \<Longrightarrow>
      next_id E s \<le> next_id E s' \<Longrightarrow>
      Q () (c\<lparr>c_data_payload := None, c_data_size := 0, c_session := Some s'\<rparr>)"
    and err: "\<And>e s'. next_id E s \<le> next_id E s' \<Longrightarrow>
      R e (c\<lparr>c_data_payload := None, c_data_size := 0, c_session := Some s'\<rparr>)"
  shows "wp (discard_data_payload E) Q R c"
proof -
  note inv = runningD [OF c]
  let ?c = "c\<lparr>c_data_payload := None, c_data_size := 0\<rparr>"
  have c': "running E seen L ?c"
    using inv by (intro runningI) auto
  have keep: "?c\<lparr>c_session := Some s\<rparr> = ?c" using s by simp
  have "running E seen L (?c\<lparr>c_session := Some s'\<rparr>)" if "next_id E s \<le> next_id E s'" for s'
    using running_session [OF c' _ that] s by simp
  then show ?thesis
    using s c' ok [of s] ok [of "snd (eng_session_consume_connection E (c_data_size c) s)"]
      err [of "snd (eng_session_consume_connection E (c_data_size c) s)"]
      engine_ok_advances(12) [OF inv(1)]
    by (auto simp: discard_data_payload_def wp_simps keep split: status.splits)
qed

lemma begin_frame_handled:
  assumes c: "running E seen L c" and s: "c_session c = Some s" and len: "len < 2 ^ 24"
  shows "wp (begin_frame E type len i) (handled E seen L (next_id E s)) (\<lambda>_ _. False) c"
proof (cases "type = FT_DATA")
  case True
  have start: "running E seen L (c\<lparr>c_data_payload := Some p, c_data_stream_id := i\<rparr>)"
    if "running E seen L c" "c_data_size c = 0" "length p \<le> SSIZE_MAX" for c p
    using runningD [OF that(1)] that(2,3) by (intro runningI) (auto simp: payload_ok_def)
  show ?thesis
    unfolding begin_frame_def using True s runningD [OF c] len
    by (auto simp: wp_simps SSIZE_MAX_def intro!: wp_discard_data_payload [OF c s] handled_okI
        handled_failI dest: start [of _ "replicate len None"])
qed (use c s in \<open>auto simp: begin_frame_def wp_simps intro!: handled_okI\<close>)

lemma data_chunk_handled:
  assumes c: "running E seen L c" and s: "c_session c = Some s" and len: "length data \<le> SSIZE_MAX"
  shows "wp (data_chunk E i data) (handled E seen L (next_id E s)) (\<lambda>_ _. False) c"
proof -
  note inv = runningD [OF c]
  have sum: "size_add (c_data_size c) (length data) = c_data_size c + length data"
    using inv(4) len by (auto simp: size_add_def payload_ok_def SSIZE_MAX_def split: option.splits)
  have chunk: "running E seen L (c\<lparr>c_data_payload := Some (overwrite p (c_data_size c) data),
      c_data_size := c_data_size c + length data\<rparr>)"
    if p: "c_data_payload c = Some p" and fits: "c_data_size c + length data \<le> length p" for p
  proof -
    have "payload_ok (Some (overwrite p (c_data_size c) data)) (c_data_size c + length data)"
      using inv(4) p fits by (auto simp: payload_ok_def length_overwrite take_overwrite)
    with inv show ?thesis by (intro runningI) auto
  qed
  show ?thesis
    using s inv chunk
    by (auto simp: data_chunk_def wp_simps sum split: option.splits
        intro!: handled_okI handled_failI)
qed

section \<open>Published events\<close>

lemma running_publish:
  assumes c: "running E seen L c"
    and e: "event_ok (c_max_inbound_header_list_size c) (c_max_inbound_header_count c) e"
      "\<not> is_closing_event e"
  shows "running E seen L (c\<lparr>c_events := c_events c @ [e]\<rparr>)"
  using runningD [OF c] base_inv_publish [OF runningD(2) [OF c] e] by (intro runningI) auto

lemma headers_event_ok: "headers_within m n hs \<Longrightarrow> event_ok m n (headers_event frame hs)"
  by (simp add: headers_event_def Let_def)

lemma headers_event_not_closing: "\<not> is_closing_event (headers_event frame hs)"
  by (simp add: headers_event_def Let_def)

lemma running_headers_within:
  assumes c: "running E seen L c"
  shows "headers_within (c_max_inbound_header_list_size c) (c_max_inbound_header_count c)
    (c_current_headers c)"
  using runningD(2,5) [OF c] unfolding base_inv_def block_ok_def limits_ok_def headers_within_def
  by linarith

lemma running_block_done:
  assumes c: "running E seen L c"
  shows "running E seen L (c\<lparr>c_current_headers := []\<rparr>)"
  using runningD [OF c]
  by (intro runningI) (auto simp: block_ok_def header_list_size_def base_inv_def limits_ok_def)

lemma running_closing:
  assumes c: "running E seen L c"
  shows "running E seen L (c\<lparr>c_closing := True, c_close_error_code := code, c_close_debug_data := data\<rparr>)"
  using runningD [OF c] by (intro runningI) auto

lemma running_data_done:
  assumes c: "running E seen L c" and credit: "credits_ok (c_auto_window_update c) u"
  shows "running E seen L (c\<lparr>c_data_payload := None, c_data_size := 0, c_unconsumed := u\<rparr>)"
  using runningD [OF c] credit by (intro runningI) auto

lemma credits_ok_insert: "credits_ok False u \<Longrightarrow> 0 < n \<Longrightarrow> credits_ok False (u(i \<mapsto> n))"
  by (auto simp: credits_ok_def)

lemma credits_ok_pos: "credits_ok auto u \<Longrightarrow> u i = Some n \<Longrightarrow> 0 < n"
  by (simp add: credits_ok_def)

lemma wp_mapM_new_bytes:
  "Q xs c \<Longrightarrow> R MemoryError c \<Longrightarrow> wp (mapM (new_bytes E) xs) Q R c"
  by (induction xs arbitrary: Q) (auto simp: wp_simps)

lemma data_frame_received_running:
  assumes c: "running E seen L c" and s: "c_session c = Some s"
  shows "wp (data_frame_received E frame)
    (\<lambda>_ c'. running E seen L c' \<and> c_session c' = Some s)
    (\<lambda>_ c'. base_inv seen c' \<and> c_initialized c' \<and> c_session c' = Some s) c"
proof -
  note inv = runningD [OF c]
  have publish: "running E seen L (c\<lparr>c_data_payload := None, c_data_size := 0,
      c_unconsumed := u, c_events := c_events c @ [DataReceived i data e]\<rparr>)"
    if "credits_ok (c_auto_window_update c) u" "None \<notin> set data" for u i data e
    using running_publish [OF running_data_done [OF c that(1)]] that(2) by simp
  have keep: "running E seen L (c\<lparr>c_data_payload := None, c_data_size := 0,
      c_events := c_events c @ [DataReceived i data e]\<rparr>)"
    if "None \<notin> set data" for i data e
    using publish [OF inv(6) that] by simp
  have pos: "c_unconsumed c i = Some m \<Longrightarrow> 0 < n \<Longrightarrow> 0 < m + n" for i m n
    using credits_ok_pos [OF inv(6)] by (simp add: add_pos_pos)
  have auto: "credits_ok False (c_unconsumed c)" if "\<not> c_auto_window_update c"
    using inv(6) that by simp
  show ?thesis
    using inv(2-4) s
    by (auto simp: data_frame_received_def publish_def wp_simps Let_def payload_ok_def
        split: option.splits intro!: keep publish credits_ok_insert pos auto)
qed

text \<open>Every frame handler publishes an event within the limits, or fails on an allocation.\<close>

lemma dispatch_frame_running:
  assumes c: "running E seen L c" and s: "c_session c = Some s"
  shows "wp (dispatch_frame E frame)
    (\<lambda>_ c'. running E seen L c' \<and> c_session c' = Some s)
    (\<lambda>_ c'. base_inv seen c' \<and> c_initialized c' \<and> c_session c' = Some s) c"
proof -
  note inv = runningD [OF c]
  note pub = running_publish [OF c]
  have block: "running E seen L (c\<lparr>c_events := c_events c @ [e], c_current_headers := []\<rparr>)"
    if "event_ok (c_max_inbound_header_list_size c) (c_max_inbound_header_count c) e"
      "\<not> is_closing_event e" for e
    using running_block_done [OF pub [OF that]] by simp
  have goaway: "running E seen L (c\<lparr>c_closing := True, c_close_error_code := code,
      c_close_debug_data := data, c_events := c_events c @ [goaway_received_event i code data]\<rparr>)"
    for i code data
    using running_publish [OF running_closing [OF c]] by (simp add: goaway_received_event_def)
  note handlers = headers_received_def push_promise_received_def settings_received_def
    reset_received_def ping_received_def window_update_received_def goaway_received_def
    altsvc_received_def origin_received_def priority_update_received_def publish_def
    settings_received_event_def stream_reset_event_def
  show ?thesis
    using c s inv running_headers_within [OF c] data_frame_received_running [OF c s]
    by (cases "hd_type frame")
      (auto simp: dispatch_frame_def handlers wp_simps headers_event_ok headers_event_not_closing
        intro!: pub block goaway wp_mapM_new_bytes)
qed

lemma frame_received_handled:
  assumes c: "running E seen L c" and s: "c_session c = Some s"
  shows "wp (frame_received E frame) (handled E seen L (next_id E s)) (\<lambda>_ _. False) c"
  unfolding frame_received_def wp_catchM wp_thenM
  by (rule wp_mono [OF dispatch_frame_running [OF c s]])
    (auto simp: wp_simps intro!: handled_okI handled_failI)

lemma stream_closed_handled:
  assumes c: "running E seen L c" and s: "c_session c = Some s"
  shows "wp (stream_closed E i code) (handled E seen L (next_id E s)) (\<lambda>_ _. False) c"
proof -
  let ?pop = "\<lambda>c. case c_bodies c i of None \<Rightarrow> c
    | Some body \<Rightarrow> c\<lparr>c_bodies := (c_bodies c)(i := None),
                     c_queued_body_size := c_queued_body_size c - queued_size body\<rparr>"
  have pop: "running E seen L (?pop c)" "c_session (?pop c) = Some s" "c_bodies (?pop c) i = None"
    using runningD [OF c] s c
    by (auto split: option.splits intro!: runningI bodies_ok_remove owners_ok_remove)
  let ?drop = "\<lambda>c. c\<lparr>c_responses := c_responses c - {i},
      c_deferred_resets := (c_deferred_resets c)(i := None),
      c_local_stream_errors := (c_local_stream_errors c)(i := None)\<rparr>"
  have finish: "handled E seen L (next_id E s) (RcOk 0) ((?drop c')\<lparr>c_events := c_events c' @
      [stream_closed_event i code e]\<rparr>)"
    if c': "running E seen L c'" "c_session c' = Some s'" "next_id E s \<le> next_id E s'"
      "c_bodies c' i = None" for c' s' e
  proof -
    have "(c_bodies c')(i := None) = c_bodies c'" using c'(4) by auto
    then have "running E seen L (?drop c')"
      using runningD [OF c'(1)] owners_ok_remove(1) [OF runningD(8) [OF c'(1)], of i]
      by (intro runningI) auto
    from running_publish [OF this, of "stream_closed_event i code e"] show ?thesis
      using c'(2,3) by (intro handled_okI) (simp_all add: stream_closed_event_def)
  qed
  show ?thesis
    unfolding stream_closed_def
    by (auto simp add: wp_catchM wp_thenM wp_modifyM wp_bindM wp_getsM wp_whenM publish_def
        wp_returnM wp_callback_failed pop runningD [OF pop(1)]
        intro!: wp_discard_data_payload [OF pop(1,2)] handled_failI finish [simplified]
        dest: runningD(2))
qed

section \<open>Whole library calls\<close>

text \<open>
  The contract between a library call and the callbacks it runs. \<open>inv\<close> holds at every invocation and
  after every callback that did not fail, \<open>failed\<close> after one that did; since the library then
  returns at once, a call ends in one or the other. Both ignore how the library changes its session,
  as long as stream identifiers do not decrease.
\<close>

locale callback_contract =
  fixes E :: "'s engine" and inv failed :: "'s conn \<Rightarrow> bool"
  assumes callback: "inv c \<Longrightarrow> c_session c = Some s \<Longrightarrow> call_ok q \<Longrightarrow>
      wp (handle E q) (\<lambda>ans c'. (\<exists>s'. c_session c' = Some s' \<and> next_id E s \<le> next_id E s') \<and>
        (if ans_rc ans = RcErr ERR_CALLBACK_FAILURE then failed c' else inv c')) (\<lambda>_ _. False) c"
    and inv_session: "inv c \<Longrightarrow> c_session c = Some s \<Longrightarrow> next_id E s \<le> next_id E s' \<Longrightarrow>
      inv (c\<lparr>c_session := Some s'\<rparr>)"
    and failed_session: "failed c \<Longrightarrow> failed (c\<lparr>c_session := Some s'\<rparr>)"
begin

lemma run_keeps:
  assumes "inv c" and "c_session c = Some s" and "run_ok E r (next_id E s)"
  shows "wp (run_engine E r) (\<lambda>rc c'. (\<exists>s'. c_session c' = Some s' \<and> next_id E s \<le> next_id E s') \<and>
      (inv c' \<or> failed c' \<and> rc = RcErr ERR_CALLBACK_FAILURE)) (\<lambda>_ _. False) c"
  using assms
proof (induction r arbitrary: c s)
  case (Return rc s')
  then show ?case
    by (auto simp: wp_def intro: inv_session)
next
  case (Invoke q s1 k)
  let ?c = "c\<lparr>c_session := Some s1\<rparr>"
  have c: "inv ?c" "c_session ?c = Some s1"
    using Invoke.prems by (auto intro: inv_session)
  have le: "next_id E s \<le> next_id E s1" and ok: "call_ok q"
    and rest: "\<And>ans s'. next_id E s1 \<le> next_id E s' \<Longrightarrow>
        (if ans_rc ans = RcErr ERR_CALLBACK_FAILURE
         then \<exists>s''. k ans s' = Return (RcErr ERR_CALLBACK_FAILURE) s'' \<and> next_id E s' \<le> next_id E s''
         else run_ok E (k ans s') (next_id E s'))"
    using Invoke.prems(3) by simp_all
  obtain ans c' s' where h: "handle E q ?c = (Ok ans, c')"
    and s': "c_session c' = Some s'" "next_id E s1 \<le> next_id E s'"
    and c': "if ans_rc ans = RcErr ERR_CALLBACK_FAILURE then failed c' else inv c'"
    using callback [OF c ok] by (auto simp: wp_def split: prod.splits outcome.splits)
  show ?case
  proof (cases "ans_rc ans = RcErr ERR_CALLBACK_FAILURE")
    case True
    then obtain s'' where "k ans s' = Return (RcErr ERR_CALLBACK_FAILURE) s''"
      and "next_id E s' \<le> next_id E s''"
      using rest [OF s'(2), of ans] by auto
    with True c' h s' le show ?thesis
      by (auto simp: wp_def intro: failed_session)
  next
    case False
    then have "wp (run_engine E (k ans s')) (\<lambda>rc c''.
        (\<exists>s''. c_session c'' = Some s'' \<and> next_id E s' \<le> next_id E s'') \<and>
        (inv c'' \<or> failed c'' \<and> rc = RcErr ERR_CALLBACK_FAILURE)) (\<lambda>_ _. False) c'"
      using rest [OF s'(2), of ans] c' s' by (intro Invoke.IH) auto
    then show ?thesis
      using h s' le by (auto simp: wp_def split: prod.splits outcome.splits)
  qed
qed

lemma native_run_keeps:
  assumes "inv c" and "c_session c = Some s" and "runs_ok E f"
  shows "wp (native_run E f) (\<lambda>rc c'. (\<exists>s'. c_session c' = Some s' \<and> next_id E s \<le> next_id E s') \<and>
      (inv c' \<or> failed c' \<and> rc = RcErr ERR_CALLBACK_FAILURE)) (\<lambda>_ _. False) c"
  using run_keeps [OF assms(1,2), of "f s"] assms(2,3)
  by (simp add: native_run_def runs_ok_def wp_def)

end

lemma handle_handled:
  assumes "running E seen L c" and "c_session c = Some s" and "call_ok q"
  shows "wp (handle E q) (\<lambda>ans. handled E seen L (next_id E s) (ans_rc ans)) (\<lambda>_ _. False) c"
  using assms
  by (cases q)
    (simp_all add: wp_bindM wp_returnM plain_answer_def collect_output_handled send_body_handled
      data_frame_length_handled read_body_handled begin_frame_handled begin_headers_handled
      header_field_handled invalid_header_handled data_chunk_handled frame_received_handled
      stream_closed_handled frame_sent_handled frame_not_sent_handled)

text \<open>The connection's callbacks meet it, for every output limit.\<close>

interpretation callbacks: callback_contract E "running E seen L" "broken seen"
proof
  fix c s q
  assume "running E seen L c" "c_session c = Some s" "call_ok q"
  then show "wp (handle E q) (\<lambda>ans c'. (\<exists>s'. c_session c' = Some s' \<and> next_id E s \<le> next_id E s') \<and>
      (if ans_rc ans = RcErr ERR_CALLBACK_FAILURE then broken seen c' else running E seen L c'))
      (\<lambda>_ _. False) c"
    by (rule wp_mono [OF handle_handled]) (simp_all add: handled_def)
qed (auto intro: running_session broken_session)

end
