(* ===== verification/Frames.thy ===== *)
theory Frames
  imports Control Invariant
begin

text \<open>
  Computations that never change a part of the state (the collection \<open>preserves_intros\<close>). No
  callback of \<^verbatim>\<open>src/ngh2/_core.pyx\<close> changes the lifecycle flags of its connection or publishes
  \<open>ConnectionClosed\<close>; what ends a connection is always the method that called the engine.
\<close>

section \<open>Preserved parts of the state\<close>

named_theorems preserves_intros

definition preserves :: "('w \<Rightarrow> 'f) \<Rightarrow> ('w, 'e, 'a) py \<Rightarrow> bool" where
  "preserves f m \<longleftrightarrow> (\<forall>w. f (snd (m w)) = f w)"

lemma preserves_returnM [preserves_intros]: "preserves f (returnM x)"
  by (simp add: preserves_def returnM_def)

lemma preserves_raiseM [preserves_intros]: "preserves f (raiseM e)"
  by (simp add: preserves_def raiseM_def)

lemma preserves_crashM [preserves_intros]: "preserves f crashM"
  by (simp add: preserves_def crashM_def)

lemma preserves_getsM [preserves_intros]: "preserves f (getsM g)"
  by (simp add: preserves_def getsM_def)

lemma preserves_modifyM [preserves_intros]: "(\<And>w. f (g w) = f w) \<Longrightarrow> preserves f (modifyM g)"
  by (simp add: preserves_def modifyM_def)

lemma preserves_bindM [preserves_intros]:
  "preserves f m \<Longrightarrow> (\<And>x. preserves f (k x)) \<Longrightarrow> preserves f (bindM m k)"
  by (auto simp: preserves_def bindM_def split: prod.splits outcome.splits) (metis snd_conv)+

lemma preserves_thenM [preserves_intros]: "preserves f m \<Longrightarrow> preserves f k \<Longrightarrow> preserves f (thenM m k)"
  by (simp add: thenM_def preserves_bindM)

lemma preserves_catchM [preserves_intros]:
  "preserves f m \<Longrightarrow> (\<And>e. preserves f (h e)) \<Longrightarrow> preserves f (catchM m h)"
  by (auto simp: preserves_def catchM_def split: prod.splits outcome.splits) (metis snd_conv)+

lemma preserves_raise_if [preserves_intros]: "preserves f (raise_if b e)"
  by (simp add: raise_if_def preserves_intros)

lemma preserves_whenM [preserves_intros]: "preserves f m \<Longrightarrow> preserves f (whenM b m)"
  by (simp add: whenM_def preserves_intros)

lemma preserves_mapM [preserves_intros]: "(\<And>x. preserves f (g x)) \<Longrightarrow> preserves f (mapM g xs)"
  by (induction xs) (auto intro!: preserves_intros)

section \<open>Callbacks preserve the lifecycle\<close>

definition lifecycle :: "'s conn \<Rightarrow> bool \<times> bool \<times> bool \<times> bool \<times> bool \<times> bool" where
  "lifecycle c = (c_initialized c, c_active c, c_failed c, c_terminating c, c_closed c, c_server c)"

text \<open>The lifecycle together with the number of \<open>ConnectionClosed\<close> events that are pending.\<close>

definition outlook :: "'s conn \<Rightarrow> (bool \<times> bool \<times> bool \<times> bool \<times> bool \<times> bool) \<times> nat" where
  "outlook c = (lifecycle c, closings (c_events c))"

lemmas outlook_simps = outlook_def lifecycle_def closings_def

lemma preserves_lifecycle: "preserves outlook m \<Longrightarrow> preserves lifecycle m"
  by (simp add: preserves_def outlook_def)

lemma closing_events [simp]:
  "\<not> is_closing_event (headers_event frame hs)"
  "\<not> is_closing_event (settings_received_event settings)"
  "\<not> is_closing_event (stream_reset_event i code)"
  "\<not> is_closing_event (goaway_received_event i code debug)"
  "\<not> is_closing_event (stream_closed_event i code err)"
  "\<not> is_closing_event (if b then PingAcknowledged bs else PingReceived bs)"
  by (simp_all add: headers_event_def settings_received_event_def stream_reset_event_def
      goaway_received_event_def stream_closed_event_def Let_def)

lemma preserves_native_call [preserves_intros]: "preserves outlook (native_call f)"
  by (auto simp: preserves_def native_call_def outlook_simps split: option.splits prod.splits)

lemma preserves_native_query [preserves_intros]: "preserves f (native_query g)"
  by (auto simp: preserves_def native_query_def split: option.splits)

lemma preserves_publish [preserves_intros]:
  "\<not> is_closing_event e \<Longrightarrow> preserves outlook (publish e)"
  unfolding publish_def by (rule preserves_modifyM) (simp add: outlook_simps)

text \<open>What callbacks share.\<close>

lemma preserves_helpers [preserves_intros]:
  "preserves outlook (callback_failed e)"
  "preserves outlook (check_result r)"
  "preserves outlook (new_bytes E bs)"
  "preserves outlook (update_body i g)"
  unfolding callback_failed_def check_result_def new_bytes_def update_body_def Let_def
  by (auto intro!: preserves_intros simp: outlook_simps split: option.split outcome.split prod.split
      status.split frame_type.split)

text \<open>Staging output, and the output callbacks.\<close>

lemma preserves_staging [preserves_intros]:
  "preserves outlook (grow_output E n)"
  "preserves outlook (write_output off d)"
  "preserves outlook (copy_body_of i n)"
  "preserves outlook (data_frame_length i n)"
  unfolding grow_output_def write_output_def copy_body_of_def data_frame_length_def Let_def
  by (auto intro!: preserves_intros simp: outlook_simps split: option.split outcome.split prod.split
      status.split frame_type.split)

lemma preserves_reserve_output [preserves_intros]:
  "preserves outlook (reserve_output E n)"
  unfolding reserve_output_def Let_def
  by (auto intro!: preserves_intros simp: outlook_simps split: option.split outcome.split prod.split
      status.split frame_type.split)

lemma preserves_output_callbacks [preserves_intros]:
  "preserves outlook (collect_output E d)"
  "preserves outlook (send_body E fr h n)"
  "preserves outlook (take_body i n r b)"
  unfolding collect_output_def send_body_def take_body_def Let_def
  by (auto intro!: preserves_intros simp: outlook_simps split: option.split outcome.split prod.split
      status.split frame_type.split)

text \<open>The input callbacks.\<close>

lemma preserves_input_parts [preserves_intros]:
  "preserves outlook (begin_headers)"
  "preserves outlook (invalid_header)"
  "preserves outlook (header_field E name val no_index)"
  "preserves outlook (discard_data_payload E)"
  "preserves outlook (begin_frame E t n i)"
  "preserves outlook (data_chunk E i d)"
  unfolding begin_headers_def invalid_header_def header_field_def discard_data_payload_def
    begin_frame_def data_chunk_def Let_def
  by (auto intro!: preserves_intros simp: outlook_simps split: option.split outcome.split prod.split
      status.split frame_type.split)

lemma preserves_frames [preserves_intros]:
  "preserves outlook (headers_received fr)"
  "preserves outlook (push_promise_received fr)"
  "preserves outlook (data_frame_received E fr)"
  "preserves outlook (settings_received fr)"
  "preserves outlook (reset_received fr)"
  "preserves outlook (ping_received E fr)"
  "preserves outlook (window_update_received fr)"
  "preserves outlook (goaway_received E fr)"
  "preserves outlook (altsvc_received E fr)"
  "preserves outlook (origin_received E fr)"
  "preserves outlook (priority_update_received E fr)"
  unfolding headers_received_def push_promise_received_def data_frame_received_def
    settings_received_def reset_received_def ping_received_def window_update_received_def
    goaway_received_def altsvc_received_def origin_received_def priority_update_received_def
    Let_def
  by (auto intro!: preserves_intros simp: outlook_simps split: option.split outcome.split prod.split
      status.split frame_type.split)

lemma preserves_dispatch_frame [preserves_intros]:
  "preserves outlook (dispatch_frame E fr)"
  unfolding dispatch_frame_def Let_def
  by (auto intro!: preserves_intros simp: outlook_simps split: option.split outcome.split prod.split
      status.split frame_type.split)

lemma preserves_frame_received [preserves_intros]:
  "preserves outlook (frame_received E fr)"
  "preserves outlook (stream_closed E i n)"
  unfolding frame_received_def stream_closed_def Let_def
  by (auto intro!: preserves_intros simp: outlook_simps split: option.split outcome.split prod.split
      status.split frame_type.split)

text \<open>The body and frame callbacks.\<close>

lemma preserves_make_headers [preserves_intros]:
  "preserves f (make_headers alloc (map thaw_header hs))"
  unfolding make_headers_thaw by (auto intro!: preserves_intros)

lemma preserves_answer_body [preserves_intros]: "preserves outlook (answer_body E i b x)"
  by (cases x) (auto intro!: preserves_intros simp: outlook_simps split: option.split)

lemma preserves_read_body [preserves_intros]: "preserves outlook (read_body E i n)"
  unfolding read_body_def Let_def
  by (auto intro!: preserves_intros simp: outlook_simps split: option.split prod.split)

lemma preserves_sent [preserves_intros]:
  "preserves outlook (frame_sent E fr)"
  "preserves outlook (reset_failed_stream E fr i)"
  unfolding frame_sent_def reset_failed_stream_def Let_def
  by (auto intro!: preserves_intros simp: outlook_simps split: option.split outcome.split prod.split
      status.split frame_type.split)

lemma preserves_frame_not_sent [preserves_intros]:
  "preserves outlook (frame_not_sent E fr code)"
  unfolding frame_not_sent_def Let_def
  by (auto intro!: preserves_intros simp: outlook_simps split: option.split outcome.split prod.split
      status.split frame_type.split)

lemma preserves_handle: "preserves outlook (handle E q)"
  by (cases q) (auto intro!: preserves_intros)

text \<open>A library call, whatever callbacks it runs.\<close>

lemma preserves_run_engine [preserves_intros]: "preserves outlook (run_engine E r)"
proof (induction r)
  case (Return rc s)
  then show ?case by (simp add: preserves_def outlook_simps)
next
  case (Invoke q s k)
  show ?case
    unfolding preserves_def
  proof
    fix c
    have h: "outlook (snd (handle E q (c\<lparr>c_session := Some s\<rparr>))) = outlook c"
      using preserves_handle [of E q] by (simp add: preserves_def outlook_simps)
    have IH: "outlook (snd (run_engine E (k ans s') c')) = outlook c'" for ans s' c'
      using Invoke.IH [OF rangeI rangeI, of ans s'] by (simp add: preserves_def)
    show "outlook (snd (run_engine E (Invoke q s k) c)) = outlook c"
      using h by (auto simp: IH split: prod.split outcome.split option.split)
  qed
qed

lemma preserves_native_run [preserves_intros]: "preserves outlook (native_run E f)"
  using preserves_run_engine [of E] by (auto simp: preserves_def native_run_def split: option.splits)

lemma wp_preserves: "preserves f m \<Longrightarrow> wp m Q R w \<Longrightarrow>
    wp m (\<lambda>x w'. Q x w' \<and> f w' = f w) (\<lambda>e w'. R e w' \<and> f w' = f w) w"
  by (auto simp: wp_def preserves_def split: prod.splits outcome.splits) (metis snd_conv)+

end
