(* ===== verification/Methods.thy ===== *)
theory Methods
  imports Callbacks Frames
begin

text \<open>
  Every public method of \<open>Connection\<close> (\<^verbatim>\<open>src/ngh2/_core.pyx\<close>) keeps the class invariant
  \<open>conn_inv\<close> and never runs into undefined behaviour, whatever the application's objects do while
  they are converted, as long as their code keeps the invariant too (which code that only calls
  methods of the connection does).
\<close>

section \<open>From the invariant to a running session\<close>

lemma conn_inv_running:
  "engine_ok E \<Longrightarrow> conn_inv E seen c \<Longrightarrow> c_session c \<noteq> None \<Longrightarrow> running E seen 0 c"
  by (simp add: running_def conn_inv_def)

lemma running_conn_inv: "running E seen 0 c \<Longrightarrow> conn_inv E seen c"
  by (simp add: running_def conn_inv_def)

lemma conn_inv_session:
  "conn_inv E seen c \<Longrightarrow> (c_session c \<noteq> None \<longleftrightarrow> c_initialized c \<and> \<not> c_failed c) \<and>
     (c_active c \<longrightarrow> c_session c \<noteq> None)"
  by (auto simp: conn_inv_def core_inv_def base_inv_def flags_ok_def)

lemma active_running:
  assumes "engine_ok E" and "conn_inv E seen c" and "c_active c"
  obtains s where "c_session c = Some s" and "running E seen 0 c"
  using assms conn_inv_session conn_inv_running by blast

lemma running_fail: "running E seen L c \<Longrightarrow> conn_inv E seen (fail_conn c)"
  using running_base by (blast intro: fail_conn_inv)

lemma broken_fail: "broken seen c \<Longrightarrow> conn_inv E seen (fail_conn c)"
  by (rule fail_conn_inv) (auto simp: broken_def dest: base_inv_initialized)

lemma broken_error: "broken seen c \<Longrightarrow> c_callback_error c \<noteq> None"
  by (simp add: broken_def)

section \<open>Steps shared by the methods\<close>

lemma keeps_collects_bindM:
  "collects I P m \<Longrightarrow> (\<And>x. P x \<Longrightarrow> keeps I (f x)) \<Longrightarrow> keeps I (bindM m f)"
  by (auto simp: keeps_def collects_def wp_simps intro: wp_mono)

text \<open>A method body behind \<open>_require_active\<close>, and one behind \<open>_require_drivable\<close>.\<close>

lemma keeps_require_active:
  assumes "engine_ok E"
    and "\<And>c s. running E seen 0 c \<Longrightarrow> c_session c = Some s \<Longrightarrow> \<not> c_terminating c \<Longrightarrow>
      wp m (\<lambda>_. conn_inv E seen) (\<lambda>_. conn_inv E seen) c"
  shows "keeps (conn_inv E seen) (thenM require_active m)"
  by (rule keepsI) (auto simp: wp_thenM wp_require_active elim!: active_running [OF assms(1)]
      intro: assms(2))

lemma keeps_require_drivable:
  assumes "engine_ok E"
    and "\<And>c s. running E seen 0 c \<Longrightarrow> c_session c = Some s \<Longrightarrow>
      wp m (\<lambda>_. conn_inv E seen) (\<lambda>_. conn_inv E seen) c"
  shows "keeps (conn_inv E seen) (thenM require_drivable m)"
  by (rule keepsI) (auto simp: wp_thenM wp_require_drivable elim!: active_running [OF assms(1)]
      intro: assms(2))

text \<open>A submit call whose result is checked: the state is kept, or the connection fails.\<close>

lemma wp_submit_check:
  assumes c: "running E seen 0 c" and s: "c_session c = Some s"
    and adv: "next_id E s \<le> next_id E (snd (f s))"
    and ok: "\<And>n. running E seen 0 (c\<lparr>c_session := Some (snd (f s))\<rparr>) \<Longrightarrow> fst (f s) = RcOk n \<Longrightarrow>
      wp (k (RcOk n)) (\<lambda>_. conn_inv E seen) (\<lambda>_. conn_inv E seen) (c\<lparr>c_session := Some (snd (f s))\<rparr>)"
  shows "wp (bindM (native_call f) (\<lambda>result. thenM (check_native E result) (k result)))
    (\<lambda>_. conn_inv E seen) (\<lambda>_. conn_inv E seen) c"
proof -
  have "running E seen 0 (c\<lparr>c_session := Some (snd (f s))\<rparr>)"
    by (rule running_session [OF c s adv])
  with s ok show ?thesis
    by (auto simp: wp_bindM wp_native_call wp_thenM wp_check_native running_fail running_conn_inv
        split: status.splits)
qed

lemma wp_submit_only:
  assumes c: "running E seen 0 c" and s: "c_session c = Some s"
    and adv: "next_id E s \<le> next_id E (snd (f s))"
  shows "wp (bindM (native_call f) (check_native E)) (\<lambda>_. conn_inv E seen) (\<lambda>_. conn_inv E seen) c"
proof -
  have "running E seen 0 (c\<lparr>c_session := Some (snd (f s))\<rparr>)"
    by (rule running_session [OF c s adv])
  with s show ?thesis
    by (auto simp: wp_bindM wp_native_call wp_check_native running_fail running_conn_inv
        split: status.splits)
qed

lemma keeps_native_headers:
  "polite I v \<Longrightarrow> keeps I (native_headers E v)"
  unfolding native_headers_def
  by (rule keeps_collects_bindM [OF collects_normalize_headers]) (auto intro: keeps_make_headers)

lemma keeps_new_bytes [keeps_intros]: "keeps I (new_bytes E bs)"
  unfolding new_bytes_def by (intro keeps_intros)

lemma keeps_require_server [keeps_intros]: "keeps I (require_server b)"
  unfolding require_server_def by (intro keeps_intros)

section \<open>Initiation\<close>

lemma running_activate:
  assumes c: "running E seen L c" and active: "\<not> c_terminating c"
  shows "running E seen L (c\<lparr>c_active := True\<rparr>)" "running E seen L (c\<lparr>c_local_extensible_priority := p\<rparr>)"
proof -
  have "base_inv seen (c\<lparr>c_active := True\<rparr>)"
    using runningD(2,13) [OF c] active by (auto simp: base_inv_def flags_ok_def)
  then show "running E seen L (c\<lparr>c_active := True\<rparr>)"
    using runningD(1,3-11,13) [OF c] by (intro runningI) auto
  show "running E seen L (c\<lparr>c_local_extensible_priority := p\<rparr>)"
    using runningD(1-11,13) [OF c] by (intro runningI) auto
qed

lemma keeps_native_settings [keeps_intros]: "keeps I (native_settings E es)"
  unfolding native_settings_def by (intro keeps_intros)

lemma native_settings_pure:
  "Q es c \<Longrightarrow> (\<And>e. R e c) \<Longrightarrow> wp (native_settings E es) Q R c"
  by (auto simp: native_settings_def make_settings_def wp_simps)

lemma created_running:
  assumes "engine_ok E" and "conn_inv E seen c"
    and "c_initialized c" "\<not> c_failed c" "\<not> c_active c"
  obtains s where "c_session c = Some s" and "running E seen 0 c" and "\<not> c_terminating c"
proof -
  obtain s where s: "c_session c = Some s"
    using conn_inv_session [OF assms(2)] assms(3,4) by auto
  moreover have "running E seen 0 c"
    using conn_inv_running [OF assms(1,2)] s by simp
  moreover have "\<not> c_terminating c"
    using conn_inv_base [OF assms(2)] assms(5) by (auto simp: base_inv_def flags_ok_def)
  ultimately show thesis by (rule that)
qed

lemma keeps_initiate_connection [keeps_intros]:
  assumes E: "engine_ok E" and v: "polite (conn_inv E seen) v"
  shows "keeps (conn_inv E seen) (initiate_connection E v)"
  unfolding initiate_connection_def
proof (rule keeps_bindM)
  show "keeps (conn_inv E seen) (normalize_settings v)"
    by (rule collects_keeps [OF collects_normalize_settings [OF v]])
  fix es
  show "keeps (conn_inv E seen) (thenM require_created
     (bindM (native_settings E es) (\<lambda>native.
      bindM (native_call (eng_submit_settings E native)) (\<lambda>result.
      thenM (check_native E result)
        (modifyM (\<lambda>c. c\<lparr>c_local_extensible_priority := extensible_priority es, c_active := True\<rparr>))))))"
  proof (rule keepsI)
    fix c assume c: "conn_inv E seen c"
    show "wp (thenM require_created
     (bindM (native_settings E es) (\<lambda>native.
      bindM (native_call (eng_submit_settings E native)) (\<lambda>result.
      thenM (check_native E result)
        (modifyM (\<lambda>c. c\<lparr>c_local_extensible_priority := extensible_priority es, c_active := True\<rparr>))))))
      (\<lambda>_. conn_inv E seen) (\<lambda>_. conn_inv E seen) c"
      unfolding wp_thenM [of require_created] wp_require_created wp_bindM [of "native_settings _ _"]
      by (auto simp: c wp_modifyM elim!: created_running [OF E c]
          intro!: native_settings_pure wp_submit_check engine_ok_advances [OF E] running_conn_inv
            running_activate)
  qed
qed

text \<open>
  A library call that runs callbacks, and the translation of its result. It continues with a running
  session, or raises: with the connection failed, or, after an error that is not fatal, running.
\<close>

lemma wp_native_run:
  assumes c: "running E seen L c" and s: "c_session c = Some s" and f: "runs_ok E f"
    and ok: "\<And>n c'. running E seen L c' \<Longrightarrow> lifecycle c' = lifecycle c \<Longrightarrow> wp (k (RcOk n)) Q R c'"
    and err: "\<And>e c'. conn_inv E seen (fail_conn c') \<Longrightarrow> R e (fail_conn c')"
    and err0: "\<And>e c'. running E seen L c' \<Longrightarrow> R e c'"
  shows "wp (bindM (native_run E f) (\<lambda>result. thenM (raise_callback_or_native E result) (k result))) Q R c"
  unfolding wp_bindM wp_thenM wp_raise_callback_or_native
  by (rule wp_mono [OF wp_preserves [OF preserves_lifecycle [OF preserves_native_run] callbacks.native_run_keeps [OF c s f]]])
    (auto split: status.splits option.splits intro: ok err err0 running_fail broken_fail
      dest: runningD(10) broken_error)

lemma running_reset_error:
  assumes c: "running E seen L c"
  shows "running E seen L (c\<lparr>c_callback_error := None\<rparr>)"
  using runningD(1-11,13) [OF c] by (intro runningI) auto

lemma upgrade_settings_inv:
  assumes c: "running E seen 0 c" and t: "\<not> c_terminating c"
  shows "wp (thenM (upgrade_settings E es native) (modifyM (\<lambda>c. c\<lparr>c_active := True\<rparr>)))
    (\<lambda>_. conn_inv E seen) (\<lambda>_. conn_inv E seen) c"
proof -
  obtain s where s: "c_session c = Some s" using runningD(13) [OF c] by auto
  let ?c = "c\<lparr>c_session := Some (snd (eng_submit_settings E native s))\<rparr>"
  have "running E seen 0 ?c"
    by (rule running_session [OF c s engine_ok_advances(2) [OF runningD(1) [OF c]]])
  then show ?thesis
    using s t by (auto simp: upgrade_settings_def wp_simps running_fail split: status.splits
        intro!: running_conn_inv running_activate)
qed

lemma terminating_lifecycle: "lifecycle c' = lifecycle c \<Longrightarrow> c_terminating c' = c_terminating c"
  by (simp add: lifecycle_def)

lemma upgrade_run_inv:
  assumes E: "engine_ok E" and c: "running E seen 0 c" "\<not> c_terminating c"
  shows "wp (thenM (modifyM (\<lambda>c. c\<lparr>c_callback_error := None\<rparr>))
      (bindM (native_run E (eng_session_upgrade E bytes req)) (\<lambda>result.
      thenM (raise_callback_or_native E result)
      (thenM (if server then upgrade_settings E entries native else returnM ())
        (modifyM (\<lambda>c. c\<lparr>c_active := True\<rparr>))))))
      (\<lambda>_. conn_inv E seen) (\<lambda>_. conn_inv E seen) c"
proof -
  let ?c = "c\<lparr>c_callback_error := None\<rparr>"
  have c': "running E seen 0 ?c" by (rule running_reset_error [OF c(1)])
  obtain s where s: "c_session ?c = Some s" using runningD(13) [OF c'] by auto
  show ?thesis
    unfolding wp_thenM [of "modifyM _"] wp_modifyM
  proof (rule wp_native_run [OF c' s engine_ok_upgrade [OF E]])
    fix c'
    assume "running E seen 0 c'" and "lifecycle c' = lifecycle ?c"
    then show "wp (thenM (if server then upgrade_settings E entries native else returnM ())
      (modifyM (\<lambda>c. c\<lparr>c_active := True\<rparr>))) (\<lambda>_. conn_inv E seen) (\<lambda>_. conn_inv E seen) c'"
      using c(2) terminating_lifecycle [of c' ?c]
      using upgrade_settings_inv [of E seen c' entries native]
      by (cases server) (simp_all add: wp_thenM wp_returnM wp_modifyM running_conn_inv running_activate)
  qed (auto intro: running_conn_inv)
qed

lemma keeps_initiate_upgrade [keeps_intros]:
  assumes E: "engine_ok E" and p: "polite (conn_inv E seen) payload"
    and v: "polite (conn_inv E seen) settings" and h: "polite (conn_inv E seen) head_request"
  shows "keeps (conn_inv E seen) (initiate_upgrade E payload settings head_request)"
proof -
  have body: "keeps (conn_inv E seen) (thenM require_created
      (bindM (getsM c_server) (\<lambda>server.
      bindM (if server then native_settings E entries else returnM []) (\<lambda>native.
      thenM (modifyM (\<lambda>c. c\<lparr>c_callback_error := None\<rparr>))
      (bindM (native_run E (eng_session_upgrade E bytes req)) (\<lambda>result.
      thenM (raise_callback_or_native E result)
      (thenM (if server then upgrade_settings E entries native else returnM ())
        (modifyM (\<lambda>c. c\<lparr>c_active := True\<rparr>)))))))))" for bytes req entries
  proof (rule keepsI)
    fix c assume c: "conn_inv E seen c"
    show "wp (thenM require_created
      (bindM (getsM c_server) (\<lambda>server.
      bindM (if server then native_settings E entries else returnM []) (\<lambda>native.
      thenM (modifyM (\<lambda>c. c\<lparr>c_callback_error := None\<rparr>))
      (bindM (native_run E (eng_session_upgrade E bytes req)) (\<lambda>result.
      thenM (raise_callback_or_native E result)
      (thenM (if server then upgrade_settings E entries native else returnM ())
        (modifyM (\<lambda>c. c\<lparr>c_active := True\<rparr>)))))))))
      (\<lambda>_. conn_inv E seen) (\<lambda>_. conn_inv E seen) c"
      unfolding wp_thenM [of require_created] wp_require_created
      using c
      by (auto simp: wp_bindM [of "getsM _"] wp_bindM [of "native_settings _ _"] wp_getsM
          elim!: created_running [OF E c] intro!: native_settings_pure running_conn_inv
            upgrade_run_inv [OF E, where server = True, unfolded if_True]
            upgrade_run_inv [OF E, where server = False, unfolded if_False])
  qed
  show ?thesis
    unfolding initiate_upgrade_def
    by (auto intro!: keeps_bindM keeps_thenM keeps_truth keeps_getsM keeps_raise_if keeps_raiseM body
        keeps_returnM h v collects_keeps [OF collects_normalize_settings] split: option.split)
qed

section \<open>Driving\<close>

lemma running_terminal:
  assumes c: "running E seen L c" and closing: "c_closing c"
  shows "wp (update_terminal_state E) (\<lambda>_. running E seen L) (\<lambda>_ _. False) c"
proof -
  have "base_inv seen ((discard_pending_state (c\<lparr>c_terminating := True\<rparr>))\<lparr>c_closed := True,
      c_events := c_events c @ [connection_closed_event code data]\<rparr>)"
    if "c_active c" "\<not> c_closed c" for code data
    using runningD(2,13) [OF c] closing that
    by (auto simp: base_inv_def flags_ok_def discard_pending_state_def events_ok_def closings_def
        connection_closed_event_def)
  then have "running E seen L ((discard_pending_state (c\<lparr>c_terminating := True\<rparr>))\<lparr>c_closed := True,
      c_events := c_events c @ [connection_closed_event code data]\<rparr>)"
    if "c_active c" "\<not> c_closed c" for code data
    using runningD(1-11,13) [OF c] that unfolding discard_pending_state_def
    by (intro runningI) (auto simp: base_inv_def intro: block_ok_empty)
  then show ?thesis
    using c runningD(13) [OF c] by (auto simp: update_terminal_state_def wp_simps)
qed

lemma keeps_receive_data [keeps_intros]:
  assumes E: "engine_ok E" and v: "polite (conn_inv E seen) v"
  shows "keeps (conn_inv E seen) (receive_data E v)"
proof -
  have tail: "wp (thenM (modifyM (\<lambda>c. c\<lparr>c_callback_error := None\<rparr>))
     (bindM (native_run E (eng_session_mem_recv E view)) (\<lambda>result.
      thenM (raise_callback_or_native E result)
      (thenM
        (if result \<noteq> RcOk (length view)
         then thenM (modifyM fail_conn) (raiseM InternalError) else returnM ())
        (bindM (getsM c_closing) (\<lambda>closing. whenM closing (update_terminal_state E)))))))
     (\<lambda>_. conn_inv E seen) (\<lambda>_. conn_inv E seen) c"
    if c: "running E seen 0 c" for c view
  proof -
    let ?c = "c\<lparr>c_callback_error := None\<rparr>"
    have c': "running E seen 0 ?c" by (rule running_reset_error [OF c])
    obtain s where s: "c_session ?c = Some s" using runningD(13) [OF c'] by auto
    have last: "wp (bindM (getsM c_closing) (\<lambda>closing. whenM closing (update_terminal_state E)))
        (\<lambda>_. conn_inv E seen) (\<lambda>_. conn_inv E seen) c'" if "running E seen 0 c'" for c'
      using that by (auto simp: wp_bindM wp_getsM wp_whenM intro: running_conn_inv
          intro!: wp_mono [OF running_terminal])
    show ?thesis
      unfolding wp_thenM [of "modifyM _"] wp_modifyM
      by (rule wp_native_run [OF c' s engine_ok_recv [OF E]])
        (auto simp: wp_thenM wp_modifyM wp_raiseM wp_returnM intro: running_fail running_conn_inv last)
  qed
  show ?thesis
    unfolding receive_data_def
    by (intro keeps_bindM keeps_get_buffer v keeps_require_active [OF E] tail)
qed

lemma keeps_events [keeps_intros]: "keeps (conn_inv E seen) events"
proof (rule keepsI)
  fix c :: "'a conn" assume c: "conn_inv E seen c"
  have "core_inv E seen (c\<lparr>c_events := []\<rparr>)"
    using c unfolding conn_inv_def core_inv_def base_inv_def
    by (auto simp: events_ok_def closings_def blank_def)
  with c show "wp events (\<lambda>_. conn_inv E seen) (\<lambda>_. conn_inv E seen) c"
    by (simp add: events_def wp_simps conn_inv_def)
qed

text \<open>
  Producing output: after the limit is converted, \<open>data_to_send\<close> returns bytes that were all written,
  no more than the limit, or it raises and the connection has failed.
\<close>

definition send_result :: "'s engine \<Rightarrow> bool \<Rightarrow> int \<Rightarrow> cell list \<Rightarrow> 's conn \<Rightarrow> bool" where
  "send_result E seen limit out c \<longleftrightarrow> conn_inv E seen c \<and> None \<notin> set out \<and>
     (0 \<le> limit \<longrightarrow> int (length out) \<le> limit)"

lemma resize_cells_take: "n \<le> length b \<Longrightarrow> resize_cells b n = take n b"
  by (simp add: resize_cells_def)

lemma wp_take_output:
  assumes c: "running E seen L c" and L: "L \<noteq> 0"
  shows "wp (take_output E) (\<lambda>out c'. send_result E seen L out (c'\<lparr>c_output_remaining := 0\<rparr>))
    (\<lambda>_ c'. running E seen L (c'\<lparr>c_output := c_output c\<rparr>)) c"
proof -
  note inv = runningD(1-11,13) [OF c]
  have "running E seen 0 (c\<lparr>c_output := None, c_output_remaining := 0\<rparr>)"
    using inv by (intro runningI) auto
  then have idle: "conn_inv E seen (c\<lparr>c_output := None, c_output_remaining := 0\<rparr>)"
    by (rule running_conn_inv)
  show ?thesis
  proof (cases "c_output c")
    case None
    then have "c\<lparr>c_output := None\<rparr> = c" by simp
    with idle have "conn_inv E seen (c\<lparr>c_output_remaining := 0\<rparr>)" by simp
    with None show ?thesis
      using L by (simp add: take_output_def wp_simps send_result_def)
  next
    case (Some b)
    then have same: "c\<lparr>c_output := Some b\<rparr> = c" by simp
    have "c_output_size c \<le> length b" "None \<notin> set (take (c_output_size c) b)"
      "0 \<le> L \<longrightarrow> int (c_output_size c) \<le> L"
      using inv(11) L Some by (auto simp: output_ok_def split: if_splits)
    with Some idle c show ?thesis
      by (simp add: take_output_def wp_simps send_result_def resize_cells_take same)
  qed
qed

lemma fail_output: "fail_conn (c\<lparr>c_output := out\<rparr>) = fail_conn c"
  by (simp add: fail_conn_def discard_pending_state_def)

lemma wp_send_limited:
  assumes E: "engine_ok E" and c: "conn_inv E seen c" and L: "-1 \<le> L"
  shows "wp (produce_output E L)
    (send_result E seen L) (\<lambda>_ c. conn_inv E seen c \<and> c_failed c) c"
proof -
  let ?c = "c\<lparr>c_output_size := 0, c_output_remaining := L, c_callback_error := None\<rparr>"
  let ?R = "\<lambda>e. wp (thenM (modifyM fail_conn) (raiseM e))
    (\<lambda>out c. send_result E seen L out (c\<lparr>c_output_remaining := 0\<rparr>)) (\<lambda>_ c. conn_inv E seen c \<and> c_failed c)"
  have R: "?R e c'" if "conn_inv E seen (fail_conn c')" for e c'
    using that by (simp add: wp_simps fail_conn_def)
  have fail2: "fail_conn (fail_conn c') = fail_conn c'" for c' :: "'a conn"
    by (simp add: fail_conn_def discard_pending_state_def)
  have run: "wp (bindM (native_run E (eng_session_send E)) (\<lambda>result.
      thenM (raise_callback_or_native E result)
        (thenM (bindM (getsM c_closing) (\<lambda>closing. whenM closing (update_terminal_state E)))
          (take_output E))))
      (\<lambda>out c. send_result E seen L out (c\<lparr>c_output_remaining := 0\<rparr>)) ?R ?c"
    if active: "c_active c" and L0: "L \<noteq> 0"
  proof -
    obtain s where s: "c_session c = Some s" and c0: "running E seen 0 c"
      using active_running [OF E c active] .
    have c': "running E seen L ?c"
      using runningD(1-11,13) [OF c0] L L0 by (intro runningI) (auto simp: output_ok_def)
    have take: "wp (take_output E) (\<lambda>out c. send_result E seen L out (c\<lparr>c_output_remaining := 0\<rparr>)) ?R c'"
      if "running E seen L c'" for c'
      by (rule wp_mono [OF wp_take_output [OF that L0]])
        (auto simp: fail_output intro!: R dest: running_fail)
    show ?thesis
    proof (rule wp_native_run [OF c' _ engine_ok_send [OF E]])
      show "c_session ?c = Some s" using s by simp
      show "?R e (fail_conn c')" if "conn_inv E seen (fail_conn c')" for e c'
        using R [of "fail_conn c'" e] that by (simp only: fail2)
      show "?R e c'" if "running E seen L c'" for e c'
        by (rule R [OF running_fail [OF that]])
      fix c'
      assume "running E seen L c'"
      then show "wp (thenM (bindM (getsM c_closing) (\<lambda>closing. whenM closing (update_terminal_state E)))
          (take_output E)) (\<lambda>out c. send_result E seen L out (c\<lparr>c_output_remaining := 0\<rparr>)) ?R c'"
        by (auto simp: wp_thenM [of "bindM _ _"] wp_bindM wp_getsM wp_whenM intro: take
            intro!: wp_mono [OF running_terminal])
    qed
  qed
  have "send_result E seen L [] c"
    using c by (simp add: send_result_def)
  with run c show ?thesis
    unfolding produce_output_def
    by (auto simp: wp_bindM [of "getsM _"] wp_getsM wp_thenM wp_raise_if wp_modifyM wp_returnM
        wp_catchM wp_bindM [of "catchM _ _"])
qed

lemma collects_output_limit: "polite I v \<Longrightarrow> collects I (\<lambda>n. -1 \<le> n) (output_limit v)"
proof (cases "is_none v")
  case False
  assume "polite I v"
  with False show ?thesis
    using conv_nonnegative_size.collects_conv [of I v]
    by (auto simp: output_limit_def collects_def elim!: wp_mono)
qed (simp add: output_limit_def collects_returnM)

lemma keeps_data_to_send [keeps_intros]:
  assumes E: "engine_ok E" and v: "polite (conn_inv E seen) v"
  shows "keeps (conn_inv E seen) (data_to_send E v)"
  unfolding data_to_send_def
  by (rule keeps_collects_bindM [OF collects_output_limit [OF v]])
    (auto intro!: keepsI wp_mono [OF wp_send_limited [OF E]] simp: send_result_def)

section \<open>Streams\<close>

lemma keeps_send_request [keeps_intros]:
  assumes E: "engine_ok E" and v: "polite (conn_inv E seen) v" and e: "polite (conn_inv E seen) e"
  shows "keeps (conn_inv E seen) (send_request E v e)"
  unfolding send_request_def
proof (intro keeps_bindM keeps_truth e keeps_native_headers v keeps_require_active [OF E])
  fix ends native and c :: "'a conn" and s
  assume c: "running E seen 0 c" and s: "c_session c = Some s" and t: "\<not> c_terminating c"
  let ?s = "snd (eng_submit_request E native (\<not> ends) s)"
  let ?c = "c\<lparr>c_session := Some ?s\<rparr>"
  have c': "running E seen 0 ?c"
    by (rule running_session [OF c s]) (rule engine_ok_advances [OF E])
  have opened: "running E seen 0 (?c\<lparr>c_bodies := (c_bodies c)(int n \<mapsto> new_body)\<rparr>)"
    if rc: "fst (eng_submit_request E native (\<not> ends) s) = RcOk n" and client: "\<not> c_server c" for n
  proof -
    have n: "next_id E s \<le> int n" "int n < next_id E ?s"
      using engine_ok_request [OF E, of native "\<not> ends" s n ?s] rc by (simp_all add: prod_eq_iff)
    have old: "\<forall>i\<in>dom (c_bodies c). i < next_id E s"
      using runningD(8) [OF c] s client by (simp add: owners_ok_def)
    then have "int n \<notin> dom (c_bodies c)"
      using n(1) by (meson leD)
    then have fresh: "c_bodies c (int n) = None"
      by (simp add: domIff)
    have "owners_ok E (c_server ?c) (c_session ?c) ((c_bodies c)(int n \<mapsto> new_body)) (c_responses ?c)"
      using old n client by (simp add: owners_ok_def) (meson le_less_trans less_le_trans less_imp_le)
    then show ?thesis
      using runningD(1-11,13) [OF c'] bodies_ok_insert [OF runningD(7) [OF c] fresh] t
      by (intro runningI) auto
  qed
  show "wp (thenM (require_server False)
     (bindM (native_query (eng_session_check_request_allowed E)) (\<lambda>allowed.
     thenM (raise_if (\<not> allowed) ConnectionClosingError)
     (bindM (native_call (eng_submit_request E native (\<not> ends))) (\<lambda>result.
      bindM (native_id E result) (\<lambda>stream_id.
      thenM (whenM (\<not> ends) (open_body stream_id)) (returnM stream_id)))))))
     (\<lambda>_. conn_inv E seen) (\<lambda>_. conn_inv E seen) c"
    using s c c' opened
    by (auto simp: require_server_def native_id_def open_body_def wp_simps running_fail
        split: status.splits intro: running_conn_inv)
qed

lemma keeps_send_response [keeps_intros]:
  assumes E: "engine_ok E" and i: "polite (conn_inv E seen) i" and v: "polite (conn_inv E seen) v"
    and e: "polite (conn_inv E seen) e"
  shows "keeps (conn_inv E seen) (send_response E i v e)"
  unfolding send_response_def
proof (intro keeps_bindM keeps_truth e keeps_native_headers v i conv_keeps_intros
    keeps_require_active [OF E])
  fix ends i native and c :: "'a conn" and s
  assume c: "running E seen 0 c" and s: "c_session c = Some s" and t: "\<not> c_terminating c"
  let ?s = "snd (eng_submit_response E i native (\<not> ends) s)"
  let ?c = "c\<lparr>c_session := Some ?s\<rparr>"
  have c': "running E seen 0 ?c"
    by (rule running_session [OF c s]) (rule engine_ok_advances [OF E])
  have resp: "running E seen 0 (?c\<lparr>c_responses := insert i (c_responses c)\<rparr>)" if "c_server c"
    using runningD(1-11,13) [OF c'] that t by (intro runningI) (auto simp: owners_ok_def)
  have opened: "running E seen 0 (?c\<lparr>c_responses := insert i (c_responses c),
      c_bodies := (c_bodies c)(i \<mapsto> new_body)\<rparr>)"
    if server: "c_server c" and new: "i \<notin> c_responses c"
  proof -
    have "c_bodies c i = None"
      using runningD(8) [OF c] server new by (auto simp: owners_ok_def)
    then show ?thesis
      using runningD(1-11,13) [OF c'] bodies_ok_insert [OF runningD(7) [OF c]] server t
      by (intro runningI) (auto simp: owners_ok_def)
  qed
  show "wp (thenM (require_server True)
     (thenM (require_stream E i)
     (bindM (getsM c_responses) (\<lambda>responses.
     thenM (raise_if (i \<in> responses) StreamStateError)
     (bindM (native_call (eng_submit_response E i native (\<not> ends))) (\<lambda>result.
      thenM (check_native E result)
      (thenM (modifyM (\<lambda>c. c\<lparr>c_responses := insert i (c_responses c)\<rparr>))
        (whenM (\<not> ends) (open_body i)))))))))
     (\<lambda>_. conn_inv E seen) (\<lambda>_. conn_inv E seen) c"
    using s c c' resp opened
    by (auto simp: require_server_def open_body_def wp_simps running_fail
        split: status.splits intro: running_conn_inv)
qed

lemma keeps_send_informational_response [keeps_intros]:
  assumes E: "engine_ok E" and i: "polite (conn_inv E seen) i" and v: "polite (conn_inv E seen) v"
  shows "keeps (conn_inv E seen) (send_informational_response E i v)"
  unfolding send_informational_response_def
  by (intro keeps_bindM keeps_native_headers v i conv_keeps_intros keeps_require_active [OF E])
    (auto simp: require_server_def wp_thenM wp_bindM [of "getsM _"] wp_getsM wp_raise_if
      wp_require_stream intro: running_conn_inv intro!: wp_submit_only engine_ok_advances [OF E])

lemma keeps_send_push_promise [keeps_intros]:
  assumes E: "engine_ok E" and i: "polite (conn_inv E seen) i" and v: "polite (conn_inv E seen) v"
  shows "keeps (conn_inv E seen) (send_push_promise E i v)"
  unfolding send_push_promise_def native_id_def [abs_def]
  by (intro keeps_bindM keeps_native_headers v i conv_keeps_intros keeps_require_active [OF E])
    (auto simp: require_server_def wp_thenM wp_bindM [of "getsM _"] wp_getsM wp_raise_if wp_returnM
      wp_require_stream intro: running_conn_inv
      intro!: wp_submit_check engine_ok_advances [OF E])

lemma resume_body_inv:
  assumes c: "running E seen 0 c" and b: "c_bodies c i = Some b"
  shows "wp (resume_body E i) (\<lambda>_. conn_inv E seen) (\<lambda>_. conn_inv E seen) c"
proof -
  obtain s where s: "c_session c = Some s" using runningD(13) [OF c] by auto
  let ?c = "c\<lparr>c_session := Some (snd (eng_session_resume_data E i s))\<rparr>"
  have c': "running E seen 0 ?c"
    by (rule running_session [OF c s]) (rule engine_ok_advances [OF runningD(1) [OF c]])
  have "running E seen 0 (?c\<lparr>c_bodies := (c_bodies ?c)(i \<mapsto> b\<lparr>deferred := False\<rparr>)\<rparr>)"
    using bodies_okD [OF runningD(7) [OF c] b] b
    by (intro running_update_body [OF c', where f = "\<lambda>b. b\<lparr>deferred := False\<rparr>"]) auto
  then show ?thesis
    using c' s b by (auto simp: resume_body_def wp_simps running_fail split: status.splits
        intro: running_conn_inv)
qed

lemma keeps_send_trailers [keeps_intros]:
  assumes E: "engine_ok E" and i: "polite (conn_inv E seen) i" and v: "polite (conn_inv E seen) v"
  shows "keeps (conn_inv E seen) (send_trailers E i v)"
  unfolding send_trailers_def
proof (intro keeps_bindM conv_keeps_intros i keeps_require_active [OF E]
    collects_keeps [OF collects_normalize_headers [OF v]])
  fix i xs and c :: "'a conn" and s
  assume c: "running E seen 0 c"
  let ?f = "\<lambda>b. b\<lparr>trailers := Some (List.map_filter freeze_header xs), ended := True\<rparr>"
  have upd: "running E seen 0 (c\<lparr>c_bodies := (c_bodies c)(i \<mapsto> ?f b)\<rparr>)" if "c_bodies c i = Some b" for b
    using bodies_okD [OF runningD(7) [OF c] that]
    by (intro running_update_body [OF c that]) auto
  show "wp (bindM (getsM (\<lambda>c. c_bodies c i)) (\<lambda>found.
      case found of None \<Rightarrow> raiseM StreamStateError | Some body \<Rightarrow>
      thenM (raise_if (ended body) StreamStateError)
      (thenM (update_body i ?f) (whenM (deferred body) (resume_body E i)))))
      (\<lambda>_. conn_inv E seen) (\<lambda>_. conn_inv E seen) c"
    using c upd
    by (auto simp: wp_bindM wp_getsM wp_thenM wp_raise_if wp_raiseM wp_update_body wp_whenM
        intro: running_conn_inv resume_body_inv split: option.splits)
qed

lemma keeps_body_chunk [keeps_intros]: "polite I v \<Longrightarrow> keeps I (body_chunk E v)"
  unfolding body_chunk_def by (cases v) (auto intro: keeps_intros)

lemma running_queue_chunk:
  assumes c: "running E seen 0 c" and b: "c_bodies c i = Some b" and open_body: "\<not> ended b"
  shows "running E seen 0 (c\<lparr>c_bodies := (c_bodies c)(i \<mapsto> (append_chunk chunk b)\<lparr>ended := e\<rparr>),
    c_queued_body_size := c_queued_body_size c + of_nat (length chunk)\<rparr>)"
proof -
  have wf: "body_wf b" and tr: "trailers b = None"
    using bodies_okD [OF runningD(7) [OF c] b] open_body by auto
  have "queued_size (append_chunk chunk b) = queued_size b + of_nat (length chunk)"
    by (simp add: append_chunk_def)
  then have "bodies_ok ((c_bodies c)(i \<mapsto> (append_chunk chunk b)\<lparr>ended := e\<rparr>))
      (c_queued_body_size c + of_nat (length chunk))"
    using wf tr by (intro bodies_ok_update [OF runningD(7) [OF c] b]) (auto simp: body_wf_append)
  then show ?thesis by (rule running_copied [OF c b])
qed

lemma keeps_send_data [keeps_intros]:
  assumes E: "engine_ok E" and i: "polite (conn_inv E seen) i" and v: "polite (conn_inv E seen) v"
    and e: "polite (conn_inv E seen) e"
  shows "keeps (conn_inv E seen) (send_data E i v e)"
  unfolding send_data_def
proof (intro keeps_bindM keeps_truth e keeps_body_chunk v conv_keeps_intros i keeps_require_active [OF E])
  fix ends i chunk and c :: "'a conn" and s
  assume c: "running E seen 0 c"
  have upd: "running E seen 0 (c\<lparr>c_bodies := (c_bodies c)(i \<mapsto> (append_chunk chunk b)\<lparr>ended := ends\<rparr>),
      c_queued_body_size := c_queued_body_size c + of_nat (length chunk)\<rparr>)"
    if "c_bodies c i = Some b" "\<not> ended b" for b
    by (rule running_queue_chunk [OF c that])
  have upd0: "running E seen 0 (c\<lparr>c_bodies := (c_bodies c)(i \<mapsto> (append_chunk [] b)\<lparr>ended := ends\<rparr>)\<rparr>)"
    if "c_bodies c i = Some b" "\<not> ended b" for b
    using running_queue_chunk [OF c that, of "[]" ends] by simp
  show "wp (bindM (getsM (\<lambda>c. c_bodies c i)) (\<lambda>found.
      case found of None \<Rightarrow> raiseM StreamStateError | Some body \<Rightarrow>
      thenM (raise_if (ended body) StreamStateError)
      (thenM (queue_chunk i chunk ends)
        (whenM (deferred body \<and> (chunk \<noteq> [] \<or> ends)) (resume_body E i)))))
      (\<lambda>_. conn_inv E seen) (\<lambda>_. conn_inv E seen) c"
    using c upd upd0
    by (auto simp: wp_bindM wp_getsM wp_thenM wp_raise_if wp_raiseM wp_update_body wp_whenM
        wp_modifyM queue_chunk_def intro: running_conn_inv resume_body_inv split: option.splits)
qed

lemma keeps_end_stream [keeps_intros]:
  "engine_ok E \<Longrightarrow> polite (conn_inv E seen) i \<Longrightarrow> keeps (conn_inv E seen) (end_stream E i)"
  unfolding end_stream_def by (rule keeps_send_data) simp_all

lemma keeps_reset_stream [keeps_intros]:
  assumes E: "engine_ok E" and i: "polite (conn_inv E seen) i" and v: "polite (conn_inv E seen) v"
    and e: "polite (conn_inv E seen) e"
  shows "keeps (conn_inv E seen) (reset_stream E i v e)"
  unfolding reset_stream_def submit_reset_def
proof (intro keeps_bindM keeps_truth e v conv_keeps_intros i keeps_require_active [OF E])
  fix after_end i code and c :: "'a conn" and s
  assume c: "running E seen 0 c" and s: "c_session c = Some s" and t: "\<not> c_terminating c"
  have noted: "running E seen 0 (c\<lparr>c_deferred_resets := r\<rparr>)" for r
    using runningD(1-11,13) [OF c] t by (intro runningI) auto
  show "wp (if \<not> after_end then bindM (native_call (eng_submit_rst_stream E i code)) (check_native E)
      else thenM (require_stream E i)
        (bindM (native_query (eng_session_get_stream_local_close E i)) (\<lambda>closed.
          if closed \<noteq> 0 then bindM (native_call (eng_submit_rst_stream E i code)) (check_native E)
          else bindM (getsM (locally_ended i)) (\<lambda>ended.
            if \<not> ended then raiseM StreamStateError
            else modifyM (\<lambda>c. c\<lparr>c_deferred_resets := (c_deferred_resets c)(i \<mapsto> code)\<rparr>)))))
      (\<lambda>_. conn_inv E seen) (\<lambda>_. conn_inv E seen) c"
    using s c noted wp_submit_only [OF c s, where f = "eng_submit_rst_stream E i code"]
      engine_ok_advances(8) [OF E]
    by (auto simp: wp_thenM wp_require_stream wp_bindM [of "native_query _"] wp_native_query
        wp_bindM [of "getsM _"] wp_getsM wp_raiseM wp_modifyM intro: running_conn_inv)
qed

lemma keeps_queued_body_size_of [keeps_intros]: "polite I i \<Longrightarrow> keeps I (queued_body_size_of i)"
  unfolding queued_body_size_of_def by (auto intro!: keeps_bindM conv_keeps_intros keeps_getsM)

section \<open>Connection control\<close>

lemma keeps_require_active_server:
  assumes "engine_ok E"
    and "\<And>c s. running E seen 0 c \<Longrightarrow> c_session c = Some s \<Longrightarrow> \<not> c_terminating c \<Longrightarrow>
      c_server c = b \<Longrightarrow> wp m (\<lambda>_. conn_inv E seen) (\<lambda>_. conn_inv E seen) c"
  shows "keeps (conn_inv E seen) (thenM require_active (thenM (require_server b) m))"
  by (rule keeps_require_active [OF assms(1)])
    (auto simp: require_server_def wp_thenM wp_bindM wp_getsM wp_raise_if
      intro: running_conn_inv assms(2))

lemma keeps_update_settings [keeps_intros]:
  assumes E: "engine_ok E" and v: "polite (conn_inv E seen) v"
  shows "keeps (conn_inv E seen) (update_settings E v)"
  unfolding update_settings_def
  by (intro keeps_bindM collects_keeps [OF collects_normalize_settings [OF v]]
      keeps_require_active [OF E])
    (auto simp: wp_bindM [of "native_settings _ _"] intro: running_conn_inv
      intro!: native_settings_pure wp_submit_only engine_ok_advances [OF E])

lemma keeps_send_ping [keeps_intros]:
  assumes E: "engine_ok E"
  shows "keeps (conn_inv E seen) (send_ping E v)"
  unfolding send_ping_def
  by (rule keeps_require_active [OF E])
    (auto simp: wp_thenM wp_raise_if wp_raiseM intro: running_conn_inv split: option.split
      intro!: wp_submit_only engine_ok_advances [OF E])

lemma keeps_optional_stream_id [keeps_intros]: "polite I v \<Longrightarrow> keeps I (optional_stream_id v)"
  unfolding optional_stream_id_def by (auto intro!: keeps_intros)

lemma keeps_send_goaway [keeps_intros]:
  assumes E: "engine_ok E" and v: "polite (conn_inv E seen) v" and l: "polite (conn_inv E seen) l"
  shows "keeps (conn_inv E seen) (send_goaway E v l d)"
  unfolding send_goaway_def
  by (cases "bytes_check d")
    (auto simp: wp_bindM [of "native_query _"] wp_bindM [of "returnM _"] wp_native_query wp_returnM
      intro!: keeps_bindM v l conv_keeps_intros keeps_optional_stream_id keeps_raiseM
        keeps_require_active [OF E] wp_submit_only engine_ok_advances [OF E] split: option.split)

lemma keeps_send_shutdown_notice [keeps_intros]:
  assumes E: "engine_ok E"
  shows "keeps (conn_inv E seen) (send_shutdown_notice E)"
  unfolding send_shutdown_notice_def
  by (rule keeps_require_active_server [OF E]) (auto intro!: wp_submit_only engine_ok_advances [OF E])

lemma running_terminate:
  assumes c: "running E seen 0 c" and active: "c_active c"
  shows "running E seen 0 (discard_pending_state (c\<lparr>c_terminating := True, c_closing := True\<rparr>))"
proof -
  have "base_inv seen (discard_pending_state (c\<lparr>c_terminating := True, c_closing := True\<rparr>))"
    using runningD(2,13) [OF c] active
    by (auto simp: base_inv_def flags_ok_def discard_pending_state_def)
  then show ?thesis
    using runningD(1-11,13) [OF c] unfolding discard_pending_state_def
    by (intro runningI) (auto simp: base_inv_def intro: block_ok_empty)
qed

lemma keeps_terminate_connection [keeps_intros]:
  assumes E: "engine_ok E" and v: "polite (conn_inv E seen) v" and l: "polite (conn_inv E seen) l"
  shows "keeps (conn_inv E seen) (terminate_connection E v l)"
  unfolding terminate_connection_def
proof (intro keeps_bindM v l conv_keeps_intros keeps_optional_stream_id keepsI)
  fix code last and c :: "'a conn"
  assume c: "conn_inv E seen c"
  let ?f = "case last of None \<Rightarrow> eng_session_terminate_session E code
    | Some n \<Rightarrow> eng_session_terminate_session2 E n code"
  have adv: "next_id E s \<le> next_id E (snd (?f s))" for s
    by (cases last) (simp_all add: engine_ok_advances [OF E])
  show "wp (thenM require_active (bindM (native_call ?f) (\<lambda>result. thenM (check_native E result)
      (modifyM (\<lambda>c. discard_pending_state (c\<lparr>c_terminating := True, c_closing := True\<rparr>))))))
      (\<lambda>_. conn_inv E seen) (\<lambda>_. conn_inv E seen) c"
  proof (cases "c_active c \<and> \<not> c_failed c \<and> \<not> c_terminating c")
    case True
    then obtain s where s: "c_session c = Some s" and c0: "running E seen 0 c"
      using active_running [OF E c] by blast
    from True show ?thesis
      unfolding wp_thenM [of require_active] wp_require_active
      by (auto simp: wp_modifyM intro!: wp_submit_check [OF c0 s] adv running_conn_inv running_terminate)
  qed (auto simp: wp_thenM wp_require_active c)
qed

lemma keeps_consume_received_data [keeps_intros]:
  assumes E: "engine_ok E" and i: "polite (conn_inv E seen) i" and v: "polite (conn_inv E seen) v"
  shows "keeps (conn_inv E seen) (consume_received_data E i v)"
  unfolding consume_received_data_def
proof (intro keeps_bindM i v conv_keeps_intros keeps_require_active [OF E])
  fix i n and c :: "'a conn" and s
  assume c: "running E seen 0 c" and s: "c_session c = Some s"
  let ?m = "(case c_unconsumed c i of None \<Rightarrow> 0 | Some n \<Rightarrow> n) - n"
  let ?u = "(c_unconsumed c)(i := if ?m \<noteq> 0 then Some ?m else None)"
  let ?c = "c\<lparr>c_session := Some (snd (eng_session_consume E i n s))\<rparr>"
  have upd: "running E seen 0 (?c\<lparr>c_unconsumed := ?u\<rparr>)"
    if "running E seen 0 ?c" "\<not> c_auto_window_update c" "\<not> ?m < 0"
  proof -
    have "credits_ok (c_auto_window_update ?c) ?u"
      using runningD(6) [OF c] that(2,3) by (auto simp: credits_ok_def)
    then show ?thesis
      using runningD(1-11,13) [OF that(1)] by (intro runningI) simp_all
  qed
  show "wp (bindM (getsM id) (\<lambda>c.
      if c_auto_window_update c then raiseM ConnectionStateError
      else if n = 0 then returnM ()
      else
        (let remaining = (case c_unconsumed c i of None \<Rightarrow> 0 | Some n \<Rightarrow> n) - n in
         if remaining < 0 then raiseM ValueError
         else bindM (native_call (eng_session_consume E i n)) (\<lambda>result.
           thenM (check_native E result)
             (modifyM (\<lambda>c. c\<lparr>c_unconsumed := (c_unconsumed c)(i :=
                (if remaining \<noteq> 0 then Some remaining else None))\<rparr>))))))
      (\<lambda>_. conn_inv E seen) (\<lambda>_. conn_inv E seen) c"
    unfolding wp_bindM [of "getsM _"] wp_getsM Let_def id_apply
    using c upd
    by (auto simp: wp_raiseM wp_returnM wp_modifyM simp del: split_paired_All intro: running_conn_inv
        intro!: wp_submit_check [OF c s] engine_ok_advances [OF E])
qed

lemma keeps_set_local_window_size [keeps_intros]:
  assumes E: "engine_ok E" and v: "polite (conn_inv E seen) v" and i: "polite (conn_inv E seen) i"
  shows "keeps (conn_inv E seen) (set_local_window_size E v i)"
  unfolding set_local_window_size_def
  by (intro keeps_bindM v i conv_keeps_intros keeps_require_active [OF E])
    (auto simp: wp_thenM wp_returnM wp_require_stream intro: running_conn_inv
      intro!: wp_submit_only engine_ok_advances [OF E])

lemma keeps_send_priority_update [keeps_intros]:
  assumes E: "engine_ok E" and i: "polite (conn_inv E seen) i"
  shows "keeps (conn_inv E seen) (send_priority_update E i v)"
  unfolding send_priority_update_def
  by (intro keeps_bindM i conv_keeps_intros keeps_require_active_server [OF E])
    (auto simp: wp_bindM [of "native_query _"] wp_native_query wp_returnM wp_raiseM
      split: option.split intro: running_conn_inv
      intro!: wp_submit_check engine_ok_advances [OF E])

lemma keeps_set_stream_priority [keeps_intros]:
  assumes E: "engine_ok E" and i: "polite (conn_inv E seen) i" and p: "polite (conn_inv E seen) p"
    and g: "polite (conn_inv E seen) g"
  shows "keeps (conn_inv E seen) (set_stream_priority E i p g)"
proof -
  have tail: "keeps (conn_inv E seen) (thenM require_active
      (thenM (require_server True)
      (bindM (getsM c_local_extensible_priority) (\<lambda>enabled.
       if \<not> enabled then returnM False
       else thenM (require_stream E i)
         (bindM (native_call (eng_session_change_extpri_stream_priority E i u inc ign)) (\<lambda>result.
          thenM (check_native E result) (returnM True)))))))" for i u inc ign
    by (intro keeps_require_active_server [OF E])
      (auto simp: wp_bindM [of "getsM _"] wp_getsM wp_returnM wp_thenM [of "require_stream _ _"]
        wp_require_stream intro: running_conn_inv intro!: wp_submit_check engine_ok_advances [OF E])
  show ?thesis
    unfolding set_stream_priority_def using p
    by (cases p) (auto intro!: keeps_bindM g i conv_keeps_intros keeps_truth keeps_raiseM tail)
qed

lemma keeps_get_stream_priority [keeps_intros]:
  assumes E: "engine_ok E" and i: "polite (conn_inv E seen) i"
  shows "keeps (conn_inv E seen) (get_stream_priority E i)"
  unfolding get_stream_priority_def
  by (intro keeps_bindM i conv_keeps_intros keeps_require_active_server [OF E])
    (auto simp: wp_simps intro: running_conn_inv)

lemma keeps_send_alt_svc [keeps_intros]:
  assumes E: "engine_ok E" and i: "polite (conn_inv E seen) i"
  shows "keeps (conn_inv E seen) (send_alt_svc E v i org)"
  unfolding send_alt_svc_def
  by (cases "bytes_check v"; cases "bytes_check org")
    (auto intro!: keeps_bindM i conv_keeps_intros keeps_raiseM keeps_require_active_server [OF E]
      wp_submit_only engine_ok_advances [OF E])

lemma keeps_send_origins [keeps_intros]:
  assumes E: "engine_ok E" and v: "polite (conn_inv E seen) v"
  shows "keeps (conn_inv E seen) (send_origins E v)"
  unfolding send_origins_def
  by (intro keeps_bindM keeps_for_each v keeps_require_active_server [OF E])
    (auto simp: wp_bindM [of "getsM _"] wp_getsM wp_thenM wp_raise_if split: option.split
      intro: running_conn_inv intro!: keeps_raiseM keeps_returnM wp_submit_only
        engine_ok_advances [OF E])

section \<open>Queries\<close>

lemma keeps_queries [keeps_intros]:
  assumes E: "engine_ok E"
  shows "keeps (conn_inv E seen) (want_read E)" "keeps (conn_inv E seen) (want_write E)"
    "keeps (conn_inv E seen) (can_send_request E)" "keeps (conn_inv E seen) (next_stream_id E)"
    "keeps (conn_inv E seen) (local_settings E)" "keeps (conn_inv E seen) (remote_settings E)"
  unfolding want_read_def want_write_def can_send_request_def next_stream_id_def local_settings_def
    remote_settings_def
  by ((rule keeps_require_drivable [OF E] keeps_require_active [OF E],
      auto simp: wp_simps intro: running_conn_inv)+)

lemma keeps_window_sizes [keeps_intros]:
  assumes E: "engine_ok E" and i: "polite (conn_inv E seen) i"
  shows "keeps (conn_inv E seen) (remote_window_size E i)"
    "keeps (conn_inv E seen) (local_window_size E i)"
  unfolding remote_window_size_def local_window_size_def
  by ((intro keeps_bindM i conv_keeps_intros keeps_require_active [OF E],
      auto simp: wp_simps intro: running_conn_inv)+)

section \<open>Construction\<close>

text \<open>
  Before \<open>__init__\<close> has succeeded the connection is blank. The values of a configuration are converted
  while the connection is under construction, so their code must not initialise it.
\<close>

definition unborn :: "'s engine \<Rightarrow> bool \<Rightarrow> 's conn \<Rightarrow> bool" where
  "unborn E seen c \<longleftrightarrow> conn_inv E seen c \<and> \<not> c_initialized c"

definition polite_config :: "('w \<Rightarrow> bool) \<Rightarrow> 'w configuration \<Rightarrow> bool" where
  "polite_config I config \<longleftrightarrow>
     polite I (auto_window_update config) \<and> polite I (initial_peer_max_concurrent_streams config) \<and>
     polite I (max_reserved_remote_streams config) \<and> polite I (max_send_header_block_length config) \<and>
     polite I (max_send_data_frame_size config) \<and> polite I (max_deflate_dynamic_table_size config) \<and>
     polite I (max_outbound_ack config) \<and> polite I (max_settings config) \<and>
     polite I (stream_reset_rate_limit config) \<and> polite I (max_continuations config) \<and>
     polite I (glitch_rate_limit config) \<and> polite I (max_inbound_header_list_size config) \<and>
     polite I (max_inbound_header_count config)"

definition configured :: "'s engine \<Rightarrow> bool \<Rightarrow> 's conn \<Rightarrow> bool" where
  "configured E seen c \<longleftrightarrow> unborn E seen c \<and> 1 \<le> c_max_send_data_frame_size c \<and>
     c_max_send_data_frame_size c \<le> 0xFFFFFF \<and> 1 \<le> c_max_settings c"

lemma wp_collect_step:
  "collects I P m \<Longrightarrow> I c \<Longrightarrow> (\<And>x c'. P x \<Longrightarrow> I c' \<Longrightarrow> wp (f x) Q R c') \<Longrightarrow> (\<And>e c'. I c' \<Longrightarrow> R e c') \<Longrightarrow>
   wp (bindM m f) Q R c"
  by (auto simp: wp_bindM collects_def elim!: wp_mono dest!: spec)

lemma wp_keeps_step:
  "keeps I m \<Longrightarrow> I c \<Longrightarrow> (\<And>x c'. I c' \<Longrightarrow> wp (f x) Q R c') \<Longrightarrow> (\<And>e c'. I c' \<Longrightarrow> R e c') \<Longrightarrow>
   wp (bindM m f) Q R c"
  by (auto simp: wp_bindM keeps_def elim!: wp_mono dest!: spec)

text \<open>A blank connection stays blank whatever limits are stored in it.\<close>

lemma unborn_limits:
  assumes "unborn E seen c" and "0 \<le> m" "m \<le> int SSIZE_MAX" and "0 \<le> n"
  shows "unborn E seen (c\<lparr>c_auto_window_update := auto, c_max_send_data_frame_size := frame_size,
      c_max_settings := limit\<rparr>)"
    and "unborn E seen (c\<lparr>c_max_inbound_header_list_size := m\<rparr>)"
    and "unborn E seen (c\<lparr>c_max_inbound_header_count := n\<rparr>)"
proof -
  have c: "blank c" "flags_ok c" "\<not> c_initialized c"
    "limits_ok False (c_max_inbound_header_list_size c) (c_max_inbound_header_count c)
      (c_max_send_data_frame_size c) (c_max_settings c)"
    "seen \<longrightarrow> c_closed c" "c_callback_error c = None"
    "output_ok 0 (c_output c) (c_output_size c) (c_output_remaining c)" "\<not> c_terminating c"
    "\<not> c_failed c"
    using assms(1) by (auto simp: unborn_def conn_inv_def core_inv_def base_inv_def blank_def
        flags_ok_def)
  then show "unborn E seen (c\<lparr>c_auto_window_update := auto, c_max_send_data_frame_size := frame_size,
      c_max_settings := limit\<rparr>)"
    and "unborn E seen (c\<lparr>c_max_inbound_header_list_size := m\<rparr>)"
    and "unborn E seen (c\<lparr>c_max_inbound_header_count := n\<rparr>)"
    using assms(2-4)
    by (simp_all add: unborn_def conn_inv_def core_inv_def base_inv_def blank_def limits_ok_def
        block_ok_def header_list_size_def)
qed

lemma apply_configuration_configured:
  assumes c: "unborn E seen c"
    and p: "polite_config (unborn E seen) config" "polite_config (configured E seen) config"
  shows "wp (apply_configuration config) (\<lambda>_. configured E seen) (\<lambda>_. unborn E seen) c"
proof -
  have born: "configured E seen c' \<Longrightarrow> unborn E seen c'" for c' by (simp add: configured_def)
  have tail: "wp (thenM (modifyM (\<lambda>c. c\<lparr>c_auto_window_update := auto,
              c_max_send_data_frame_size := frame_size, c_max_settings := limit\<rparr>))
     (bindM (conv_nonnegative_size (max_inbound_header_list_size config)) (\<lambda>list_size.
     thenM (modifyM (\<lambda>c. c\<lparr>c_max_inbound_header_list_size := list_size\<rparr>))
     (bindM (conv_nonnegative_size (max_inbound_header_count config)) (\<lambda>header_count.
     thenM (modifyM (\<lambda>c. c\<lparr>c_max_inbound_header_count := header_count\<rparr>))
     (returnM (opts :: options)))))))
     (\<lambda>_. configured E seen) (\<lambda>_. unborn E seen) c'"
    if c': "unborn E seen c'" and "1 \<le> frame_size" "frame_size \<le> 0xFFFFFF" "1 \<le> limit"
    for c' auto frame_size limit opts
  proof -
    have "configured E seen (c'\<lparr>c_auto_window_update := auto,
        c_max_send_data_frame_size := frame_size, c_max_settings := limit\<rparr>)"
      using unborn_limits(1) [OF c', of 0 0] that by (simp add: configured_def)
    moreover have "configured E seen (c''\<lparr>c_max_inbound_header_list_size := m\<rparr>)"
      if "configured E seen c''" "0 \<le> m" "m \<le> int SSIZE_MAX" for c'' m
      using unborn_limits(2) [OF born [OF that(1)] that(2,3), of 0] that by (simp add: configured_def)
    moreover have "configured E seen (c''\<lparr>c_max_inbound_header_count := n\<rparr>)"
      if "configured E seen c''" "0 \<le> n" for c'' n
      using unborn_limits(3) [OF born [OF that(1)], of 0 n] that by (simp add: configured_def)
    ultimately show ?thesis
      using p(2) unfolding wp_thenM wp_modifyM polite_config_def
      by (auto simp: wp_thenM wp_modifyM wp_returnM SSIZE_MAX_def intro: born
          intro!: wp_collect_step [OF conv_nonnegative_size.collects_conv])
  qed
  show ?thesis
    unfolding apply_configuration_def
    using c p(1) [unfolded polite_config_def]
    by (auto simp: wp_raiseM split: option.split prod.splits
        intro!: wp_collect_step [OF conv_uint32.collects_conv] wp_collect_step [OF conv_size.collects_conv]
          wp_collect_step [OF conv_positive_size.collects_conv]
          wp_collect_step [OF collects_header_pair] wp_collect_step [OF conv_uint64.collects_conv] tail)
qed

lemma configured_born:
  assumes "configured E seen c"
  shows "conn_inv E seen (c\<lparr>c_role := r, c_server := server, c_session := Some s, c_initialized := True\<rparr>)"
proof -
  have "blank c" "flags_ok c" "\<not> c_initialized c"
    "limits_ok True (c_max_inbound_header_list_size c) (c_max_inbound_header_count c)
      (c_max_send_data_frame_size c) (c_max_settings c)"
    "seen \<longrightarrow> c_closed c" "c_callback_error c = None" "\<not> c_terminating c" "\<not> c_failed c"
    "output_ok 0 (c_output c) (c_output_size c) (c_output_remaining c)"
    using assms by (auto simp: configured_def unborn_def conn_inv_def core_inv_def base_inv_def
        blank_def flags_ok_def limits_ok_def)
  then show ?thesis
    by (auto simp: conn_inv_def core_inv_def base_inv_def blank_def flags_ok_def
        intro: block_ok_empty)
qed

fun polite_config_arg :: "'s engine \<Rightarrow> bool \<Rightarrow> 's config_arg \<Rightarrow> bool" where
  "polite_config_arg E seen (AConfig config) \<longleftrightarrow>
     polite_config (unborn E seen) config \<and> polite_config (configured E seen) config"
| "polite_config_arg E seen _ \<longleftrightarrow> True"

lemma polite_default: "polite_config I default_configuration"
  by (simp add: polite_config_def default_configuration_def)

lemma keeps_connection_init [keeps_intros]:
  assumes a: "polite_config_arg E seen arg"
  shows "keeps (conn_inv E seen) (connection_init E r arg)"
proof (rule keepsI)
  fix c assume c: "conn_inv E seen c"
  show "wp (connection_init E r arg) (\<lambda>_. conn_inv E seen) (\<lambda>_. conn_inv E seen) c"
  proof (cases "c_initialized c")
    case True
    with c show ?thesis by (simp add: connection_init_def wp_simps)
  next
    case False
    with c have u: "unborn E seen c" by (simp add: unborn_def)
    have born: "unborn E seen c' \<Longrightarrow> conn_inv E seen c'" for c' by (simp add: unborn_def)
    have rest: "wp (thenM (check_result (eng_callbacks_new E))
        (thenM (check_result (eng_option_new E))
        (bindM (apply_configuration config) (\<lambda>option.
         case eng_session_new E (x = SERVER) option of (result, session) \<Rightarrow>
         thenM (check_result result)
           (modifyM (\<lambda>c. c\<lparr>c_role := Some x, c_server := (x = SERVER),
              c_session := Some session, c_initialized := True\<rparr>))))))
        (\<lambda>_. conn_inv E seen) (\<lambda>_. conn_inv E seen) c"
      if p: "polite_config (unborn E seen) config" "polite_config (configured E seen) config" for config x
      using u by (auto simp: wp_thenM wp_check_result wp_bindM wp_modifyM born split: status.splits
          prod.splits intro: configured_born configured_def [THEN iffD1, THEN conjunct1, THEN born]
          intro!: wp_mono [OF apply_configuration_configured [OF u p]])
    show ?thesis
      using False c a polite_default
      by (cases r; cases arg)
        (auto simp: connection_init_def wp_bindM [of "getsM _"] wp_getsM wp_thenM [of "raise_if _ _"]
          wp_raise_if wp_raiseM wp_bindM [of "returnM _"] wp_bindM [of "raiseM _"] wp_returnM
          intro!: rest)
  qed
qed

end
