(* ===== verification/Requests.thy ===== *)
theory Requests
  imports Methods
begin

text \<open>
  The public interface of a \<open>Connection\<close> (\<^verbatim>\<open>src/ngh2/_core.pyx\<close>) as one type of requests and one
  function \<open>perform\<close> that runs a request on a connection. Every request keeps the class invariant,
  provided the code of the objects it is given does.
\<close>

section \<open>Requests\<close>

datatype 's request =
    Init "role option" "'s config_arg"
  | InitiateConnection "'s conn pyobj"
  | InitiateUpgrade "'s conn pyobj" "'s conn pyobj" "'s conn pyobj"
  | ReceiveData "'s conn pyobj"
  | Events
  | DataToSend "'s conn pyobj"
  | SendRequest "'s conn pyobj" "'s conn pyobj"
  | SendResponse "'s conn pyobj" "'s conn pyobj" "'s conn pyobj"
  | SendInformationalResponse "'s conn pyobj" "'s conn pyobj"
  | SendTrailers "'s conn pyobj" "'s conn pyobj"
  | SendPushPromise "'s conn pyobj" "'s conn pyobj"
  | SendData "'s conn pyobj" "'s conn pyobj" "'s conn pyobj"
  | EndStream "'s conn pyobj"
  | ResetStream "'s conn pyobj" "'s conn pyobj" "'s conn pyobj"
  | UpdateSettings "'s conn pyobj"
  | SendPing "'s conn pyobj"
  | SendGoaway "'s conn pyobj" "'s conn pyobj" "'s conn pyobj"
  | SendShutdownNotice
  | TerminateConnection "'s conn pyobj" "'s conn pyobj"
  | ConsumeReceivedData "'s conn pyobj" "'s conn pyobj"
  | SetLocalWindowSize "'s conn pyobj" "'s conn pyobj"
  | SendPriorityUpdate "'s conn pyobj" "'s conn pyobj"
  | SetStreamPriority "'s conn pyobj" "'s conn pyobj" "'s conn pyobj"
  | GetStreamPriority "'s conn pyobj"
  | SendAltSvc "'s conn pyobj" "'s conn pyobj" "'s conn pyobj"
  | SendOrigins "'s conn pyobj"
  | WantRead | WantWrite | NextStreamId | CanSendRequest
  | QueuedBodySize "'s conn pyobj"
  | RemoteWindowSize "'s conn pyobj"
  | LocalWindowSize "'s conn pyobj"
  | LocalSettings | RemoteSettings

text \<open>A request without its result.\<close>

definition discard_result :: "('w, 'e, 'a) py \<Rightarrow> ('w, 'e, unit) py" where
  "discard_result m = bindM m (\<lambda>_. returnM ())"

fun perform :: "'s engine \<Rightarrow> 's request \<Rightarrow> ('s, unit) meth" where
  "perform E (Init r config) = connection_init E r config"
| "perform E (InitiateConnection settings) = initiate_connection E settings"
| "perform E (InitiateUpgrade payload settings head_req) = initiate_upgrade E payload settings head_req"
| "perform E (ReceiveData data) = receive_data E data"
| "perform E Events = discard_result events"
| "perform E (DataToSend amount) = discard_result (data_to_send E amount)"
| "perform E (SendRequest headers ends) = discard_result (send_request E headers ends)"
| "perform E (SendResponse i headers ends) = send_response E i headers ends"
| "perform E (SendInformationalResponse i headers) = send_informational_response E i headers"
| "perform E (SendTrailers i headers) = send_trailers E i headers"
| "perform E (SendPushPromise i headers) = discard_result (send_push_promise E i headers)"
| "perform E (SendData i data ends) = send_data E i data ends"
| "perform E (EndStream i) = end_stream E i"
| "perform E (ResetStream i code after_end) = reset_stream E i code after_end"
| "perform E (UpdateSettings settings) = update_settings E settings"
| "perform E (SendPing data) = send_ping E data"
| "perform E (SendGoaway code l data) = send_goaway E code l data"
| "perform E SendShutdownNotice = send_shutdown_notice E"
| "perform E (TerminateConnection code l) = terminate_connection E code l"
| "perform E (ConsumeReceivedData i amount) = consume_received_data E i amount"
| "perform E (SetLocalWindowSize n i) = set_local_window_size E n i"
| "perform E (SendPriorityUpdate i v) = discard_result (send_priority_update E i v)"
| "perform E (SetStreamPriority i p ign) = discard_result (set_stream_priority E i p ign)"
| "perform E (GetStreamPriority i) = discard_result (get_stream_priority E i)"
| "perform E (SendAltSvc v i origin) = send_alt_svc E v i origin"
| "perform E (SendOrigins origins) = send_origins E origins"
| "perform E WantRead = discard_result (want_read E)"
| "perform E WantWrite = discard_result (want_write E)"
| "perform E NextStreamId = discard_result (next_stream_id E)"
| "perform E CanSendRequest = discard_result (can_send_request E)"
| "perform E (QueuedBodySize i) = discard_result (queued_body_size_of i)"
| "perform E (RemoteWindowSize i) = discard_result (remote_window_size E i)"
| "perform E (LocalWindowSize i) = discard_result (local_window_size E i)"
| "perform E LocalSettings = discard_result (local_settings E)"
| "perform E RemoteSettings = discard_result (remote_settings E)"

text \<open>The methods that only pass a guard and then work inside the phase of the connection.\<close>

lemmas guarded_defs = send_request_def send_response_def send_informational_response_def
  send_trailers_def send_push_promise_def send_data_def end_stream_def reset_stream_def
  update_settings_def send_ping_def send_goaway_def send_shutdown_notice_def
  consume_received_data_def set_local_window_size_def send_priority_update_def
  set_stream_priority_def get_stream_priority_def send_alt_svc_def send_origins_def want_read_def
  want_write_def next_stream_id_def can_send_request_def remote_window_size_def
  local_window_size_def local_settings_def remote_settings_def

text \<open>The conversions of arguments, which run before the guards.\<close>

lemmas argument_keeps = keeps_truth keeps_get_buffer keeps_native_headers keeps_body_chunk
  keeps_optional_stream_id keeps_for_each keeps_returnM keeps_raiseM conv_keeps_intros
  collects_keeps [OF collects_normalize_settings] collects_keeps [OF collects_normalize_headers]

text \<open>The arguments of a request, and what is asked of their code.\<close>

fun arguments :: "'s request \<Rightarrow> 's conn pyobj list" where
  "arguments (Init r config) = []"
| "arguments (InitiateConnection a) = [a]"
| "arguments (InitiateUpgrade a b c) = [a, b, c]"
| "arguments (ReceiveData a) = [a]"
| "arguments Events = []"
| "arguments (DataToSend a) = [a]"
| "arguments (SendRequest a b) = [a, b]"
| "arguments (SendResponse a b c) = [a, b, c]"
| "arguments (SendInformationalResponse a b) = [a, b]"
| "arguments (SendTrailers a b) = [a, b]"
| "arguments (SendPushPromise a b) = [a, b]"
| "arguments (SendData a b c) = [a, b, c]"
| "arguments (EndStream a) = [a]"
| "arguments (ResetStream a b c) = [a, b, c]"
| "arguments (UpdateSettings a) = [a]"
| "arguments (SendPing a) = [a]"
| "arguments (SendGoaway a b c) = [a, b, c]"
| "arguments SendShutdownNotice = []"
| "arguments (TerminateConnection a b) = [a, b]"
| "arguments (ConsumeReceivedData a b) = [a, b]"
| "arguments (SetLocalWindowSize a b) = [a, b]"
| "arguments (SendPriorityUpdate a b) = [a, b]"
| "arguments (SetStreamPriority a b c) = [a, b, c]"
| "arguments (GetStreamPriority a) = [a]"
| "arguments (SendAltSvc a b c) = [a, b, c]"
| "arguments (SendOrigins a) = [a]"
| "arguments (QueuedBodySize a) = [a]"
| "arguments (RemoteWindowSize a) = [a]"
| "arguments (LocalWindowSize a) = [a]"
| "arguments _ = []"

fun config_of :: "'s request \<Rightarrow> 's config_arg" where
  "config_of (Init r config) = config"
| "config_of _ = NoConfig"

definition polite_request :: "'s engine \<Rightarrow> bool \<Rightarrow> 's request \<Rightarrow> bool" where
  "polite_request E seen req \<longleftrightarrow>
     list_all (polite (conn_inv E seen)) (arguments req) \<and> polite_config_arg E seen (config_of req)"

lemma keeps_discard_result: "keeps I m \<Longrightarrow> keeps I (discard_result m)"
  unfolding discard_result_def by (intro keeps_bindM keeps_returnM)

text \<open>The step that everything rests on: one request, from any state with the invariant.\<close>

lemma keeps_perform:
  assumes "engine_ok E" and "polite_request E seen req"
  shows "keeps (conn_inv E seen) (perform E req)"
  using assms unfolding polite_request_def
  by (cases req) (simp_all add: keeps_intros keeps_discard_result)

section \<open>New connections\<close>

lemma conn_inv_new: "conn_inv E False new_conn"
  by (simp add: conn_inv_def core_inv_def base_inv_def limits_ok_def blank_def new_conn_def
      flags_ok_def block_ok_def header_list_size_def SSIZE_MAX_def)

lemma perform_inv:
  assumes "engine_ok E" and "polite_request E seen req" and "conn_inv E seen c"
    and "perform E req c = (r, c')"
  shows "conn_inv E seen c'" and "r \<noteq> Crash"
  using wp_snd [OF keepsD [OF keeps_perform [OF assms(1,2)] assms(3)]]
    wp_no_crash [OF keepsD [OF keeps_perform [OF assms(1,2)] assms(3)]] assms(4) by auto

lemma perform_Events: "perform E Events c = (Ok (), c\<lparr>c_events := []\<rparr>)"
  by (simp add: discard_result_def events_def bindM_def thenM_def getsM_def modifyM_def returnM_def)

section \<open>Connections that cannot be driven\<close>

text \<open>
  \<open>blocked I\<close>: in the states of \<open>I\<close> every guard fails, and \<open>I\<close> does not care whether the events were
  taken. It is used for a connection that is still being constructed, whose configuration values
  may run code, and for a connection that has failed.
\<close>

definition blocked :: "('s conn \<Rightarrow> bool) \<Rightarrow> bool" where
  "blocked I \<longleftrightarrow> (\<forall>c. I c \<longrightarrow> \<not> c_active c \<and> (c_initialized c \<longrightarrow> c_failed c) \<and> I (c\<lparr>c_events := []\<rparr>))"

lemma keeps_blocked_guard:
  assumes "blocked I"
  shows "keeps I (thenM require_active m)" "keeps I (thenM require_drivable m)"
    "keeps I (thenM require_created m)"
  using assms by (auto simp: keeps_def blocked_def wp_thenM wp_require_active wp_require_drivable
      wp_require_created)

lemma keeps_blocked_events: "blocked I \<Longrightarrow> keeps I events"
  by (rule keepsI) (auto simp: events_def wp_simps blocked_def)

lemma keeps_blocked_data_to_send:
  assumes "blocked I" and "polite I v"
  shows "keeps I (data_to_send E v)"
proof -
  have "keeps I (output_limit v)"
    by (rule collects_keeps [OF collects_output_limit [OF assms(2)]])
  then show ?thesis
    unfolding data_to_send_def produce_output_def
    by (rule keeps_bindM) (use assms(1) in \<open>auto simp: keeps_def blocked_def
      wp_bindM [of "getsM _"] wp_getsM wp_thenM wp_raise_if wp_returnM\<close>)
qed

lemma keeps_blocked_initiate_upgrade:
  assumes "blocked I" and "polite I p" "polite I v" "polite I h"
  shows "keeps I (initiate_upgrade E p v h)"
  unfolding initiate_upgrade_def
  by (auto intro!: keeps_bindM keeps_thenM keeps_blocked_guard assms keeps_intros
      collects_keeps [OF collects_normalize_settings] split: option.split)

fun is_init :: "'s request \<Rightarrow> bool" where
  "is_init (Init r config) = True"
| "is_init _ = False"

lemma keeps_blocked:
  assumes "blocked I" and "\<not> is_init req" and "list_all (polite I) (arguments req)"
  shows "keeps I (perform E req)"
  using assms
  by (cases req)
    (auto simp: guarded_defs initiate_connection_def receive_data_def terminate_connection_def
      intro!: keeps_blocked_events keeps_blocked_data_to_send
      keeps_blocked_initiate_upgrade keeps_blocked_guard keeps_bindM keeps_discard_result
      argument_keeps keeps_queued_body_size_of
      split: option.split pyobj.split)

lemma no_events_update: "c_events c = [] \<Longrightarrow> c\<lparr>c_events := []\<rparr> = c"
  by (cases c) simp

lemma blocked_unborn: "blocked (unborn E seen)" "blocked (configured E seen)"
  by (auto simp: blocked_def configured_def unborn_def conn_inv_def core_inv_def base_inv_def
      flags_ok_def blank_def no_events_update)

end
