(* ===== verification/Refusals.thy ===== *)
theory Refusals
  imports Requests
begin

text \<open>
  Methods of a \<open>Connection\<close> (\<^verbatim>\<open>src/ngh2/_core.pyx\<close>) that are refused: a guard raises before
  anything of the connection has changed, provided the objects the method is given leave the
  connection alone. \<open>Phases\<close> says which requests are refused when.
\<close>

section \<open>Requests whose objects leave the connection alone\<close>

definition untouched :: "'s conn \<Rightarrow> 's conn \<Rightarrow> bool" where
  "untouched c c' \<longleftrightarrow> c' = c"

definition inert_request :: "'s conn \<Rightarrow> 's request \<Rightarrow> bool" where
  "inert_request c req \<longleftrightarrow> list_all (polite (untouched c)) (arguments req)"

text \<open>A method that is refused: it raises, and the connection is as it was.\<close>

definition refused :: "'s conn \<Rightarrow> ('s, 'a) meth \<Rightarrow> bool" where
  "refused c m \<longleftrightarrow> wp m (\<lambda>_ _. False) (\<lambda>_. untouched c) c"

lemma refused_bindM:
  assumes "keeps (untouched c) m" and "\<And>x. refused c (f x)"
  shows "refused c (bindM m f)"
  unfolding refused_def
  by (rule wp_keeps_step [OF assms(1)])
    (use assms(2) in \<open>auto simp: untouched_def [abs_def] refused_def\<close>)

lemma refused_thenM:
  "keeps (untouched c) m \<Longrightarrow> refused c k \<Longrightarrow> refused c (thenM m k)"
  by (simp add: thenM_def refused_bindM)

lemma refused_getsM: "refused c (f (g c)) \<Longrightarrow> refused c (bindM (getsM g) f)"
  by (simp add: refused_def wp_bindM wp_getsM)

lemma refused_raiseM: "refused c (raiseM e)"
  by (simp add: refused_def wp_raiseM untouched_def)

lemma refused_raise_if: "b \<Longrightarrow> refused c (thenM (raise_if b e) k)"
  by (simp add: refused_def wp_thenM wp_raise_if untouched_def)

lemma refused_discard_result: "refused c m \<Longrightarrow> refused c (discard_result m)"
  by (auto simp: refused_def discard_result_def wp_bindM elim: wp_mono)

lemma refused_init: "c_initialized c \<Longrightarrow> refused c (connection_init E r arg)"
  by (simp add: refused_def connection_init_def wp_simps untouched_def)

lemma refused_data_to_send:
  assumes "c_failed c" and "polite (untouched c) v"
  shows "refused c (data_to_send E v)"
proof -
  have "keeps (untouched c) (output_limit v)"
    by (rule collects_keeps [OF collects_output_limit [OF assms(2)]])
  then show ?thesis
    unfolding data_to_send_def produce_output_def
    by (intro refused_bindM refused_getsM refused_raise_if assms(1)) auto
qed

lemma refused_initiate_upgrade:
  fixes c :: "'s conn"
  assumes "\<And>m :: ('s, unit) meth. refused c (thenM require_created m)"
    and "polite (untouched c) p" "polite (untouched c) v" "polite (untouched c) h"
  shows "refused c (initiate_upgrade E p v h)"
  unfolding initiate_upgrade_def
  by (auto intro!: refused_bindM refused_thenM refused_getsM refused_raiseM assms(2-4)
      keeps_truth keeps_raise_if keeps_returnM collects_keeps [OF collects_normalize_settings] assms(1)
      split: option.split)

end
