(* ===== verification/Application.thy ===== *)
theory Application
  imports Refusals
begin

text \<open>
  The application's side of a \<open>Connection\<close> (\<^verbatim>\<open>src/ngh2/_core.pyx\<close>): the states of a connection that
  an application can reach. The objects an application passes may run code while a request converts
  them, and that code may call the connection again, to any depth; \<open>interacts\<close> is the relation
  between the states before and after such code, or after any sequence of requests.
\<close>

section \<open>Code of the application\<close>

text \<open>
  \<open>follows R h\<close>: whenever the hook \<open>h\<close> runs, the relation \<open>R\<close> allows what it does. Its outcome is
  the state it leaves and whether it ran into undefined behaviour.
\<close>

type_synonym 'w effect = "'w \<Rightarrow> bool \<times> 'w \<Rightarrow> bool"

definition follows :: "'w effect \<Rightarrow> ('w, 'e, 'a) py \<Rightarrow> bool" where
  "follows R h \<longleftrightarrow> (\<forall>w. R w (fst (h w) = Crash, snd (h w)))"

fun guided :: "'w effect \<Rightarrow> 'w pyobj \<Rightarrow> bool" where
  "guided R (PyByteArraySub h bs) = follows R h"
| "guided R (PyBuffer h) = follows R h"
| "guided R (PyIndexable h) = follows R h"
| "guided R (PyBoolable h) = follows R h"
| "guided R (PyTuple xs) = (\<forall>x \<in> set xs. guided R x)"
| "guided R (PyList xs) = (\<forall>x \<in> set xs. guided R x)"
| "guided R (PyNeverIndexed a b) = (guided R a \<and> guided R b)"
| "guided R (PyIterable n xs) = (\<forall>p \<in> set xs. follows R (fst p) \<and> guided R (snd p))"
| "guided R (PyMapping xs) =
     (\<forall>p \<in> set xs. follows R (fst p) \<and> guided R (fst (snd p)) \<and> guided R (snd (snd p)))"
| "guided R (PyPriority a b) = (guided R a \<and> guided R b)"
| "guided R _ = True"

definition guided_config :: "'w effect \<Rightarrow> 'w configuration \<Rightarrow> bool" where
  "guided_config R config \<longleftrightarrow>
     list_all (guided R) [auto_window_update config, initial_peer_max_concurrent_streams config,
       max_reserved_remote_streams config, max_send_header_block_length config,
       max_send_data_frame_size config, max_deflate_dynamic_table_size config,
       max_outbound_ack config, max_settings config, stream_reset_rate_limit config,
       max_continuations config, glitch_rate_limit config, max_inbound_header_list_size config,
       max_inbound_header_count config]"

fun guided_config_arg :: "('s conn) effect \<Rightarrow> 's config_arg \<Rightarrow> bool" where
  "guided_config_arg R (AConfig config) = guided_config R config"
| "guided_config_arg R _ = True"

lemma guided_le: "\<forall>w p. R w p \<longrightarrow> R' w p \<Longrightarrow> guided R v \<Longrightarrow> guided R' v"
  by (induction R v rule: guided.induct) (auto simp: follows_def)

lemma guided_mono [mono]: "(\<And>w p. R w p \<longrightarrow> R' w p) \<Longrightarrow> guided R v \<longrightarrow> guided R' v"
  using guided_le [of R R' v] by blast

lemma guided_config_arg_mono [mono]:
  "(\<And>w p. R w p \<longrightarrow> R' w p) \<Longrightarrow> guided_config_arg R a \<longrightarrow> guided_config_arg R' a"
  using guided_mono [of R R'] by (cases a) (auto simp: guided_config_def)

lemma list_guided_mono [mono]:
  "(\<And>w p. R w p \<longrightarrow> R' w p) \<Longrightarrow> list_all (guided R) vs \<longrightarrow> list_all (guided R') vs"
  using guided_mono [of R R'] by (auto simp: list_all_iff)

text \<open>An effect that keeps an invariant makes the code that follows it polite.\<close>

definition effect_keeps :: "('w \<Rightarrow> bool) \<Rightarrow> 'w effect \<Rightarrow> bool" where
  "effect_keeps I R \<longleftrightarrow> (\<forall>w b w'. R w (b, w') \<longrightarrow> I w \<longrightarrow> \<not> b \<and> I w')"

lemma follows_keeps: "follows R h \<Longrightarrow> effect_keeps I R \<Longrightarrow> keeps I h"
  by (fastforce simp: follows_def effect_keeps_def keeps_def wp_def split: prod.splits outcome.splits)

lemma guided_polite: "guided R v \<Longrightarrow> effect_keeps I R \<Longrightarrow> polite I v"
  by (induction R v rule: guided.induct) (fastforce intro: follows_keeps)+

lemma guided_list: "list_all (guided R) vs \<Longrightarrow> effect_keeps I R \<Longrightarrow> list_all (polite I) vs"
  by (auto simp: list_all_iff intro: guided_polite)

lemma guided_config_polite:
  "guided_config R config \<Longrightarrow> effect_keeps I R \<Longrightarrow> polite_config I config"
  by (auto simp: guided_config_def polite_config_def intro: guided_polite)

section \<open>Interactions\<close>

text \<open>
  What any code can do to a connection: nothing, or one more request after what it did so far. The
  flag says whether \<open>__init__\<close> may be among the requests; the code of a configuration value runs
  inside \<open>__init__\<close>, where calling it again would replace the session under construction.
\<close>

inductive interacts :: "'s engine \<Rightarrow> bool \<Rightarrow> ('s conn) effect" for E :: "'s engine" where
  idle: "interacts E inits c (False, c)"
| request: "interacts E inits c (False, c1) \<Longrightarrow> (is_init req \<longrightarrow> inits) \<Longrightarrow>
    list_all (guided (interacts E inits)) (arguments req) \<Longrightarrow>
    guided_config_arg (interacts E False) (config_of req) \<Longrightarrow>
    interacts E inits c (fst (perform E req c1) = Crash, snd (perform E req c1))"

inductive_cases interacts_cases: "interacts E inits c p"

text \<open>The states of a connection between the application's calls.\<close>

definition reachable :: "'s engine \<Rightarrow> 's conn \<Rightarrow> bool" where
  "reachable E c \<longleftrightarrow> interacts E True new_conn (False, c)"

lemma list_guided_conj: "list_all (guided (\<lambda>w p. R w p \<and> S w p)) vs \<Longrightarrow> list_all (guided R) vs"
  using list_guided_mono [of "\<lambda>w p. R w p \<and> S w p" R] by blast

lemma guided_config_arg_conj:
  "guided_config_arg (\<lambda>w p. R w p \<and> S w p) a \<Longrightarrow> guided_config_arg R a"
  using guided_config_arg_mono [of "\<lambda>w p. R w p \<and> S w p" R] by blast

section \<open>Interactions keep the invariant\<close>

text \<open>What is proved of an interaction: it keeps the class invariant, and without \<open>__init__\<close> it keeps
  a connection that is not initialised as it is.\<close>

definition harmless :: "'s engine \<Rightarrow> bool \<Rightarrow> 's conn \<Rightarrow> bool \<times> 's conn \<Rightarrow> bool" where
  "harmless E inits c p \<longleftrightarrow>
     (\<forall>seen. conn_inv E seen c \<longrightarrow> \<not> fst p \<and> conn_inv E seen (snd p)) \<and>
     (\<not> inits \<longrightarrow> (\<forall>seen. (unborn E seen c \<longrightarrow> unborn E seen (snd p)) \<and>
        (configured E seen c \<longrightarrow> configured E seen (snd p))))"

lemma effect_keeps_inv: "effect_keeps (conn_inv E seen) (harmless E inits)"
  by (simp add: effect_keeps_def harmless_def)

lemma effect_keeps_unborn:
  "effect_keeps (unborn E seen) (harmless E False)"
  "effect_keeps (configured E seen) (harmless E False)"
  by (auto simp: effect_keeps_def harmless_def unborn_def configured_def)

text \<open>A request whose objects are harmless is polite.\<close>

lemma harmless_request:
  assumes "list_all (guided (harmless E inits)) (arguments req)"
    and "guided_config_arg (harmless E False) (config_of req)"
  shows "polite_request E seen req"
  using guided_list [OF assms(1) effect_keeps_inv] assms(2)
    guided_config_polite [OF _ effect_keeps_unborn(1)] guided_config_polite [OF _ effect_keeps_unborn(2)]
  by (cases "config_of req") (auto simp: polite_request_def)

lemma harmless_blocked_request:
  assumes "list_all (guided (harmless E False)) (arguments req)" and "\<not> is_init req"
  shows "keeps (unborn E seen) (perform E req)" and "keeps (configured E seen) (perform E req)"
  using assms(2) guided_list [OF assms(1) effect_keeps_unborn(1)]
    guided_list [OF assms(1) effect_keeps_unborn(2)]
  by (auto intro!: keeps_blocked blocked_unborn)

lemma interacts_harmless:
  assumes E: "engine_ok E"
  shows "interacts E inits c p \<Longrightarrow> harmless E inits c p"
proof (induction rule: interacts.induct)
  case (idle inits c)
  then show ?case by (simp add: harmless_def)
next
  case (request inits c c1 req)
  let ?R = "\<lambda>inits c p. interacts E inits c p \<and> harmless E inits c p"
  have args: "list_all (guided (harmless E inits)) (arguments req)"
    and config: "guided_config_arg (harmless E False) (config_of req)"
    using request.IH(2,3) list_guided_mono [of "?R inits" "harmless E inits"]
      guided_config_arg_mono [of "?R False" "harmless E False"] by blast+
  have inv: "\<not> fst (perform E req c1) = Crash \<and> conn_inv E seen (snd (perform E req c1))"
    if "conn_inv E seen c1" for seen
    using perform_inv [OF E harmless_request [OF args config] that prod.collapse [symmetric]] by simp
  moreover have "unborn E seen c1 \<Longrightarrow> unborn E seen (snd (perform E req c1))"
    and "configured E seen c1 \<Longrightarrow> configured E seen (snd (perform E req c1))" if "\<not> inits" for seen
    using args request.hyps(2) that harmless_blocked_request [of E req seen]
    by (auto dest: keepsD intro: wp_snd)
  ultimately show ?case
    using request.IH(1) by (auto simp: harmless_def)
qed

lemma reachable_inv: "reachable E c \<Longrightarrow> engine_ok E \<Longrightarrow> conn_inv E False c"
  using interacts_harmless conn_inv_new by (fastforce simp: reachable_def harmless_def)

section \<open>Interactions with a failed connection\<close>

text \<open>The states an initialised connection can be in once it has failed: its events may be taken.\<close>

definition settled :: "'s conn \<Rightarrow> 's conn \<Rightarrow> bool" where
  "settled c c' \<longleftrightarrow> c' = c \<or> c' = c\<lparr>c_events := []\<rparr>"

lemma blocked_settled:
  "c_failed c \<Longrightarrow> \<not> c_active c \<Longrightarrow> blocked (settled c)"
  by (auto simp: blocked_def settled_def)

lemma keeps_settled_init: "c_initialized c \<Longrightarrow> keeps (settled c) (connection_init E r a)"
  by (auto simp: keeps_def settled_def connection_init_def wp_simps)

lemma interacts_settled:
  assumes c: "c_failed c" "\<not> c_active c" "c_initialized c"
  shows "interacts E inits w p \<Longrightarrow> settled c w \<Longrightarrow> \<not> fst p \<and> settled c (snd p)"
proof (induction rule: interacts.induct)
  case (idle inits w)
  then show ?case by simp
next
  case (request inits w w1 req)
  have "effect_keeps (settled c) (\<lambda>w p. settled c w \<longrightarrow> \<not> fst p \<and> settled c (snd p))"
    by (simp add: effect_keeps_def)
  moreover have "list_all (guided (\<lambda>w p. settled c w \<longrightarrow> \<not> fst p \<and> settled c (snd p))) (arguments req)"
    using list_guided_conj [of "\<lambda>w p. settled c w \<longrightarrow> \<not> fst p \<and> settled c (snd p)" "interacts E inits"]
      request.IH(2) by (simp add: conj_commute)
  ultimately have "list_all (polite (settled c)) (arguments req)"
    by (rule guided_list [rotated])
  then have "keeps (settled c) (perform E req)"
    using keeps_blocked [OF blocked_settled [OF c(1,2)]] keeps_settled_init [OF c(3)]
    by (cases "is_init req") (auto elim: is_init.elims)
  then have "wp (perform E req) (\<lambda>_. settled c) (\<lambda>_. settled c) w1"
    using request.IH(1) request.prems by (auto dest: keepsD)
  from wp_no_crash [OF this] wp_snd [OF this] show ?case by simp
qed

text \<open>One more request from a reachable state.\<close>

definition application_request :: "'s engine \<Rightarrow> 's request \<Rightarrow> bool" where
  "application_request E req \<longleftrightarrow> list_all (guided (interacts E True)) (arguments req) \<and>
     guided_config_arg (interacts E False) (config_of req)"

lemma application_polite:
  assumes "engine_ok E" and "application_request E req"
  shows "polite_request E seen req"
proof -
  have "interacts E inits c p \<longrightarrow> harmless E inits c p" for inits c p
    using interacts_harmless [OF assms(1)] by blast
  then show ?thesis
    using assms(2) list_guided_mono [of "interacts E True" "harmless E True"]
      guided_config_arg_mono [of "interacts E False" "harmless E False"]
    by (intro harmless_request [where inits = True]) (auto simp: application_request_def)
qed

lemma reachable_new: "reachable E new_conn"
  by (simp add: reachable_def interacts.idle)

lemma reachable_step:
  assumes "engine_ok E" and "reachable E c" and "application_request E req"
  shows "reachable E (snd (perform E req c))" and "fst (perform E req c) \<noteq> Crash"
proof -
  show no: "fst (perform E req c) \<noteq> Crash"
    by (rule perform_inv(2) [OF assms(1) application_polite [OF assms(1,3)]
          reachable_inv [OF assms(2,1)] prod.collapse [symmetric]])
  have "interacts E True new_conn (fst (perform E req c) = Crash, snd (perform E req c))"
    using assms(2,3) unfolding reachable_def application_request_def
    by (intro interacts.request) auto
  with no show "reachable E (snd (perform E req c))"
    by (simp add: reachable_def)
qed

section \<open>Hooks that call the connection\<close>

text \<open>Code that performs some requests, in order and until one raises, and then returns a value.\<close>

fun call_back :: "'s engine \<Rightarrow> 's request list \<Rightarrow> 'a \<Rightarrow> ('s, 'a) meth" where
  "call_back E [] x = returnM x"
| "call_back E (req # reqs) x = thenM (perform E req) (call_back E reqs x)"

lemma interacts_trans:
  "interacts E inits c1 p \<Longrightarrow> interacts E inits c (False, c1) \<Longrightarrow> interacts E inits c p"
proof (induction rule: interacts.induct)
  case (idle inits c1)
  then show ?case .
next
  case (request inits c1 c2 req)
  have "list_all (guided (interacts E inits)) (arguments req)"
    and "guided_config_arg (interacts E False) (config_of req)"
    using list_guided_conj [OF request.IH(2)] guided_config_arg_conj [OF request.IH(3)] by simp_all
  with request show ?case by (blast intro: interacts.request)
qed

lemma interacts_after:
  assumes "\<And>c. interacts E inits c (fst (m c) = Crash, snd (m c))"
    and "\<And>c. interacts E inits c (fst (k c) = Crash, snd (k c))"
  shows "interacts E inits c (fst (thenM m k c) = Crash, snd (thenM m k c))"
proof (cases "m c")
  case (Pair r c1)
  then have m: "interacts E inits c (r = Crash, c1)" using assms(1) [of c] by simp
  show ?thesis
  proof (cases r)
    case (Ok x)
    with m have "interacts E inits c (False, c1)" by simp
    with interacts_trans [OF assms(2) [of c1]] Pair Ok show ?thesis
      by (simp add: thenM_def bindM_def)
  qed (use m Pair in \<open>simp_all add: thenM_def bindM_def\<close>)
qed

lemma follows_call_back:
  "list_all (application_request E) reqs \<Longrightarrow> follows (interacts E True) (call_back E reqs x)"
proof (induction reqs)
  case Nil
  then show ?case by (simp add: follows_def returnM_def interacts.idle)
next
  case (Cons req reqs)
  have "interacts E True c (fst (perform E req c) = Crash, snd (perform E req c))" for c
    using Cons.prems by (intro interacts.request interacts.idle) (simp_all add: application_request_def)
  moreover have "follows (interacts E True) (call_back E reqs x)"
    using Cons by simp
  ultimately show ?case
    by (simp add: follows_def interacts_after)
qed

section \<open>Sequences of requests\<close>

definition session_after :: "'s engine \<Rightarrow> 's request list \<Rightarrow> 's conn" where
  "session_after E reqs = fold (\<lambda>req c. snd (perform E req c)) reqs new_conn"

lemma reachable_after:
  assumes "engine_ok E" and "list_all (application_request E) reqs"
  shows "reachable E (session_after E reqs)"
proof -
  have "reachable E c \<Longrightarrow> reachable E (fold (\<lambda>req c. snd (perform E req c)) reqs c)" for c
    using assms(2) by (induction reqs arbitrary: c) (auto intro: reachable_step(1) [OF assms(1)])
  then show ?thesis
    unfolding session_after_def by (simp add: reachable_new)
qed

text \<open>All events that \<open>events()\<close> hands to the application in the course of some requests.\<close>

fun delivered :: "'s engine \<Rightarrow> 's request list \<Rightarrow> 's conn \<Rightarrow> event list" where
  "delivered E [] c = []"
| "delivered E (req # reqs) c =
     (if req = Events then c_events c else []) @ delivered E reqs (snd (perform E req c))"

lemma closings_Nil [simp]: "closings [] = 0"
  by (simp add: closings_def)

lemma closings_append [simp]: "closings (es @ es') = closings es + closings es'"
  by (simp add: closings_def)

lemma conn_inv_seen:
  "conn_inv E False c \<Longrightarrow> c_closed c \<Longrightarrow> conn_inv E True (c\<lparr>c_events := []\<rparr>)"
  by (auto simp: conn_inv_def core_inv_def base_inv_def blank_def flags_ok_def)

lemma closings_delivered:
  assumes E: "engine_ok E" and p: "list_all (application_request E) reqs"
    and c: "conn_inv E seen c"
  shows "closings (delivered E reqs c) \<le> (if seen then 0 else 1)"
  using p c
proof (induction reqs arbitrary: c seen)
  case Nil
  then show ?case by simp
next
  case (Cons req reqs)
  have c': "conn_inv E seen (snd (perform E req c))"
    using Cons.prems by (auto intro: perform_inv(1) [OF E application_polite [OF E] _ prod.collapse [symmetric]])
  show ?case
  proof (cases "req = Events \<and> 0 < closings (c_events c)")
    case True
    then have closed: "c_closed c" "closings (c_events c) \<le> 1" "\<not> seen"
      using conn_inv_base [OF Cons.prems(2)] by (auto simp: base_inv_def events_ok_def split: if_splits)
    then have "conn_inv E True (c\<lparr>c_events := []\<rparr>)"
      using conn_inv_seen Cons.prems(2) by simp
    then have "closings (delivered E reqs (c\<lparr>c_events := []\<rparr>)) \<le> 0"
      using Cons.IH [of True] Cons.prems(1) by simp
    with True closed show ?thesis by (simp add: perform_Events del: perform.simps)
  next
    case False
    with Cons.IH [OF _ c'] Cons.prems(1) show ?thesis by auto
  qed
qed

text \<open>A session of the concrete library, which witnesses use.\<close>

definition demo_session :: "demo request list" where
  "demo_session = [Init (Some CLIENT) NoConfig, InitiateConnection PyNone,
     SendRequest (PyList [PyTuple [PyBytes True [1], PyBytes True [2]]]) (PyBool False),
     SendData (PyInt 1) (PyBytes True [7, 8, 9]) (PyBool True)]"

lemma demo_requests: "list_all (application_request demo) demo_session"
  by (simp add: demo_session_def application_request_def)

lemma reachable_demo: "reachable demo (session_after demo demo_session)"
  by (rule reachable_after [OF engine_ok_demo demo_requests])

end
