(* ===== verification/Partial.thy ===== *)
theory Partial
  imports Frames
begin

text \<open>
  A second calculus for the methods of \<^verbatim>\<open>src/ngh2/_core.pyx\<close>: what holds if a computation returns
  or raises (the collection \<open>wlp_simps\<close>).
\<close>

text \<open>\<open>wp\<close> without the claim that the computation does not run into undefined behaviour, which the
  class invariant gives.\<close>

named_theorems wlp_simps

definition wlp ::
  "('w, 'e, 'a) py \<Rightarrow> ('a \<Rightarrow> 'w \<Rightarrow> bool) \<Rightarrow> ('e \<Rightarrow> 'w \<Rightarrow> bool) \<Rightarrow> 'w \<Rightarrow> bool" where
  "wlp m Q R w = (case m w of
       (Ok x, w') \<Rightarrow> Q x w'
     | (Raise e, w') \<Rightarrow> R e w'
     | (Crash, w') \<Rightarrow> True)"

lemma wlp_wp: "wp m Q R w \<Longrightarrow> wlp m Q R w"
  by (auto simp: wp_def wlp_def split: prod.splits outcome.splits)

lemma wlp_mono:
  assumes "wlp m Q R w"
    and "\<And>x w'. Q x w' \<Longrightarrow> Q' x w'" and "\<And>e w'. R e w' \<Longrightarrow> R' e w'"
  shows "wlp m Q' R' w"
  using assms by (auto simp: wlp_def split: prod.splits outcome.splits)

lemma wlp_returnM [wlp_simps]: "wlp (returnM x) Q R = Q x"
  by (simp add: wlp_def returnM_def fun_eq_iff)

lemma wlp_raiseM [wlp_simps]: "wlp (raiseM e) Q R = R e"
  by (simp add: wlp_def raiseM_def fun_eq_iff)

lemma wlp_bindM [wlp_simps]: "wlp (bindM m f) Q R = wlp m (\<lambda>x. wlp (f x) Q R) R"
  by (auto simp: wlp_def bindM_def fun_eq_iff split: prod.splits outcome.splits)

lemma wlp_thenM [wlp_simps]: "wlp (thenM m k) Q R = wlp m (\<lambda>_. wlp k Q R) R"
  by (simp add: thenM_def wlp_bindM)

lemma wlp_getsM [wlp_simps]: "wlp (getsM f) Q R = (\<lambda>w. Q (f w) w)"
  by (simp add: wlp_def getsM_def fun_eq_iff)

lemma wlp_modifyM [wlp_simps]: "wlp (modifyM f) Q R = (\<lambda>w. Q () (f w))"
  by (simp add: wlp_def modifyM_def fun_eq_iff)

lemma wlp_raise_if [wlp_simps]: "wlp (raise_if b e) Q R = (\<lambda>w. if b then R e w else Q () w)"
  by (simp add: raise_if_def wlp_simps)

lemma wlp_whenM [wlp_simps]: "wlp (whenM b m) Q R = (\<lambda>w. if b then wlp m Q R w else Q () w)"
  by (simp add: whenM_def wlp_simps)

lemma wlp_catchM [wlp_simps]: "wlp (catchM m h) Q R = wlp m Q (\<lambda>e. wlp (h e) Q R)"
  by (auto simp: wlp_def catchM_def fun_eq_iff split: prod.splits outcome.splits)

lemma wlp_if [wlp_simps]:
  "wlp (if b then m else n) Q R = (\<lambda>w. if b then wlp m Q R w else wlp n Q R w)"
  by simp

lemma wlp_native_query [wlp_simps]:
  "wlp (native_query g) Q R = (\<lambda>c. case c_session c of None \<Rightarrow> True | Some s \<Rightarrow> Q (g s) c)"
  by (auto simp: wlp_def native_query_def fun_eq_iff split: option.splits)

lemma wlp_require_created [wlp_simps]:
  "wlp require_created Q R = (\<lambda>c.
     if c_initialized c \<and> \<not> c_failed c \<and> \<not> c_active c then Q () c else R ConnectionStateError c)"
  by (auto simp: require_created_def wlp_simps fun_eq_iff)

lemma wlp_require_drivable [wlp_simps]:
  "wlp require_drivable Q R = (\<lambda>c.
     if \<not> c_failed c \<and> c_active c then Q () c else R ConnectionStateError c)"
  by (auto simp: require_drivable_def wlp_simps fun_eq_iff)

lemma wlp_require_active [wlp_simps]:
  "wlp require_active Q R = (\<lambda>c.
     if \<not> c_failed c \<and> c_active c \<and> \<not> c_terminating c then Q () c else R ConnectionStateError c)"
  by (auto simp: require_active_def wlp_simps fun_eq_iff)

lemma wlp_keeps:
  "keeps I m \<Longrightarrow> I w \<Longrightarrow> (\<And>x w'. I w' \<Longrightarrow> Q x w') \<Longrightarrow> (\<And>e w'. I w' \<Longrightarrow> R e w') \<Longrightarrow> wlp m Q R w"
  by (blast intro: wlp_wp keeps_wp)

lemma wlp_preserves:
  assumes "preserves f m"
    and "\<And>x w'. f w' = f w \<Longrightarrow> Q x w'" and "\<And>e w'. f w' = f w \<Longrightarrow> R e w'"
  shows "wlp m Q R w"
proof (cases "m w")
  case (Pair r w')
  then have "f w' = f w" using assms(1) unfolding preserves_def by (metis snd_conv)
  with Pair assms(2,3) show ?thesis by (cases r) (auto simp: wlp_def)
qed

end
