(* ===== verification/Phases.thy ===== *)
theory Phases
  imports Application Partial
begin

text \<open>
  The lifecycle of a \<open>Connection\<close> (\<^verbatim>\<open>src/ngh2/_core.pyx\<close>) as an abstract state machine: six phases,
  read from the flags of the object, and one step relation \<open>life\<close> that says, for every kind of
  method, from which phase it may return, and where it may leave the connection when it returns or
  raises. The methods refine it (\<open>phase_perform\<close>): a method is what the code of its arguments did,
  followed by one step of the machine.
\<close>

section \<open>Phases\<close>

datatype phase = Fresh | Created | Active | Terminating | Closed | Failed

definition phase_of :: "'s conn \<Rightarrow> phase" where
  "phase_of c =
     (if c_failed c then Failed
      else if \<not> c_initialized c then Fresh
      else if \<not> c_active c then Created
      else if \<not> c_terminating c then Active
      else if \<not> c_closed c then Terminating
      else Closed)"

text \<open>Phases are ordered: a connection only ever moves on.\<close>

fun phase_rank :: "phase \<Rightarrow> nat" where
  "phase_rank Fresh = 0"
| "phase_rank Created = 1"
| "phase_rank Active = 2"
| "phase_rank Terminating = 3"
| "phase_rank Closed = 4"
| "phase_rank Failed = 5"

lemma phase_rank_inject: "phase_rank p = phase_rank q \<Longrightarrow> p = q"
  by (cases p; cases q) simp_all

instantiation phase :: linorder
begin

definition less_eq_phase :: "phase \<Rightarrow> phase \<Rightarrow> bool" where
  "less_eq_phase p q \<longleftrightarrow> phase_rank p \<le> phase_rank q"

definition less_phase :: "phase \<Rightarrow> phase \<Rightarrow> bool" where
  "less_phase p q \<longleftrightarrow> phase_rank p < phase_rank q"

instance
  by standard (auto simp: less_eq_phase_def less_phase_def intro: phase_rank_inject)

end

text \<open>The kinds of methods, by the guard they pass and by what they may do to the lifecycle.\<close>

datatype duty = Construct | Start | Operate | Receive | Terminate | Produce | Inspect | Look

fun duty_of :: "'s request \<Rightarrow> duty" where
  "duty_of (Init r config) = Construct"
| "duty_of (InitiateConnection settings) = Start"
| "duty_of (InitiateUpgrade payload settings head_req) = Start"
| "duty_of (ReceiveData data) = Receive"
| "duty_of Events = Look"
| "duty_of (QueuedBodySize i) = Look"
| "duty_of (DataToSend amount) = Produce"
| "duty_of (TerminateConnection code l) = Terminate"
| "duty_of WantRead = Inspect"
| "duty_of WantWrite = Inspect"
| "duty_of CanSendRequest = Inspect"
| "duty_of _ = Operate"

fun enabled :: "duty \<Rightarrow> phase \<Rightarrow> bool" where
  "enabled Construct p = (p = Fresh)"
| "enabled Start p = (p = Created)"
| "enabled Operate p = (p = Active)"
| "enabled Receive p = (p = Active)"
| "enabled Terminate p = (p = Active)"
| "enabled Produce p = (p \<noteq> Failed)"
| "enabled Inspect p = (p = Active \<or> p = Terminating \<or> p = Closed)"
| "enabled Look p = True"

text \<open>
  \<open>life d returned p q\<close>: a method of kind \<open>d\<close> may take a connection from phase \<open>p\<close> to \<open>q\<close> when it
  returns, or when it raises.
\<close>

inductive life :: "duty \<Rightarrow> bool \<Rightarrow> phase \<Rightarrow> phase \<Rightarrow> bool" where
  construct: "life Construct True Fresh Created"
| start: "life Start True Created Active"
| terminate: "life Terminate True Active Terminating"
| stay: "d \<in> {Operate, Receive, Produce, Inspect, Look} \<Longrightarrow> enabled d p \<Longrightarrow> life d True p p"
| finish: "(d, p) \<in> {(Receive, Active), (Produce, Active), (Produce, Terminating)} \<Longrightarrow>
    life d True p Closed"
| refuse: "life d False p p"
| fail: "d \<in> {Start, Operate, Receive, Terminate, Produce} \<Longrightarrow> enabled d p \<Longrightarrow> p \<noteq> Fresh \<Longrightarrow>
    life d False p Failed"

code_pred life .

inductive_simps life_iff: "life d b p q"

definition evolves :: "phase \<Rightarrow> phase \<Rightarrow> bool" where
  "evolves = (\<lambda>p q. \<exists>d b. life d b p q)\<^sup>*\<^sup>*"

lemma evolves_refl: "evolves p p"
  by (simp add: evolves_def)

lemma evolves_step: "evolves p q \<Longrightarrow> life d b q r \<Longrightarrow> evolves p r"
  by (auto simp: evolves_def intro: rtranclp.rtrancl_into_rtrancl)

lemma evolves_trans: "evolves p q \<Longrightarrow> evolves q r \<Longrightarrow> evolves p r"
  by (simp add: evolves_def)

lemma life_le: "life d b p q \<Longrightarrow> p \<le> q"
  by (cases p) (auto simp: less_eq_phase_def elim: life.cases)

lemma evolves_le: "evolves p q \<Longrightarrow> p \<le> q"
  unfolding evolves_def
  by (induction rule: rtranclp_induct) (auto intro: life_le order_trans)

section \<open>Computations inside a phase\<close>

text \<open>The phase as a function of the flags.\<close>

type_synonym flags = "bool \<times> bool \<times> bool \<times> bool \<times> bool \<times> bool"

fun flag_phase :: "flags \<Rightarrow> phase" where
  "flag_phase (initialized, active, failed, terminating, closed, server) =
     (if failed then Failed
      else if \<not> initialized then Fresh
      else if \<not> active then Created
      else if \<not> terminating then Active
      else if \<not> closed then Terminating
      else Closed)"

lemma phase_of_flags: "phase_of c = flag_phase (lifecycle c)"
  by (simp add: phase_of_def lifecycle_def)

lemma phase_lifecycle: "lifecycle c' = lifecycle c \<Longrightarrow> phase_of c' = phase_of c"
  by (simp add: phase_of_flags)

text \<open>
  \<open>moved d c b c'\<close>: a step of kind \<open>d\<close> from \<open>c\<close> to \<open>c'\<close>. A step into the phase \<open>Closed\<close> publishes
  \<open>ConnectionClosed\<close>, and no other step publishes one or takes one away, except that the
  events are taken by \<open>events()\<close>, and that closing may end in failure.
\<close>

abbreviation pending_closings :: "'s conn \<Rightarrow> nat" where
  "pending_closings c \<equiv> closings (c_events c)"

definition announced :: "duty \<Rightarrow> 's conn \<Rightarrow> 's conn \<Rightarrow> bool" where
  "announced d c c' \<longleftrightarrow> d = Look \<or> phase_of c' = Failed \<or>
     pending_closings c' = pending_closings c +
       (if phase_of c \<noteq> Closed \<and> phase_of c' = Closed then 1 else 0)"

definition moved :: "duty \<Rightarrow> 's conn \<Rightarrow> bool \<Rightarrow> 's conn \<Rightarrow> bool" where
  "moved d c b c' \<longleftrightarrow> life d b (phase_of c) (phase_of c') \<and> announced d c c'"

lemma moved_refused [simp, intro]: "moved d c False c"
  by (simp add: moved_def announced_def life.refuse)

lemma moved_stay: "life d True (phase_of c) (phase_of c) \<Longrightarrow> outlook c' = outlook c \<Longrightarrow> moved d c b c'"
  using phase_lifecycle [of c' c]
  by (cases b) (auto simp: moved_def announced_def outlook_def life.refuse)

lemma moved_outlook: "moved d c b c' \<Longrightarrow> outlook c'' = outlook c' \<Longrightarrow> moved d c b c''"
  using phase_lifecycle [of c'' c'] by (auto simp: moved_def announced_def outlook_def)

text \<open>A computation that leaves the flags alone is a step within any phase that allows to stay.\<close>

lemma wlp_same_phase:
  assumes "preserves outlook m" and "life d True (phase_of c) (phase_of c)"
  shows "wlp m (\<lambda>_. moved d c True) (\<lambda>_. moved d c False) c"
  by (rule wlp_preserves [OF assms(1)]) (auto intro: moved_stay assms(2))

lemma phase_fail [simp]: "phase_of (fail_conn c) = Failed"
  by (simp add: phase_of_def fail_conn_def)

text \<open>
  \<open>within P m\<close>: from a state whose flags satisfy \<open>P\<close>, the computation returns in one, and if it
  raises it ends in one or has failed; \<open>ConnectionClosed\<close> is not published.
\<close>

named_theorems within_intros

definition like :: "(flags \<Rightarrow> bool) \<Rightarrow> 's conn \<Rightarrow> 's conn \<Rightarrow> bool" where
  "like P c c' \<longleftrightarrow> P (lifecycle c') \<and> pending_closings c' = pending_closings c"

definition within :: "(flags \<Rightarrow> bool) \<Rightarrow> ('s, 'a) meth \<Rightarrow> bool" where
  "within P m \<longleftrightarrow> (\<forall>c. P (lifecycle c) \<longrightarrow>
     wlp m (\<lambda>_. like P c) (\<lambda>_ c'. like P c c' \<or> phase_of c' = Failed) c)"

lemma withinD:
  "within P m \<Longrightarrow> P (lifecycle c) \<Longrightarrow>
     wlp m (\<lambda>_. like P c) (\<lambda>_ c'. like P c c' \<or> phase_of c' = Failed) c"
  by (simp add: within_def)

lemma within_preserves: "preserves outlook m \<Longrightarrow> within P m"
  unfolding within_def by (intro allI impI, erule wlp_preserves) (simp_all add: like_def outlook_def)

lemma within_bindM [within_intros]:
  fixes m :: "('s, 'a) meth"
  assumes m: "within P m" and k: "\<And>x. within P (k x)"
  shows "within P (bindM m k)"
  unfolding within_def wlp_bindM
proof (intro allI impI)
  fix c :: "'s conn" assume "P (lifecycle c)"
  from withinD [OF m this] show "wlp m (\<lambda>x. wlp (k x) (\<lambda>_. like P c)
      (\<lambda>_ c'. like P c c' \<or> phase_of c' = Failed)) (\<lambda>_ c'. like P c c' \<or> phase_of c' = Failed) c"
  proof (rule wlp_mono)
    fix x and c' :: "'s conn" assume "like P c c'"
    then show "wlp (k x) (\<lambda>_. like P c) (\<lambda>_ c'. like P c c' \<or> phase_of c' = Failed) c'"
      using withinD [OF k, of c' x] by (auto simp: like_def elim: wlp_mono)
  qed simp
qed

lemma within_thenM [within_intros]: "within P m \<Longrightarrow> within P k \<Longrightarrow> within P (thenM m k)"
  by (simp add: thenM_def within_bindM)

lemma within_whenM [within_intros]: "within P m \<Longrightarrow> within P (whenM b m)"
  unfolding whenM_def by (simp add: within_preserves preserves_returnM)

lemma within_fail: "within P (thenM (modifyM fail_conn) (raiseM e))"
  by (simp add: within_def wlp_simps)

lemma within_fail_if: "within P (thenM (whenM b (modifyM fail_conn)) (raiseM e))"
  by (simp add: within_def wlp_simps like_def)

lemma within_check_native [within_intros]: "within P (check_native E result)"
  unfolding check_native_def raise_native_error_def
  by (auto intro: within_fail_if within_preserves preserves_returnM split: status.split)

lemma within_raise_callback_or_native [within_intros]: "within P (raise_callback_or_native E result)"
  unfolding raise_callback_or_native_def
  by (auto intro!: within_fail within_fail_if within_bindM within_preserves [OF preserves_getsM]
      within_preserves [OF preserves_returnM] split: status.split option.split)

lemma preserves_require_server [preserves_intros]: "preserves f (require_server b)"
  unfolding require_server_def by (intro preserves_intros)

lemma preserves_require_stream [preserves_intros]: "preserves f (require_stream E i)"
  unfolding require_stream_def by (intro preserves_intros)

lemma preserves_native_settings [preserves_intros]: "preserves f (native_settings E entries)"
  unfolding native_settings_def make_settings_def by (auto intro!: preserves_intros)

lemma preserves_open_body [preserves_intros]: "preserves outlook (open_body i)"
  unfolding open_body_def by (intro preserves_intros) (simp add: outlook_simps)

lemma preserves_queue_chunk [preserves_intros]: "preserves outlook (queue_chunk i chunk ends)"
  unfolding queue_chunk_def by (intro preserves_intros) (simp add: outlook_simps)

lemma within_modifyM [within_intros]: "(\<And>c. outlook (g c) = outlook c) \<Longrightarrow> within P (modifyM g)"
  by (rule within_preserves) (rule preserves_modifyM)

lemmas within_calm [within_intros] =
  within_preserves [OF preserves_returnM] within_preserves [OF preserves_raiseM]
  within_preserves [OF preserves_getsM] within_preserves [OF preserves_raise_if]
  within_preserves [OF preserves_native_call] within_preserves [OF preserves_native_query]
  within_preserves [OF preserves_native_run] within_preserves [OF preserves_native_settings]
  within_preserves [OF preserves_require_server] within_preserves [OF preserves_require_stream]
  within_preserves [OF preserves_open_body] within_preserves [OF preserves_queue_chunk]
  within_preserves [OF preserves_helpers(4)]

lemma within_native_id [within_intros]: "within P (native_id E result)"
  unfolding native_id_def by (intro within_intros)

lemma within_resume_body [within_intros]: "within P (resume_body E i)"
  unfolding resume_body_def by (intro within_intros)

lemma within_submit_reset [within_intros]: "within P (submit_reset E i code)"
  unfolding submit_reset_def by (intro within_intros)

section \<open>Methods as steps of the machine\<close>

fun active_flags :: "flags \<Rightarrow> bool" where
  "active_flags (initialized, active, failed, terminating, closed, server) \<longleftrightarrow>
     initialized \<and> active \<and> \<not> failed \<and> \<not> terminating \<and> \<not> closed"

fun created_flags :: "flags \<Rightarrow> bool" where
  "created_flags (initialized, active, failed, terminating, closed, server) \<longleftrightarrow>
     initialized \<and> \<not> active \<and> \<not> failed \<and> \<not> terminating \<and> \<not> closed"

lemma conn_inv_flags: "conn_inv E seen c \<Longrightarrow> flags_ok c"
  by (simp add: conn_inv_def core_inv_def base_inv_def)

lemma flags_phase: "active_flags l \<Longrightarrow> flag_phase l = Active" "created_flags l \<Longrightarrow> flag_phase l = Created"
  by (cases l; simp)+

lemma active_flags_phase: "active_flags (lifecycle c) \<Longrightarrow> phase_of c = Active"
  by (simp add: phase_of_flags flags_phase)

lemma active_flagsI:
  "conn_inv E seen c \<Longrightarrow> \<not> c_failed c \<Longrightarrow> c_active c \<Longrightarrow> \<not> c_terminating c \<Longrightarrow>
     active_flags (lifecycle c)"
  by (auto simp: lifecycle_def flags_ok_def dest: conn_inv_flags)

lemma created_flagsI:
  "conn_inv E seen c \<Longrightarrow> c_initialized c \<Longrightarrow> \<not> c_failed c \<Longrightarrow> \<not> c_active c \<Longrightarrow>
     created_flags (lifecycle c)"
  by (auto simp: lifecycle_def flags_ok_def dest: conn_inv_flags)

text \<open>
  \<open>acts I d m\<close>: from a state of \<open>I\<close>, which is what the code of the arguments keeps, the method \<open>m\<close>
  makes one step of kind \<open>d\<close> from the phase of a state of \<open>I\<close>.
\<close>

definition reaches :: "('s conn \<Rightarrow> bool) \<Rightarrow> duty \<Rightarrow> bool \<Rightarrow> 's conn \<Rightarrow> bool" where
  "reaches I d b c \<longleftrightarrow> (\<exists>w. I w \<and> moved d w b c)"

definition acts :: "('s conn \<Rightarrow> bool) \<Rightarrow> duty \<Rightarrow> ('s, 'a) meth \<Rightarrow> bool" where
  "acts I d m \<longleftrightarrow> (\<forall>c. I c \<longrightarrow> wlp m (\<lambda>_. reaches I d True) (\<lambda>_. reaches I d False) c)"

lemma actsI:
  "(\<And>c. I c \<Longrightarrow> wlp m (\<lambda>_. moved d c True) (\<lambda>_. moved d c False) c) \<Longrightarrow> acts I d m"
  unfolding acts_def reaches_def by (blast intro: wlp_mono)

lemma reaches_refused: "I c \<Longrightarrow> reaches I d False c"
  unfolding reaches_def by blast

lemma acts_bindM: "keeps I m \<Longrightarrow> (\<And>x. acts I d (k x)) \<Longrightarrow> acts I d (bindM m k)"
  unfolding acts_def wlp_bindM by (intro allI impI, erule wlp_keeps) (simp_all add: reaches_refused)

lemma acts_thenM: "keeps I m \<Longrightarrow> acts I d k \<Longrightarrow> acts I d (thenM m k)"
  by (simp add: thenM_def acts_bindM)

lemma acts_raiseM: "acts I d (raiseM e)"
  by (simp add: acts_def wlp_simps reaches_refused)

lemma acts_discard_result: "acts I d m \<Longrightarrow> acts I d (discard_result m)"
  by (simp add: acts_def discard_result_def wlp_bindM wlp_returnM)

text \<open>What stands behind a guard: a body that stays within the phase, and perhaps one last change.\<close>

lemma like_moved:
  assumes "like P c c'" and "P (lifecycle c)" and P: "\<And>l. P l \<Longrightarrow> flag_phase l = p"
  shows "moved d c False c'" and "life d True p p \<Longrightarrow> moved d c True c'"
  using assms(1,2) P [of "lifecycle c"] P [of "lifecycle c'"]
  by (auto simp: like_def moved_def announced_def life.refuse phase_of_flags)

lemma moved_fail: "life d False (phase_of c) Failed \<Longrightarrow> phase_of c' = Failed \<Longrightarrow> moved d c False c'"
  by (simp add: moved_def announced_def)

lemma wlp_body:
  assumes m: "within P m" and c: "P (lifecycle c)" and P: "\<And>l. P l \<Longrightarrow> flag_phase l = p"
    and life: "life d True p p" "life d False p Failed"
  shows "wlp m (\<lambda>_. moved d c True) (\<lambda>_. moved d c False) c"
proof (rule wlp_mono [OF withinD [OF m c]])
  have p: "phase_of c = p" using P [OF c] by (simp add: phase_of_flags)
  fix e c' assume "like P c c' \<or> phase_of c' = Failed"
  then show "moved d c False c'"
    using like_moved(1) [where P = P, OF _ c P] life(2) moved_fail [of d c c'] p by auto
qed (rule like_moved(2) [where P = P, OF _ c P life(1)])

lemma wlp_change:
  fixes c :: "'s conn" and g :: "'s conn \<Rightarrow> 's conn"
  assumes m: "within P m" and c: "P (lifecycle c)" and P: "\<And>l. P l \<Longrightarrow> flag_phase l = p"
    and g: "\<And>c. P (lifecycle c) \<Longrightarrow> phase_of (g c) = q \<and> pending_closings (g c) = pending_closings c"
    and life: "life d True p q" "life d False p Failed" and q: "q \<noteq> Closed"
  shows "wlp (thenM m (modifyM g)) (\<lambda>_. moved d c True) (\<lambda>_. moved d c False) c"
  unfolding wlp_thenM wlp_modifyM
proof (rule wlp_mono [OF withinD [OF m c]])
  have p: "phase_of c = p" using P [OF c] by (simp add: phase_of_flags)
  fix c' :: "'s conn"
  show "moved d c True (g c')" if "like P c c'"
    using that g [of c'] p life(1) q by (auto simp: like_def moved_def announced_def)
  show "moved d c False c'" if "like P c c' \<or> phase_of c' = Failed"
    using that like_moved(1) [where P = P, OF _ c P] life(2) moved_fail [of d c c'] p by auto
qed

text \<open>The guards.\<close>

lemma acts_guarded:
  fixes m :: "('s, 'a) meth"
  assumes I: "\<And>c. I c \<Longrightarrow> conn_inv E seen c"
    and m: "\<And>c :: 's conn. active_flags (lifecycle c) \<Longrightarrow>
      wlp m (\<lambda>_. moved d c True) (\<lambda>_. moved d c False) c"
  shows "acts I d (thenM require_active m)"
  by (rule actsI) (auto simp: wlp_thenM [of require_active] wlp_require_active
      intro: m active_flagsI [OF I])

lemma acts_active:
  assumes I: "\<And>c. I c \<Longrightarrow> conn_inv E seen c" and m: "within active_flags m"
  shows "acts I Operate (thenM require_active m)"
  by (rule acts_guarded [OF I wlp_body [OF m _ flags_phase(1)]]) (simp_all add: life_iff)

lemma acts_start:
  fixes g :: "'s conn \<Rightarrow> 's conn"
  assumes I: "\<And>c. I c \<Longrightarrow> conn_inv E seen c" and m: "within created_flags m"
    and g: "\<And>c. created_flags (lifecycle c) \<Longrightarrow>
      phase_of (g c) = Active \<and> pending_closings (g c) = pending_closings c"
  shows "acts I Start (thenM require_created (thenM m (modifyM g)))"
proof -
  have "wlp (thenM m (modifyM g)) (\<lambda>_. moved Start c True) (\<lambda>_. moved Start c False) c"
    if "created_flags (lifecycle c)" for c :: "'s conn"
    by (rule wlp_change [OF m that flags_phase(2) g]) (simp_all add: life_iff)
  then show ?thesis
    by (intro actsI) (auto simp: wlp_thenM [of require_created] wlp_require_created
        intro: created_flagsI [OF I])
qed

lemma acts_terminate:
  fixes g :: "'s conn \<Rightarrow> 's conn"
  assumes I: "\<And>c. I c \<Longrightarrow> conn_inv E seen c" and m: "within active_flags m"
    and g: "\<And>c. active_flags (lifecycle c) \<Longrightarrow>
      phase_of (g c) = Terminating \<and> pending_closings (g c) = pending_closings c"
  shows "acts I Terminate (thenM require_active (thenM m (modifyM g)))"
  by (rule acts_guarded [OF I wlp_change [OF m _ flags_phase(1) g]]) (simp_all add: life_iff)

lemma acts_drivable:
  assumes I: "\<And>c. I c \<Longrightarrow> conn_inv E seen c" and m: "preserves outlook m"
  shows "acts I Inspect (thenM require_drivable m)"
proof (rule actsI)
  fix c assume c: "I c"
  have "phase_of c \<in> {Active, Terminating, Closed}" if "c_active c" "\<not> c_failed c"
    using conn_inv_flags [OF I [OF c]] that by (auto simp: phase_of_def flags_ok_def)
  then show "wlp (thenM require_drivable m) (\<lambda>_. moved Inspect c True) (\<lambda>_. moved Inspect c False) c"
    by (auto simp: wlp_thenM wlp_require_drivable intro!: wlp_same_phase [OF m] life.stay)
qed

lemma acts_look:
  assumes "preserves lifecycle m"
  shows "acts I Look m"
proof (rule actsI, rule wlp_preserves [OF assms])
  fix c c' :: "'a conn" assume "lifecycle c' = lifecycle c"
  then have "phase_of c' = phase_of c" by (rule phase_lifecycle)
  then show "moved Look c True c'" "moved Look c False c'"
    by (simp_all add: moved_def announced_def life_iff)
qed

section \<open>The methods that change the phase\<close>

lemma wlp_update_terminal_state:
  assumes "phase_of c \<in> {Active, Terminating, Closed}"
  shows "wlp (update_terminal_state E)
     (\<lambda>_ c'. outlook c' = outlook c \<or> phase_of c \<in> {Active, Terminating} \<and> phase_of c' = Closed \<and>
        pending_closings c' = Suc (pending_closings c))
     (\<lambda>_ _. False) c"
proof -
  let ?c = "(discard_pending_state (c\<lparr>c_terminating := True\<rparr>))\<lparr>c_closed := True,
    c_events := c_events c @ [connection_closed_event (c_close_error_code c) (c_close_debug_data c)]\<rparr>"
  have "pending_closings ?c = Suc (pending_closings c)"
    by (simp add: closings_def connection_closed_event_def)
  moreover have "phase_of ?c = Closed" "phase_of c \<in> {Active, Terminating}"
    if "c_active c" "\<not> c_closed c"
    using that assms by (auto simp: phase_of_def discard_pending_state_def split: if_splits)
  ultimately show ?thesis
    by (auto simp: update_terminal_state_def wlp_simps discard_pending_state_def split: option.split)
qed

lemma assocM: "thenM (bindM m f) k = bindM m (\<lambda>x. thenM (f x) k)"
  "thenM (thenM m n) k = thenM m (thenM n k)"
  by (auto simp: thenM_def bindM_def fun_eq_iff split: prod.split outcome.split)

lemma acts_initiate_connection:
  assumes I: "\<And>c. I c \<Longrightarrow> conn_inv E seen c" and v: "polite I v"
  shows "acts I Start (initiate_connection E v)"
proof -
  have "acts I Start (thenM require_created (thenM (bindM (native_settings E entries) (\<lambda>native.
      bindM (native_call (eng_submit_settings E native)) (check_native E)))
        (modifyM (\<lambda>c. c\<lparr>c_local_extensible_priority := extensible_priority entries,
                        c_active := True\<rparr>))))" for entries
    by (rule acts_start [OF I])
      (auto intro!: within_intros simp: outlook_simps phase_of_def)
  then show ?thesis
    unfolding initiate_connection_def assocM
    by (intro acts_bindM collects_keeps [OF collects_normalize_settings [OF v]])
qed

lemma within_upgrade_settings [within_intros]:
  "within created_flags (upgrade_settings E entries native)"
  unfolding upgrade_settings_def
  by (auto intro!: within_bindM within_calm within_modifyM within_fail simp: outlook_simps
      split: status.split)

lemma acts_initiate_upgrade:
  assumes I: "\<And>c. I c \<Longrightarrow> conn_inv E seen c"
    and "polite I payload" "polite I settings" "polite I head_request"
  shows "acts I Start (initiate_upgrade E payload settings head_request)"
proof -
  have body: "acts I Start (thenM require_created (thenM
      (bindM (getsM c_server) (\<lambda>server.
      bindM (if server then native_settings E entries else returnM []) (\<lambda>native.
      thenM (modifyM (\<lambda>c. c\<lparr>c_callback_error := None\<rparr>))
      (bindM (native_run E (eng_session_upgrade E bytes req)) (\<lambda>result.
      thenM (raise_callback_or_native E result)
        (if server then upgrade_settings E entries native else returnM ()))))))
        (modifyM (\<lambda>c. c\<lparr>c_active := True\<rparr>))))" for entries bytes req
    by (rule acts_start [OF I])
      (auto intro!: within_intros simp: outlook_simps phase_of_def)
  show ?thesis
    unfolding initiate_upgrade_def
    by (auto intro!: acts_bindM acts_thenM acts_raiseM keeps_truth keeps_getsM keeps_raise_if
        keeps_returnM assms(2-4) collects_keeps [OF collects_normalize_settings] body [unfolded assocM]
        split: option.split)
qed

lemma acts_terminate_connection:
  assumes I: "\<And>c. I c \<Longrightarrow> conn_inv E seen c" and "polite I v" "polite I w"
  shows "acts I Terminate (terminate_connection E v w)"
proof -
  have "acts I Terminate (thenM require_active (thenM (bindM (native_call f) (check_native E))
      (modifyM (\<lambda>c. discard_pending_state (c\<lparr>c_terminating := True, c_closing := True\<rparr>)))))" for f
    by (rule acts_terminate [OF I])
      (auto intro!: within_intros simp: outlook_simps phase_of_def
        discard_pending_state_def)
  then show ?thesis
    unfolding terminate_connection_def assocM
    by (intro acts_bindM conv_keeps_intros keeps_optional_stream_id assms(2,3))
qed

text \<open>\<open>receive_data\<close> and \<open>data_to_send\<close> may find that a closing connection has nothing left to do.\<close>

lemma wlp_closing:
  assumes "outlook c' = outlook c" and "(d, phase_of c) \<in> {(Receive, Active), (Produce, Active),
      (Produce, Terminating), (Produce, Closed)}"
  shows "wlp (bindM (getsM c_closing) (\<lambda>closing. whenM closing (update_terminal_state E)))
    (\<lambda>_. moved d c True) (\<lambda>_ _. False) c'"
proof -
  have same: "phase_of c' = phase_of c" "pending_closings c' = pending_closings c"
    using assms(1) phase_lifecycle [of c' c] by (simp_all add: outlook_def)
  have "moved d c True c'" using assms(2) same by (auto simp: moved_def announced_def life_iff)
  moreover have "moved d c True c''" if "phase_of c' \<in> {Active, Terminating}" "phase_of c'' = Closed"
    "pending_closings c'' = Suc (pending_closings c')" for c''
    using assms(2) same that by (auto simp: moved_def announced_def life_iff)
  moreover have "phase_of c' \<in> {Active, Terminating, Closed}"
    using assms(2) same by auto
  ultimately show ?thesis
    using wlp_update_terminal_state [of c' E]
    by (auto simp: wlp_simps elim!: wlp_mono intro: moved_outlook)
qed

lemma wlp_receive:
  fixes c :: "'s conn"
  assumes c: "active_flags (lifecycle c)"
  shows "wlp (thenM (modifyM (\<lambda>c. c\<lparr>c_callback_error := None\<rparr>))
     (bindM (native_run E (eng_session_mem_recv E view)) (\<lambda>result.
      thenM (raise_callback_or_native E result)
      (thenM
        (if result \<noteq> RcOk (length view)
         then thenM (modifyM fail_conn) (raiseM InternalError) else returnM ())
        (bindM (getsM c_closing) (\<lambda>closing. whenM closing (update_terminal_state E)))))))
     (\<lambda>_. moved Receive c True) (\<lambda>_. moved Receive c False) c"
proof -
  let ?m = "thenM (modifyM (\<lambda>c. c\<lparr>c_callback_error := None\<rparr>))
   (bindM (native_run E (eng_session_mem_recv E view)) (\<lambda>result.
    thenM (raise_callback_or_native E result)
      (if result \<noteq> RcOk (length view)
       then thenM (modifyM fail_conn) (raiseM InternalError) else returnM ())))"
  have "within (\<lambda>l. l = lifecycle c) ?m"
    by (auto intro!: within_fail within_intros simp: outlook_simps)
  from withinD [OF this refl] have "wlp (thenM ?m
      (bindM (getsM c_closing) (\<lambda>closing. whenM closing (update_terminal_state E))))
      (\<lambda>_. moved Receive c True) (\<lambda>_. moved Receive c False) c"
    unfolding wlp_thenM [of ?m]
  proof (rule wlp_mono)
    fix c' :: "'s conn" assume "like (\<lambda>l. l = lifecycle c) c c'"
    then have "outlook c' = outlook c" by (simp add: like_def outlook_def)
    then show "wlp (bindM (getsM c_closing) (\<lambda>closing. whenM closing (update_terminal_state E)))
        (\<lambda>_. moved Receive c True) (\<lambda>_. moved Receive c False) c'"
      by (intro wlp_mono [OF wlp_closing]) (simp_all add: active_flags_phase [OF c])
  next
    fix e and c' :: "'s conn" assume "like (\<lambda>l. l = lifecycle c) c c' \<or> phase_of c' = Failed"
    then show "moved Receive c False c'"
      using active_flags_phase [OF c] phase_lifecycle [of c' c]
      by (auto simp: like_def moved_def announced_def life_iff)
  qed
  then show ?thesis by (simp only: assocM)
qed

lemma acts_receive_data:
  assumes I: "\<And>c. I c \<Longrightarrow> conn_inv E seen c" and v: "polite I v"
  shows "acts I Receive (receive_data E v)"
proof -
  have "acts I Receive (thenM require_active (thenM (modifyM (\<lambda>c. c\<lparr>c_callback_error := None\<rparr>))
     (bindM (native_run E (eng_session_mem_recv E view)) (\<lambda>result.
      thenM (raise_callback_or_native E result)
      (thenM
        (if result \<noteq> RcOk (length view)
         then thenM (modifyM fail_conn) (raiseM InternalError) else returnM ())
        (bindM (getsM c_closing) (\<lambda>closing. whenM closing (update_terminal_state E))))))))" for view
    by (rule acts_guarded [OF I wlp_receive])
  then show ?thesis
    unfolding receive_data_def by (intro acts_bindM keeps_get_buffer v)
qed

lemma preserves_take_output [preserves_intros]: "preserves outlook (take_output E)"
  unfolding take_output_def
  by (auto intro!: preserves_intros simp: outlook_simps split: option.split)

lemma wlp_send_output:
  fixes c c' :: "'s conn"
  assumes c: "phase_of c \<in> {Active, Terminating, Closed}" and c': "outlook c' = outlook c"
  shows "wlp (bindM (native_run E (eng_session_send E)) (\<lambda>result.
      thenM (raise_callback_or_native E result)
      (thenM (bindM (getsM c_closing) (\<lambda>closing. whenM closing (update_terminal_state E)))
        (take_output E)))) (\<lambda>_. moved Produce c True) (\<lambda>_ _. True) c'"
proof -
  let ?m = "bindM (native_run E (eng_session_send E)) (raise_callback_or_native E)"
  have "within (\<lambda>l. l = lifecycle c') ?m"
    by (auto intro!: within_intros)
  from withinD [OF this refl] have "wlp (thenM ?m
      (thenM (bindM (getsM c_closing) (\<lambda>closing. whenM closing (update_terminal_state E)))
        (take_output E))) (\<lambda>_. moved Produce c True) (\<lambda>_ _. True) c'"
    unfolding wlp_thenM
  proof (rule wlp_mono)
    fix w :: "'s conn" assume "like (\<lambda>l. l = lifecycle c') c' w"
    then have w: "outlook w = outlook c" using c' by (simp add: like_def outlook_def)
    show "wlp (bindM (getsM c_closing) (\<lambda>closing. whenM closing (update_terminal_state E)))
        (\<lambda>_. wlp (take_output E) (\<lambda>_. moved Produce c True) (\<lambda>_ _. True)) (\<lambda>_ _. True) w"
    proof (rule wlp_mono [OF wlp_closing [OF w]])
      show "(Produce, phase_of c) \<in> {(Receive, Active), (Produce, Active), (Produce, Terminating),
          (Produce, Closed)}" using c by auto
      fix w' :: "'s conn" assume w': "moved Produce c True w'"
      show "wlp (take_output E) (\<lambda>_. moved Produce c True) (\<lambda>_ _. True) w'"
        by (rule wlp_preserves [OF preserves_take_output]) (auto intro: moved_outlook [OF w'])
    qed simp_all
  qed simp_all
  then show ?thesis by (simp only: assocM)
qed

lemma acts_data_to_send:
  assumes I: "\<And>c. I c \<Longrightarrow> conn_inv E seen c" and v: "polite I v"
  shows "acts I Produce (data_to_send E v)"
proof -
  have "acts I Produce (produce_output E limit)" for limit
  proof (rule actsI)
    fix c assume c: "I c"
    have active: "phase_of c \<in> {Active, Terminating, Closed}" if "c_active c" "\<not> c_failed c"
      using conn_inv_flags [OF I [OF c]] that by (auto simp: phase_of_def flags_ok_def)
    show "wlp (produce_output E limit) (\<lambda>_. moved Produce c True) (\<lambda>_. moved Produce c False) c"
    proof (cases "c_failed c \<or> limit = 0 \<or> \<not> c_active c")
      case True
      have "moved Produce c True c" if "\<not> c_failed c"
        using that by (intro moved_stay life.stay) (simp_all add: phase_of_def)
      with True show ?thesis
        by (auto simp: produce_output_def wlp_bindM [of "getsM _"] wlp_getsM wlp_thenM [of "raise_if _ _"]
            wlp_raise_if wlp_returnM)
    next
      case False
      let ?c = "c\<lparr>c_output_size := 0, c_output_remaining := limit, c_callback_error := None\<rparr>"
      have ok: "outlook ?c = outlook c" "phase_of c \<in> {Active, Terminating, Closed}"
        using active False by (simp_all add: outlook_simps)
      then have fail: "moved Produce c False (fail_conn c')" for c'
        by (auto simp: moved_def announced_def intro: life.fail)
      have last: "moved Produce c True c' \<Longrightarrow> moved Produce c True (c'\<lparr>c_output_remaining := 0\<rparr>)" for c'
        by (erule moved_outlook) (simp add: outlook_simps)
      show ?thesis
        using False
        by (auto simp: produce_output_def wlp_bindM [of "getsM _"] wlp_getsM wlp_thenM [of "raise_if _ _"]
            wlp_thenM [of "modifyM _"] wlp_raise_if wlp_modifyM wlp_bindM [of "catchM _ _"] wlp_catchM
            wlp_raiseM wlp_returnM fail intro!: wlp_mono [OF wlp_send_output [OF ok(2,1)]] last)
    qed
  qed
  then show ?thesis
    unfolding data_to_send_def
    by (intro acts_bindM collects_keeps [OF collects_output_limit [OF v]])
qed

lemma conn_inv_pending: "conn_inv E seen c \<Longrightarrow> \<not> c_closed c \<Longrightarrow> pending_closings c = 0"
  by (simp add: conn_inv_def core_inv_def base_inv_def events_ok_def)

lemma unborn_fresh:
  assumes "unborn E seen c"
  shows "phase_of c = Fresh" and "\<not> c_failed c" "\<not> c_active c" and "pending_closings c = 0"
  using assms conn_inv_flags [of E seen c] conn_inv_pending [of E seen c]
  by (auto simp: unborn_def phase_of_def flags_ok_def)

lemma acts_connection_init:
  assumes I: "\<And>c. I c \<Longrightarrow> conn_inv E seen c" and a: "polite_config_arg E seen arg"
  shows "acts I Construct (connection_init E r arg)"
proof (rule actsI)
  fix c assume c: "I c"
  show "wlp (connection_init E r arg) (\<lambda>_. moved Construct c True) (\<lambda>_. moved Construct c False) c"
  proof (cases "c_initialized c")
    case True
    then show ?thesis by (simp add: connection_init_def wlp_simps)
  next
    case False
    have u: "unborn E seen c" using I [OF c] False by (simp add: unborn_def)
    have refused: "moved Construct c False c'" if "unborn E seen c'" for c'
      using unborn_fresh [OF u] unborn_fresh [OF that] by (simp add: moved_def announced_def life.refuse)
    have start: "moved Construct c True (c'\<lparr>c_role := Some x, c_server := b, c_session := Some s,
        c_initialized := True\<rparr>)" if "configured E seen c'" for c' x b s
      using that unborn_fresh [OF u] unborn_fresh [of E seen c']
      by (simp add: configured_def moved_def announced_def phase_of_def life.construct)
    have rest: "wlp (thenM (check_result (eng_callbacks_new E))
        (thenM (check_result (eng_option_new E))
        (bindM (apply_configuration config) (\<lambda>option.
         case eng_session_new E (x = SERVER) option of (result, session) \<Rightarrow>
         thenM (check_result result)
           (modifyM (\<lambda>c. c\<lparr>c_role := Some x, c_server := (x = SERVER),
              c_session := Some session, c_initialized := True\<rparr>))))))
        (\<lambda>_. moved Construct c True) (\<lambda>_. moved Construct c False) c"
      if p: "polite_config (unborn E seen) config" "polite_config (configured E seen) config" for config x
      using u by (intro wlp_wp) (auto simp: wp_thenM wp_check_result wp_bindM wp_modifyM refused start
          configured_def [THEN iffD1, THEN conjunct1, THEN refused]
          split: status.splits prod.splits intro!: wp_mono [OF apply_configuration_configured [OF u p]])
    show ?thesis
      using False u a polite_default
      by (cases r; cases arg)
        (auto simp: connection_init_def wlp_bindM [of "getsM _"] wlp_getsM wlp_thenM [of "raise_if _ _"]
          wlp_raise_if wlp_raiseM wlp_bindM [of "returnM _"] wlp_bindM [of "raiseM _"] wlp_returnM
          intro!: rest)
  qed
qed

lemma preserves_queries [preserves_intros]:
  "preserves outlook (native_query g)"
  "preserves outlook (bindM (getsM c_terminating) (\<lambda>b. if b then returnM x else native_query g))"
  by (auto intro!: preserves_intros)

lemma preserves_events: "preserves lifecycle events"
  unfolding events_def by (intro preserves_intros) (simp add: lifecycle_def)

lemma acts_queued_body_size_of: "polite I v \<Longrightarrow> acts I Look (queued_body_size_of v)"
  unfolding queued_body_size_of_def
  by (auto intro!: acts_bindM acts_look [OF preserves_getsM] conv_keeps_intros)

section \<open>The refinement\<close>

lemma acts_perform:
  assumes I: "\<And>c. I c \<Longrightarrow> conn_inv E seen c" and args: "list_all (polite I) (arguments req)"
    and config: "polite_config_arg E seen (config_of req)"
  shows "acts I (duty_of req) (perform E req)"
  using args config
  by (cases req)
    (auto simp: guarded_defs outlook_simps Let_def
      intro!: acts_connection_init [OF I] acts_initiate_connection [OF I] acts_initiate_upgrade [OF I]
      acts_receive_data [OF I] acts_data_to_send [OF I] acts_queued_body_size_of
      acts_look [OF preserves_events] preserves_queries acts_terminate_connection [OF I]
      acts_bindM acts_discard_result acts_raiseM acts_active [OF I] acts_drivable [OF I]
      within_intros argument_keeps
      split: option.split pyobj.split)

text \<open>Whatever an application does to a connection moves it along the machine.\<close>

lemma interacts_evolves:
  assumes E: "engine_ok E"
  shows "interacts E inits c p \<Longrightarrow> conn_inv E seen c \<Longrightarrow> evolves (phase_of c) (phase_of (snd p))"
proof (induction rule: interacts.induct)
  case (idle inits c)
  then show ?case by (simp add: evolves_refl)
next
  case (request inits c c1 req)
  let ?I = "\<lambda>w. conn_inv E seen w \<and> evolves (phase_of c) (phase_of w)"
  let ?R = "\<lambda>inits w p. interacts E inits w p \<and>
    (conn_inv E seen w \<longrightarrow> evolves (phase_of w) (phase_of (snd p)))"
  have harmless: "harmless E i w p" if "interacts E i w p" for i w p
    using interacts_harmless [OF E that] .
  have "effect_keeps ?I (?R inits)"
    unfolding effect_keeps_def using harmless by (fastforce simp: harmless_def intro: evolves_trans)
  then have args: "list_all (polite ?I) (arguments req)"
    by (rule guided_list [OF request.IH(2)])
  have polite: "polite_request E seen req"
    using list_guided_conj [OF request.IH(2)] guided_config_arg_conj [OF request.IH(3)]
      list_guided_mono [of "interacts E inits" "harmless E inits"]
      guided_config_arg_mono [of "interacts E False" "harmless E False"] harmless
    by (intro harmless_request [where inits = inits]) blast+
  then have config: "polite_config_arg E seen (config_of req)"
    by (simp add: polite_request_def)
  have c1: "?I c1"
    using request.IH(1) request.prems interacts_harmless [OF E request.hyps(1)]
    by (simp add: harmless_def)
  have "fst (perform E req c1) \<noteq> Crash"
    using perform_inv(2) [OF E polite _ prod.collapse [symmetric]] c1 by blast
  moreover have "wlp (perform E req) (\<lambda>_. reaches ?I (duty_of req) True)
      (\<lambda>_. reaches ?I (duty_of req) False) c1"
    using acts_perform [OF _ args config] c1 unfolding acts_def by blast
  ultimately have "\<exists>b. reaches ?I (duty_of req) b (snd (perform E req c1))"
    by (auto simp: wlp_def split: prod.splits outcome.splits)
  then show ?case by (auto simp: reaches_def moved_def intro: evolves_step)
qed

lemma reachable_polite:
  assumes E: "engine_ok E" and req: "application_request E req"
  shows "list_all (polite (\<lambda>w. conn_inv E seen w \<and> evolves p (phase_of w))) (arguments req)"
proof (rule guided_list)
  show "list_all (guided (interacts E True)) (arguments req)"
    using req by (simp add: application_request_def)
  show "effect_keeps (\<lambda>w. conn_inv E seen w \<and> evolves p (phase_of w)) (interacts E True)"
    unfolding effect_keeps_def
    using interacts_harmless [OF E] interacts_evolves [OF E]
    by (fastforce simp: harmless_def intro: evolves_trans)
qed

section \<open>Requests out of phase\<close>

lemma refused_guards:
  assumes c: "conn_inv E seen c"
  shows "phase_of c \<noteq> Active \<Longrightarrow> refused c (thenM require_active m)"
    and "phase_of c \<notin> {Active, Terminating, Closed} \<Longrightarrow> refused c (thenM require_drivable m)"
    and "phase_of c \<noteq> Created \<Longrightarrow> refused c (thenM require_created m)"
  using conn_inv_flags [OF c]
  by (auto simp: refused_def wp_thenM wp_require_active wp_require_drivable wp_require_created
      untouched_def phase_of_def flags_ok_def split: if_splits)

lemma refused_phases:
  assumes c: "conn_inv E seen c"
  shows "phase_of c \<noteq> Fresh \<Longrightarrow> refused c (connection_init E r arg)"
    and "phase_of c = Failed \<Longrightarrow> polite (untouched c) v \<Longrightarrow> refused c (data_to_send E v)"
  using conn_inv_flags [OF c]
  by (auto simp: phase_of_def flags_ok_def split: if_splits intro: refused_init refused_data_to_send)

lemma refused_out_of_phase:
  assumes c: "conn_inv E seen c" and "inert_request c req" and "\<not> enabled (duty_of req) (phase_of c)"
  shows "refused c (perform E req)"
  using assms(2,3)
  by (cases req)
    (auto simp: inert_request_def guarded_defs initiate_connection_def receive_data_def
      terminate_connection_def intro!: refused_phases [OF c]
      refused_initiate_upgrade refused_guards [OF c] refused_bindM refused_raiseM
      refused_discard_result argument_keeps
      split: option.split pyobj.split)

end
