(* ===== verification/Runs.thy ===== *)
theory Runs
  imports Application
begin

text \<open>
  The sessions of the concrete library (\<open>Demo\<close>) that the witnesses use, evaluated: the equations
  that run a request step by step, and the states and results they lead to.
\<close>

section \<open>Running a request\<close>

named_theorems run_simps

lemmas monad_run [run_simps] = bindM_def thenM_def returnM_def raiseM_def crashM_def getsM_def
  modifyM_def raise_if_def whenM_def catchM_def

lemmas conversion_run [run_simps] = conv_uint32.of_int conv_size.of_int conv_positive_size.of_int
  conv_uint64.of_int conv_nonnegative_size.of_int conv_stream_id.of_int conv_uint31.of_int

lemmas argument_run [run_simps] = normalize_settings_def native_headers_def normalize_headers_def
  make_headers_def make_header_def body_chunk_def NV_SIZE_def make_settings_def SETTINGS_ENTRY_SIZE_def

lemmas guard_run [run_simps] = require_created_def require_active_def require_drivable_def
  require_server_def native_call_def native_query_def native_run_def check_native_def
  check_result_def alloc_ok_def new_bytes_def raise_callback_or_native_def raise_native_error_def
  callback_failed_def update_terminal_state_def

lemmas method_run [run_simps] = discard_result_def connection_init_def apply_configuration_def
  default_configuration_def new_conn_def initiate_connection_def native_settings_def
  extensible_priority_def send_request_def native_id_def open_body_def send_data_def queue_chunk_def
  update_body_def append_chunk_def new_body_def receive_data_def events_def data_to_send_def
  output_limit_def produce_output_def take_output_def resize_cells_def

lemmas callback_run [run_simps] = collect_output_def reserve_output_def grow_output_def
  output_capacity_def write_output_def overwrite_def SSIZE_MAX_def SIZE_MAX_def size_add_def
  send_body_def copy_body_of_def copy_body_def compact_def read_body_def take_body_def
  eof_answer_def plain_answer_def frame_sent_def begin_frame_def discard_data_payload_def
  data_chunk_def frame_received_def dispatch_frame_def data_frame_received_def publish_def
  copy_loop.simps

lemmas demo_run [run_simps] = demo_queue_def demo_send_def demo_body_def demo_recv_def after_def
  blank_frame_def

section \<open>A client session\<close>

text \<open>After the session of \<open>Application\<close> the library has two bytes to send and one body is queued.\<close>

lemma session_after_demo: "session_after demo demo_session =
  new_conn\<lparr>c_role := Some CLIENT,
    c_session := Some \<lparr>dm_next = 3, dm_out = [4, 1], dm_streams = [1], dm_open = True\<rparr>,
    c_initialized := True, c_active := True, c_auto_window_update := True, c_max_settings := 32,
    c_max_inbound_header_list_size := 65536, c_max_inbound_header_count := 1024,
    c_bodies := [1 \<mapsto> \<lparr>chunks = [Some [7, 8, 9]], head = 0, offset = 0, queued_size = 3,
      ended = True, deferred = False, trailers = None\<rparr>],
    c_queued_body_size := 3, c_max_send_data_frame_size := 65536\<rparr>"
  by (simp add: session_after_def demo_session_def run_simps)

text \<open>The same session driven until its body is on the wire.\<close>

definition demo_sent :: "demo conn" where
  "demo_sent = session_after demo (demo_session @ [DataToSend (PyInt 20), DataToSend (PyInt 20)])"

lemma demo_requests_sent:
  "list_all (application_request demo) (demo_session @ [DataToSend (PyInt 20), DataToSend (PyInt 20)])"
  using demo_requests by (simp add: application_request_def)

lemma reachable_demo_sent: "reachable demo demo_sent"
  unfolding demo_sent_def by (rule reachable_after [OF engine_ok_demo demo_requests_sent])

lemma demo_output:
  "fst (data_to_send demo (PyInt 20) (session_after demo demo_session)) = Ok [Some 4, Some 1]"
  by (simp add: session_after_demo run_simps)

section \<open>Little memory\<close>

text \<open>The concrete library where large buffers cannot be allocated.\<close>

lemma run_ok_alloc: "run_ok (E\<lparr>eng_alloc := f\<rparr>) r n = run_ok E r n"
proof (induction r arbitrary: n)
  case (Invoke q s k)
  have "run_ok (E\<lparr>eng_alloc := f\<rparr>) (k ans s') m = run_ok E (k ans s') m" for ans s' m
    by (rule Invoke.IH [OF rangeI rangeI])
  then show ?case by (simp add: next_id_def)
qed (simp add: next_id_def)

lemma engine_ok_alloc: "engine_ok (E\<lparr>eng_alloc := f\<rparr>) = engine_ok E"
  by (simp add: engine_ok_def advances_def runs_ok_def run_ok_alloc next_id_def)

definition small_demo :: "demo engine" where
  "small_demo = demo\<lparr>eng_alloc := \<lambda>s n. n \<le> 100\<rparr>"

lemma engine_ok_small_demo: "engine_ok small_demo"
  by (simp add: small_demo_def engine_ok_alloc engine_ok_demo)

definition demo_start :: "demo request list" where
  "demo_start = [Init (Some CLIENT) NoConfig, InitiateConnection PyNone]"

lemma reachable_demo_start: "reachable small_demo (session_after small_demo demo_start)"
  by (rule reachable_after [OF engine_ok_small_demo]) (simp add: demo_start_def application_request_def)

end
