(* ===== verification/Phase_Spec.thy ===== *)
theory Phase_Spec
  imports Phases Runs
begin

text \<open>
  The lifecycle of a \<open>Connection\<close> (\<^verbatim>\<open>src/ngh2/_core.pyx\<close>) seen by an application: its requests refine
  the state machine of \<open>Phases\<close>, and a request out of its phase changes nothing.
\<close>

section \<open>Refinement of the lifecycle machine\<close>

text \<open>
  C14. The methods refine the lifecycle machine. A request of an application, on any connection it can
  have, amounts to what the code of its arguments did to the connection, which are steps of the
  machine, followed by one step of the kind of the request, of a method that returned or of one that
  raised; so the phase never goes back. If the arguments leave the connection alone there is
  only that step; and short of a failure, \<open>ConnectionClosed\<close> is published once by each step into the
  phase \<open>Closed\<close>, and by no other.
\<close>

theorem lifecycle_refined:
  assumes "engine_ok E" and "reachable E c" and "application_request E req"
    and "perform E req c = (r, c')"
  shows "\<exists>p. evolves (phase_of c) p \<and> life (duty_of req) (r = Ok ()) p (phase_of c') \<and>
    phase_of c \<le> phase_of c' \<and> (inert_request c req \<longrightarrow> p = phase_of c \<and>
      (duty_of req \<noteq> Look \<and> phase_of c' \<noteq> Failed \<longrightarrow> closings (c_events c') =
        closings (c_events c) + (if phase_of c \<noteq> Closed \<and> phase_of c' = Closed then 1 else 0)))"
proof -
  note inv = reachable_inv [OF assms(2,1)]
  have config: "polite_config_arg E False (config_of req)"
    using application_polite [OF assms(1,3)] by (simp add: polite_request_def)
  have ok: "r \<noteq> Crash"
    using perform_inv(2) [OF assms(1) application_polite [OF assms(1,3)] inv assms(4)] .
  let ?I = "if inert_request c req then untouched c
    else (\<lambda>w. conn_inv E False w \<and> evolves (phase_of c) (phase_of w))"
  have I: "conn_inv E False w" "evolves (phase_of c) (phase_of w)" if "?I w" for w
    using that inv by (auto simp: untouched_def evolves_refl split: if_splits)
  have "list_all (polite ?I) (arguments req)"
    using reachable_polite [OF assms(1,3)] by (simp add: inert_request_def)
  from acts_perform [OF I(1) this config] have "wlp (perform E req)
      (\<lambda>_. reaches ?I (duty_of req) True) (\<lambda>_. reaches ?I (duty_of req) False) c"
    unfolding acts_def using inv by (auto simp: untouched_def evolves_refl)
  with assms(4) ok have "reaches ?I (duty_of req) (r = Ok ()) c'"
    by (cases r) (auto simp: wlp_def)
  then obtain w where w: "?I w" "moved (duty_of req) w (r = Ok ()) c'"
    by (auto simp: reaches_def)
  then have "phase_of c \<le> phase_of c'"
    using I(2) [OF w(1)] by (auto simp: moved_def intro: order_trans evolves_le life_le)
  with w I(2) [OF w(1)] show ?thesis by (auto simp: untouched_def moved_def announced_def)
qed

definition demo_goodbye :: "demo request list" where
  "demo_goodbye = [Init (Some CLIENT) NoConfig, InitiateConnection PyNone,
     TerminateConnection (PyInt 0) PyNone]"

lemma demo_goodbye_requests: "list_all (application_request demo) demo_goodbye"
  by (simp add: demo_goodbye_def application_request_def)

lemma reachable_demo_goodbye: "reachable demo (session_after demo demo_goodbye)"
  by (rule reachable_after [OF engine_ok_demo demo_goodbye_requests])

lemma phase_demo_goodbye: "phase_of (session_after demo demo_goodbye) = Terminating"
  by (simp add: session_after_def demo_goodbye_def terminate_connection_def optional_stream_id_def
      discard_pending_state_def phase_of_def run_simps)

lemma perform_demo_goodbye:
  "fst (perform demo (DataToSend PyNone) (session_after demo demo_goodbye)) = Ok ()"
  "phase_of (snd (perform demo (DataToSend PyNone) (session_after demo demo_goodbye))) = Closed"
  by (simp_all add: session_after_def demo_goodbye_def terminate_connection_def optional_stream_id_def
      discard_pending_state_def phase_of_def run_simps)

theorem lifecycle_refined_witness:
  "life Produce True Terminating Closed \<and>
   closings (c_events (snd (perform demo (DataToSend PyNone) (session_after demo demo_goodbye)))) =
     Suc (closings (c_events (session_after demo demo_goodbye)))"
proof -
  let ?c = "session_after demo demo_goodbye" and ?req = "DataToSend PyNone :: demo request"
  have "application_request demo ?req" "inert_request ?c ?req"
    by (simp_all add: application_request_def inert_request_def)
  with lifecycle_refined [OF engine_ok_demo reachable_demo_goodbye _ prod.collapse [symmetric], of ?req]
  show ?thesis by (auto simp: phase_demo_goodbye perform_demo_goodbye simp del: perform.simps)
qed

section \<open>Requests out of phase\<close>

text \<open>
  C15. Out of its phase a request is refused with an exception, and the connection stays exactly as it
  was, provided the objects passed to it leave it alone: only a fresh
  connection is constructed and only a created one is started; streams, frames, input and termination
  need an active one; queries of the engine need one that was started and has not failed; output ends with
  failure; the pending events and the queued size can always be taken.
\<close>

theorem out_of_phase_refused:
  assumes "engine_ok E" and "reachable E c" and "inert_request c req"
    and "\<not> enabled (duty_of req) (phase_of c)"
  shows "\<exists>e. perform E req c = (Raise e, c)"
  using refused_out_of_phase [OF reachable_inv [OF assms(2,1)] assms(3,4)]
  by (auto simp: refused_def wp_def untouched_def split: prod.splits outcome.splits)

theorem out_of_phase_refused_witness:
  "\<exists>e. perform demo (ReceiveData (PyBytes True [0])) (session_after demo demo_goodbye) =
     (Raise e, session_after demo demo_goodbye)"
  by (rule out_of_phase_refused [OF engine_ok_demo reachable_demo_goodbye])
    (simp_all add: inert_request_def phase_demo_goodbye)

end
