(* ===== verification/Output_Spec.thy ===== *)
theory Output_Spec
  imports Runs
begin

text \<open>
  What the body source and the output callbacks of \<^verbatim>\<open>src/ngh2/_core.pyx\<close> do, branch by branch: body
  bytes are a FIFO, for one body and for the bodies of a connection, and what reaches the output
  buffer is exactly what the engine was promised.
\<close>

section \<open>Bodies\<close>

text \<open>
  The body source is a FIFO of bytes: whatever chunks are queued on a new body and however many
  bytes are copied out at a time, what was copied followed by what is still queued is what was
  queued, compaction of the chunk list included.
\<close>

lemma body_fifo:
  "case queue_run append_chunk pull_body ops new_body of
     (out, b) \<Rightarrow> out @ body_contents b = pushed ops \<and>
       queued_size b = of_nat (length (body_contents b))"
  using body_queue.run_fifo [of new_body ops] body_wf_queued by (fastforce split: prod.splits)

text \<open>
  \<open>_copy_body\<close> copies the next bytes of a body, as many as asked for or as there are, and takes
  their number from the body's counter and from the connection's.
\<close>

lemma copy_body_exact:
  assumes "body_wf b"
  shows "\<exists>b'. copy_body n b queued = (Ok (take n (body_contents b)), b',
        queued - of_nat (min n (length (body_contents b)))) \<and>
      body_contents b' = drop n (body_contents b) \<and>
      queued_size b' = queued_size b - of_nat (min n (length (body_contents b))) \<and>
      ended b' = ended b \<and> deferred b' = deferred b \<and> trailers b' = trailers b"
proof -
  obtain b' where run: "copy_body n b queued = (Ok (take n (body_contents b)), b',
        queued - of_nat (min n (length (body_contents b))))" and d: "drained n b b'"
    using copy_body_correct [OF assms] by blast
  have "queued_size b' = queued_size b - of_nat (min n (length (body_contents b)))"
    using d assms by (auto simp: drained_def body_wf_queued min_def of_nat_diff)
  with run d show ?thesis by (auto simp: drained_def)
qed

lemma copy_body_exact_witness:
  "\<exists>b'. copy_body 3 (append_chunk [3, 4] (append_chunk [1, 2] new_body)) 9 = (Ok [1, 2, 3], b', 6) \<and>
     body_contents b' = [4]"
  using copy_body_exact [of "append_chunk [3, 4] (append_chunk [1, 2] new_body)" 3 9]
  by (simp add: body_wf_append body_contents_append) blast

section \<open>The bodies of a connection\<close>

text \<open>
  The two operations on the body of one stream, as they act on the connection: what \<open>send_data\<close>
  does once its arguments are converted, and \<open>_copy_body\<close>.
\<close>

definition conn_push :: "int \<Rightarrow> byte list \<Rightarrow> 's conn \<Rightarrow> 's conn" where
  "conn_push i chunk c = snd (queue_chunk i chunk False c)"

definition conn_pull :: "int \<Rightarrow> nat \<Rightarrow> 's conn \<Rightarrow> byte list \<times> 's conn" where
  "conn_pull i n c = (case copy_body_of i n c of
       (Ok out, c') \<Rightarrow> (out, c') | (_, c') \<Rightarrow> ([], c'))"

definition body_open :: "int \<Rightarrow> 's conn \<Rightarrow> bool" where
  "body_open i c \<longleftrightarrow> bodies_ok (c_bodies c) (c_queued_body_size c) \<and>
     (\<exists>b. c_bodies c i = Some b \<and> trailers b = None)"

definition stream_bytes :: "int \<Rightarrow> 's conn \<Rightarrow> byte list" where
  "stream_bytes i c = body_contents (the (c_bodies c i))"

lemma conn_push_eq:
  assumes "c_bodies c i = Some b"
  shows "conn_push i chunk c = c\<lparr>c_bodies := (c_bodies c)(i \<mapsto> (append_chunk chunk b)\<lparr>ended := False\<rparr>),
    c_queued_body_size := c_queued_body_size c + of_nat (length chunk)\<rparr>"
  using assms by (simp add: conn_push_def queue_chunk_def update_body_def run_simps)

lemma body_open_push:
  assumes "body_open i c"
  shows "body_open i (conn_push i chunk c) \<and>
    stream_bytes i (conn_push i chunk c) = stream_bytes i c @ chunk"
proof -
  obtain b where ok: "bodies_ok (c_bodies c) (c_queued_body_size c)"
    and b: "c_bodies c i = Some b" "trailers b = None"
    using assms by (auto simp: body_open_def)
  have wf: "body_wf b" using bodies_okD [OF ok b(1)] by simp
  have "queued_size (append_chunk chunk b) = queued_size b + of_nat (length chunk)"
    by (simp add: append_chunk_def)
  then have "bodies_ok ((c_bodies c)(i \<mapsto> (append_chunk chunk b)\<lparr>ended := False\<rparr>))
      (c_queued_body_size c + of_nat (length chunk))"
    using wf b by (intro bodies_ok_update [OF ok b(1)]) (simp_all add: body_wf_append)
  then show ?thesis
    using b wf by (simp add: conn_push_eq [OF b(1)] body_open_def stream_bytes_def body_contents_append)
qed

lemma body_open_pull:
  assumes "body_open i c" and "conn_pull i n c = (out, c')"
  shows "body_open i c' \<and> out = take n (stream_bytes i c) \<and> stream_bytes i c' = drop n (stream_bytes i c)"
proof -
  obtain b where ok: "bodies_ok (c_bodies c) (c_queued_body_size c)"
    and b: "c_bodies c i = Some b" "trailers b = None"
    using assms(1) by (auto simp: body_open_def)
  have "wp (copy_body_of i n) (\<lambda>out c'. body_open i c' \<and> out = take n (stream_bytes i c) \<and>
      stream_bytes i c' = drop n (stream_bytes i c)) (\<lambda>_ _. False) c"
    using b by (intro wp_copy_body_of [OF ok b(1)])
      (auto simp: body_open_def stream_bytes_def drained_def)
  with assms(2) show ?thesis
    by (auto simp: conn_pull_def wp_def split: prod.splits outcome.splits)
qed

interpretation stream_queue: byte_queue "body_open i" "stream_bytes i" "conn_push i" "conn_pull i"
  by unfold_locales (auto simp: body_open_push dest: body_open_pull)

text \<open>The operations on one stream leave the bodies of the others alone.\<close>

lemma conn_push_other: "j \<noteq> i \<Longrightarrow> c_bodies (conn_push i chunk c) j = c_bodies c j"
  by (simp add: conn_push_def queue_chunk_def update_body_def run_simps)

lemma conn_pull_other: "j \<noteq> i \<Longrightarrow> conn_pull i n c = (out, c') \<Longrightarrow> c_bodies c' j = c_bodies c j"
  by (auto simp: conn_pull_def copy_body_of_def monad_run split: prod.splits outcome.splits option.splits)

lemma queue_run_other:
  "j \<noteq> i \<Longrightarrow> queue_run (conn_push i) (conn_pull i) ops c = (out, c') \<Longrightarrow> c_bodies c' j = c_bodies c j"
proof (induction ops arbitrary: c out)
  case (Cons op ops)
  then show ?case
    by (cases op) (auto simp: conn_push_other split: prod.splits dest: conn_pull_other [of j i])
qed simp

lemma body_open_fresh:
  "bodies_ok (c_bodies c) (c_queued_body_size c) \<Longrightarrow> c_bodies c i = None \<Longrightarrow>
   body_open i (snd (open_body i c)) \<and> stream_bytes i (snd (open_body i c)) = []"
  using bodies_ok_insert by (fastforce simp: open_body_def modifyM_def body_open_def stream_bytes_def
      new_body_def body_contents_def)

text \<open>
  C2. A connection refines one FIFO of bytes per stream: whatever is queued on a fresh body of a
  stream and copied out of it, in any order, the bytes of that stream come out in order, none lost
  and none repeated, and the bodies of other streams are not touched.
\<close>

theorem stream_fifo:
  assumes "engine_ok E" and "reachable E c" and "c_bodies c i = None"
    and "queue_run (conn_push i) (conn_pull i) ops (snd (open_body i c)) = (out, c')"
  shows "out @ body_contents (the (c_bodies c' i)) = pushed ops \<and>
    (\<forall>j. j \<noteq> i \<longrightarrow> c_bodies c' j = c_bodies c j)"
proof -
  have "bodies_ok (c_bodies c) (c_queued_body_size c)"
    using reachable_inv [OF assms(2,1)] by (simp add: conn_inv_def core_inv_def)
  from body_open_fresh [OF this assms(3)] show ?thesis
    using stream_queue.run_fifo [OF _ assms(4)] queue_run_other [OF _ assms(4)]
    by (simp add: stream_bytes_def open_body_def modifyM_def)
qed

theorem stream_fifo_witness:
  "\<exists>out c'. queue_run (conn_push 3) (conn_pull 3) [Push [1, 2], Pull 1, Push [3], Pull 5]
      (snd (open_body 3 (session_after demo demo_session))) = (out, c') \<and>
    out @ body_contents (the (c_bodies c' 3)) = [1, 2, 3]"
proof -
  obtain out c' where run: "queue_run (conn_push 3) (conn_pull 3) [Push [1, 2], Pull 1, Push [3], Pull 5]
      (snd (open_body 3 (session_after demo demo_session))) = (out, c')"
    by (rule prod.exhaust)
  have "c_bodies (session_after demo demo_session) 3 = None"
    by (simp add: session_after_demo new_conn_def)
  from stream_fifo [OF engine_ok_demo reachable_demo this run]
  have "out @ body_contents (the (c_bodies c' 3)) = [1, 2, 3]" by simp
  with run show ?thesis by blast
qed

section \<open>The output buffer\<close>

text \<open>
  \<open>_reserve_output\<close> returns the end of the written bytes and makes room for the requested number
  after it without losing a byte; a buffer that has to grow at least doubles.
\<close>

lemma reserve_output_room:
  assumes "c_output_size c \<le> output_capacity c" and "reserve_output E n c = (Ok off, c')"
  shows "off = c_output_size c \<and> c_output_size c' = off + n \<and> off + n \<le> output_capacity c' \<and>
    take off (buffer_cells (c_output c')) = staged c \<and>
    (output_capacity c' = output_capacity c \<or>
     (output_capacity c < SIZE_MAX div 4 \<longrightarrow> max 4096 (2 * output_capacity c) \<le> output_capacity c'))"
  using assms
  by (auto simp: reserve_output_def grow_output_def output_capacity_eq staged_def Let_def monad_run
      buffer_cells_def split: if_splits option.splits)

lemma reserve_output_room_witness:
  "\<exists>c'. reserve_output demo 5 (session_after demo demo_session) = (Ok 0, c') \<and> 4096 \<le> output_capacity c'"
proof -
  obtain c' where run: "reserve_output demo 5 (session_after demo demo_session) = (Ok 0, c')"
    by (simp add: session_after_demo run_simps)
  have "output_capacity (session_after demo demo_session) = 0" "c_output_size (session_after demo demo_session) = 0"
    by (simp_all add: session_after_demo new_conn_def output_capacity_def)
  with reserve_output_room [OF _ run] have "4096 \<le> output_capacity c'"
    by (auto simp: SIZE_MAX_def)
  with run show ?thesis by blast
qed

lemma wp_collect_output:
  assumes "c_output_size c \<le> output_capacity c" and "c_output_remaining c \<noteq> 0"
    and n: "n = (if 0 \<le> c_output_remaining c then min (length data) (nat (c_output_remaining c))
      else length data)"
    and ok: "\<And>c'. staged c' = staged c @ map Some (take n data) \<Longrightarrow> c_bodies c' = c_bodies c \<Longrightarrow>
      c_output_remaining c' = (if 0 \<le> c_output_remaining c then c_output_remaining c - int n
        else c_output_remaining c) \<Longrightarrow> Q (RcOk n) c'"
    and err: "\<And>e c'. Q (RcErr ERR_CALLBACK_FAILURE) (c'\<lparr>c_callback_error := Some e\<rparr>)"
  shows "wp (collect_output E data) Q R c"
proof -
  let ?r = "c_output_remaining c"
  let ?finish = "thenM (whenM (?r \<ge> 0) (modifyM (\<lambda>c. c\<lparr>c_output_remaining := ?r - int n\<rparr>)))
    (returnM (RcOk n))"
  have len: "n = length (take n data)" by (simp add: n)
  have "wp (bindM (reserve_output E n) (\<lambda>off. thenM (write_output off (take n data)) ?finish))
      Q (\<lambda>e. wp (callback_failed e) Q R) c"
  proof (rule wp_append_output [OF assms(1) len])
    fix out
    assume "take (c_output_size c + n) (buffer_cells out) = staged c @ map Some (take n data)"
    then show "wp ?finish Q R' (c\<lparr>c_output_size := c_output_size c + n, c_output := out\<rparr>)" for R'
      by (auto simp: wp_simps staged_def intro!: ok)
  qed (simp add: wp_simps err)
  then show ?thesis
    using assms(2) unfolding collect_output_def
    by (simp add: wp_bindM wp_getsM wp_if wp_catchM wp_Let flip: n)
qed

text \<open>
  \<open>_collect_output\<close> accepts as many serialised bytes as the limit allows, appends exactly these to
  the staged output, and lowers the limit by their number.
\<close>

lemma collect_output_appends:
  assumes "c_output_size c \<le> output_capacity c" and "collect_output E data c = (Ok (RcOk n), c')"
  shows "n = (if 0 \<le> c_output_remaining c then min (length data) (nat (c_output_remaining c))
      else length data) \<and>
    staged c' = staged c @ map Some (take n data) \<and> c_bodies c' = c_bodies c \<and>
    c_output_remaining c' = (if 0 \<le> c_output_remaining c then c_output_remaining c - int n
      else c_output_remaining c)"
proof (cases "c_output_remaining c = 0")
  case True
  with assms(2) show ?thesis by (simp add: collect_output_def monad_run)
next
  case False
  show ?thesis
    using wp_Ok [OF wp_collect_output [OF assms(1) False refl, where E = E and data = data and
          Q = "\<lambda>rc c'. \<forall>n. rc = RcOk n \<longrightarrow> n = (if 0 \<le> c_output_remaining c
              then min (length data) (nat (c_output_remaining c)) else length data) \<and>
            staged c' = staged c @ map Some (take n data) \<and> c_bodies c' = c_bodies c \<and>
            c_output_remaining c' = (if 0 \<le> c_output_remaining c then c_output_remaining c - int n
              else c_output_remaining c)"] assms(2)] by simp
qed

definition demo_limited :: "demo conn" where
  "demo_limited = (session_after demo demo_session)\<lparr>c_output_remaining := 3\<rparr>"

lemma collect_output_appends_witness:
  "\<exists>c'. collect_output demo [1, 2, 3, 4] demo_limited = (Ok (RcOk 3), c') \<and>
     staged c' = [Some 1, Some 2, Some 3] \<and> c_output_remaining c' = 0"
proof -
  obtain c' where run: "collect_output demo [1, 2, 3, 4] demo_limited = (Ok (RcOk 3), c')"
    by (simp add: demo_limited_def session_after_demo run_simps)
  with collect_output_appends [OF _ run] show ?thesis
    by (simp add: demo_limited_def session_after_demo new_conn_def staged_def)
qed

end
