(* ===== verification/Frame_Spec.thy ===== *)
theory Frame_Spec
  imports Output_Spec
begin

text \<open>
  The callbacks of \<^verbatim>\<open>src/ngh2/_core.pyx\<close> that put DATA frames on the wire and that learn which frames
  were sent: the bytes a DATA frame takes from a body, when the end of a stream is announced, and
  what becomes of resets that wait for it.
\<close>

section \<open>DATA frames\<close>

lemma wp_send_body:
  assumes bodies: "bodies_ok (c_bodies c) (c_queued_body_size c)"
    and used: "c_output_size c \<le> output_capacity c"
    and b: "c_bodies c (hd_stream_id frame) = Some b" and header: "length header = 9"
    and ok: "\<And>c' b'. len \<le> length (body_contents b) \<Longrightarrow> drained len b b' \<Longrightarrow>
      staged c' = staged c @ map Some (header @ take len (body_contents b)) \<Longrightarrow>
      c_bodies c' = (c_bodies c)(hd_stream_id frame \<mapsto> b') \<Longrightarrow>
      (0 \<le> c_output_remaining c \<longrightarrow> int (len + 9) \<le> c_output_remaining c \<and>
         c_output_remaining c' = c_output_remaining c - int (len + 9)) \<Longrightarrow> Q (RcOk 0) c'"
    and err: "\<And>e c'. Q (RcErr ERR_CALLBACK_FAILURE) (c'\<lparr>c_callback_error := Some e\<rparr>)"
  shows "wp (send_body E frame header len) Q R c"
proof -
  let ?i = "hd_stream_id frame" and ?r = "c_output_remaining c"
  let ?fail = "\<lambda>e. wp (callback_failed e) Q R"
  let ?finish = "thenM (whenM (?r \<ge> 0) (modifyM (\<lambda>c. c\<lparr>c_output_remaining := ?r - int (len + 9)\<rparr>)))
    (returnM (RcOk 0))"
  have frame: "wp (bindM (reserve_output E (len + 9)) (\<lambda>off. thenM (write_output off header)
      (bindM (copy_body_of ?i len) (\<lambda>copied. thenM (write_output (off + 9) copied)
        (if length copied \<noteq> len then raiseM InternalError else ?finish))))) Q ?fail c"
    if fits: "\<not> (0 \<le> ?r \<and> nat ?r < size_add len 9)" "len \<le> SSIZE_MAX - 9"
  proof (rule wp_append_frame [OF used header bodies b])
    have "size_add len 9 = len + 9"
      using fits(2) by (simp add: size_add_def SSIZE_MAX_def)
    then have r: "0 \<le> ?r \<longrightarrow> int (len + 9) \<le> ?r" using fits(1) by auto
    fix out b' q'
    assume "len \<le> length (body_contents b)" "drained len b b'"
      and "take (c_output_size c + (len + 9)) (buffer_cells out) =
        staged c @ map Some (header @ take len (body_contents b))"
    with r show "wp ?finish Q ?fail (c\<lparr>c_output_size := c_output_size c + (len + 9),
        c_bodies := (c_bodies c)(?i \<mapsto> b'), c_queued_body_size := q', c_output := out\<rparr>)"
      by (auto simp: wp_simps staged_def intro!: ok)
  qed (simp add: wp_simps err)
  have fail: "wp (callback_failed e) Q R c'" for e c'
    by (simp add: wp_callback_failed err)
  show ?thesis
    unfolding send_body_def using b header
    by (auto simp: wp_bindM wp_getsM wp_if wp_catchM wp_raiseM not_le not_less
        intro!: fail frame [unfolded wp_bindM [of "reserve_output E (len + 9)"]])
qed

text \<open>
  C6. When \<open>_send_body\<close> succeeds it has appended one frame header and the next bytes of the stream's
  body, as many as the frame announces, taken these bytes from the body, and lowered the limit by the
  length of the frame.
\<close>

theorem send_body_appends:
  assumes "bodies_ok (c_bodies c) (c_queued_body_size c)" and "c_output_size c \<le> output_capacity c"
    and "c_bodies c (hd_stream_id frame) = Some b" and "length header = 9"
    and "send_body E frame header len c = (Ok (RcOk n), c')"
  shows "len \<le> length (body_contents b) \<and>
    staged c' = staged c @ map Some (header @ take len (body_contents b)) \<and>
    (\<exists>b'. c_bodies c' = (c_bodies c)(hd_stream_id frame \<mapsto> b') \<and>
       body_contents b' = drop len (body_contents b) \<and> ended b' = ended b) \<and>
    (0 \<le> c_output_remaining c \<longrightarrow> int (len + 9) \<le> c_output_remaining c \<and>
       c_output_remaining c' = c_output_remaining c - int (len + 9))"
proof -
  define S where "S c' \<longleftrightarrow> len \<le> length (body_contents b) \<and>
    staged c' = staged c @ map Some (header @ take len (body_contents b)) \<and>
    (\<exists>b'. c_bodies c' = (c_bodies c)(hd_stream_id frame \<mapsto> b') \<and>
       body_contents b' = drop len (body_contents b) \<and> ended b' = ended b) \<and>
    (0 \<le> c_output_remaining c \<longrightarrow> int (len + 9) \<le> c_output_remaining c \<and>
       c_output_remaining c' = c_output_remaining c - int (len + 9))" for c' :: "'a conn"
  have "wp (send_body E frame header len) (\<lambda>rc c'. rc = RcOk n \<longrightarrow> S c') (\<lambda>_ _. False) c"
    using assms(1-4) by (intro wp_send_body) (auto simp: S_def drained_def)
  from wp_Ok [OF this assms(5)] show ?thesis by (simp add: S_def)
qed

definition demo_frame :: frame where
  "demo_frame = blank_frame FT_DATA 1 False"

theorem send_body_appends_witness:
  "\<exists>c'. send_body demo demo_frame (replicate 9 0) 2
      ((session_after demo demo_session)\<lparr>c_output_remaining := 20\<rparr>) = (Ok (RcOk 0), c') \<and>
    staged c' = replicate 9 (Some 0) @ [Some 7, Some 8] \<and> c_output_remaining c' = 9"
proof -
  let ?c = "(session_after demo demo_session)\<lparr>c_output_remaining := 20\<rparr>"
  obtain c' where run: "send_body demo demo_frame (replicate 9 0) 2 ?c = (Ok (RcOk 0), c')"
    by (simp add: demo_frame_def session_after_demo run_simps)
  have "bodies_ok (c_bodies ?c) (c_queued_body_size ?c)"
    using reachable_inv [OF reachable_demo engine_ok_demo] by (simp add: conn_inv_def core_inv_def)
  moreover have "c_output_size ?c \<le> output_capacity ?c"
    by (simp add: session_after_demo new_conn_def)
  moreover have "c_bodies ?c (hd_stream_id demo_frame) = Some \<lparr>chunks = [Some [7, 8, 9]], head = 0,
      offset = 0, queued_size = 3, ended = True, deferred = False, trailers = None\<rparr>"
    by (simp add: session_after_demo new_conn_def demo_frame_def blank_frame_def)
  moreover have "staged ?c = []" by (simp add: session_after_demo new_conn_def staged_def)
  ultimately have "staged c' = replicate 9 (Some 0) @ [Some 7, Some 8] \<and> c_output_remaining c' = 9"
    using send_body_appends [OF _ _ _ _ run] by (simp add: body_contents_def)
  with run show ?thesis by blast
qed

text \<open>
  The length announced for a DATA frame is one the engine accepts: at least one byte, at most what
  the peer and the configuration allow, and no more than the stream has queued, if it has any.
\<close>

lemma data_frame_length_bounds:
  assumes "engine_ok E" and "reachable E c" and "c_initialized c" and "1 \<le> remote_max"
  shows "\<exists>n. data_frame_length i remote_max c = (Ok (RcOk n), c) \<and> 1 \<le> n \<and> n \<le> remote_max \<and>
    int n \<le> c_max_send_data_frame_size c \<and>
    (\<forall>b. c_bodies c i = Some b \<longrightarrow> queued_size b \<noteq> 0 \<longrightarrow> n \<le> unat (queued_size b))"
proof -
  have "1 \<le> c_max_send_data_frame_size c"
    using reachable_inv [OF assms(2,1)] assms(3)
    by (simp add: conn_inv_def core_inv_def base_inv_def limits_ok_def)
  moreover have "queued_size b \<noteq> 0 \<Longrightarrow> 1 \<le> unat (queued_size b)" for b
    by (simp add: Suc_le_eq unat_gt_0)
  ultimately show ?thesis
    using assms(4) by (auto simp: data_frame_length_def monad_run Let_def split: option.splits)
qed

lemma data_frame_length_bounds_witness:
  "\<exists>n. data_frame_length 1 16384 (session_after demo demo_session) =
      (Ok (RcOk n), session_after demo demo_session) \<and> 1 \<le> n \<and> n \<le> 3"
proof -
  have "c_initialized (session_after demo demo_session)"
    by (simp add: session_after_demo new_conn_def)
  then obtain n where "data_frame_length 1 16384 (session_after demo demo_session) =
      (Ok (RcOk n), session_after demo demo_session)" "1 \<le> n"
    "\<forall>b. c_bodies (session_after demo demo_session) 1 = Some b \<longrightarrow> queued_size b \<noteq> 0 \<longrightarrow>
      n \<le> unat (queued_size b)"
    using data_frame_length_bounds [OF engine_ok_demo reachable_demo, of 16384 1] by auto
  then show ?thesis by (auto simp: session_after_demo new_conn_def)
qed

section \<open>The end of a body\<close>

lemma unat_queued: "body_wf b \<Longrightarrow> length (body_contents b) < 2 ^ 64 \<Longrightarrow>
   unat (queued_size b) = length (body_contents b)"
  by (simp add: body_wf_queued unat_of_nat)

lemma drained_zero: "body_wf b \<Longrightarrow> drained 0 b b"
  by (simp add: drained_def)

text \<open>
  A DATA frame of \<open>n\<close> bytes fits the limit that \<open>data_to_send\<close> was given, which is negative when there
  is none.
\<close>

definition frame_fits :: "nat \<Rightarrow> int \<Rightarrow> bool" where
  "frame_fits n remaining \<longleftrightarrow> remaining < 0 \<or> int n + 9 \<le> remaining"

text \<open>
  Both output modes report the same number of bytes and the same end; bytes are left to \<open>_send_body\<close>
  exactly when their frame fits.
\<close>

lemma wp_take_body_exact:
  assumes ok: "bodies_ok (c_bodies c) (c_queued_body_size c)" and b: "c_bodies c i = Some b"
    and size: "length (body_contents b) < 2 ^ 64" and n: "n = min len (length (body_contents b))"
    and Q: "\<And>no_copy b' q'. drained (if no_copy then 0 else n) b b' \<Longrightarrow> no_copy = (remaining < 0 \<or> size_add n 9 \<le> nat remaining) \<Longrightarrow>
      Q (n, if no_copy then [] else take n (body_contents b), no_copy,
         ended b \<and> length (body_contents b) \<le> len)
        (c\<lparr>c_bodies := (c_bodies c)(i \<mapsto> b'), c_queued_body_size := q'\<rparr>)"
  shows "wp (take_body i len remaining b) Q R c"
proof -
  let ?fits = "remaining < 0 \<or> size_add n 9 \<le> nat remaining"
  have wf: "body_wf b" using bodies_okD [OF ok b] by simp
  have upd: "(c_bodies c)(i \<mapsto> b) = c_bodies c" using b by (simp add: map_upd_triv)
  have same: "Q (n, [], True, ended b \<and> length (body_contents b) \<le> len) c" if "?fits"
    using Q [of True b "c_queued_body_size c"] wf that by (simp add: upd drained_zero)
  have copied: "Q (n, take len (body_contents b), False, ended b' \<and> head b' = length (chunks b'))
      (c\<lparr>c_bodies := (c_bodies c)(i \<mapsto> b'), c_queued_body_size := q'\<rparr>)"
    if d: "drained len b b'" and "\<not> ?fits" for b' q'
  proof -
    have "drained n b b'" using d by (auto simp: drained_def n min_def)
    moreover have "head b' = length (chunks b') \<longleftrightarrow> length (body_contents b) \<le> len"
      using d body_contents_Nil_iff [of b'] by (auto simp: drained_def)
    moreover have "take n (body_contents b) = take len (body_contents b)"
      by (simp add: n min_def)
    ultimately show ?thesis
      using Q [of False b' q'] that by (simp add: drained_def)
  qed
  have full: "(n = length (body_contents b)) = (length (body_contents b) \<le> len)"
    by (auto simp: n)
  have after: "wp (bindM (getsM (\<lambda>c. c_bodies c i)) (\<lambda>after. case after of None \<Rightarrow> crashM
      | Some b' \<Rightarrow> returnM (length out, out, False, ended b' \<and> head b' = length (chunks b')))) Q R
      (c\<lparr>c_bodies := (c_bodies c)(i \<mapsto> b'), c_queued_body_size := q'\<rparr>)"
    if "drained len b b'" "out = take len (body_contents b)" "\<not> ?fits" for b' q' out
    using copied [OF that(1,3)] that(2) by (simp add: wp_simps n min.commute)
  show ?thesis
    unfolding take_body_def unat_queued [OF wf size] Let_def n [symmetric] full wp_if
      wp_bindM [of "copy_body_of i len"]
    using same by (auto simp: wp_returnM not_le not_less intro!: wp_copy_body_of [OF ok b] after)
qed

text \<open>
  What a body answers when it is asked for \<open>len\<close> bytes and \<open>fits\<close> says whether the frame fits: the
  bytes that are there, the end when all bytes of an ended body are taken, without the end of the
  stream when trailers follow, and \<open>DEFERRED\<close> when there is nothing to say yet.
\<close>

definition body_answer :: "nat \<Rightarrow> bool \<Rightarrow> body_source \<Rightarrow> body_source \<Rightarrow> answer \<Rightarrow> bool" where
  "body_answer len fits b b' ans \<longleftrightarrow>
     (let n = min len (length (body_contents b)); complete = (ended b \<and> length (body_contents b) \<le> len) in
      (ans_eof ans \<longleftrightarrow> complete) \<and>
      ans_rc ans = (if complete \<or> n \<noteq> 0 then RcOk n else RcErr ERR_DEFERRED) \<and>
      (ans_no_end_stream ans \<longleftrightarrow> complete \<and> trailers b \<noteq> None) \<and>
      (ans_no_copy ans \<longleftrightarrow> fits) \<and>
      ans_buffer ans = (if fits then [] else take n (body_contents b)) \<and>
      body_contents b' = (if fits then body_contents b else drop n (body_contents b)) \<and>
      ended b' = ended b \<and> (deferred b' \<longleftrightarrow> deferred b \<or> \<not> complete \<and> n = 0) \<and>
      trailers b' = (if complete then None else trailers b))"

text \<open>
  The trailers of a body that is complete are submitted first: what that makes of the session, or the
  exception when they cannot be built or are refused.
\<close>

definition end_of_body :: "'s engine \<Rightarrow> 's \<Rightarrow> int \<Rightarrow> nat \<Rightarrow> body_source \<Rightarrow> exc + 's" where
  "end_of_body E s i len b =
     (case (if ended b \<and> length (body_contents b) \<le> len then trailers b else None) of
        None \<Rightarrow> Inr s
      | Some fs \<Rightarrow>
          if \<not> eng_alloc E (Some s) ((if fs \<noteq> [] then length fs else 1) * NV_SIZE) then Inl MemoryError
          else (case eng_submit_trailer E i (map header_nv fs) s of
              (RcOk n, s') \<Rightarrow> Inr s'
            | (RcErr code, s') \<Rightarrow> Inl (nghttp2_error code)))"

lemma wp_answer_body:
  assumes d: "drained (if no_copy then 0 else min len (length (body_contents b))) b b'"
    and s: "c_session c = Some s" and bodies: "c_bodies c = bodies(i \<mapsto> b')"
    and ok: "\<And>ans c' b' s'. end_of_body E s i len b = Inr s' \<Longrightarrow> c_session c' = Some s' \<Longrightarrow>
      c_bodies c' = bodies(i \<mapsto> b') \<Longrightarrow> body_answer len no_copy b b' ans \<Longrightarrow> S ans c'"
    and fail: "\<And>e c'. end_of_body E s i len b = Inl e \<Longrightarrow> R e c'"
  shows "wp (answer_body E i b (min len (length (body_contents b)),
      if no_copy then [] else take (min len (length (body_contents b))) (body_contents b), no_copy,
      ended b \<and> length (body_contents b) \<le> len)) S R c"
proof -
  let ?n = "min len (length (body_contents b))"
  let ?complete = "ended b \<and> length (body_contents b) \<le> len"
  consider (trailing) f where "?complete" "trailers b = Some f"
    | (some) "\<not> (?complete \<and> trailers b \<noteq> None)" "?complete \<or> ?n \<noteq> 0"
    | (none) "\<not> ?complete" "?n = 0"
    by (cases "trailers b") blast+
  then show ?thesis
  proof cases
    case trailing
    have submitted: "no_copy \<Longrightarrow> S (eof_answer (RcOk (length (body_contents b))) True True []) c'"
      "\<not> no_copy \<Longrightarrow> S (eof_answer (RcOk (length (body_contents b))) True False (body_contents b)) c'"
      if "end_of_body E s i len b = Inr s'" "c_session c' = Some s'"
        "c_bodies c' = bodies(i \<mapsto> b'\<lparr>trailers := None\<rparr>)" for c' s'
      using trailing d by (auto simp: drained_def body_answer_def Let_def eof_answer_def intro!: ok [OF that])
    show ?thesis
      using trailing s bodies
      by (cases "eng_submit_trailer E i (map header_nv f) s")
        (auto simp: wp_simps make_headers_thaw alloc_ok_def end_of_body_def split: status.splits
          intro!: submitted fail)
  next
    case some
    then have "end_of_body E s i len b = Inr s" by (auto simp: end_of_body_def split: option.split)
    with some d s bodies show ?thesis
      by (cases no_copy) (auto simp: wp_simps drained_def body_answer_def Let_def eof_answer_def
          plain_answer_def split: option.splits intro!: ok [where b' = b'])
  next
    case none
    then have "end_of_body E s i len b = Inr s" by (auto simp: end_of_body_def)
    with none d s bodies show ?thesis
      by (cases no_copy) (auto simp: wp_simps drained_def body_answer_def Let_def
          plain_answer_def intro!: ok [where b' = "b'\<lparr>deferred := True\<rparr>"])
  qed
qed

text \<open>
  C7. What \<open>_read_body\<close> answers, in every case: it pauses, and changes nothing, once the limit of
  \<open>data_to_send\<close> is used up; it holds back a \<open>KeyError\<close> when the stream has no body; and otherwise it
  reports the bytes that are there, up to the number asked for. It reports the end of the body exactly
  when the body was ended and all its bytes are reported, defers exactly when it has nothing to report
  and the body goes on, and holds back the end of the stream only for trailers. It leaves the bytes
  queued for \<open>_send_body\<close> exactly when the whole frame fits the limit, and hands out and removes
  exactly these bytes when it does not. It fails exactly when trailers are due and cannot be built or
  submitted, and then it holds back that exception.
\<close>

theorem read_body_answer:
  assumes "bodies_ok (c_bodies c) (c_queued_body_size c)" and "c_session c = Some s"
    and "\<And>b. c_bodies c i = Some b \<Longrightarrow> length (body_contents b) + 9 < 2 ^ 64"
  shows "\<exists>ans c'. read_body E i len c = (Ok ans, c') \<and>
    (if c_output_remaining c = 0 then ans = plain_answer (RcErr ERR_PAUSE) \<and> c' = c
     else case c_bodies c i of
       None \<Rightarrow> ans = plain_answer (RcErr ERR_CALLBACK_FAILURE) \<and> c' = c\<lparr>c_callback_error := Some KeyError\<rparr>
     | Some b \<Rightarrow> (case end_of_body E s i len b of
           Inl e \<Rightarrow> ans = plain_answer (RcErr ERR_CALLBACK_FAILURE) \<and> c_callback_error c' = Some e
         | Inr s' \<Rightarrow> c_session c' = Some s' \<and> (\<exists>b'. c_bodies c' = (c_bodies c)(i \<mapsto> b') \<and>
             body_answer len (frame_fits (min len (length (body_contents b))) (c_output_remaining c)) b b' ans)))"
proof (cases "c_output_remaining c = 0 \<or> c_bodies c i = None")
  case True
  then show ?thesis by (auto simp: read_body_def callback_failed_def monad_run split: option.split)
next
  case False
  then obtain b where b: "c_bodies c i = Some b" and limit: "c_output_remaining c \<noteq> 0" by blast
  define S where "S ans c' \<longleftrightarrow> (case end_of_body E s i len b of
       Inl e \<Rightarrow> ans = plain_answer (RcErr ERR_CALLBACK_FAILURE) \<and> c_callback_error c' = Some e
     | Inr s' \<Rightarrow> c_session c' = Some s' \<and> (\<exists>b'. c_bodies c' = (c_bodies c)(i \<mapsto> b') \<and>
         body_answer len (frame_fits (min len (length (body_contents b))) (c_output_remaining c)) b b' ans))"
    for ans and c' :: "'a conn"
  let ?fail = "\<lambda>e. wp (bindM (callback_failed e) (\<lambda>rc. returnM (plain_answer rc))) S (\<lambda>_ _. False)"
  have fail: "?fail e c'" if "end_of_body E s i len b = Inl e" for e c'
    using that by (simp add: wp_simps S_def)
  have size: "length (body_contents b) < 2 ^ 64" using assms(3) [OF b] by simp
  have fits: "(c_output_remaining c < 0 \<or> size_add (min len (length (body_contents b))) 9 \<le> nat (c_output_remaining c)) =
      frame_fits (min len (length (body_contents b))) (c_output_remaining c)"
    using assms(3) [OF b] by (auto simp: size_add_def frame_fits_def min_def)
  have "wp (take_body i len (c_output_remaining c) b) (\<lambda>x. wp (answer_body E i b x) S ?fail) ?fail c"
    by (rule wp_take_body_exact [OF assms(1) b size refl],
        rule wp_answer_body [where bodies = "c_bodies c" and s = s])
      (auto simp: assms(2) S_def fits intro: fail)
  then have "wp (read_body E i len) S (\<lambda>_ _. False) c"
    using b limit unfolding read_body_def
    by (simp add: wp_bindM wp_getsM wp_if wp_catchM)
  then show ?thesis using b limit by (auto simp: S_def dest!: wp_result)
qed

definition demo_queued :: body_source where
  "demo_queued = \<lparr>chunks = [Some [7, 8, 9]], head = 0, offset = 0, queued_size = 3, ended = True,
     deferred = False, trailers = None\<rparr>"

theorem read_body_answer_witness:
  "\<exists>ans c' b'. read_body demo 1 16384 ((session_after demo demo_session)\<lparr>c_output_remaining := 5\<rparr>) = (Ok ans, c') \<and>
     c_bodies c' 1 = Some b' \<and> body_answer 16384 False demo_queued b' ans"
proof -
  let ?c = "(session_after demo demo_session)\<lparr>c_output_remaining := 5\<rparr>"
  let ?s = "\<lparr>dm_next = 3, dm_out = [4, 1], dm_streams = [1], dm_open = True\<rparr>"
  have "bodies_ok (c_bodies ?c) (c_queued_body_size ?c)"
    using reachable_inv [OF reachable_demo engine_ok_demo] by (simp add: conn_inv_def core_inv_def)
  moreover have c: "c_bodies ?c 1 = Some demo_queued" "c_output_remaining ?c = 5" "c_session ?c = Some ?s"
    by (simp_all add: session_after_demo new_conn_def demo_queued_def)
  moreover have size: "length (body_contents demo_queued) = 3"
    by (simp add: demo_queued_def body_contents_def)
  moreover have "end_of_body demo ?s 1 16384 demo_queued = Inr ?s" "\<not> frame_fits (min 16384 3) 5"
    by (simp_all add: end_of_body_def demo_queued_def frame_fits_def)
  ultimately show ?thesis
    using read_body_answer [of ?c ?s 1 demo 16384] by fastforce
qed

section \<open>Resets that wait for the end of a stream\<close>

lemma reset_deferred:
  assumes "1 \<le> i" "i \<le> 0x7FFFFFFF" and "0 \<le> code" "code \<le> 0xFFFFFFFF"
    and "c_active c" "\<not> c_failed c" "\<not> c_terminating c"
    and "c_session c = Some s" "eng_session_get_stream_local_close E i s = 0" "locally_ended i c"
  shows "reset_stream E (PyInt i) (PyInt code) (PyBool True) c =
    (Ok (), c\<lparr>c_deferred_resets := (c_deferred_resets c)(i \<mapsto> code)\<rparr>)"
  using assms by (simp add: reset_stream_def require_stream_def run_simps)

lemma frame_sent_deferred:
  assumes "hd_end_stream frame" "hd_type frame = FT_DATA \<or> hd_type frame = FT_HEADERS"
    and "c_deferred_resets c (hd_stream_id frame) = Some code" and "c_session c = Some s"
    and "eng_session_get_stream_remote_close E (hd_stream_id frame) s = 0"
    and "eng_submit_rst_stream E (hd_stream_id frame) code s = (RcOk n, s')"
  shows "frame_sent E frame c = (Ok (RcOk 0), c\<lparr>c_session := Some s',
    c_deferred_resets := (c_deferred_resets c)(hd_stream_id frame := None)\<rparr>)"
proof -
  have "c_deferred_resets c \<noteq> Map.empty" using assms(3) by auto
  with assms show ?thesis by (auto simp: frame_sent_def monad_run guard_run)
qed

lemma frame_sent_not_deferred:
  assumes "hd_type frame \<noteq> FT_GOAWAY" and "c_deferred_resets c (hd_stream_id frame) = None"
  shows "frame_sent E frame c = (Ok (RcOk 0), c)"
proof -
  have "c\<lparr>c_deferred_resets := (c_deferred_resets c)(hd_stream_id frame := None)\<rparr> = c"
    using assms(2) by (simp add: fun_upd_idem)
  with assms show ?thesis by (simp add: frame_sent_def monad_run)
qed

text \<open>
  C23. \<open>reset_stream(..., after_end_stream=True)\<close> on a stream whose end is queued but not sent submits
  nothing; the reset is submitted, with its code, once the frame that ends the stream was sent, and
  not again by a later one.
\<close>

theorem deferred_reset_once:
  assumes "1 \<le> i" "i \<le> 0x7FFFFFFF" and "0 \<le> code" "code \<le> 0xFFFFFFFF"
    and "c_active c" "\<not> c_failed c" "\<not> c_terminating c"
    and "c_session c = Some s" "eng_session_get_stream_local_close E i s = 0" "locally_ended i c"
    and "hd_stream_id frame = i" "hd_end_stream frame" "hd_type frame = FT_DATA \<or> hd_type frame = FT_HEADERS"
    and "eng_session_get_stream_remote_close E i s1 = 0"
    and "eng_submit_rst_stream E i code s1 = (RcOk n, s2)"
  shows "\<exists>c1 c2. reset_stream E (PyInt i) (PyInt code) (PyBool True) c = (Ok (), c1) \<and>
      c_session c1 = Some s \<and>
      frame_sent E frame (c1\<lparr>c_session := Some s1\<rparr>) = (Ok (RcOk 0), c2) \<and>
      c_session c2 = Some s2 \<and> c_deferred_resets c2 i = None \<and>
      frame_sent E frame c2 = (Ok (RcOk 0), c2)"
  using reset_deferred [OF assms(1-10)] assms
    frame_sent_deferred [OF assms(12,13), of "c\<lparr>c_deferred_resets := (c_deferred_resets c)(i \<mapsto> code),
      c_session := Some s1\<rparr>" code s1 E n s2]
  by (auto intro!: frame_sent_not_deferred)

theorem deferred_reset_once_witness:
  "\<exists>c1 c2. reset_stream demo (PyInt 1) (PyInt 8) (PyBool True) (session_after demo demo_session) = (Ok (), c1) \<and>
     frame_sent demo (blank_frame FT_DATA 1 True)
       (c1\<lparr>c_session := Some \<lparr>dm_next = 3, dm_out = [], dm_streams = [], dm_open = True\<rparr>\<rparr>) = (Ok (RcOk 0), c2) \<and>
     c_session c2 = Some \<lparr>dm_next = 3, dm_out = [3], dm_streams = [], dm_open = True\<rparr>"
proof -
  have "locally_ended 1 (session_after demo demo_session)"
    by (simp add: session_after_demo new_conn_def locally_ended_def)
  moreover have "c_active (session_after demo demo_session)" "\<not> c_failed (session_after demo demo_session)"
    "\<not> c_terminating (session_after demo demo_session)"
    "c_session (session_after demo demo_session) =
       Some \<lparr>dm_next = 3, dm_out = [4, 1], dm_streams = [1], dm_open = True\<rparr>"
    by (simp_all add: session_after_demo new_conn_def)
  ultimately show ?thesis
    using deferred_reset_once [of 1 8 "session_after demo demo_session"
        "\<lparr>dm_next = 3, dm_out = [4, 1], dm_streams = [1], dm_open = True\<rparr>" demo
        "blank_frame FT_DATA 1 True" "\<lparr>dm_next = 3, dm_out = [], dm_streams = [], dm_open = True\<rparr>" 0
        "\<lparr>dm_next = 3, dm_out = [3], dm_streams = [], dm_open = True\<rparr>"]
    by (auto simp: blank_frame_def demo_queue_def)
qed

text \<open>
  A header frame that could not be sent for a reason other than its stream being gone is
  remembered: when the stream closes, \<open>StreamClosed\<close> carries the error, every trace of the stream is
  dropped, and nothing is left for another stream with that identifier.
\<close>

lemma unsent_headers_reported:
  assumes "hd_type frame = FT_HEADERS" and "headers_cat frame = HCAT_REQUEST"
    and "code \<notin> {ERR_STREAM_CLOSED, ERR_STREAM_CLOSING, ERR_STREAM_SHUT_WR, ERR_SESSION_CLOSING}"
    and "c_data_stream_id c \<noteq> hd_stream_id frame"
  shows "\<exists>c1 c2. frame_not_sent E frame code c = (Ok (RcOk 0), c1) \<and>
      stream_closed E (hd_stream_id frame) n c1 = (Ok (RcOk 0), c2) \<and>
      c_events c2 = c_events c @
        [StreamClosed (hd_stream_id frame) (error_value n) (Some (frame_not_sent_error code))] \<and>
      isinstance (frame_not_sent_error code) NGH2Error \<and>
      c_local_stream_errors c2 (hd_stream_id frame) = None \<and>
      c_bodies c2 (hd_stream_id frame) = None \<and> hd_stream_id frame \<notin> c_responses c2 \<and>
      c_deferred_resets c2 (hd_stream_id frame) = None"
  using assms
  by (auto simp: frame_not_sent_def reset_failed_stream_def stream_closed_def publish_def
      stream_closed_event_def run_simps frame_not_sent_error_is_ngh2 split: option.split)

lemma unsent_headers_reported_witness:
  "\<exists>c1 c2. frame_not_sent demo (blank_frame FT_HEADERS 3 False) ERR_PROTO (session_after demo demo_session) =
      (Ok (RcOk 0), c1) \<and> stream_closed demo 3 2 c1 = (Ok (RcOk 0), c2) \<and>
    c_events c2 = [StreamClosed 3 (KnownCode INTERNAL_ERROR) (Some StreamProtocolError)]"
proof -
  have "c_data_stream_id (session_after demo demo_session) = 0" "c_events (session_after demo demo_session) = []"
    by (simp_all add: session_after_demo new_conn_def)
  moreover have "error_value 2 = KnownCode INTERNAL_ERROR"
    using error_value_wire_code [of INTERNAL_ERROR] by simp
  ultimately show ?thesis
    using unsent_headers_reported [of "blank_frame FT_HEADERS 3 False" ERR_PROTO
        "session_after demo demo_session" demo 2]
    by (auto simp: blank_frame_def frame_not_sent_error_def)
qed

end
