(* ===== verification/Stream_Spec.thy ===== *)
theory Stream_Spec
  imports Frame_Spec
begin

text \<open>
  What the stream methods of \<^verbatim>\<open>src/ngh2/_core.pyx\<close> achieve, and how they compose with the output
  callbacks: requests open fresh bodies, body bytes and trailers reach the engine unchanged.
\<close>

section \<open>Header arguments\<close>

lemma freeze_thaw_list [simp]: "List.map_filter freeze_header (map thaw_header hs) = hs"
  by (induction hs) (simp_all add: map_filter_simps)

lemma normalize_thaw: "normalize_item True (thaw_header h) = returnM (thaw_header h)"
  by (cases h) (simp_all add: normalize_item_def Let_def)

lemma mapM_normalize_thaw [simp]:
  "mapM (normalize_item True) (map thaw_header hs) = returnM (map thaw_header hs)"
  by (induction hs) (simp_all add: normalize_thaw)

lemma normalize_thaw_list:
  "normalize_headers (PyList (map thaw_header hs)) deferred_fields = returnM (map thaw_header hs)"
  by (simp add: normalize_headers_def)

lemma native_headers_thaw:
  "native_headers E (PyList (map thaw_header hs)) c =
     (if alloc_ok E c ((if hs \<noteq> [] then length hs else 1) * NV_SIZE)
      then (Ok (map header_nv hs), c) else (Raise MemoryError, c))"
  by (simp add: native_headers_def normalize_thaw_list make_headers_thaw monad_run)

section \<open>Requests\<close>

text \<open>
  C20. \<open>send_request\<close> returns the identifier the engine gave the request, for which the connection
  had no body; a request that goes on has a fresh body afterwards, one that ends its stream has none,
  and no other body changes.
\<close>

theorem send_request_opens:
  assumes E: "engine_ok E" and c: "reachable E c"
    and run: "send_request E (PyList (map thaw_header hs)) (PyBool ends) c = (Ok i, c')"
  shows "c_active c \<and> \<not> c_server c \<and> c_bodies c i = None \<and>
    c_bodies c' = (if ends then c_bodies c else (c_bodies c)(i \<mapsto> new_body)) \<and>
    c_queued_body_size c' = c_queued_body_size c \<and>
    (\<exists>s n s'. c_session c = Some s \<and> eng_submit_request E (map header_nv hs) (\<not> ends) s = (RcOk n, s') \<and>
       i = int n \<and> c_session c' = Some s')"
proof -
  have inv: "conn_inv E False c" by (rule reachable_inv [OF c E])
  have "wp (send_request E (PyList (map thaw_header hs)) (PyBool ends)) (\<lambda>i c'. c_active c \<and> \<not> c_server c \<and>
      c_bodies c' = (if ends then c_bodies c else (c_bodies c)(i \<mapsto> new_body)) \<and>
      c_queued_body_size c' = c_queued_body_size c \<and>
      (\<exists>s n s'. c_session c = Some s \<and> eng_submit_request E (map header_nv hs) (\<not> ends) s = (RcOk n, s') \<and>
         i = int n \<and> c_session c' = Some s')) (\<lambda>_ _. True) c"
    using conn_inv_session [OF inv]
    by (auto simp: send_request_def native_headers_def normalize_thaw_list make_headers_thaw
        require_server_def native_id_def open_body_def wp_simps split: status.split option.split prod.split)
      (auto simp: prod_eq_iff split: status.splits)
  from wp_Ok [OF this run] have result: "c_active c" "\<not> c_server c"
    "c_bodies c' = (if ends then c_bodies c else (c_bodies c)(i \<mapsto> new_body))"
    "c_queued_body_size c' = c_queued_body_size c"
    "\<exists>s n s'. c_session c = Some s \<and> eng_submit_request E (map header_nv hs) (\<not> ends) s = (RcOk n, s') \<and>
       i = int n \<and> c_session c' = Some s'" by auto
  then obtain s n s' where s: "c_session c = Some s" "i = int n"
    "eng_submit_request E (map header_nv hs) (\<not> ends) s = (RcOk n, s')" by auto
  have "c_bodies c i = None"
  proof (rule ccontr)
    assume "c_bodies c i \<noteq> None"
    then have "i < next_id E s"
      using inv result(2) s(1) by (auto simp: conn_inv_def core_inv_def owners_ok_def)
    with engine_ok_request [OF E s(3)] s(2) show False by simp
  qed
  with result show ?thesis by blast
qed

theorem send_request_opens_witness:
  "\<exists>c'. send_request demo (PyList (map thaw_header [PlainHeader [1] [2]])) (PyBool False)
      (session_after demo demo_session) = (Ok 3, c') \<and> c_bodies c' 3 = Some new_body"
proof -
  obtain c' where run: "send_request demo (PyList (map thaw_header [PlainHeader [1] [2]])) (PyBool False)
      (session_after demo demo_session) = (Ok 3, c')"
    by (simp add: session_after_demo run_simps)
  with send_request_opens [OF engine_ok_demo reachable_demo run] show ?thesis by auto
qed

section \<open>Body bytes\<close>

lemma fun_upd_eq_iff: "f(i := x) = f(i := y) \<longleftrightarrow> x = y"
  by (auto simp: fun_eq_iff)

lemma append_chunk_queued: "queued_size (append_chunk bs b) = queued_size b + of_nat (length bs)"
  by (simp add: append_chunk_def)

text \<open>
  C21. \<open>send_data\<close> on an open body queues the bytes behind those already there, counts them, and
  records whether the body ends; a body the engine is waiting for is resumed when there is something
  to send, and no other body changes.
\<close>

theorem send_data_queues:
  assumes "c_active c" "\<not> c_failed c" "\<not> c_terminating c" and "1 \<le> i" "i \<le> 0x7FFFFFFF"
    and "c_bodies c i = Some b" "\<not> ended b" "body_wf b"
    and "c_session c = Some s" and "eng_session_resume_data E i s = (RcOk n, s')"
  shows "\<exists>c' b'. send_data E (PyInt i) (PyBytes True bs) (PyBool ends) c = (Ok (), c') \<and>
    c_session c' = Some (if deferred b \<and> (bs \<noteq> [] \<or> ends) then s' else s) \<and>
    c_queued_body_size c' = c_queued_body_size c + of_nat (length bs) \<and>
    c_bodies c' = (c_bodies c)(i \<mapsto> b') \<and> body_wf b' \<and>
    body_contents b' = body_contents b @ bs \<and> ended b' = ends \<and> trailers b' = trailers b \<and>
    deferred b' = (deferred b \<and> bs = [] \<and> \<not> ends)"
proof -
  have "wp (send_data E (PyInt i) (PyBytes True bs) (PyBool ends)) (\<lambda>_ c'.
    c_session c' = Some (if deferred b \<and> (bs \<noteq> [] \<or> ends) then s' else s) \<and>
    c_queued_body_size c' = c_queued_body_size c + of_nat (length bs) \<and>
    (\<exists>b'. c_bodies c' = (c_bodies c)(i \<mapsto> b') \<and> body_wf b' \<and>
      body_contents b' = body_contents b @ bs \<and> ended b' = ends \<and> trailers b' = trailers b \<and>
      deferred b' = (deferred b \<and> bs = [] \<and> \<not> ends))) (\<lambda>_ _. False) c"
    using assms by (auto simp: send_data_def body_chunk_def queue_chunk_def resume_body_def wp_simps
        fun_upd_eq_iff body_wf_append body_contents_append)
  then show ?thesis by (auto dest!: wp_result)
qed

theorem send_data_queues_witness:
  "\<exists>c' b'. send_data demo (PyInt 3) (PyBytes True [4, 5]) (PyBool True)
      (snd (open_body 3 (session_after demo demo_session))) = (Ok (), c') \<and>
    c_bodies c' 3 = Some b' \<and> body_contents b' = [4, 5] \<and> ended b' \<and> c_queued_body_size c' = 5"
proof -
  let ?c = "snd (open_body 3 (session_after demo demo_session))"
  have "c_active ?c" "\<not> c_failed ?c" "\<not> c_terminating ?c" "c_bodies ?c 3 = Some new_body"
    "c_session ?c = Some \<lparr>dm_next = 3, dm_out = [4, 1], dm_streams = [1], dm_open = True\<rparr>"
    "c_queued_body_size ?c = 3"
    by (simp_all add: session_after_demo new_conn_def open_body_def modifyM_def)
  moreover have "\<not> ended new_body" by (simp add: new_body_def)
  ultimately show ?thesis
    using send_data_queues [of ?c 3 new_body
        "\<lparr>dm_next = 3, dm_out = [4, 1], dm_streams = [1], dm_open = True\<rparr>" demo 0
        "\<lparr>dm_next = 3, dm_out = [4, 1], dm_streams = [1], dm_open = True\<rparr>" "[4, 5]" True] by fastforce
qed

text \<open>
  C22. Body bytes, the end of a stream and trailers are refused with \<open>StreamStateError\<close>, and nothing
  changes, when the stream has no outbound body or its body was ended.
\<close>

theorem ended_body_refused:
  assumes "c_active c" "\<not> c_failed c" "\<not> c_terminating c" and "1 \<le> i" "i \<le> 0x7FFFFFFF"
    and "\<forall>b. c_bodies c i = Some b \<longrightarrow> ended b"
  shows "send_data E (PyInt i) (PyBytes True bs) (PyBool ends) c = (Raise StreamStateError, c) \<and>
    end_stream E (PyInt i) c = (Raise StreamStateError, c) \<and>
    send_trailers E (PyInt i) (PyList (map thaw_header hs)) c = (Raise StreamStateError, c)"
  using assms by (auto simp: send_data_def end_stream_def send_trailers_def normalize_thaw_list body_chunk_def
      monad_run guard_run conversion_run split: option.split)

theorem ended_body_refused_witness:
  "end_stream demo (PyInt 1) (session_after demo demo_session) =
     (Raise StreamStateError, session_after demo demo_session)"
  using ended_body_refused [of "session_after demo demo_session" 1 demo]
  by (simp add: session_after_demo new_conn_def)

end
