(* ===== verification/Transfer_Spec.thy ===== *)
theory Transfer_Spec
  imports Stream_Spec
begin

text \<open>
  Methods and callbacks of \<^verbatim>\<open>src/ngh2/_core.pyx\<close> taken together: a body that was queued is split into
  DATA frames until its stream ends, and trailers queued by \<open>send_trailers\<close> are submitted unchanged
  when the body has been sent.
\<close>

section \<open>Sending a whole body\<close>

text \<open>
  How the engine sends a body: it asks \<open>_read_body\<close> for the next frame, has \<open>_send_body\<close> write it,
  and stops when the end of the stream was announced or a callback failed. The result lists the
  lengths of the frames with the announcement of the end.
\<close>

primrec send_whole_body ::
  "'s engine \<Rightarrow> frame \<Rightarrow> byte list \<Rightarrow> nat \<Rightarrow> nat \<Rightarrow> ('s, (nat \<times> bool) list) meth" where
  "send_whole_body E frame header len 0 = returnM []"
| "send_whole_body E frame header len (Suc k) =
     bindM (read_body E (hd_stream_id frame) len) (\<lambda>ans.
       case ans_rc ans of
         RcErr e \<Rightarrow> returnM []
       | RcOk n \<Rightarrow> bindM (send_body E frame header n) (\<lambda>rc.
           if rc \<noteq> RcOk 0 then returnM []
           else if ans_eof ans then returnM [(n, True)]
           else bindM (send_whole_body E frame header len k) (\<lambda>ns. returnM ((n, False) # ns))))"

text \<open>The payloads of the frames that carry some bytes, none longer than \<open>len\<close>.\<close>

function payloads :: "nat \<Rightarrow> byte list \<Rightarrow> byte list list" where
  "payloads len bs = (if len = 0 \<or> length bs \<le> len then [bs] else take len bs # payloads len (drop len bs))"
  by pat_completeness auto
termination by (relation "measure (\<lambda>(len, bs). length bs)") auto

declare payloads.simps [simp del]

lemma concat_payloads: "concat (payloads len bs) = bs"
  by (induction len bs rule: payloads.induct) (subst payloads.simps, simp)

lemma payloads_short: "length bs \<le> len \<Longrightarrow> payloads len bs = [bs]"
  by (subst payloads.simps) simp

lemma payloads_long: "0 < len \<Longrightarrow> len < length bs \<Longrightarrow>
    payloads len bs = take len bs # payloads len (drop len bs)"
  by (subst payloads.simps) simp

fun marked :: "nat list \<Rightarrow> (nat \<times> bool) list" where
  "marked [] = []"
| "marked [n] = [(n, True)]"
| "marked (n # m # ns) = (n, False) # marked (m # ns)"

lemma marked_Cons: "ns \<noteq> [] \<Longrightarrow> marked (n # ns) = (n, False) # marked ns"
  by (cases ns) simp_all

lemma payloads_not_Nil [simp]: "payloads len bs \<noteq> []"
  by (subst payloads.simps) simp

lemma read_body_unlimited:
  assumes "c_output_remaining c < 0" and "c_bodies c i = Some b" and "ended b" "trailers b = None"
    and "body_wf b" "length (body_contents b) < 2 ^ 64" and "0 < len"
  shows "\<exists>ans. read_body E i len c = (Ok ans, c) \<and>
    ans_rc ans = RcOk (min len (length (body_contents b))) \<and>
    (ans_eof ans \<longleftrightarrow> length (body_contents b) \<le> len)"
proof (cases "length (body_contents b) \<le> len")
  case True
  with assms show ?thesis
    by (simp add: read_body_def take_body_def Let_def unat_queued monad_run eof_answer_def)
next
  case False
  with assms show ?thesis
    by (simp add: read_body_def take_body_def Let_def unat_queued monad_run plain_answer_def)
qed

text \<open>One frame: it is written whole, or the callback failed.\<close>

lemma wp_send_running:
  assumes c: "running E seen L c" and L: "L < 0" and b: "c_bodies c (hd_stream_id frame) = Some b"
    and header: "length header = 9"
  shows "wp (send_body E frame header n) (\<lambda>rc c'.
      rc \<noteq> RcOk 0 \<and> broken seen c' \<or>
      rc = RcOk 0 \<and> running E seen L c' \<and> staged c' = staged c @ map Some (header @ take n (body_contents b)) \<and>
      (\<exists>b'. c_bodies c' = (c_bodies c)(hd_stream_id frame \<mapsto> b') \<and> drained n b b')) (\<lambda>_ _. False) c"
proof -
  obtain s where s: "c_session c = Some s" using c by (auto simp: running_def)
  have used: "c_output_size c \<le> output_capacity c"
    using runningD(11) [OF c] L by (intro output_ok_capacity) auto
  have "wp (send_body E frame header n) (\<lambda>rc c'. rc = RcErr ERR_CALLBACK_FAILURE \<or> rc = RcOk 0 \<and>
      staged c' = staged c @ map Some (header @ take n (body_contents b)) \<and>
      (\<exists>b'. c_bodies c' = (c_bodies c)(hd_stream_id frame \<mapsto> b') \<and> drained n b b')) (\<lambda>_ _. False) c"
    by (rule wp_send_body [OF runningD(7) [OF c] used b header]) auto
  from wp_conj [OF this send_body_handled [OF c s header, where len = n and frame = frame]] show ?thesis
    by (rule wp_mono) (auto simp: handled_def)
qed

lemma running_unlimited: "running E seen L c \<Longrightarrow> L < 0 \<Longrightarrow> c_output_remaining c < 0"
  by (simp add: running_def output_ok_def)

lemma wp_send_whole_body:
  assumes "running E seen L c" and "L < 0" and "c_bodies c (hd_stream_id frame) = Some b"
    and "ended b" "trailers b = None" and "length (body_contents b) < 2 ^ 64"
    and "0 < len" and "length header = 9" and "length (body_contents b) \<le> len * k" and "0 < k"
  shows "wp (send_whole_body E frame header len k) (\<lambda>ns c'. broken seen c' \<or>
      running E seen L c' \<and>
      staged c' = staged c @ map Some (concat (map ((@) header) (payloads len (body_contents b)))) \<and>
      (\<exists>b'. c_bodies c' (hd_stream_id frame) = Some b' \<and> body_contents b' = []) \<and>
      (\<forall>j. j \<noteq> hd_stream_id frame \<longrightarrow> c_bodies c' j = c_bodies c j) \<and>
      ns = marked (map length (payloads len (body_contents b)))) (\<lambda>_ _. False) c"
  using assms
proof (induction k arbitrary: c b)
  case 0
  then show ?case by simp
next
  case (Suc k)
  let ?i = "hd_stream_id frame" and ?bs = "body_contents b"
  have wf: "body_wf b" using bodies_okD [OF runningD(7) [OF Suc.prems(1)] Suc.prems(3)] by simp
  obtain ans where ans: "read_body E ?i len c = (Ok ans, c)" "ans_rc ans = RcOk (min len (length ?bs))"
    "ans_eof ans \<longleftrightarrow> length ?bs \<le> len"
    using read_body_unlimited [OF running_unlimited [OF Suc.prems(1,2)] Suc.prems(3-5) wf Suc.prems(6,7)]
    by blast
  have start: "wp (read_body E ?i len) Q R c = Q ans c" for Q R
    by (simp add: wp_def ans(1))
  show ?case
  proof (cases "length ?bs \<le> len")
    case True
    with ans show ?thesis
      by (auto simp: wp_bindM start wp_if wp_returnM payloads_short drained_def
          intro!: wp_mono [OF wp_send_running [OF Suc.prems(1-3,8)]])
  next
    case False
    have "wp (send_whole_body E frame header len k) (\<lambda>ns c'. broken seen c' \<or> running E seen L c' \<and>
        staged c' = staged c @ map Some (concat (map ((@) header) (payloads len ?bs))) \<and>
        (\<exists>b'. c_bodies c' ?i = Some b' \<and> body_contents b' = []) \<and>
        (\<forall>j. j \<noteq> ?i \<longrightarrow> c_bodies c' j = c_bodies c j) \<and>
        (len, False) # ns = marked (map length (payloads len ?bs))) (\<lambda>_ _. False) c1"
      if c1: "running E seen L c1" "staged c1 = staged c @ map Some (header @ take len ?bs)"
        "c_bodies c1 = (c_bodies c)(?i \<mapsto> b1)" "drained len b b1" for c1 b1
    proof (rule wp_mono [OF Suc.IH [OF c1(1) Suc.prems(2), where b = b1]])
      have k: "0 < k" using False Suc.prems(9) by (cases k) auto
      show "c_bodies c1 ?i = Some b1" by (simp add: c1)
      show "ended b1" "trailers b1 = None" "length (body_contents b1) < 2 ^ 64" "0 < k"
        using c1(4) Suc.prems k by (auto simp: drained_def)
      show "length (body_contents b1) \<le> len * k"
        using c1(4) Suc.prems(9) by (auto simp: drained_def)
    qed (use c1 False Suc.prems(7,8) in \<open>auto simp: drained_def payloads_long marked_Cons\<close>)
    with ans False show ?thesis
      by (auto simp: wp_bindM start wp_if wp_returnM min_def
          intro!: wp_mono [OF wp_send_running [OF Suc.prems(1-3,8)]])
  qed
qed

text \<open>
  C8. A body reaches the wire completely and its stream ends: from any state in which the engine runs
  its callbacks without an output limit, an ended body of \<open>m\<close> bytes without trailers is sent in at most
  \<open>m div len + 1\<close> rounds, as frames of at most \<open>len\<close> bytes whose payloads are the body, the last and
  only the last announcing the end of the stream; unless a callback fails on the way, which is recorded.
\<close>

theorem body_transferred:
  assumes "running E seen L c" and "L < 0" and "c_bodies c (hd_stream_id frame) = Some b"
    and "ended b" and "trailers b = None" and "length (body_contents b) < 2 ^ 64"
    and "0 < len" and "length header = 9" and "length (body_contents b) div len < k"
  shows "\<exists>ns c'. send_whole_body E frame header len k c = (Ok ns, c') \<and>
    (c_callback_error c' \<noteq> None \<or>
     staged c' = staged c @ map Some (concat (map ((@) header) (payloads len (body_contents b)))) \<and>
     concat (payloads len (body_contents b)) = body_contents b \<and>
     ns = marked (map length (payloads len (body_contents b))) \<and>
     body_contents (the (c_bodies c' (hd_stream_id frame))) = [] \<and>
     (\<forall>j. j \<noteq> hd_stream_id frame \<longrightarrow> c_bodies c' j = c_bodies c j))"
proof -
  let ?bs = "body_contents b"
  have "length ?bs = len * (length ?bs div len) + length ?bs mod len" by simp
  also have "\<dots> \<le> len * (length ?bs div len) + len"
    using assms(7) by (intro add_left_mono less_imp_le mod_less_divisor)
  also have "\<dots> = len * Suc (length ?bs div len)" by simp
  also have "\<dots> \<le> len * k"
    using assms(9) by (intro mult_le_mono2) simp
  finally have "length ?bs \<le> len * k" .
  from wp_result [OF wp_send_whole_body [OF assms(1-8) this]] assms(9) show ?thesis
    by (fastforce simp: broken_def concat_payloads)
qed

theorem body_transferred_witness:
  "\<exists>c'. send_whole_body demo demo_frame (replicate 9 0) 2 2
      ((session_after demo demo_session)\<lparr>c_output_remaining := -1\<rparr>) = (Ok [(2, False), (1, True)], c') \<and>
    staged c' = map Some (replicate 9 0 @ [7, 8] @ replicate 9 0 @ [9])"
proof -
  let ?c = "(session_after demo demo_session)\<lparr>c_output_remaining := -1\<rparr>"
  have "running demo False (-1) ?c"
    using reachable_inv [OF reachable_demo engine_ok_demo] engine_ok_demo
    by (auto simp: running_def conn_inv_def output_ok_def core_inv_def base_inv_def blank_def
        flags_ok_def released_def session_after_demo new_conn_def)
  moreover have "c_bodies ?c (hd_stream_id demo_frame) = Some demo_queued"
    by (simp add: session_after_demo new_conn_def demo_queued_def demo_frame_def blank_frame_def)
  moreover have "body_contents demo_queued = [7, 8, 9]" "ended demo_queued" "trailers demo_queued = None"
    by (simp_all add: demo_queued_def body_contents_def)
  moreover have "payloads 2 [7, 8, 9] = [[7, 8], [9 :: byte]]"
    by (simp add: payloads_long payloads_short)
  moreover have no_error: "c_callback_error (snd (send_whole_body demo demo_frame (replicate 9 0) 2 (Suc (Suc 0)) ?c)) = None"
    by (simp add: session_after_demo demo_frame_def run_simps)
  moreover have "Suc (Suc 0) = 2" "staged ?c = []"
    by (simp_all add: session_after_demo new_conn_def staged_def)
  ultimately show ?thesis
    using body_transferred [of demo False "-1" ?c demo_frame demo_queued 2 "replicate 9 0" 2] by fastforce
qed

section \<open>Trailers\<close>

lemma wp_read_trailers:
  assumes ok: "bodies_ok (c_bodies c) (c_queued_body_size c)" and b: "c_bodies c i = Some b"
    and e: "ended b" "trailers b = Some hs" and size: "length (body_contents b) < 2 ^ 64"
    and len: "length (body_contents b) \<le> len" and r: "c_output_remaining c \<noteq> 0"
    and s: "c_session c = Some s" and alloc: "eng_alloc E (Some s) (max 1 (length hs) * NV_SIZE)"
    and submit: "eng_submit_trailer E i (map header_nv hs) s = (RcOk n, s')"
  shows "wp (read_body E i len) (\<lambda>ans c'. ans_rc ans = RcOk (length (body_contents b)) \<and>
      ans_eof ans \<and> ans_no_end_stream ans \<and> c_session c' = Some s' \<and>
      (\<exists>b'. c_bodies c' i = Some b' \<and> ended b' \<and> trailers b' = None)) (\<lambda>_ _. False) c"
proof -
  have a: "eng_alloc E (Some s) ((if hs \<noteq> [] then length hs else 1) * NV_SIZE)"
    using alloc by (cases hs) (auto simp: max_def split: if_splits)
  show ?thesis
    using r b unfolding read_body_def
    by (auto simp: wp_bindM wp_getsM wp_if wp_catchM case_prod_beta' len e
        intro!: wp_take_body_exact [OF ok b size refl])
      (use a s submit e in \<open>auto simp: wp_simps make_headers_thaw alloc_ok_def eof_answer_def drained_def min_def
        len split: if_splits\<close>)
qed

text \<open>
  C9. Trailers make the round trip through the queue: fields given to \<open>send_trailers\<close> end the body,
  and when the rest of the body fits the next frame, \<open>_read_body\<close> submits exactly these fields, in order
  and with their never-indexed marks, and announces the end of the data without ending the stream.
\<close>

theorem trailers_roundtrip:
  assumes E: "engine_ok E" and c: "reachable E c" and "c_active c" "\<not> c_terminating c"
    and i: "1 \<le> i" "i \<le> 0x7FFFFFFF" and b: "c_bodies c i = Some b" "\<not> ended b" "\<not> deferred b"
    and size: "length (body_contents b) \<le> len" "len < 2 ^ 64" and r: "r \<noteq> 0"
    and s: "c_session c = Some s" and alloc: "eng_alloc E (Some s) (max 1 (length hs) * NV_SIZE)"
    and submit: "eng_submit_trailer E i (map header_nv hs) s = (RcOk n, s')"
  shows "\<exists>c1 ans c2. send_trailers E (PyInt i) (PyList (map thaw_header hs)) c = (Ok (), c1) \<and>
    read_body E i len (c1\<lparr>c_output_remaining := r\<rparr>) = (Ok ans, c2) \<and>
    ans_rc ans = RcOk (length (body_contents b)) \<and> ans_eof ans \<and> ans_no_end_stream ans \<and>
    c_session c2 = Some s' \<and> (\<exists>b'. c_bodies c2 i = Some b' \<and> ended b' \<and> trailers b' = None)"
proof -
  let ?b = "b\<lparr>trailers := Some hs, ended := True\<rparr>"
  let ?c1 = "c\<lparr>c_bodies := (c_bodies c)(i \<mapsto> ?b)\<rparr>"
  have inv: "conn_inv E False c" by (rule reachable_inv [OF c E])
  then have ok: "bodies_ok (c_bodies c) (c_queued_body_size c)" and "\<not> c_failed c"
    using assms(3) by (auto simp: conn_inv_def core_inv_def base_inv_def flags_ok_def)
  then have sent: "send_trailers E (PyInt i) (PyList (map thaw_header hs)) c = (Ok (), ?c1)"
    using assms(3,4) i b by (simp add: send_trailers_def normalize_thaw_list update_body_def monad_run
        guard_run conversion_run)
  have "body_wf ?b" using bodies_okD [OF ok b(1)] by simp
  then have "bodies_ok ((c_bodies c)(i \<mapsto> ?b)) (c_queued_body_size c)"
    by (intro bodies_ok_update [OF ok b(1)]) simp_all
  then have "wp (read_body E i len) (\<lambda>ans c'. ans_rc ans = RcOk (length (body_contents ?b)) \<and>
      ans_eof ans \<and> ans_no_end_stream ans \<and> c_session c' = Some s' \<and>
      (\<exists>b'. c_bodies c' i = Some b' \<and> ended b' \<and> trailers b' = None)) (\<lambda>_ _. False)
      (?c1\<lparr>c_output_remaining := r\<rparr>)"
    by (intro wp_read_trailers [where b = ?b and hs = hs and n = n]) (use size r s alloc submit in auto)
  from wp_result [OF this] sent show ?thesis by auto
qed

text \<open>A session with an open body, up to the request of the session of \<open>Application\<close>.\<close>

definition demo_open :: "demo conn" where
  "demo_open = session_after demo (take 3 demo_session)"

lemma reachable_demo_open: "reachable demo demo_open"
  unfolding demo_open_def
  by (rule reachable_after [OF engine_ok_demo]) (simp add: demo_session_def application_request_def)

lemma demo_open_state:
  "c_active demo_open" "\<not> c_terminating demo_open" "c_bodies demo_open 1 = Some new_body"
  "c_session demo_open = Some \<lparr>dm_next = 3, dm_out = [4, 1], dm_streams = [1], dm_open = True\<rparr>"
  by (simp_all add: demo_open_def session_after_def demo_session_def run_simps)

theorem trailers_roundtrip_witness:
  "\<exists>c1 ans c2. send_trailers demo (PyInt 1) (PyList (map thaw_header [NeverIndexedHeader [1] [2]])) demo_open =
      (Ok (), c1) \<and>
    read_body demo 1 16384 (c1\<lparr>c_output_remaining := 5\<rparr>) = (Ok ans, c2) \<and> ans_no_end_stream ans \<and>
    c_session c2 = Some \<lparr>dm_next = 3, dm_out = [4, 1, 1], dm_streams = [1], dm_open = True\<rparr>"
proof -
  have "\<not> ended new_body" "\<not> deferred new_body" "body_contents new_body = []"
    by (simp_all add: new_body_def body_contents_def)
  then show ?thesis
    using trailers_roundtrip [OF engine_ok_demo reachable_demo_open demo_open_state(1,2) _ _ demo_open_state(3) _ _
        _ _ _ demo_open_state(4), where len = 16384 and r = 5 and hs = "[NeverIndexedHeader [1] [2]]" and n = 0
        and s' = "\<lparr>dm_next = 3, dm_out = [4, 1, 1], dm_streams = [1], dm_open = True\<rparr>"]
    by (auto simp: demo_queue_def NV_SIZE_def)
qed

section \<open>Responses\<close>

text \<open>
  C27. A stream is answered once: after \<open>send_response\<close> succeeded on a stream, the stream has a fresh
  body unless the response ends it, and another response or an informational response on it is
  refused with \<open>StreamStateError\<close> and changes nothing.
\<close>

theorem response_once:
  assumes "send_response E (PyInt i) (PyList (map thaw_header hs)) (PyBool ends) c = (Ok (), c1)"
    and "1 \<le> i" "i \<le> 0x7FFFFFFF" and "c_session c = Some s"
    and "\<forall>s. eng_alloc E s ((if hs' \<noteq> [] then length hs' else 1) * NV_SIZE)"
    and "\<forall>s s'. c_session c1 = Some s' \<longrightarrow> 0 \<le> eng_session_get_stream_local_close E i s'"
  shows "i \<notin> c_responses c \<and> c_responses c1 = insert i (c_responses c) \<and>
    c_bodies c1 = (if ends then c_bodies c else (c_bodies c)(i \<mapsto> new_body)) \<and>
    send_response E (PyInt i) (PyList (map thaw_header hs')) (PyBool ends') c1 = (Raise StreamStateError, c1) \<and>
    send_informational_response E (PyInt i) (PyList (map thaw_header hs')) c1 = (Raise StreamStateError, c1)"
proof -
  have "wp (send_response E (PyInt i) (PyList (map thaw_header hs)) (PyBool ends)) (\<lambda>_ c1.
      i \<notin> c_responses c \<and> c_responses c1 = insert i (c_responses c) \<and>
      c_bodies c1 = (if ends then c_bodies c else (c_bodies c)(i \<mapsto> new_body)) \<and>
      c_session c1 \<noteq> None \<and> c_active c1 \<and> \<not> c_failed c1 \<and> \<not> c_terminating c1 \<and> c_server c1)
      (\<lambda>_ _. True) c"
    using assms(2-5)
    by (auto simp: send_response_def native_headers_thaw [unfolded native_headers_def] native_headers_def
        normalize_thaw_list make_headers_thaw require_server_def open_body_def wp_simps split: status.split)
  from wp_Ok [OF this assms(1)] have "i \<notin> c_responses c" "c_responses c1 = insert i (c_responses c)"
    "c_bodies c1 = (if ends then c_bodies c else (c_bodies c)(i \<mapsto> new_body))" "c_session c1 \<noteq> None"
    "c_active c1" "\<not> c_failed c1" "\<not> c_terminating c1" "c_server c1" by auto
  moreover from this obtain s' where "c_session c1 = Some s'" by auto
  moreover from this have "0 \<le> eng_session_get_stream_local_close E i s'" using assms(6) by simp
  ultimately show ?thesis
    using assms(2-5) by (simp add: send_response_def send_informational_response_def native_headers_thaw
        monad_run guard_run conversion_run require_stream_def alloc_ok_def)
qed

text \<open>A server that has a stream to answer.\<close>

definition demo_server :: "demo conn" where
  "demo_server = session_after demo [Init (Some SERVER) NoConfig, InitiateConnection PyNone]"

theorem response_once_witness:
  "\<exists>c1. send_response demo (PyInt 1) (PyList (map thaw_header [PlainHeader [1] [2]])) (PyBool True) demo_server =
      (Ok (), c1) \<and>
    send_response demo (PyInt 1) (PyList (map thaw_header [])) (PyBool False) c1 = (Raise StreamStateError, c1)"
proof -
  have s: "c_session demo_server = Some \<lparr>dm_next = 2, dm_out = [4], dm_streams = [], dm_open = True\<rparr>"
    by (simp add: demo_server_def session_after_def run_simps)
  obtain c1 where run: "send_response demo (PyInt 1) (PyList (map thaw_header [PlainHeader [1] [2]])) (PyBool True)
      demo_server = (Ok (), c1)"
    by (simp add: demo_server_def session_after_def send_response_def require_stream_def run_simps)
  from response_once [OF this _ _ s, where hs' = "[]" and ends' = False] run show ?thesis by (simp add: NV_SIZE_def)
qed

end
