(* ===== verification/Input_Spec.thy ===== *)
theory Input_Spec
  imports Runs
begin

text \<open>
  What the input callbacks of \<^verbatim>\<open>src/ngh2/_core.pyx\<close> make of the frames the engine reports, over
  whole frames: the chunks of a DATA frame, the fields of a header block, and the frames that end a
  connection, with the receive credit that DATA frames earn and \<open>consume_received_data\<close> spends.
\<close>

section \<open>DATA frames\<close>

text \<open>The callbacks of one DATA frame, in the engine's order.\<close>

definition deliver_data :: "'s engine \<Rightarrow> nat \<Rightarrow> byte list list \<Rightarrow> frame \<Rightarrow> ('s, status) meth" where
  "deliver_data E len payload_chunks frame =
     bindM (begin_frame E FT_DATA len (hd_stream_id frame)) (\<lambda>_.
     bindM (mapM (data_chunk E (hd_stream_id frame)) payload_chunks) (\<lambda>_. frame_received E frame))"

lemma data_chunk_step:
  assumes "c_data_payload c = Some p" and "c_data_stream_id c = i"
    and "c_data_size c + length data \<le> length p" and "length p < 2 ^ 64"
  shows "data_chunk E i data c = (Ok (RcOk 0), c\<lparr>
    c_data_payload := Some (overwrite p (c_data_size c) data),
    c_data_size := c_data_size c + length data\<rparr>)"
  using assms by (simp add: data_chunk_def monad_run size_add_def)

lemma data_chunks_run:
  assumes "c_data_payload c = Some p" and "c_data_stream_id c = i"
    and "c_data_size c + length (concat payload_chunks) \<le> length p" and "length p < 2 ^ 64"
  shows "\<exists>rcs p'. mapM (data_chunk E i) payload_chunks c = (Ok rcs, c\<lparr>c_data_payload := Some p',
      c_data_size := c_data_size c + length (concat payload_chunks)\<rparr>) \<and> length p' = length p \<and>
    take (c_data_size c + length (concat payload_chunks)) p' =
      take (c_data_size c) p @ map Some (concat payload_chunks)"
  using assms
proof (induction payload_chunks arbitrary: c p)
  case Nil
  then have "c\<lparr>c_data_payload := Some p, c_data_size := c_data_size c\<rparr> = c"
    by (cases c) simp
  then show ?case
    by (intro exI [of _ "[]"] exI [of _ p]) (simp add: returnM_def)
next
  case (Cons d ds)
  let ?c = "c\<lparr>c_data_payload := Some (overwrite p (c_data_size c) d), c_data_size := c_data_size c + length d\<rparr>"
  have len: "length (overwrite p (c_data_size c) d) = length p"
    using Cons.prems by (simp add: length_overwrite)
  obtain rcs p' where "mapM (data_chunk E i) ds ?c = (Ok rcs, ?c\<lparr>c_data_payload := Some p',
      c_data_size := c_data_size ?c + length (concat ds)\<rparr>)" "length p' = length p"
    "take (c_data_size ?c + length (concat ds)) p' =
      take (c_data_size ?c) (overwrite p (c_data_size c) d) @ map Some (concat ds)"
    using Cons.IH [of ?c "overwrite p (c_data_size c) d"] Cons.prems len by auto
  moreover have "data_chunk E i d c = (Ok (RcOk 0), ?c)"
    using Cons.prems by (intro data_chunk_step) auto
  moreover have "take (c_data_size c + length d) (overwrite p (c_data_size c) d) =
      take (c_data_size c) p @ map Some d"
    using Cons.prems by (intro take_overwrite) simp
  ultimately show ?case
    by (auto simp: bindM_def returnM_def add.assoc intro!: exI [of _ p'])
qed

text \<open>The receive credit of a stream.\<close>

definition credit :: "int \<Rightarrow> 's conn \<Rightarrow> int" where
  "credit i c = (case c_unconsumed c i of None \<Rightarrow> 0 | Some n \<Rightarrow> n)"

lemma frame_received_data:
  assumes "hd_type frame = FT_DATA" and "c_data_payload c = Some p"
    and "take (c_data_size c) p = map Some data" and "c_data_size c = length data"
    and "eng_alloc E (c_session c) (length data)"
  shows "\<exists>c'. frame_received E frame c = (Ok (RcOk 0), c') \<and>
    c_events c' = c_events c @ [DataReceived (hd_stream_id frame) (map Some data) (hd_end_stream frame)] \<and>
    c_data_payload c' = None \<and> c_data_size c' = 0 \<and>
    (\<forall>i. credit i c' = credit i c +
      (if i = hd_stream_id frame \<and> \<not> c_auto_window_update c then int (length data) else 0))"
proof -
  have all: "p = map Some data" if "c_data_size c = length p"
    using assms(3,4) that by simp
  have empty: "data = []" if "c_data_size c = 0"
    using assms(4) that by simp
  have "wp (frame_received E frame) (\<lambda>rc c'. rc = RcOk 0 \<and>
    c_events c' = c_events c @ [DataReceived (hd_stream_id frame) (map Some data) (hd_end_stream frame)] \<and>
    c_data_payload c' = None \<and> c_data_size c' = 0 \<and>
    (\<forall>i. credit i c' = credit i c +
      (if i = hd_stream_id frame \<and> \<not> c_auto_window_update c then int (length data) else 0)))
    (\<lambda>_ _. False) c"
    using assms(1-3,5) all empty assms(4) [symmetric]
    by (auto simp: frame_received_def dispatch_frame_def data_frame_received_def publish_def credit_def
        wp_simps Let_def alloc_ok_def split: option.split)
  then show ?thesis by (auto dest: wp_result)
qed

text \<open>
  C4. A DATA frame is reported as one event: however the engine splits its payload, the event carries
  the chunks in order and nothing else (padding included in the frame's length is not reported), no
  payload stays open, and the stream's credit grows by the bytes reported when the application
  accounts for them itself.
\<close>

theorem data_reassembly:
  assumes "hd_type frame = FT_DATA" and "\<forall>n\<le>len. alloc_ok E c n" and "c_data_size c = 0"
    and "length (concat payload_chunks) \<le> len" and "len < 2 ^ 24"
  shows "\<exists>c'. deliver_data E len payload_chunks frame c = (Ok (RcOk 0), c') \<and>
    c_events c' = c_events c @
      [DataReceived (hd_stream_id frame) (map Some (concat payload_chunks)) (hd_end_stream frame)] \<and>
    c_data_payload c' = None \<and> c_data_size c' = 0 \<and>
    (\<forall>i. credit i c' = credit i c +
      (if i = hd_stream_id frame \<and> \<not> c_auto_window_update c then int (length (concat payload_chunks)) else 0))"
proof -
  let ?i = "hd_stream_id frame" and ?data = "concat payload_chunks"
  let ?c = "c\<lparr>c_data_payload := Some (replicate len None), c_data_size := 0, c_data_stream_id := ?i\<rparr>"
  have alloc: "n \<le> len \<Longrightarrow> eng_alloc E (c_session c) n" for n
    using assms(2) by (simp add: alloc_ok_def)
  have start: "begin_frame E FT_DATA len ?i c = (Ok (RcOk 0), ?c)"
    using assms(3) alloc by (simp add: begin_frame_def discard_data_payload_def run_simps)
  obtain rcs p' where run: "mapM (data_chunk E ?i) payload_chunks ?c = (Ok rcs, ?c\<lparr>c_data_payload := Some p',
      c_data_size := length ?data\<rparr>)" and p': "length p' = len"
    "take (length ?data) p' = map Some ?data"
    using data_chunks_run [of ?c "replicate len None" ?i payload_chunks E] assms(4,5) by auto
  let ?c1 = "?c\<lparr>c_data_payload := Some p', c_data_size := length ?data\<rparr>"
  obtain c' where final: "frame_received E frame ?c1 = (Ok (RcOk 0), c')"
    and c': "c_events c' = c_events c @ [DataReceived ?i (map Some ?data) (hd_end_stream frame)]"
      "c_data_payload c' = None" "c_data_size c' = 0"
      "\<forall>i. credit i c' = credit i ?c1 + (if i = ?i \<and> \<not> c_auto_window_update c then int (length ?data) else 0)"
    using frame_received_data [OF assms(1), of ?c1 p' ?data E] p' assms(4) alloc by auto
  have "credit i ?c1 = credit i c" for i by (simp add: credit_def)
  with start run final c' show ?thesis
    by (auto simp: deliver_data_def bindM_def)
qed

theorem data_reassembly_witness:
  "\<exists>c'. deliver_data demo 5 [[1], [2, 3]] (blank_frame FT_DATA 1 True)
      (session_after demo demo_session) = (Ok (RcOk 0), c') \<and>
    c_events c' = [DataReceived 1 [Some 1, Some 2, Some 3] True]"
proof -
  let ?c = "session_after demo demo_session"
  have "\<forall>n\<le>5. alloc_ok demo ?c n" by (simp add: alloc_ok_def)
  moreover have "c_data_size ?c = 0" "c_events ?c = []" by (simp_all add: session_after_demo new_conn_def)
  ultimately show ?thesis
    using data_reassembly [of "blank_frame FT_DATA 1 True" 5 demo ?c "[[1], [2, 3]]"]
    by (auto simp: blank_frame_def)
qed

section \<open>Header blocks\<close>

text \<open>The callbacks of one header block: they stop at the first field that fails.\<close>

type_synonym field = "byte list \<times> byte list \<times> bool"

fun field_header :: "field \<Rightarrow> header" where
  "field_header (name, value, no_index) =
     (if no_index then NeverIndexedHeader name value else PlainHeader name value)"

fun field_size :: "field \<Rightarrow> nat" where
  "field_size (name, value, no_index) = length name + length value + 32"

fun collect_fields :: "'s engine \<Rightarrow> field list \<Rightarrow> ('s, bool) meth" where
  "collect_fields E [] = returnM True"
| "collect_fields E ((name, value, no_index) # fs) =
     bindM (header_field E name value no_index) (\<lambda>rc.
       if rc = RcErr ERR_CALLBACK_FAILURE then returnM False else collect_fields E fs)"

definition collect_block :: "'s engine \<Rightarrow> field list \<Rightarrow> ('s, bool) meth" where
  "collect_block E fs = thenM begin_headers (collect_fields E fs)"

lemma header_list_size_append:
  "header_list_size (hs @ [h]) = header_list_size hs + (length (header_name h) + length (header_value h) + 32)"
  "header_list_size [] = 0"
  by (simp_all add: header_list_size_def)

text \<open>A block that is being collected: exactly the fields so far, and their size.\<close>

definition block_holds :: "header list \<Rightarrow> 's conn \<Rightarrow> bool" where
  "block_holds hs c \<longleftrightarrow> c_current_headers c = hs \<and> c_current_header_size c = of_nat (header_list_size hs) \<and>
     headers_within (c_max_inbound_header_list_size c) (c_max_inbound_header_count c) hs"

definition limits_sane :: "'s conn \<Rightarrow> bool" where
  "limits_sane c \<longleftrightarrow> 0 \<le> c_max_inbound_header_list_size c \<and>
     c_max_inbound_header_list_size c \<le> int SSIZE_MAX \<and> 0 \<le> c_max_inbound_header_count c"

lemma header_field_step:
  assumes holds: "block_holds hs c" and limits: "limits_sane c"
    and size: "length name + length value + 32 \<le> SSIZE_MAX"
    and alloc: "alloc_ok E c (length name)" "alloc_ok E c (length value)"
    and h_def: "h = field_header (name, value, no_index)"
  shows "header_field E name value no_index c =
    (let c' = c\<lparr>c_current_header_size := of_nat (header_list_size (hs @ [h]))\<rparr> in
     if headers_within (c_max_inbound_header_list_size c) (c_max_inbound_header_count c) (hs @ [h])
     then (Ok (RcOk 0), c'\<lparr>c_current_headers := hs @ [h]\<rparr>)
     else (Ok (RcErr ERR_CALLBACK_FAILURE), c'\<lparr>c_callback_error := Some DenialOfServiceError\<rparr>))"
proof -
  let ?k = "length name + length value + 32" and ?max = "c_max_inbound_header_list_size c"
  have h: "length (header_name h) + length (header_value h) + 32 = ?k" by (simp add: h_def)
  have total: "header_list_size (hs @ [h]) = header_list_size hs + ?k"
    using h by (simp only: header_list_size_append)
  have "int (header_list_size hs) \<le> int SSIZE_MAX"
    using holds limits unfolding block_holds_def headers_within_def limits_sane_def by linarith
  then have small: "header_list_size (hs @ [h]) < 2 ^ 64"
    using size total by (simp add: SSIZE_MAX_def)
  have max: "unat (word_of_int ?max :: size_t) = nat ?max"
    using limits by (simp add: limits_sane_def SSIZE_MAX_def unat_eq_nat_uint uint_word_of_int_eq
        take_bit_int_eq_self)
  have sum: "(of_nat (header_list_size hs) :: size_t) + of_nat ?k = of_nat (header_list_size (hs @ [h]))"
    by (simp only: total of_nat_add)
  have less: "(word_of_int ?max :: size_t) < of_nat (header_list_size (hs @ [h])) \<longleftrightarrow>
      ?max < int (header_list_size (hs @ [h]))"
    using small limits by (simp add: word_less_nat_alt max unat_of_nat limits_sane_def nat_less_iff)
  have size1: "c_current_header_size c + of_nat ?k = of_nat (header_list_size (hs @ [h]))"
    and headers: "c_current_headers c = hs"
    using holds sum by (simp_all only: block_holds_def)
  have within: "headers_within ?max (c_max_inbound_header_count c) (hs @ [h]) \<longleftrightarrow>
      \<not> ?max < int (header_list_size (hs @ [h])) \<and> \<not> c_max_inbound_header_count c \<le> int (length hs)"
    by (auto simp: headers_within_def)
  have built: "no_index \<Longrightarrow> NeverIndexedHeader name value = h" "\<not> no_index \<Longrightarrow> PlainHeader name value = h"
    by (simp_all add: h_def)
  show ?thesis
    unfolding header_field_def thenM_def bindM_def catchM_def modifyM_def getsM_def id_def
      prod.case outcome.case conn.select_convs conn.update_convs
    using alloc by (simp add: size1 [simplified] less headers within built monad_run callback_failed_def
        new_bytes_def alloc_ok_def Let_def)
qed

text \<open>A prefix of a block within the limits is within them.\<close>

lemma headers_within_prefix: "headers_within m n (hs @ hs') \<Longrightarrow> headers_within m n hs"
  by (auto simp: headers_within_def header_list_size_def)

lemma collect_fields_run:
  assumes "block_holds hs c" and "limits_sane c"
    and "\<forall>f\<in>set fs. field_size f \<le> SSIZE_MAX" and "\<forall>f\<in>set fs. \<forall>n\<le>field_size f. alloc_ok E c n"
  shows "\<exists>c'. collect_fields E fs c = (Ok (headers_within (c_max_inbound_header_list_size c)
      (c_max_inbound_header_count c) (hs @ map field_header fs)), c') \<and>
    (if headers_within (c_max_inbound_header_list_size c) (c_max_inbound_header_count c)
       (hs @ map field_header fs)
     then block_holds (hs @ map field_header fs) c' \<and> c_callback_error c' = c_callback_error c
     else c_callback_error c' = Some DenialOfServiceError)"
  using assms
proof (induction fs arbitrary: hs c)
  case Nil
  then show ?case by (auto simp: returnM_def block_holds_def)
next
  case (Cons f fs)
  obtain name val no_index where f: "f = (name, val, no_index)" by (rule prod_cases3)
  let ?h = "field_header f" and ?m = "c_max_inbound_header_list_size c" and ?n = "c_max_inbound_header_count c"
  have alloc: "alloc_ok E c (length name)" "alloc_ok E c (length val)"
    and size: "length name + length val + 32 \<le> SSIZE_MAX"
    using Cons.prems(3,4) f by auto
  note step = header_field_step [OF Cons.prems(1,2) size alloc refl, of no_index, folded f]
  show ?case
  proof (cases "headers_within ?m ?n (hs @ [?h])")
    case False
    then have "\<not> headers_within ?m ?n (hs @ map field_header (f # fs))"
      using headers_within_prefix [of ?m ?n "hs @ [?h]"] by auto
    with False step show ?thesis by (simp add: f bindM_def returnM_def Let_def)
  next
    case True
    let ?c = "c\<lparr>c_current_header_size := of_nat (header_list_size (hs @ [?h])), c_current_headers := hs @ [?h]\<rparr>"
    have "block_holds (hs @ [?h]) ?c" "limits_sane ?c" "\<forall>f\<in>set fs. \<forall>n\<le>field_size f. alloc_ok E ?c n"
      using True Cons.prems by (simp_all add: block_holds_def limits_sane_def alloc_ok_def)
    note rest = Cons.IH [OF this(1,2) _ this(3)]
    have "header_field E name val no_index c = (Ok (RcOk 0), ?c)"
      using True step by (simp add: Let_def del: field_header.simps)
    then have "collect_fields E (f # fs) c = collect_fields E fs ?c"
      by (simp add: f bindM_def del: field_header.simps)
    with rest Cons.prems(3) show ?thesis
      by (auto split: if_splits simp del: field_header.simps collect_fields.simps)
  qed
qed

text \<open>
  C5. A header block is accepted exactly when it is within the configured limits on the number of
  fields and on their size as RFC 9113 counts it; then it is collected field by field, in order and
  with the never-indexed marks, and otherwise the connection stops with \<open>DenialOfServiceError\<close>.
\<close>

theorem header_block_limits:
  assumes "limits_sane c" and "\<forall>f\<in>set fs. field_size f \<le> SSIZE_MAX"
    and "\<forall>f\<in>set fs. \<forall>n\<le>field_size f. alloc_ok E c n"
  shows "\<exists>c'. collect_block E fs c = (Ok (headers_within (c_max_inbound_header_list_size c)
      (c_max_inbound_header_count c) (map field_header fs)), c') \<and>
    (if headers_within (c_max_inbound_header_list_size c) (c_max_inbound_header_count c) (map field_header fs)
     then c_current_headers c' = map field_header fs \<and> c_callback_error c' = c_callback_error c
     else c_callback_error c' = Some DenialOfServiceError)"
proof -
  let ?c = "c\<lparr>c_current_headers := [], c_current_header_size := 0\<rparr>"
  have "block_holds [] ?c" "limits_sane ?c" "\<forall>f\<in>set fs. \<forall>n\<le>field_size f. alloc_ok E ?c n"
    using assms(1,3) by (auto simp: block_holds_def limits_sane_def alloc_ok_def headers_within_def
        header_list_size_append)
  from collect_fields_run [OF this(1,2) assms(2) this(3)] show ?thesis
    by (auto simp: collect_block_def begin_headers_def monad_run block_holds_def split: if_splits)
qed

theorem header_block_limits_witness:
  "(\<exists>c'. collect_block demo [([1], [2], False), ([3], [4, 5], True)] (session_after demo demo_session) = (Ok True, c') \<and>
     c_current_headers c' = [PlainHeader [1] [2], NeverIndexedHeader [3] [4, 5]]) \<and>
   (\<exists>c'. collect_block demo [([1], [2], False), ([3], [4, 5], True)]
       ((session_after demo demo_session)\<lparr>c_max_inbound_header_list_size := 68\<rparr>) = (Ok False, c') \<and>
     c_callback_error c' = Some DenialOfServiceError)"
proof -
  let ?fs = "[([1], [2], False), ([3], [4, 5], True)] :: field list"
  let ?c = "session_after demo demo_session"
  let ?d = "?c\<lparr>c_max_inbound_header_list_size := 68\<rparr>"
  have sizes: "\<forall>f\<in>set ?fs. field_size f \<le> SSIZE_MAX" by (simp add: SSIZE_MAX_def)
  have c: "limits_sane ?c" "\<forall>f\<in>set ?fs. \<forall>n\<le>field_size f. alloc_ok demo ?c n"
    "headers_within (c_max_inbound_header_list_size ?c) (c_max_inbound_header_count ?c) (map field_header ?fs)"
    by (simp_all add: session_after_demo new_conn_def limits_sane_def alloc_ok_def SSIZE_MAX_def
        headers_within_def header_list_size_def)
  have d: "limits_sane ?d" "\<forall>f\<in>set ?fs. \<forall>n\<le>field_size f. alloc_ok demo ?d n"
    "\<not> headers_within (c_max_inbound_header_list_size ?d) (c_max_inbound_header_count ?d) (map field_header ?fs)"
    by (simp_all add: session_after_demo new_conn_def limits_sane_def alloc_ok_def SSIZE_MAX_def
        headers_within_def header_list_size_def)
  from header_block_limits [OF c(1) sizes c(2)] header_block_limits [OF d(1) sizes d(2)]
  show ?thesis using c(3) d(3) by (auto simp del: fun_upd_apply)
qed

text \<open>
  C30. What a complete header block is reported as: a request by its category, and otherwise by its first
  \<open>:status\<close> field: an informational response when it starts with \<open>1\<close>, a final response when it has
  a value, and trailers when there is none. The event carries exactly the block, which is then
  forgotten.
\<close>

theorem header_block_reported:
  assumes "hd_type frame = FT_HEADERS"
  shows "\<exists>c'. frame_received E frame c = (Ok (RcOk 0), c') \<and> c_current_headers c' = [] \<and>
    c_events c' = c_events c @ [
      if headers_cat frame = HCAT_REQUEST
      then RequestReceived (hd_stream_id frame) (c_current_headers c) (hd_end_stream frame)
      else (case List.find (\<lambda>h. header_name h = STATUS) (c_current_headers c) of
          Some h \<Rightarrow> if take 1 (header_value h) = [0x31]
            then InformationalResponseReceived (hd_stream_id frame) (c_current_headers c)
            else if header_value h = [] then TrailersReceived (hd_stream_id frame) (c_current_headers c)
            else ResponseReceived (hd_stream_id frame) (c_current_headers c) (hd_end_stream frame)
        | None \<Rightarrow> TrailersReceived (hd_stream_id frame) (c_current_headers c))]"
proof -
  have status: "find_status hs = (case List.find (\<lambda>h. header_name h = STATUS) hs of
      Some h \<Rightarrow> header_value h | None \<Rightarrow> [])" for hs
    by (induction hs) auto
  have info: "is_informational s \<longleftrightarrow> take 1 s = [0x31]" for s
    by (cases s) (simp_all add: is_informational_def)
  show ?thesis
    using assms by (auto simp: frame_received_def dispatch_frame_def headers_received_def publish_def
        monad_run headers_event_def status info Let_def split: option.split)
qed

theorem header_block_reported_witness:
  "\<exists>c'. frame_received demo ((blank_frame FT_HEADERS 1 True)\<lparr>headers_cat := HCAT_RESPONSE\<rparr>)
      ((session_after demo demo_session)\<lparr>c_current_headers := [PlainHeader STATUS [0x32, 0x30, 0x30]]\<rparr>) =
      (Ok (RcOk 0), c') \<and>
    c_events c' = [ResponseReceived 1 [PlainHeader STATUS [0x32, 0x30, 0x30]] True]"
  using header_block_reported [of "(blank_frame FT_HEADERS 1 True)\<lparr>headers_cat := HCAT_RESPONSE\<rparr>" demo
      "(session_after demo demo_session)\<lparr>c_current_headers := [PlainHeader STATUS [0x32, 0x30, 0x30]]\<rparr>"]
  by (auto simp: blank_frame_def session_after_demo new_conn_def)

end
