(* ===== verification/Control_Spec.thy ===== *)
theory Control_Spec
  imports Input_Spec
begin

text \<open>
  The end of streams and connections in \<^verbatim>\<open>src/ngh2/_core.pyx\<close>, receive flow control, SETTINGS, and
  how errors of the engine and of callbacks come out of the methods that drive it.
\<close>

section \<open>Closing\<close>

text \<open>
  C17. A connection closes once: after a GOAWAY was received, the first time the engine neither wants to
  read nor to write, everything pending is dropped and \<open>ConnectionClosed\<close> is published with the code
  and the debug data of that GOAWAY; asking again changes nothing.
\<close>

theorem goaway_closes:
  assumes "hd_type frame = FT_GOAWAY" and "alloc_ok E c (length (goaway_opaque_data frame))"
    and "c_active c" "\<not> c_closed c"
    and "c_session c = Some s" "\<not> eng_session_want_read E s" "\<not> eng_session_want_write E s"
  shows "\<exists>c1 c2. frame_received E frame c = (Ok (RcOk 0), c1) \<and> c_closing c1 \<and>
    update_terminal_state E c1 = (Ok (), c2) \<and>
    c_events c2 = c_events c @
      [GoAwayReceived (goaway_last_stream_id frame) (error_value (goaway_error_code frame)) (goaway_opaque_data frame),
       ConnectionClosed (error_value (goaway_error_code frame)) (goaway_opaque_data frame)] \<and>
    c_closed c2 \<and> c_terminating c2 \<and> c_bodies c2 = Map.empty \<and> c_queued_body_size c2 = 0 \<and>
    c_responses c2 = {} \<and> c_deferred_resets c2 = Map.empty \<and>
    update_terminal_state E c2 = (Ok (), c2)"
proof -
  let ?c1 = "c\<lparr>c_closing := True, c_close_error_code := goaway_error_code frame,
    c_close_debug_data := goaway_opaque_data frame, c_events := c_events c @
      [GoAwayReceived (goaway_last_stream_id frame) (error_value (goaway_error_code frame)) (goaway_opaque_data frame)]\<rparr>"
  have "frame_received E frame c = (Ok (RcOk 0), ?c1)"
    using assms(1,2) by (simp add: frame_received_def dispatch_frame_def goaway_received_def publish_def
        goaway_received_event_def new_bytes_def monad_run alloc_ok_def)
  with assms show ?thesis
    by (simp add: update_terminal_state_def native_query_def monad_run discard_pending_state_def
        connection_closed_event_def)
qed

theorem goaway_closes_witness:
  "\<exists>c1 c2. frame_received demo (blank_frame FT_GOAWAY 0 False)
      ((session_after demo demo_session)\<lparr>c_session :=
         Some \<lparr>dm_next = 3, dm_out = [], dm_streams = [], dm_open = False\<rparr>\<rparr>) = (Ok (RcOk 0), c1) \<and>
    update_terminal_state demo c1 = (Ok (), c2) \<and>
    c_events c2 = [GoAwayReceived 0 (KnownCode NO_ERROR) [], ConnectionClosed (KnownCode NO_ERROR) []]"
proof -
  let ?c = "(session_after demo demo_session)\<lparr>c_session :=
         Some \<lparr>dm_next = 3, dm_out = [], dm_streams = [], dm_open = False\<rparr>\<rparr>"
  have "error_value 0 = KnownCode NO_ERROR" using error_value_wire_code [of NO_ERROR] by simp
  moreover have "c_active ?c" "\<not> c_closed ?c" "c_events ?c = []"
    "c_session ?c = Some \<lparr>dm_next = 3, dm_out = [], dm_streams = [], dm_open = False\<rparr>"
    by (simp_all add: session_after_demo new_conn_def)
  ultimately show ?thesis
    using goaway_closes [of "blank_frame FT_GOAWAY 0 False" demo ?c
        "\<lparr>dm_next = 3, dm_out = [], dm_streams = [], dm_open = False\<rparr>"]
    by (auto simp: blank_frame_def alloc_ok_def)
qed

text \<open>
  The open DATA payload of a stream that closes is dropped; its bytes are given back to the
  connection's window when there are any and the application accounts for the bytes itself.
\<close>

definition give_back :: "'s engine \<Rightarrow> int \<Rightarrow> 's \<Rightarrow> 's conn \<Rightarrow> status \<times> 's" where
  "give_back E i s c =
     (if c_data_stream_id c = i \<and> c_data_size c \<noteq> 0 \<and> \<not> c_auto_window_update c
      then eng_session_consume_connection E (c_data_size c) s else (RcOk 0, s))"

text \<open>
  C18. A stream that closes takes its state with it, whatever it had: its body, whose bytes leave the
  connection's counter, its response, its deferred reset, its local error and an open DATA payload of
  its own; the state of every other stream stays, and \<open>StreamClosed\<close> is published with the code and
  the local error of the stream. Only giving back the bytes of the payload can fail: then the body and
  the payload are gone, the exception is held back, and nothing is published.
\<close>

theorem stream_closed_releases:
  assumes "c_session c = Some s"
  shows "\<exists>rc c'. stream_closed E i code c = (Ok rc, c') \<and> c_session c' = Some (snd (give_back E i s c)) \<and>
    c_bodies c' = (c_bodies c)(i := None) \<and>
    c_queued_body_size c' =
      (case c_bodies c i of None \<Rightarrow> c_queued_body_size c | Some b \<Rightarrow> c_queued_body_size c - queued_size b) \<and>
    c_data_payload c' = (if c_data_stream_id c = i then None else c_data_payload c) \<and>
    c_data_size c' = (if c_data_stream_id c = i then 0 else c_data_size c) \<and>
    c_data_stream_id c' = c_data_stream_id c \<and> c_unconsumed c' = c_unconsumed c \<and>
    lifecycle c' = lifecycle c \<and>
    (case fst (give_back E i s c) of
       RcOk n \<Rightarrow> rc = RcOk 0 \<and>
         c_responses c' = c_responses c - {i} \<and> c_deferred_resets c' = (c_deferred_resets c)(i := None) \<and>
         c_local_stream_errors c' = (c_local_stream_errors c)(i := None) \<and>
         c_events c' = c_events c @ [StreamClosed i (error_value code) (c_local_stream_errors c i)] \<and>
         c_callback_error c' = c_callback_error c
     | RcErr e \<Rightarrow> rc = RcErr ERR_CALLBACK_FAILURE \<and> c_callback_error c' = Some (nghttp2_error e) \<and>
         c_responses c' = c_responses c \<and> c_deferred_resets c' = c_deferred_resets c \<and>
         c_local_stream_errors c' = c_local_stream_errors c \<and> c_events c' = c_events c)"
proof (cases "c_bodies c i")
  case None
  then have "(c_bodies c)(i := None) = c_bodies c" by (simp add: fun_upd_idem)
  with None assms show ?thesis
    by (cases "eng_session_consume_connection E (c_data_size c) s")
      (auto simp: stream_closed_def discard_data_payload_def publish_def give_back_def stream_closed_event_def
        lifecycle_def monad_run guard_run split: status.split)
next
  case (Some b)
  with assms show ?thesis
    by (cases "eng_session_consume_connection E (c_data_size c) s")
      (auto simp: stream_closed_def discard_data_payload_def publish_def give_back_def stream_closed_event_def
        lifecycle_def monad_run guard_run split: status.split)
qed

theorem stream_closed_releases_witness:
  "\<exists>rc c'. stream_closed demo 1 8 ((session_after demo demo_session)\<lparr>c_auto_window_update := False,
      c_data_payload := Some [Some 1, None], c_data_size := 1, c_data_stream_id := 1\<rparr>) = (Ok rc, c') \<and>
    rc = RcOk 0 \<and> c_bodies c' = Map.empty \<and> c_queued_body_size c' = 0 \<and> c_data_payload c' = None"
proof -
  let ?c = "(session_after demo demo_session)\<lparr>c_auto_window_update := False,
      c_data_payload := Some [Some 1, None], c_data_size := 1, c_data_stream_id := 1\<rparr>"
  let ?s = "\<lparr>dm_next = 3, dm_out = [4, 1], dm_streams = [1], dm_open = True\<rparr>"
  have "c_bodies ?c = [1 \<mapsto> \<lparr>chunks = [Some [7, 8, 9]], head = 0, offset = 0, queued_size = 3,
      ended = True, deferred = False, trailers = None\<rparr>]" "c_queued_body_size ?c = 3" "c_session ?c = Some ?s"
    "give_back demo 1 ?s ?c = (RcOk 0, \<lparr>dm_next = 3, dm_out = [4, 1, 8], dm_streams = [1], dm_open = True\<rparr>)"
    by (simp_all add: session_after_demo new_conn_def give_back_def demo_queue_def)
  then show ?thesis
    using stream_closed_releases [of ?c ?s demo 1 8] by fastforce
qed

section \<open>Receive flow control\<close>

text \<open>
  C19. With manual flow control an application can spend exactly the credit its streams earned: a
  positive amount within the credit of the stream is passed to the engine and taken off, no other
  stream's credit changes, and a larger amount is refused without any effect.
\<close>

theorem consume_spends_credit:
  assumes "c_active c" "\<not> c_failed c" "\<not> c_terminating c" "\<not> c_auto_window_update c"
    and "1 \<le> i" "i \<le> 0x7FFFFFFF" and "1 \<le> n" "n \<le> 2 ^ 63 - 1"
    and "c_session c = Some s" and "eng_session_consume E i n s = (RcOk m, s')"
  shows "\<exists>r c'. consume_received_data E (PyInt i) (PyInt n) c = (r, c') \<and>
    (if n \<le> credit i c
     then r = Ok () \<and> c_session c' = Some s' \<and> credit i c' = credit i c - n \<and>
       (\<forall>j. j \<noteq> i \<longrightarrow> credit j c' = credit j c)
     else r = Raise ValueError \<and> c' = c)"
  using assms by (auto simp: consume_received_data_def credit_def monad_run guard_run conversion_run
      Let_def split: option.split)

theorem consume_spends_credit_witness:
  "\<exists>c'. consume_received_data demo (PyInt 1) (PyInt 4)
      ((session_after demo demo_session)\<lparr>c_auto_window_update := False, c_unconsumed := [1 \<mapsto> 10]\<rparr>) = (Ok (), c') \<and>
    credit 1 c' = 6"
proof -
  let ?c = "(session_after demo demo_session)\<lparr>c_auto_window_update := False, c_unconsumed := [1 \<mapsto> 10]\<rparr>"
  have "c_active ?c" "\<not> c_failed ?c" "\<not> c_terminating ?c" "\<not> c_auto_window_update ?c" "credit 1 ?c = 10"
    "c_session ?c = Some \<lparr>dm_next = 3, dm_out = [4, 1], dm_streams = [1], dm_open = True\<rparr>"
    by (simp_all add: session_after_demo new_conn_def credit_def)
  then show ?thesis
    using consume_spends_credit [of ?c 1 4 "\<lparr>dm_next = 3, dm_out = [4, 1], dm_streams = [1], dm_open = True\<rparr>"
        demo 0 "\<lparr>dm_next = 3, dm_out = [4, 1, 8], dm_streams = [1], dm_open = True\<rparr>"]
    by (auto simp: demo_queue_def)
qed

section \<open>SETTINGS\<close>

lemma setting_key_of_inj: "inj setting_key_of"
  by (rule injI) (metis setting_key_value_of)

lemma map_of_rev_distinct: "distinct (map fst xs) \<Longrightarrow> map_of (rev xs) = map_of xs"
  using map_of_inject_set [of "rev xs" xs] by (simp flip: rev_map)

lemma map_of_map_key: "inj f \<Longrightarrow> map_of (map (\<lambda>(k, v). (f k, v)) xs) (f k) = map_of xs k"
  by (induction xs) (auto dest: injD)

text \<open>
  A SETTINGS frame is reported as one dictionary: every identifier appears once, under its
  \<open>Setting\<close> member when it is known, with the last value the frame gives it.
\<close>

lemma settings_reported:
  assumes "hd_type frame = FT_SETTINGS" and "\<not> hd_ack frame"
  shows "\<exists>d c'. frame_received E frame c = (Ok (RcOk 0), c') \<and>
    c_events c' = c_events c @ [SettingsReceived d] \<and> distinct (map fst d) \<and>
    (\<forall>k. map_of d (setting_key_of k) = map_of (rev (settings_iv frame)) k)"
proof -
  let ?given = "dict_of (settings_iv frame)"
  let ?d = "dict_of (map (\<lambda>(key, value). (setting_key_of key, value)) ?given)"
  have "map_of ?d (setting_key_of k) = map_of (rev (settings_iv frame)) k" for k
  proof -
    have "map_of ?d (setting_key_of k) = map_of (map (\<lambda>(key, value). (setting_key_of key, value)) (rev ?given))
        (setting_key_of k)" by (simp add: map_of_dict_of rev_map)
    also have "\<dots> = map_of (rev ?given) k" by (rule map_of_map_key [OF setting_key_of_inj])
    also have "\<dots> = map_of ?given k" by (simp add: map_of_rev_distinct distinct_dict_of)
    finally show ?thesis by (simp add: map_of_dict_of)
  qed
  then show ?thesis
    using assms distinct_dict_of by (fastforce simp: frame_received_def dispatch_frame_def
        settings_received_def settings_received_event_def publish_def monad_run)
qed

lemma settings_reported_witness:
  "\<exists>d c'. frame_received demo ((blank_frame FT_SETTINGS 0 False)\<lparr>settings_iv := [(4, 1), (77, 2), (4, 3)]\<rparr>)
      (session_after demo demo_session) = (Ok (RcOk 0), c') \<and>
    c_events c' = [SettingsReceived d] \<and> map_of d (KnownSetting INITIAL_WINDOW_SIZE) = Some 3"
proof -
  have "setting_key_of 4 = KnownSetting INITIAL_WINDOW_SIZE"
    using map_of_SETTINGS [of 4 INITIAL_WINDOW_SIZE] by (simp add: setting_key_of_def)
  moreover have "c_events (session_after demo demo_session) = []"
    by (simp add: session_after_demo new_conn_def)
  ultimately show ?thesis
    using settings_reported [of "(blank_frame FT_SETTINGS 0 False)\<lparr>settings_iv := [(4, 1), (77, 2), (4, 3)]\<rparr>"
        demo "session_after demo demo_session"]
    by (auto simp: blank_frame_def dest: spec [of _ 4])
qed

section \<open>Errors of callbacks and of the engine\<close>

text \<open>
  How a library call ends, read off its interaction with the callbacks: the exception that the first
  callback with a problem holds back, or the engine's own result when no callback has one.
\<close>

primrec verdict :: "'s engine \<Rightarrow> 's run \<Rightarrow> 's conn \<Rightarrow> exc + status" where
  "verdict E (Return rc s) = (\<lambda>c. Inr rc)"
| "verdict E (Invoke q s k) = (\<lambda>c.
     case handle E q (c\<lparr>c_session := Some s\<rparr>) of
       (Ok ans, c') \<Rightarrow> (case (c_callback_error c', c_session c') of
           (Some e, _) \<Rightarrow> Inl e
         | (None, Some s') \<Rightarrow> verdict E (k ans s') c'
         | (None, None) \<Rightarrow> Inr (RcErr ERR_CALLBACK_FAILURE))
     | (_, c') \<Rightarrow> Inr (RcErr ERR_CALLBACK_FAILURE))"

definition ends_with :: "'s engine \<Rightarrow> bool \<Rightarrow> int \<Rightarrow> exc + status \<Rightarrow> status \<Rightarrow> 's conn \<Rightarrow> bool" where
  "ends_with E seen L v rc c' \<longleftrightarrow>
     (case v of
        Inl e \<Rightarrow> rc = RcErr ERR_CALLBACK_FAILURE \<and> broken seen c' \<and> c_callback_error c' = Some e
      | Inr result \<Rightarrow> rc = result \<and> running E seen L c')"

text \<open>A callback that holds back an exception is the last one, and the call returns at once.\<close>

lemma run_verdict:
  assumes "running E seen L c" and "c_session c = Some s" and "run_ok E r (next_id E s)"
  shows "wp (run_engine E r) (ends_with E seen L (verdict E r c)) (\<lambda>_ _. False) c"
  using assms
proof (induction r arbitrary: c s)
  case (Return rc s')
  then show ?case by (auto simp: wp_def ends_with_def intro: running_session)
next
  case (Invoke q s1 k)
  let ?c = "c\<lparr>c_session := Some s1\<rparr>"
  have c: "running E seen L ?c" "c_session ?c = Some s1" and ok: "call_ok q"
    using Invoke.prems by (auto intro: running_session)
  obtain ans c' s' where h: "handle E q ?c = (Ok ans, c')"
    and s': "c_session c' = Some s'" "next_id E s1 \<le> next_id E s'"
    and c': "if ans_rc ans = RcErr ERR_CALLBACK_FAILURE then broken seen c' else running E seen L c'"
    using callbacks.callback [OF c ok] by (auto simp: wp_def split: prod.splits outcome.splits)
  have rest: "if ans_rc ans = RcErr ERR_CALLBACK_FAILURE
      then \<exists>s''. k ans s' = Return (RcErr ERR_CALLBACK_FAILURE) s'' \<and> next_id E s' \<le> next_id E s''
      else run_ok E (k ans s') (next_id E s')"
    using Invoke.prems(3) s'(2) by simp
  show ?case
  proof (cases "ans_rc ans = RcErr ERR_CALLBACK_FAILURE")
    case True
    with c' obtain e where e: "broken seen c'" "c_callback_error c' = Some e" by (auto simp: broken_def)
    from True rest obtain s'' where "k ans s' = Return (RcErr ERR_CALLBACK_FAILURE) s''" by auto
    with h s' e show ?thesis
      by (auto simp: wp_def ends_with_def intro: broken_session)
  next
    case False
    then have "wp (run_engine E (k ans s')) (ends_with E seen L (verdict E (k ans s') c')) (\<lambda>_ _. False) c'"
      using c' s' rest by (intro Invoke.IH) auto
    moreover have "c_callback_error c' = None" using False c' runningD(10) by auto
    ultimately show ?thesis
      using h s' by (auto simp: wp_def split: prod.splits outcome.splits)
  qed
qed

lemma native_run_verdict:
  assumes c: "running E seen L c" and s: "c_session c = Some s" and f: "runs_ok E f"
  shows "wp (native_run E f)
    (\<lambda>rc c'. lifecycle c' = lifecycle c \<and> ends_with E seen L (verdict E (f s) c) rc c') (\<lambda>_ _. False) c"
proof -
  have "wp (native_run E f) (ends_with E seen L (verdict E (f s) c)) (\<lambda>_ _. False) c"
    using run_verdict [OF c s, of "f s"] s f by (simp add: native_run_def runs_ok_def wp_def)
  from wp_preserves [OF preserves_lifecycle [OF preserves_native_run] this] show ?thesis
    by (rule wp_mono) auto
qed

text \<open>What \<open>receive_data\<close> makes of such an end, \<open>n\<close> being the number of bytes it passed.\<close>

definition surfaces :: "'s engine \<Rightarrow> nat \<Rightarrow> exc + status \<Rightarrow> (exc, unit) outcome \<Rightarrow> 's conn \<Rightarrow> bool" where
  "surfaces E n v r c' \<longleftrightarrow>
     (case v of
        Inl e \<Rightarrow> r = Raise e \<and> c_failed c'
      | Inr (RcErr code) \<Rightarrow> r = Raise (nghttp2_error code) \<and> (c_failed c' \<longleftrightarrow> eng_is_fatal E code)
      | Inr (RcOk m) \<Rightarrow> if m = n then r = Ok () \<and> \<not> c_failed c' else r = Raise InternalError \<and> c_failed c') \<and>
     (if c_failed c' then released c' \<and> \<not> c_active c' else c_active c' \<and> c_session c' \<noteq> None)"

lemma wp_outcome:
  "wp m (\<lambda>x. P (Ok x)) (\<lambda>e. P (Raise e)) w \<Longrightarrow> \<exists>r w'. m w = (r, w') \<and> P r w'"
  by (auto simp: wp_def split: prod.splits outcome.splits)

lemma failed_released: "conn_inv E seen (fail_conn c) \<Longrightarrow>
   c_failed (fail_conn c) \<and> released (fail_conn c) \<and> \<not> c_active (fail_conn c)"
  by (auto simp: conn_inv_def core_inv_def fail_conn_def)

lemma wp_terminal_active:
  "c_session c \<noteq> None \<Longrightarrow> wp (update_terminal_state E) (\<lambda>_ c'. c_active c' = c_active c) (\<lambda>_ _. True) c"
  by (auto simp: update_terminal_state_def wp_simps discard_pending_state_def)

text \<open>
  C31. How \<open>receive_data\<close> ends, whatever the engine does with the input: the exception of the first
  callback that had to hold one back is raised now, and the connection has failed; an error of the
  engine itself is translated and fails the connection only when it is fatal; a call that did not take
  all input is an internal error and fails it; and otherwise it returns. A connection that has failed
  holds nothing any more; one that has not stays active with its session.
\<close>

theorem receive_data_result:
  assumes "engine_ok E" and "reachable E c" and "c_active c" "\<not> c_terminating c"
    and "c_session c = Some s"
  shows "\<exists>r c'. receive_data E (PyBytes exact bs) c = (r, c') \<and>
    surfaces E (length bs) (verdict E (eng_session_mem_recv E bs s) c) r c'"
proof -
  let ?v = "verdict E (eng_session_mem_recv E bs s) c"
  let ?Q = "\<lambda>u. surfaces E (length bs) ?v (Ok u)" and ?R = "\<lambda>e. surfaces E (length bs) ?v (Raise e)"
  have c: "running E False 0 c"
    using active_running [OF assms(1) reachable_inv [OF assms(2,1)] assms(3)] by blast
  have same: "c\<lparr>c_callback_error := None\<rparr> = c" using runningD(10) [OF c] by simp
  have drop: "c_failed (fail_conn c') \<and> released (fail_conn c') \<and> \<not> c_active (fail_conn c')"
    if "running E False 0 c' \<or> broken False c'" for c' :: "'a conn"
    using that by (auto intro!: failed_released dest: running_fail broken_fail)
  have alive: "\<not> c_failed c' \<and> c_session c' \<noteq> None" if "running E False 0 c'" for c' :: "'a conn"
    using runningD(13) [OF that] conn_inv_session [OF running_conn_inv [OF that]] by auto
  have last: "wp (bindM (getsM c_closing) (\<lambda>closing. whenM closing (update_terminal_state E))) ?Q ?R c'"
    if c': "running E False 0 c'" "c_active c'" and v: "?v = Inr (RcOk (length bs))" for c' :: "'a conn"
  proof -
    have fine: "?Q u c''" if "running E False 0 c''" "c_active c''" for u c''
      using alive [OF that(1)] that(2) by (simp add: surfaces_def v)
    have "wp (update_terminal_state E) (\<lambda>_ c''. running E False 0 c'' \<and> c_active c'' = c_active c') (\<lambda>_ _. False) c'"
      if "c_closing c'"
      using wp_conj [OF running_terminal [OF c'(1) that] wp_terminal_active [OF conjunct2 [OF alive [OF c'(1)]]]]
      by simp
    then show ?thesis
      using c' by (auto simp: wp_bindM wp_getsM wp_whenM intro: fine elim!: wp_mono)
  qed
  have finish: "wp (thenM (raise_callback_or_native E rc)
      (thenM (if rc \<noteq> RcOk (length bs) then thenM (modifyM fail_conn) (raiseM InternalError) else returnM ())
        (bindM (getsM c_closing) (\<lambda>closing. whenM closing (update_terminal_state E))))) ?Q ?R c'"
    if "lifecycle c' = lifecycle c \<and> ends_with E False 0 ?v rc c'" for rc and c' :: "'a conn"
  proof (cases ?v)
    case (Inl e)
    then show ?thesis
      using that drop [of c'] by (auto simp: ends_with_def wp_simps surfaces_def)
  next
    case (Inr result)
    then have c': "running E False 0 c'" "rc = result" "c_active c'"
      using that assms(3) by (auto simp: ends_with_def lifecycle_def)
    then show ?thesis
      using Inr drop [of c'] alive [OF c'(1)] runningD(10) [OF c'(1)] last [OF c'(1,3)]
      by (cases result) (auto simp: wp_thenM wp_raise_callback_or_native wp_modifyM wp_raiseM wp_returnM surfaces_def)
  qed
  have ready: "\<not> c_failed c \<and> c_active c \<and> \<not> c_terminating c" using alive [OF c] assms(3,4) by simp
  have "wp (receive_data E (PyBytes exact bs)) ?Q ?R c"
    unfolding receive_data_def get_buffer.simps wp_bindM [of "returnM _"] wp_returnM
      wp_thenM [of require_active] wp_require_active wp_thenM [of "modifyM _"] wp_modifyM same
      wp_bindM [of "native_run _ _"] if_P [OF ready]
    by (rule wp_mono [OF native_run_verdict [OF c assms(5) engine_ok_recv [OF assms(1)]]])
      (erule finish, erule FalseE)
  then show ?thesis by (rule wp_outcome [where P = "\<lambda>r. surfaces E (length bs) ?v r"])
qed

text \<open>A DATA frame arrives for which no buffer can be allocated.\<close>

theorem receive_data_result_witness:
  "\<exists>c'. receive_data small_demo (PyBytes True (replicate 200 0)) (session_after small_demo demo_start) =
     (Raise MemoryError, c') \<and> c_failed c' \<and> released c'"
proof -
  let ?c = "session_after small_demo demo_start" and ?s = "\<lparr>dm_next = 1, dm_out = [4], dm_streams = [], dm_open = True\<rparr>"
  have "c_active ?c" "\<not> c_terminating ?c" "c_session ?c = Some ?s"
    and v: "verdict small_demo (eng_session_mem_recv small_demo (replicate 200 0) ?s) ?c = Inl MemoryError"
    by (simp_all add: session_after_def demo_start_def small_demo_def run_simps)
  from receive_data_result [OF engine_ok_small_demo reachable_demo_start this(1-3), of True "replicate 200 0"]
  show ?thesis unfolding v by (auto simp: surfaces_def split: if_splits)
qed

end
