(* ===== verification/Argument_Spec.thy ===== *)
theory Argument_Spec
  imports Runs
begin

text \<open>
  What becomes of the arguments an application passes and of the codes the engine returns: the
  integer conversions, header lists and SETTINGS of \<^verbatim>\<open>src/ngh2/_core.pyx\<close>, the error values of
  \<^verbatim>\<open>src/ngh2/events.pyx\<close>, and the exceptions that stand for engine errors.
\<close>

section \<open>Integers\<close>

text \<open>
  C29. Every integer conversion is exact: although the code converts to a C integer first and tests
  the overflow separately, it accepts the integers of its range and no others, on every object that
  can be used as an index, and raises \<open>ValueError\<close> outside the range.
\<close>

theorem conversions_exact:
  "conv_stream_id v = checked_index 1 (2 ^ 31 - 1) v \<and>
   conv_uint31 v = checked_index 0 (2 ^ 31 - 1) v \<and>
   conv_uint32 v = checked_index 0 (2 ^ 32 - 1) v \<and>
   conv_uint64 v = checked_index 0 (2 ^ 64 - 1) v \<and>
   conv_size v = checked_index 0 (2 ^ 64 - 1) v \<and>
   conv_positive_size v = checked_index 1 (2 ^ 64 - 1) v \<and>
   conv_nonnegative_size v = checked_index 0 (2 ^ 63 - 1) v"
  by (simp add: conv_stream_id.conv_exact conv_uint31.conv_exact conv_uint32.conv_exact
      conv_uint64.conv_exact conv_size.conv_exact conv_positive_size.conv_exact
      conv_nonnegative_size.conv_exact)

section \<open>Error codes\<close>

text \<open>
  Error codes pass through events without loss: the table built at import has every member at its
  wire value, a known code is reported as its member, and the code can be read back from the
  reported value of any wire value.
\<close>

lemma error_values_lossless:
  "import_ERROR_CODES = Inr all_error_codes \<and> error_value (wire_code m) = KnownCode m \<and>
   error_value_code (error_value (uint (w :: 32 word))) = uint w"
  by (simp add: import_ERROR_CODES_ok error_value_wire_code error_value_roundtrip)

text \<open>
  Every error code of the engine is raised as an exception of the package, except for
  \<open>MemoryError\<close> when memory ran out and \<open>ValueError\<close> for an invalid argument; the error stored for a
  frame that could not be sent is always one of the package.
\<close>

lemma engine_errors_raised:
  "(nghttp2_error code = MemoryError \<longleftrightarrow> code = ERR_NOMEM) \<and>
   (nghttp2_error code = ValueError \<longleftrightarrow> code = ERR_INVALID_ARGUMENT \<or> code = ERR_TOO_MANY_SETTINGS) \<and>
   (isinstance (nghttp2_error code) NGH2Error \<or> nghttp2_error code = MemoryError \<or>
      nghttp2_error code = ValueError) \<and>
   isinstance (frame_not_sent_error code) NGH2Error"
  using nghttp2_error_cases [of code] frame_not_sent_error_is_ngh2 [of code]
  by (auto simp: nghttp2_error_def split: if_splits)

section \<open>Header lists\<close>

text \<open>
  A field as an application may write it: an object of its own class that yields name and value, or a
  tuple or \<open>NeverIndexedHeader\<close>, with exact or derived \<open>bytes\<close>.
\<close>

fun marked_secret :: "header \<Rightarrow> bool" where
  "marked_secret (PlainHeader n v) = False"
| "marked_secret (NeverIndexedHeader n v) = True"

fun written :: "(bool \<times> bool \<times> bool) \<times> header \<Rightarrow> 'w pyobj" where
  "written ((own, x, y), h) =
     (let name = PyBytes x (header_name h); val = PyBytes y (header_value h) in
      if own then PyIterable (marked_secret h) [(returnM (), name), (returnM (), val)]
      else if marked_secret h then PyNeverIndexed name val else PyTuple [name, val])"

text \<open>The same fields from a generator.\<close>

definition generated :: "'w pyobj list \<Rightarrow> 'w pyobj" where
  "generated items = PyIterable False (map (\<lambda>x. (returnM (), x)) items)"

lemma header_pair_iterable: "header_pair (PyIterable b [(returnM (), x), (returnM (), y)]) = returnM (x, y)"
  by (simp add: header_pair_def unpack_pair_def)

lemma make_header_written: "make_header (written p) = returnM (header_nv (snd p))"
proof (cases p)
  case (Pair f h)
  then show ?thesis
    by (cases f; cases h) (auto simp: make_header_def header_pair_iterable Let_def)
qed

lemma normalize_written: "\<exists>q. normalize_item False (written p) = returnM (written q) \<and> snd q = snd p"
proof -
  obtain own x y h where p: "p = ((own, x, y), h)" by (cases p) auto
  show ?thesis
    by (rule exI [of _ "((False, x, y), h)"], cases h)
      (auto simp: p normalize_item_def header_pair_iterable Let_def)
qed

lemma freeze_written: "normalize_item True (written p) = returnM (thaw_header (snd p))"
proof -
  obtain own x y h where p: "p = ((own, x, y), h)" by (cases p) auto
  show ?thesis
    by (cases h) (auto simp: p normalize_item_def header_pair_iterable Let_def)
qed

lemma mapM_make_header_written: "mapM make_header (map written ps) = returnM (map (header_nv \<circ> snd) ps)"
  by (induction ps) (simp_all add: make_header_written del: written.simps)

lemma mapM_freeze_written:
  "mapM (normalize_item True) (map written ps) = returnM (map (thaw_header \<circ> snd) ps)"
  by (induction ps) (simp_all add: freeze_written del: written.simps)

lemma mapM_normalize_written:
  "\<exists>qs. mapM (normalize_item False) (map written ps :: 'w pyobj list) = returnM (map written qs) \<and>
     map snd qs = map snd ps"
proof (induction ps)
  case Nil
  then show ?case by simp
next
  case (Cons p ps)
  then obtain qs where qs:
    "mapM (normalize_item False) (map written ps :: 'w pyobj list) = returnM (map written qs)"
    "map snd qs = map snd ps" by blast
  obtain q where "normalize_item False (written p :: 'w pyobj) = returnM (written q)" "snd q = snd p"
    using normalize_written by blast
  with qs show ?case
    by (intro exI [of _ "q # qs"]) (simp del: written.simps)
qed

lemma make_headers_written:
  "make_headers alloc (map written ps) w =
     (if alloc w ((if ps \<noteq> [] then length ps else 1) * NV_SIZE)
      then (Ok (map (header_nv \<circ> snd) ps), w) else (Raise MemoryError, w))"
  unfolding make_headers_def mapM_make_header_written by (auto simp: monad_run)

lemma iterate_plain: "iterate_hooked (map (\<lambda>x. (returnM (), x)) xs) body = mapM body xs"
  by (induction xs) simp_all

text \<open>
  C28. It makes no difference how header fields are passed: a list, a tuple or a generator of fields, each
  a tuple, a \<open>NeverIndexedHeader\<close> or an object of another class, with exact or derived \<open>bytes\<close>, becomes
  the same C array, which marks exactly the never-indexed fields; trailers, which are kept until they
  are sent, are frozen to the same fields.
\<close>

theorem header_forms_equivalent:
  fixes c :: "'s conn"
  shows "native_headers E (PyList (map written ps)) c =
     (if alloc_ok E c ((if ps \<noteq> [] then length ps else 1) * NV_SIZE)
      then (Ok (map (header_nv \<circ> snd) ps), c) else (Raise MemoryError, c)) \<and>
   native_headers E (PyTuple (map written ps)) = native_headers E (PyList (map written ps)) \<and>
   native_headers E (generated (map written ps)) = native_headers E (PyList (map written ps)) \<and>
   normalize_headers (PyList (map written ps)) True = returnM (map thaw_header (map snd ps)) \<and>
   normalize_headers (PyTuple (map written ps)) True = returnM (map thaw_header (map snd ps)) \<and>
   normalize_headers (generated (map written ps)) True = returnM (map thaw_header (map snd ps))"
proof -
  have list: "native_headers E (PyList (map written ps)) c =
     (if alloc_ok E c ((if ps \<noteq> [] then length ps else 1) * NV_SIZE)
      then (Ok (map (header_nv \<circ> snd) ps), c) else (Raise MemoryError, c))" for c :: "'s conn" and ps
    by (simp add: native_headers_def normalize_headers_def make_headers_written)
  obtain qs where qs:
    "mapM (normalize_item False) (map written ps :: 's conn pyobj list) = returnM (map written qs)"
    "map snd qs = map snd ps" using mapM_normalize_written by blast
  have "native_headers E (generated (map written ps)) = native_headers E (PyList (map written qs))"
    by (simp add: native_headers_def normalize_headers_def generated_def iterate_plain qs(1)
        del: map_map)
  also have "\<dots> = native_headers E (PyList (map written ps))"
    using qs(2) map_eq_imp_length_eq [OF qs(2)] by (auto simp: list fun_eq_iff simp flip: map_map)
  finally have generator: "native_headers E (generated (map written ps)) =
    native_headers E (PyList (map written ps :: 's conn pyobj list))" .
  have tuple: "native_headers E (PyTuple (map written ps)) =
    native_headers E (PyList (map written ps :: 's conn pyobj list))"
    by (simp add: native_headers_def normalize_headers_def)
  have "normalize_headers (PyList (map written ps)) True = returnM (map thaw_header (map snd ps))"
    and "normalize_headers (PyTuple (map written ps)) True = returnM (map thaw_header (map snd ps))"
    and "normalize_headers (generated (map written ps)) True = returnM (map thaw_header (map snd ps))"
    by (simp_all add: normalize_headers_def generated_def iterate_plain mapM_freeze_written del: map_map)
      (simp_all add: comp_def)
  with list generator tuple show ?thesis by blast
qed

end
