(* ===== verification/Session_Spec.thy ===== *)
theory Session_Spec
  imports Runs
begin

text \<open>
  How a connection starts and how the application ends it, and what it can ask about its bodies
  (\<open>initiate_connection\<close>, \<open>initiate_upgrade\<close>, \<open>terminate_connection\<close>, \<open>queued_body_size\<close> and \<open>events\<close>
  of \<^verbatim>\<open>src/ngh2/_core.pyx\<close>).
\<close>

section \<open>Starting\<close>

text \<open>A SETTINGS argument with plain integers.\<close>

definition settings_argument :: "(int \<times> int) list \<Rightarrow> 'w pyobj" where
  "settings_argument entries = PyMapping (map (\<lambda>(k, v). (returnM (), PyInt k, PyInt v)) entries)"

lemma normalize_plain_settings:
  "normalize_settings (settings_argument entries) =
     (if list_all settings_ok entries then returnM entries else raiseM ValueError)"
proof -
  have "iterate_hooked (map (\<lambda>(k, v). (returnM (), PyInt k, PyInt v)) entries) normalize_setting =
      (if list_all settings_ok entries then returnM entries else raiseM ValueError)"
    by (induction entries) (auto simp: normalize_setting_def settings_ok_def)
  then show ?thesis
    by (simp add: normalize_settings_def settings_argument_def)
qed

lemma normalize_no_settings: "normalize_settings PyNone = returnM []"
  by (simp add: normalize_settings_def)

text \<open>
  C25. \<open>initiate_connection\<close> on a constructed connection accepts exactly the SETTINGS whose identifiers
  and values fit the wire format and whose number is within the configured limit; it submits them in
  order and makes the connection active, or it raises and leaves the connection startable again,
  unless the engine's error is fatal.
\<close>

theorem initiate_connection_result:
  assumes "c_initialized c" "\<not> c_failed c" "\<not> c_active c" and "c_session c = Some s"
    and "alloc_ok E c (length entries * SETTINGS_ENTRY_SIZE)" and "eng_submit_settings E entries s = (rc, s')"
  shows "initiate_connection E (settings_argument entries) c =
    (if \<not> list_all settings_ok entries \<or> int (length entries) > c_max_settings c
     then (Raise ValueError, c)
     else case rc of
       RcOk n \<Rightarrow> (Ok (), c\<lparr>c_session := Some s', c_active := True,
         c_local_extensible_priority := (9, 1) \<in> set entries\<rparr>)
     | RcErr e \<Rightarrow> (Raise (nghttp2_error e),
         if eng_is_fatal E e then fail_conn (c\<lparr>c_session := Some s'\<rparr>) else c\<lparr>c_session := Some s'\<rparr>))"
  using assms
  by (auto simp: initiate_connection_def normalize_plain_settings native_settings_def make_settings_def
      extensible_priority_def require_created_def native_call_def check_native_def raise_native_error_def
      monad_run split: status.split)

text \<open>A client that was constructed and not started.\<close>

definition demo_created :: "demo conn" where
  "demo_created = session_after demo [Init (Some CLIENT) NoConfig]"

lemma demo_created_state:
  "c_initialized demo_created" "\<not> c_failed demo_created" "\<not> c_active demo_created"
  "c_session demo_created = Some \<lparr>dm_next = 1, dm_out = [], dm_streams = [], dm_open = True\<rparr>"
  "c_max_settings demo_created = 32"
  by (simp_all add: demo_created_def session_after_def run_simps)

lemma reachable_demo_created: "reachable demo demo_created"
  unfolding demo_created_def
  by (rule reachable_after [OF engine_ok_demo]) (simp add: application_request_def)

theorem initiate_connection_result_witness:
  "\<exists>c'. initiate_connection demo (settings_argument [(3, 100), (9, 1)]) demo_created = (Ok (), c') \<and>
     c_active c' \<and> c_local_extensible_priority c' \<and>
   initiate_connection demo (settings_argument [(3, 2 ^ 32)]) demo_created = (Raise ValueError, demo_created)"
proof -
  let ?s = "\<lparr>dm_next = 1, dm_out = [4], dm_streams = [], dm_open = True\<rparr>"
  have "eng_submit_settings demo entries \<lparr>dm_next = 1, dm_out = [], dm_streams = [], dm_open = True\<rparr> =
      (RcOk 0, ?s)" for entries
    by (simp add: demo_queue_def)
  from initiate_connection_result [OF demo_created_state(1-4) _ this, of "[(3, 100), (9, 1)]"]
    initiate_connection_result [OF demo_created_state(1-4) _ this, of "[(3, 2 ^ 32)]"]
  show ?thesis
    by (simp add: alloc_ok_def SETTINGS_ENTRY_SIZE_def demo_created_state settings_ok_def)
qed

lemma fail_conn_inactive [simp]: "\<not> c_active (fail_conn c)" "c_failed (fail_conn c)"
  by (simp_all add: fail_conn_def)

text \<open>Once the upgrade has been given to the engine.\<close>

lemma wp_upgrade_run:
  assumes c: "running E False 0 c" and inactive: "\<not> c_active c" and f: "runs_ok E f"
  shows "wp (bindM (native_run E f) (\<lambda>result. thenM (raise_callback_or_native E result)
      (thenM (if server then upgrade_settings E entries native else returnM ())
        (modifyM (\<lambda>c. c\<lparr>c_active := True\<rparr>)))))
    (\<lambda>_ c'. c_active c' \<and> \<not> c_failed c') (\<lambda>_ c'. \<not> c_active c') c"
proof -
  obtain s where s: "c_session c = Some s" using runningD(13) [OF c] by auto
  have failed: "\<not> c_failed c" using c s by (auto simp: running_def core_inv_def base_inv_def flags_ok_def)
  define rest where "rest = thenM (if server then upgrade_settings E entries native else returnM ())
    (modifyM (\<lambda>c. c\<lparr>c_active := True\<rparr>))"
  have tail: "wp rest (\<lambda>_ c'. c_active c' \<and> \<not> c_failed c') (\<lambda>_ c'. \<not> c_active c') c'"
    if "lifecycle c' = lifecycle c" "c_session c' = Some s'" for c' s'
    using that failed by (auto simp: rest_def upgrade_settings_def wp_simps lifecycle_def split: status.split)
  have active: "lifecycle c' = lifecycle c \<Longrightarrow> \<not> c_active c'" for c'
    using inactive by (simp add: lifecycle_def)
  show ?thesis
    unfolding rest_def [symmetric] wp_bindM wp_thenM [of "raise_callback_or_native _ _"] wp_raise_callback_or_native
    by (rule wp_mono [OF wp_preserves [OF preserves_lifecycle [OF preserves_native_run] callbacks.native_run_keeps [OF c s f]]])
      (auto split: status.splits option.splits intro: tail dest: active)
qed

text \<open>Everything \<open>initiate_upgrade\<close> does before that only looks at the connection.\<close>

lemma wp_upgrade_start:
  assumes raised: "\<And>e. R e c"
    and settings: "settings = PyNone \<or> settings = settings_argument given"
    and run: "\<And>server entries native. c_initialized c \<Longrightarrow> \<not> c_failed c \<Longrightarrow> \<not> c_active c \<Longrightarrow>
      wp (bindM (native_run E (eng_session_upgrade E payload head_req)) (\<lambda>result.
        thenM (raise_callback_or_native E result)
        (thenM (if server then upgrade_settings E entries native else returnM ())
          (modifyM (\<lambda>c. c\<lparr>c_active := True\<rparr>))))) Q R (c\<lparr>c_callback_error := None\<rparr>)"
  shows "wp (initiate_upgrade E (PyBytes exact payload) settings (PyBool head_req)) Q R c"
proof -
  have normalized: "wp (normalize_settings settings) Q' R c" if "\<And>entries. Q' entries c" for Q'
    using settings that raised
    by (auto simp: normalize_plain_settings normalize_no_settings wp_if wp_returnM wp_raiseM)
  have start: "wp (thenM require_created (bindM (getsM c_server) (\<lambda>server.
      bindM (if server then native_settings E entries else returnM []) (\<lambda>native.
      thenM (modifyM (\<lambda>c. c\<lparr>c_callback_error := None\<rparr>))
      (bindM (native_run E (eng_session_upgrade E payload head_req)) (\<lambda>result.
      thenM (raise_callback_or_native E result)
      (thenM (if server then upgrade_settings E entries native else returnM ())
        (modifyM (\<lambda>c. c\<lparr>c_active := True\<rparr>))))))))) Q R c" for entries
    using raised run [where server = True, unfolded if_True] run [where server = False, unfolded if_False]
    by (auto simp: wp_thenM [of require_created] wp_require_created wp_bindM [of "getsM _"] wp_getsM
        wp_bindM [of "native_settings _ _"] wp_thenM [of "modifyM _"] wp_modifyM intro!: native_settings_pure)
  show ?thesis
    unfolding initiate_upgrade_def
    by (auto simp: wp_bindM [of "getsM _"] wp_getsM wp_thenM [of "raise_if _ _"] wp_raise_if raised
        wp_bindM [of "normalize_settings _"] intro!: normalized start)
qed

text \<open>
  C24. \<open>initiate_upgrade\<close> starts a connection or leaves it unstarted: when it returns, the connection is
  active; when it raises, it is not. Nothing else can happen, whatever the engine and its callbacks do.
\<close>

theorem upgrade_all_or_nothing:
  assumes E: "engine_ok E" and c: "reachable E c" and inactive: "\<not> c_active c"
    and run: "initiate_upgrade E (PyBytes exact payload) settings (PyBool head_req) c = (r, c')"
    and settings: "settings = PyNone \<or> settings = settings_argument entries"
  shows "(r = Ok () \<and> c_active c' \<and> \<not> c_failed c') \<or> (\<exists>e. r = Raise e \<and> \<not> c_active c')"
proof -
  have inv: "conn_inv E False c" by (rule reachable_inv [OF c E])
  have "wp (initiate_upgrade E (PyBytes exact payload) settings (PyBool head_req))
      (\<lambda>_ c'. c_active c' \<and> \<not> c_failed c') (\<lambda>_ c'. \<not> c_active c') c"
  proof (rule wp_upgrade_start [OF _ settings])
    show "\<not> c_active c" by (rule inactive)
  next
    fix server entries native
    assume "c_initialized c" "\<not> c_failed c" "\<not> c_active c"
    then have "running E False 0 (c\<lparr>c_callback_error := None\<rparr>)"
      by (elim created_running [OF E inv]) (auto intro: running_reset_error)
    then show "wp (bindM (native_run E (eng_session_upgrade E payload head_req)) (\<lambda>result.
        thenM (raise_callback_or_native E result)
        (thenM (if server then upgrade_settings E entries native else returnM ())
          (modifyM (\<lambda>c. c\<lparr>c_active := True\<rparr>))))) (\<lambda>_ c'. c_active c' \<and> \<not> c_failed c')
        (\<lambda>_ c'. \<not> c_active c') (c\<lparr>c_callback_error := None\<rparr>)"
      using inactive by (intro wp_upgrade_run engine_ok_upgrade [OF E]) simp_all
  qed
  then show ?thesis
    using run by (auto simp: wp_def split: outcome.splits)
qed

theorem upgrade_all_or_nothing_witness:
  "\<exists>c'. initiate_upgrade demo (PyBytes True [0, 3, 0, 0, 0, 100]) PyNone (PyBool False) demo_created = (Ok (), c') \<and>
     c_active c'"
proof -
  obtain c' where run: "initiate_upgrade demo (PyBytes True [0, 3, 0, 0, 0, 100]) PyNone (PyBool False)
      demo_created = (Ok (), c')"
    by (simp add: demo_created_def session_after_def initiate_upgrade_def run_simps)
  from upgrade_all_or_nothing [OF engine_ok_demo reachable_demo_created demo_created_state(3) this] run
  show ?thesis by simp
qed

section \<open>Terminating\<close>

text \<open>
  \<open>terminate_connection\<close> drops what the streams still had to send and everything else that was
  pending, and from then on input, new work on streams and connection frames are refused with
  \<open>ConnectionStateError\<close> without any effect; only the remaining output can be driven.
\<close>

lemma termination_stops_streams:
  assumes "c_active c" "\<not> c_failed c" "\<not> c_terminating c" and "0 \<le> code" "code \<le> 0xFFFFFFFF"
    and "c_session c = Some s" and "eng_session_terminate_session E code s = (RcOk n, s')"
    and "1 \<le> i" "i \<le> 0x7FFFFFFF"
  shows "\<exists>c1. terminate_connection E (PyInt code) PyNone c = (Ok (), c1) \<and>
    c_active c1 \<and> c_closing c1 \<and> c_session c1 = Some s' \<and> c_events c1 = c_events c \<and>
    c_bodies c1 = Map.empty \<and> c_queued_body_size c1 = 0 \<and> c_deferred_resets c1 = Map.empty \<and>
    receive_data E (PyBytes True bs) c1 = (Raise ConnectionStateError, c1) \<and>
    send_data E (PyInt i) (PyBytes True bs) (PyBool ends) c1 = (Raise ConnectionStateError, c1) \<and>
    reset_stream E (PyInt i) (PyInt code) (PyBool ends) c1 = (Raise ConnectionStateError, c1) \<and>
    send_ping E v c1 = (Raise ConnectionStateError, c1) \<and>
    update_settings E PyNone c1 = (Raise ConnectionStateError, c1) \<and>
    terminate_connection E (PyInt code) PyNone c1 = (Raise ConnectionStateError, c1)"
  using assms
  by (simp add: terminate_connection_def optional_stream_id_def discard_pending_state_def
      receive_data_def send_data_def body_chunk_def reset_stream_def send_ping_def update_settings_def
      normalize_no_settings monad_run guard_run conversion_run)

lemma termination_stops_streams_witness:
  "\<exists>c1. terminate_connection demo (PyInt 2) PyNone (session_after demo demo_session) = (Ok (), c1) \<and>
    c_bodies c1 = Map.empty \<and> send_ping demo PyOpaque c1 = (Raise ConnectionStateError, c1)"
proof -
  let ?c = "session_after demo demo_session"
  have "c_active ?c" "\<not> c_failed ?c" "\<not> c_terminating ?c"
    "c_session ?c = Some \<lparr>dm_next = 3, dm_out = [4, 1], dm_streams = [1], dm_open = True\<rparr>"
    by (simp_all add: session_after_demo new_conn_def)
  from termination_stops_streams [OF this(1-3) _ _ this(4), where code = 2 and E = demo and n = 0 and i = 1
      and s' = "\<lparr>dm_next = 3, dm_out = [4, 1, 7], dm_streams = [1], dm_open = False\<rparr>" and v = PyOpaque]
  show ?thesis by auto
qed

section \<open>Queries\<close>

lemma total_queued_nat:
  assumes "bodies_ok bodies q"
  shows "q = of_nat (\<Sum>i\<in>dom bodies. length (body_contents (the (bodies i))))"
proof -
  have "q = (\<Sum>i\<in>dom bodies. of_nat (length (body_contents (the (bodies i)))))"
    using assms unfolding bodies_ok_def total_queued_def
    by (auto intro!: sum.cong simp: body_wf_queued)
  then show ?thesis by (simp add: of_nat_sum)
qed

text \<open>
  \<open>queued_body_size\<close> reports the bytes that are still to be sent: for a stream those of its body,
  none when it has no body, and for the connection their sum, as long as that fits a machine word.
\<close>

lemma queued_body_size_exact:
  assumes E: "engine_ok E" and c: "reachable E c"
    and amount: "amount = (\<Sum>i\<in>dom (c_bodies c). length (body_contents (the (c_bodies c i))))"
    and fits: "amount < 2 ^ 64" and i: "1 \<le> i" "i \<le> 0x7FFFFFFF"
  shows "queued_body_size_of PyNone c = (Ok (int amount), c) \<and>
    queued_body_size_of (PyInt i) c = (Ok (case c_bodies c i of
       None \<Rightarrow> 0 | Some b \<Rightarrow> int (length (body_contents b))), c)"
proof -
  have ok: "bodies_ok (c_bodies c) (c_queued_body_size c)"
    using reachable_inv [OF c E] by (simp add: conn_inv_def core_inv_def)
  have one: "uint (queued_size b) = int (length (body_contents b))" if b: "c_bodies c i = Some b" for b
  proof -
    have "length (body_contents (the (c_bodies c i))) \<le> amount"
      unfolding amount using b ok by (intro member_le_sum) (auto simp: bodies_ok_def)
    with b fits bodies_okD [OF ok b] show ?thesis
      by (simp add: body_wf_queued uint_nat unat_of_nat)
  qed
  have "uint (c_queued_body_size c) = int amount"
    using total_queued_nat [OF ok] fits by (simp add: amount [symmetric] uint_nat unat_of_nat)
  with one i show ?thesis
    by (simp add: queued_body_size_of_def monad_run conversion_run split: option.split)
qed

lemma queued_body_size_exact_witness:
  "queued_body_size_of PyNone (session_after demo demo_session) = (Ok 3, session_after demo demo_session)"
proof -
  let ?c = "session_after demo demo_session"
  have "(\<Sum>i\<in>dom (c_bodies ?c). length (body_contents (the (c_bodies ?c i)))) = 3"
    by (simp add: session_after_demo new_conn_def body_contents_def)
  with queued_body_size_exact [OF engine_ok_demo reachable_demo refl, of 1] show ?thesis by simp
qed

text \<open>
  C26. The events an application finds are within the limits it configured: every header list has at
  most the configured number of fields and the configured size, the data of every \<open>DataReceived\<close> was
  received from the engine, and \<open>ConnectionClosed\<close> is only there when the connection is closed.
\<close>

theorem events_within_limits:
  assumes "engine_ok E" and "reachable E c" and "e \<in> set (c_events c)"
  shows "event_ok (c_max_inbound_header_list_size c) (c_max_inbound_header_count c) e \<and>
    (is_closing_event e \<longrightarrow> c_closed c)"
proof -
  have ok: "events_ok False (c_closed c) (c_max_inbound_header_list_size c) (c_max_inbound_header_count c)
      (c_events c)"
    using reachable_inv [OF assms(2,1)] by (simp add: conn_inv_def core_inv_def base_inv_def)
  then have "is_closing_event e \<longrightarrow> c_closed c"
    using assms(3) by (auto simp: events_ok_def closings_def filter_empty_conv split: if_splits)
  with ok assms(3) show ?thesis by (auto simp: events_ok_def list_all_iff)
qed

theorem events_within_limits_witness:
  "c_events (session_after demo (demo_session @ [ReceiveData (PyBytes True [1, 2])])) =
     [DataReceived 1 [Some 1, Some 2] False] \<and>
   event_ok 65536 1024 (DataReceived 1 [Some 1, Some 2] False)"
proof -
  let ?reqs = "demo_session @ [ReceiveData (PyBytes True [1, 2])]"
  let ?c = "session_after demo ?reqs"
  have r: "reachable demo ?c"
    by (rule reachable_after [OF engine_ok_demo]) (use demo_requests in \<open>simp add: application_request_def\<close>)
  have "c_events ?c = [DataReceived 1 [Some 1, Some 2] False]" "c_max_inbound_header_list_size ?c = 65536"
    "c_max_inbound_header_count ?c = 1024"
    by (simp_all add: session_after_def demo_session_def run_simps)
  then show ?thesis
    using events_within_limits [OF engine_ok_demo r, of "DataReceived 1 [Some 1, Some 2] False"] by simp
qed

end
