(* ===== verification/Drivers.thy ===== *)
theory Drivers
  imports Control
begin

text \<open>
  Programs that drive connections, from \<^verbatim>\<open>examples/python\<close>: \<open>transfer\<close> and \<open>handshake\<close> of
  \<^verbatim>\<open>message_lifecycle.py\<close> (the other in-memory examples repeat them), which join a client and a server,
  and \<open>consume_available_data\<close> of \<^verbatim>\<open>manual_flow_control.py\<close>; then what the two programs on sockets
  share, a connection with its stream transport. The programs themselves are \<open>AsyncClient\<close> and
  \<open>AsyncServer\<close>.
\<close>

section \<open>Programs and their connections\<close>

text \<open>A method called on the connection that a program's state holds in one place.\<close>

definition on_conn :: "('w \<Rightarrow> 's conn) \<Rightarrow> ('s conn \<Rightarrow> 'w \<Rightarrow> 'w) \<Rightarrow> ('s, 'a) meth \<Rightarrow> ('w, exc, 'a) py" where
  "on_conn conn_of put m = (\<lambda>w. case m (conn_of w) of (r, c) \<Rightarrow> (r, put c w))"

section \<open>Two endpoints\<close>

datatype side = ClientSide | ServerSide

record 's ends =
  client_end :: "'s conn"
  server_end :: "'s conn"

fun at_end :: "side \<Rightarrow> ('s, 'a) meth \<Rightarrow> ('s ends, exc, 'a) py" where
  "at_end ClientSide m = on_conn client_end (\<lambda>c w. w\<lparr>client_end := c\<rparr>) m"
| "at_end ServerSide m = on_conn server_end (\<lambda>c w. w\<lparr>server_end := c\<rparr>) m"

text \<open>
  Whoever reads the output of a connection reads its cells. Reading one that was never written is
  undefined behaviour.
\<close>

definition read_bytes :: "cell list \<Rightarrow> ('w, exc, byte list) py" where
  "read_bytes data = (case those data of None \<Rightarrow> crashM | Some bs \<Rightarrow> returnM bs)"

definition transfer :: "'s engine \<Rightarrow> side \<Rightarrow> side \<Rightarrow> ('s ends, exc, unit) py" where
  "transfer E source destination =
     bindM (at_end source (data_to_send E PyNone)) (\<lambda>data.
       if data = [] then returnM ()
       else bindM (read_bytes data) (\<lambda>bs. at_end destination (receive_data E (PyBytes True bs))))"

definition handshake :: "'s engine \<Rightarrow> ('s ends, exc, unit) py" where
  "handshake E =
     thenM (at_end ClientSide (initiate_connection E PyNone))
     (thenM (at_end ServerSide (initiate_connection E PyNone))
     (bindM (mapM (\<lambda>(source, destination). transfer E source destination)
        [(ClientSide, ServerSide), (ServerSide, ClientSide),
         (ClientSide, ServerSide), (ServerSide, ClientSide)]) (\<lambda>_.
      thenM (at_end ClientSide events) (bindM (at_end ServerSide events) (\<lambda>_. returnM ())))))"

section \<open>Moving everything\<close>

text \<open>
  The loop of \<open>transfer\<close> in \<^verbatim>\<open>connection_controls.py\<close>, which ends when its source has no output left. It
  need not end: \<open>None\<close> stands for a loop that runs forever.
\<close>

partial_function (option) transfer_all ::
  "'s engine \<Rightarrow> 's conn pyobj \<Rightarrow> side \<Rightarrow> side \<Rightarrow> 's ends \<Rightarrow> ((exc, unit) outcome \<times> 's ends) option" where
  "transfer_all E amount source destination w =
     (case at_end source (data_to_send E amount) w of
        (Ok data, w1) \<Rightarrow>
          if data = [] then Some (Ok (), w1)
          else (case bindM (read_bytes data) (\<lambda>bs. at_end destination (receive_data E (PyBytes True bs))) w1 of
              (Ok u, w2) \<Rightarrow> transfer_all E amount source destination w2
            | (Raise e, w2) \<Rightarrow> Some (Raise e, w2)
            | (Crash, w2) \<Rightarrow> Some (Crash, w2))
      | (Raise e, w1) \<Rightarrow> Some (Raise e, w1)
      | (Crash, w1) \<Rightarrow> Some (Crash, w1))"

section \<open>Manual flow control\<close>

fun consume_event :: "'s engine \<Rightarrow> event \<Rightarrow> ('s, int) meth" where
  "consume_event E (DataReceived stream_id data ends) =
     thenM (consume_received_data E (PyInt stream_id) (PyInt (int (length data))))
       (returnM (int (length data)))"
| "consume_event E _ = returnM 0"

definition consume_available_data :: "'s engine \<Rightarrow> ('s, int) meth" where
  "consume_available_data E =
     bindM events (\<lambda>es. bindM (mapM (consume_event E) es) (\<lambda>consumed. returnM (sum_list consumed)))"

section \<open>A connection on a transport\<close>

text \<open>
  The coroutine that owns a connection reads and writes one \<^verbatim>\<open>asyncio\<close> stream. What the stream does is
  given: the outcomes of the successive calls of \<open>drain\<close> (after the last one it succeeds), and the
  outcome of \<open>wait_closed\<close>; what successive calls of \<open>read\<close> return is an argument of the loops.
\<close>

record 's task =
  task_conn :: "'s conn"
  sent_bytes :: "byte list"
  drains :: "exc option list"
  closing_error :: "exc option"
  closed_writer :: bool

definition at_conn :: "('s, 'a) meth \<Rightarrow> (('s, 'z) task_scheme, exc, 'a) py" where
  "at_conn = on_conn task_conn (\<lambda>c w. w\<lparr>task_conn := c\<rparr>)"

text \<open>\<open>writer.write(outgoing)\<close> and \<open>await writer.drain()\<close>\<close>

definition drain :: "(('s, 'z) task_scheme, exc, unit) py" where
  "drain = bindM (getsM drains) (\<lambda>ds. case ds of
       [] \<Rightarrow> returnM ()
     | d # rest \<Rightarrow> thenM (modifyM (\<lambda>w. w\<lparr>drains := rest\<rparr>))
         (case d of None \<Rightarrow> returnM () | Some e \<Rightarrow> raiseM e))"

definition write_out :: "cell list \<Rightarrow> (('s, 'z) task_scheme, exc, unit) py" where
  "write_out outgoing =
     bindM (read_bytes outgoing) (\<lambda>bs.
     thenM (modifyM (\<lambda>w. w\<lparr>sent_bytes := sent_bytes w @ bs\<rparr>)) drain)"

text \<open>
  \<open>writer.close()\<close>, and \<open>await writer.wait_closed()\<close> where the exceptions in \<open>suppressed\<close> are
  suppressed. The classes raised by the standard library there:
\<close>

definition RuntimeError :: exc where
  "RuntimeError = ApplicationError 0"

definition ConnectionError :: exc where
  "ConnectionError = ApplicationError 1"

definition SSLError :: exc where
  "SSLError = ApplicationError 2"

text \<open>
  Their subclasses in the standard library: those of \<open>ConnectionError\<close> (a broken pipe, a connection
  aborted, refused or reset) and those of \<open>ssl.SSLError\<close> (a zero return, a read or write wanted, a failed
  system call, an unexpected end, a certificate refused). \<open>suppress(*classes)\<close> takes instances of both.
\<close>

definition subclasses :: "exc \<Rightarrow> exc list" where
  "subclasses cls =
     (if cls = ConnectionError then map ApplicationError [4, 5, 6, 7]
      else if cls = SSLError then map ApplicationError [8, 9, 10, 11, 12, 13] else [])"

definition suppresses :: "exc list \<Rightarrow> exc \<Rightarrow> bool" where
  "suppresses classes e \<longleftrightarrow> list_ex (\<lambda>cls. e = cls \<or> e \<in> set (subclasses cls)) classes"

definition close_writer :: "exc list \<Rightarrow> (('s, 'z) task_scheme, exc, unit) py" where
  "close_writer suppressed =
     thenM (modifyM (\<lambda>w. w\<lparr>closed_writer := True\<rparr>))
     (bindM (getsM closing_error) (\<lambda>error. case error of
        None \<Rightarrow> returnM ()
      | Some e \<Rightarrow> if suppresses suppressed e then returnM () else raiseM e))"

text \<open>\<open>try: m finally: f\<close>; an exception of \<open>f\<close> replaces that of \<open>m\<close>.\<close>

definition finallyM :: "('w, 'e, 'a) py \<Rightarrow> ('w, 'e, unit) py \<Rightarrow> ('w, 'e, 'a) py" where
  "finallyM m f = (\<lambda>w. case m w of
       (Ok x, w') \<Rightarrow> bindM f (\<lambda>_. returnM x) w'
     | (Raise e, w') \<Rightarrow> bindM f (\<lambda>_. raiseM e) w'
     | (Crash, w') \<Rightarrow> (Crash, w'))"

text \<open>A step that may raise, as a computation.\<close>

definition liftM :: "'e + 'a \<Rightarrow> ('w, 'e, 'a) py" where
  "liftM r = (case r of Inl e \<Rightarrow> raiseM e | Inr x \<Rightarrow> returnM x)"

section \<open>Text\<close>

text \<open>An ASCII literal, a string as its code points, \<open>str.encode("ascii")\<close> and decimal numerals.\<close>

type_synonym unicode = "nat list"

definition ascii :: "string \<Rightarrow> byte list" where
  "ascii s = map of_char s"

definition code_points :: "string \<Rightarrow> unicode" where
  "code_points s = map of_char s"

definition encode_ascii :: "unicode \<Rightarrow> exc + byte list" where
  "encode_ascii s = (if list_all (\<lambda>n. n < 128) s then Inr (map of_nat s) else Inl ValueError)"

fun decimal :: "nat \<Rightarrow> unicode" where
  "decimal n = (if n < 10 then [48 + n] else decimal (n div 10) @ [48 + n mod 10])"

definition header_dict :: "header list \<Rightarrow> byte list \<Rightarrow> byte list option" where
  "header_dict headers = map_of (rev (map (\<lambda>h. (header_name h, header_value h)) headers))"

definition http_field :: "string \<Rightarrow> byte list \<Rightarrow> 'w pyobj" where
  "http_field name val = PyTuple [PyBytes True (ascii name), PyBytes True val]"

end
