(* ===== verification/AsyncClient.thy ===== *)
theory AsyncClient
  imports Drivers
begin

text \<open>
  The client of \<^verbatim>\<open>examples/python/asyncio_client.py\<close>: one request on one connection over TLS. URL
  parsing and the TLS handshake are the standard library's; their results are arguments.
\<close>

section \<open>The status of a response\<close>

text \<open>
  Python's \<open>int\<close> on a byte string: white space around, a sign, decimal digits with single
  underscores between them, at most 4300 of them.
\<close>

definition is_space :: "byte \<Rightarrow> bool" where
  "is_space b \<longleftrightarrow> b = 0x20 \<or> 0x09 \<le> b \<and> b \<le> 0x0D"

definition is_digit :: "byte \<Rightarrow> bool" where
  "is_digit b \<longleftrightarrow> 0x30 \<le> b \<and> b \<le> 0x39"

fun digits :: "int \<Rightarrow> byte list \<Rightarrow> int option" where
  "digits acc [] = Some acc"
| "digits acc (b # bs) =
     (if is_digit b then digits (acc * 10 + (uint b - 0x30)) bs
      else if b = 0x5F then (case bs of
          d # ds \<Rightarrow> if is_digit d then digits (acc * 10 + (uint d - 0x30)) ds else None
        | [] \<Rightarrow> None)
      else None)"

definition unsigned_int :: "byte list \<Rightarrow> int option" where
  "unsigned_int bs = (case bs of
       b # _ \<Rightarrow> if is_digit b \<and> length (filter is_digit bs) \<le> 4300 then digits 0 bs else None
     | [] \<Rightarrow> None)"

definition strip_space :: "byte list \<Rightarrow> byte list" where
  "strip_space bs = rev (dropWhile is_space (rev (dropWhile is_space bs)))"

definition int_of_bytes :: "byte list \<Rightarrow> int option" where
  "int_of_bytes bs = (case strip_space bs of
       [] \<Rightarrow> None
     | b # rest \<Rightarrow> if b = 0x2B then unsigned_int rest
                   else if b = 0x2D then map_option uminus (unsigned_int rest)
                   else unsigned_int (b # rest))"

text \<open>\<open>int(dict(event.headers)[b":status"])\<close>\<close>

definition status_of :: "header list \<Rightarrow> exc + int" where
  "status_of headers =
     (case header_dict headers STATUS of
        None \<Rightarrow> Inl KeyError
      | Some value \<Rightarrow> (case int_of_bytes value of None \<Rightarrow> Inl ValueError | Some n \<Rightarrow> Inr n))"

section \<open>Collecting the response\<close>

record progress =
  p_status :: "int option"
  p_body :: "cell list"
  p_complete :: bool

text \<open>The body of the loop over the events; a raise leaves the progress made before it.\<close>

fun process_event :: "int \<Rightarrow> event \<Rightarrow> progress \<Rightarrow> exc + progress" where
  "process_event stream_id (ResponseReceived i headers ends) p =
     (if i = stream_id
      then (case status_of headers of Inl e \<Rightarrow> Inl e | Inr n \<Rightarrow> Inr (p\<lparr>p_status := Some n\<rparr>))
      else Inr p)"
| "process_event stream_id (DataReceived i data ends) p =
     Inr (if i = stream_id then p\<lparr>p_body := p_body p @ data\<rparr> else p)"
| "process_event stream_id (StreamReset i code) p =
     (if i = stream_id then Inl RuntimeError else Inr p)"
| "process_event stream_id (GoAwayReceived l code debug) p =
     (if stream_id > l then Inl RuntimeError else Inr p)"
| "process_event stream_id (StreamClosed i code local_error) p =
     (if i = stream_id then
        (case local_error of
           Some e \<Rightarrow> Inl e
         | None \<Rightarrow> if error_value_code code \<noteq> wire_code NO_ERROR then Inl RuntimeError
                   else Inr (p\<lparr>p_complete := True\<rparr>))
      else Inr p)"
| "process_event stream_id (ConnectionClosed code debug) p =
     (if \<not> p_complete p then Inl ConnectionError else Inr p)"
| "process_event stream_id _ p = Inr p"

primrec process_events :: "int \<Rightarrow> event list \<Rightarrow> progress \<Rightarrow> exc option \<times> progress" where
  "process_events stream_id [] p = (None, p)"
| "process_events stream_id (e # es) p =
     (case process_event stream_id e p of
        Inl error \<Rightarrow> (Some error, p) | Inr p' \<Rightarrow> process_events stream_id es p')"

text \<open>The \<open>bytearray\<close> that the caller passes is extended in place.\<close>

record 's client_task = "'s task" +
  collected_body :: "cell list"

type_synonym ('s, 'a) client = "('s client_task, exc, 'a) py"

definition process_response_events :: "int \<Rightarrow> int option \<Rightarrow> ('s, int option \<times> bool) client" where
  "process_response_events stream_id status =
     bindM (at_conn events) (\<lambda>es.
     bindM (getsM collected_body) (\<lambda>collected.
       case process_events stream_id es \<lparr>p_status = status, p_body = collected, p_complete = False\<rparr>
       of (error, p) \<Rightarrow>
         thenM (modifyM (\<lambda>w. w\<lparr>collected_body := p_body p\<rparr>))
           (case error of None \<Rightarrow> returnM (p_status p, p_complete p) | Some e \<Rightarrow> raiseM e)))"

section \<open>The request\<close>

definition encode_authority :: "unicode \<Rightarrow> nat option \<Rightarrow> exc + byte list" where
  "encode_authority hostname port =
     (let authority = (if 58 \<in> set hostname then [91] @ hostname @ [93] else hostname);
          authority = (case port of None \<Rightarrow> authority | Some n \<Rightarrow> authority @ [58] @ decimal n)
      in encode_ascii authority)"

record target =
  url_scheme :: unicode
  url_host :: "unicode option"
  url_port :: "nat option"
  url_path :: unicode
  url_query :: unicode

definition submit_get :: "'s engine \<Rightarrow> target \<Rightarrow> unicode \<Rightarrow> ('s, int) client" where
  "submit_get E url host =
     (let p = (if url_path url \<noteq> [] then url_path url else code_points ''/'');
          p = (if url_query url \<noteq> [] then p @ code_points ''?'' @ url_query url else p)
      in bindM (liftM (encode_authority host (url_port url))) (\<lambda>authority.
         bindM (liftM (encode_ascii p)) (\<lambda>request_path.
           at_conn (send_request E
             (PyList [http_field '':method'' (ascii ''GET''), http_field '':scheme'' (ascii ''https''),
                      http_field '':authority'' authority, http_field '':path'' request_path,
                      http_field ''user-agent'' (ascii ''ngh2-example'')])
             (PyBool True)))))"

text \<open>
  The loop of \<open>get\<close>, by recursion on what the reads yield: an exception, bytes, or the empty string
  at the end of the stream, which every list of reads stands before.
\<close>

definition fetch_turn :: "'s engine \<Rightarrow> int \<Rightarrow> byte list \<Rightarrow> int option \<Rightarrow> ('s, int option \<times> bool) client" where
  "fetch_turn E stream_id data status =
     thenM (at_conn (receive_data E (PyBytes True data)))
     (bindM (process_response_events stream_id status) (\<lambda>(status, complete).
      bindM (at_conn (data_to_send E PyNone)) (\<lambda>outgoing.
      thenM (whenM (outgoing \<noteq> []) (write_out outgoing))
      (bindM (process_response_events stream_id status) (\<lambda>(status, sent_complete).
       returnM (status, complete \<or> sent_complete))))))"

primrec fetch :: "'s engine \<Rightarrow> int \<Rightarrow> (exc + byte list) list \<Rightarrow> int option \<Rightarrow> ('s, int option) client" where
  "fetch E stream_id [] status = raiseM ConnectionError"
| "fetch E stream_id (r # rest) status =
     bindM (liftM r) (\<lambda>data.
       if data = [] then raiseM ConnectionError
       else bindM (fetch_turn E stream_id data status) (\<lambda>(status, complete).
         if complete then returnM status else fetch E stream_id rest status))"

definition exchange ::
  "'s engine \<Rightarrow> target \<Rightarrow> unicode \<Rightarrow> (exc + byte list) list \<Rightarrow> ('s, int \<times> cell list) client" where
  "exchange E url host reads =
     thenM (at_conn (connection_init E (Some CLIENT) NoConfig))
     (thenM (at_conn (initiate_connection E
        (PyMapping [(returnM (), PyInt (setting_value ENABLE_PUSH), PyInt 0)])))
     (bindM (submit_get E url host) (\<lambda>stream_id.
      bindM (at_conn (data_to_send E PyNone)) (\<lambda>outgoing.
      thenM (write_out outgoing)
      (thenM (modifyM (\<lambda>w. w\<lparr>collected_body := []\<rparr>))
      (bindM (process_response_events stream_id None) (\<lambda>(status, complete).
       bindM (if complete then returnM status else fetch E stream_id reads status) (\<lambda>status.
         case status of
           None \<Rightarrow> raiseM RuntimeError
         | Some n \<Rightarrow> bindM (getsM collected_body) (\<lambda>bs. returnM (n, bs))))))))))"

definition get ::
  "'s engine \<Rightarrow> target \<Rightarrow> bool \<Rightarrow> (exc + byte list) list \<Rightarrow> ('s, int \<times> cell list) client" where
  "get E url negotiated reads =
     (case url_host url of
        None \<Rightarrow> raiseM ValueError
      | Some host \<Rightarrow>
          if url_scheme url \<noteq> code_points ''https'' \<or> host = [] then raiseM ValueError
          else if \<not> negotiated then thenM (close_writer [SSLError]) (raiseM RuntimeError)
          else finallyM (exchange E url host reads) (close_writer [SSLError]))"

end
