(* ===== verification/AsyncServer.thy ===== *)
theory AsyncServer
  imports Drivers
begin

text \<open>
  The server of \<^verbatim>\<open>examples/python/asyncio_server.py\<close>: it answers the requests of one connection. The
  TLS handshake is the standard library's; whether it negotiated HTTP/2 is an argument. Log entries
  are not modelled.
\<close>

record 's server_task = "'s task" +
  requests :: "int \<Rightarrow> header list option"

type_synonym ('s, 'a) server = "('s server_task, exc, 'a) py"

section \<open>The response\<close>

definition choose_answer :: "byte list \<Rightarrow> byte list \<Rightarrow> byte list \<times> byte list" where
  "choose_answer method path =
     (if method \<notin> {ascii ''GET'', ascii ''HEAD''} then (ascii ''405'', ascii ''Method not allowed'' @ [10])
      else if path \<noteq> ascii ''/'' then (ascii ''404'', ascii ''Not found'' @ [10])
      else (ascii ''200'', ascii ''Hello over HTTP/2'' @ [10]))"

definition response_fields :: "byte list \<Rightarrow> byte list \<Rightarrow> 'w pyobj" where
  "response_fields status content = PyList
     ([http_field '':status'' status,
       http_field ''content-type'' (ascii ''text/plain; charset=utf-8''),
       http_field ''content-length'' (map of_nat (decimal (length content)))] @
      (if status = ascii ''405'' then [http_field ''allow'' (ascii ''GET, HEAD'')] else []))"

definition server_send_response :: "'s engine \<Rightarrow> int \<Rightarrow> header list \<Rightarrow> ('s, unit) server" where
  "server_send_response E stream_id headers =
     (case header_dict headers (ascii '':method'') of None \<Rightarrow> raiseM KeyError | Some method \<Rightarrow>
      case header_dict headers (ascii '':path'') of None \<Rightarrow> raiseM KeyError | Some path \<Rightarrow>
      case choose_answer method path of (status, content) \<Rightarrow>
        if method = ascii ''HEAD'' then
          at_conn (send_response E (PyInt stream_id) (response_fields status content) (PyBool True))
        else
          thenM (at_conn (send_response E (PyInt stream_id) (response_fields status content) (PyBool False)))
            (at_conn (send_data E (PyInt stream_id) (PyBytes True content) (PyBool True))))"

section \<open>Routing events\<close>

record routing =
  r_requests :: "int \<Rightarrow> header list option"
  r_ready :: "int list"
  r_closed :: bool

definition drop_stream :: "int \<Rightarrow> routing \<Rightarrow> routing" where
  "drop_stream i r = r\<lparr>r_requests := (r_requests r)(i := None), r_ready := removeAll i (r_ready r)\<rparr>"

definition mark_ready :: "int \<Rightarrow> routing \<Rightarrow> routing" where
  "mark_ready i r = r\<lparr>r_ready := List.insert i (r_ready r)\<rparr>"

fun route_event :: "event \<Rightarrow> routing \<Rightarrow> routing" where
  "route_event (RequestReceived i headers ends) r =
     (let r = r\<lparr>r_requests := (r_requests r)(i \<mapsto> headers)\<rparr> in if ends then mark_ready i r else r)"
| "route_event (DataReceived i data ends) r =
     (if ends \<and> r_requests r i \<noteq> None then mark_ready i r else r)"
| "route_event (TrailersReceived i headers) r =
     (if r_requests r i \<noteq> None then mark_ready i r else r)"
| "route_event (StreamReset i code) r = drop_stream i r"
| "route_event (StreamClosed i code local_error) r = drop_stream i r"
| "route_event (ConnectionClosed code debug) r = r\<lparr>r_closed := True\<rparr>"
| "route_event _ r = r"

definition respond_to :: "'s engine \<Rightarrow> int \<Rightarrow> ('s, unit) server" where
  "respond_to E stream_id =
     bindM (getsM (\<lambda>w. requests w stream_id)) (\<lambda>entry.
     thenM (modifyM (\<lambda>w. w\<lparr>requests := (requests w)(stream_id := None)\<rparr>))
       (case entry of None \<Rightarrow> returnM () | Some headers \<Rightarrow> server_send_response E stream_id headers))"

text \<open>
  Python does not fix the order in which a set is iterated: \<open>order\<close> arranges the streams that are
  ready.
\<close>

definition process_request_events :: "'s engine \<Rightarrow> (int list \<Rightarrow> int list) \<Rightarrow> ('s, bool) server" where
  "process_request_events E order =
     bindM (at_conn events) (\<lambda>es.
     bindM (getsM requests) (\<lambda>pending.
       let r = fold route_event es \<lparr>r_requests = pending, r_ready = [], r_closed = False\<rparr> in
       thenM (modifyM (\<lambda>w. w\<lparr>requests := r_requests r\<rparr>))
       (thenM (whenM (\<not> r_closed r)
          (bindM (mapM (respond_to E) (order (r_ready r))) (\<lambda>_. returnM ())))
         (returnM (r_closed r)))))"

section \<open>The connection\<close>

text \<open>One turn of the loop up to the read; \<open>k\<close> is the rest of the turn.\<close>

definition serve_turn :: "'s engine \<Rightarrow> (int list \<Rightarrow> int list) \<Rightarrow> ('s, unit) server \<Rightarrow> ('s, unit) server" where
  "serve_turn E order k =
     bindM (at_conn (data_to_send E PyNone)) (\<lambda>outgoing.
     thenM (whenM (outgoing \<noteq> []) (write_out outgoing))
     (bindM (process_request_events E order) (\<lambda>closed. if closed then returnM () else k)))"

text \<open>The loop, by recursion on what the reads yield, with the end of the stream after them.\<close>

primrec serve :: "'s engine \<Rightarrow> (int list \<Rightarrow> int list) \<Rightarrow> (exc + byte list) list \<Rightarrow> ('s, unit) server" where
  "serve E order [] = serve_turn E order (returnM ())"
| "serve E order (r # rest) = serve_turn E order
     (bindM (liftM r) (\<lambda>incoming.
        if incoming = [] then returnM ()
        else thenM (at_conn (receive_data E (PyBytes True incoming)))
          (bindM (process_request_events E order) (\<lambda>closed.
             if closed then returnM () else serve E order rest))))"

definition handle_connection ::
  "'s engine \<Rightarrow> (int list \<Rightarrow> int list) \<Rightarrow> bool \<Rightarrow> (exc + byte list) list \<Rightarrow> ('s, unit) server" where
  "handle_connection E order negotiated reads =
     (if \<not> negotiated then close_writer [ConnectionError, SSLError]
      else
        thenM (at_conn (connection_init E (Some SERVER) NoConfig))
        (thenM (modifyM (\<lambda>w. w\<lparr>requests := (\<lambda>_. None)\<rparr>))
        (thenM (at_conn (initiate_connection E PyNone))
          (finallyM (serve E order reads) (close_writer [ConnectionError, SSLError])))))"

end
