(* ===== verification/Driver_Spec.thy ===== *)
theory Driver_Spec
  imports Control_Spec Runs AsyncClient AsyncServer
begin

text \<open>
  The programs of \<^verbatim>\<open>examples/python\<close> (\<open>Drivers\<close>, \<open>AsyncClient\<close>, \<open>AsyncServer\<close>): they use their
  connections safely whatever peer, transport and engine do, and what they make of the events.
\<close>

section \<open>Output\<close>

lemma collects_limit_of:
  "polite I v \<Longrightarrow> collects I (\<lambda>L. -1 \<le> L \<and> (\<forall>n. v = PyInt n \<longrightarrow> L = n \<and> 0 \<le> n)) (output_limit v)"
  using collects_output_limit [of I v]
  by (cases v) (auto simp: output_limit_def collects_def wp_simps elim!: wp_mono)

lemma wp_data_to_send:
  assumes E: "engine_ok E" and c: "conn_inv E seen c" and v: "polite (conn_inv E seen) v"
  shows "wp (data_to_send E v) (\<lambda>out c'. None \<notin> set out \<and> conn_inv E seen c' \<and>
      (\<forall>n. v = PyInt n \<longrightarrow> int (length out) \<le> n)) (\<lambda>_. conn_inv E seen) c"
  unfolding data_to_send_def
  by (rule wp_collect_step [OF collects_limit_of [OF v] c])
    (auto intro!: wp_mono [OF wp_send_limited [OF E]] simp: send_result_def)

lemma those_initialised: "None \<notin> set data \<Longrightarrow> \<exists>bs. those data = Some bs"
proof (induction data)
  case (Cons a data)
  then show ?case by (cases a) auto
qed simp

lemma those_map_Some [simp]: "those (map Some bs) = Some bs"
  by (induction bs) simp_all

lemma discard_result_unit [simp]: "discard_result (m :: ('w, 'e, unit) py) = m"
  by (auto simp: discard_result_def bindM_def returnM_def fun_eq_iff split: prod.splits outcome.splits)

lemma keeps_reachable:
  assumes "engine_ok E" and "application_request E req" and "perform E req = discard_result m"
  shows "keeps (reachable E) m"
proof (rule keepsI)
  fix c
  assume c: "reachable E c"
  have "wp (perform E req) (\<lambda>_. reachable E) (\<lambda>_. reachable E) c"
    using reachable_step [OF assms(1) c assms(2)]
    by (auto simp: wp_def split: prod.splits outcome.splits)
  then show "wp m (\<lambda>_. reachable E) (\<lambda>_. reachable E) c"
    by (simp add: assms(3) discard_result_def wp_simps)
qed

section \<open>The connections of a program\<close>

text \<open>
  A program that owns a connection: it finds the connection in its state and puts the changed one back.
  \<open>safe E\<close> says that all connections of the state are reachable.
\<close>

locale conn_owner =
  fixes conn_of :: "'w \<Rightarrow> 's conn" and put :: "'s conn \<Rightarrow> 'w \<Rightarrow> 'w" and safe :: "'s engine \<Rightarrow> 'w \<Rightarrow> bool"
  assumes safe_conn: "safe E w \<Longrightarrow> reachable E (conn_of w)"
    and safe_put: "safe E w \<Longrightarrow> reachable E c \<Longrightarrow> safe E (put c w)"
begin

lemma wp_on_conn: "wp (on_conn conn_of put m) Q R w =
    wp m (\<lambda>x c. Q x (put c w)) (\<lambda>e c. R e (put c w)) (conn_of w)"
  by (auto simp: wp_def on_conn_def split: prod.splits outcome.splits)

lemma keeps_on_conn: "keeps (reachable E) m \<Longrightarrow> keeps (safe E) (on_conn conn_of put m)"
  unfolding keeps_def wp_on_conn by (auto elim!: wp_mono dest: safe_conn safe_put)

text \<open>A request of the application keeps the program's connections reachable.\<close>

lemma keeps_request:
  assumes "engine_ok E" and "application_request E req" and "perform E req = discard_result m"
  shows "keeps (safe E) (on_conn conn_of put m)"
  by (rule keeps_on_conn [OF keeps_reachable [OF assms]])

text \<open>So does \<open>data_to_send\<close>, and the rest of the program may read what it returns.\<close>

lemma wp_output:
  assumes E: "engine_ok E" and v: "application_request E (DataToSend v)" and w: "safe E w"
  shows "wp (on_conn conn_of put (data_to_send E v)) (\<lambda>out w'. None \<notin> set out \<and> safe E w') (\<lambda>_. safe E) w"
proof -
  have "polite (conn_inv E False) v"
    using application_polite [OF E v, of False] by (simp add: polite_request_def)
  from wp_data_to_send [OF E reachable_inv [OF safe_conn [OF w] E] this]
  have "wp (on_conn conn_of put (data_to_send E v)) (\<lambda>out _. None \<notin> set out) (\<lambda>_ _. True) w"
    unfolding wp_on_conn by (rule wp_mono) simp_all
  moreover have "wp (on_conn conn_of put (data_to_send E v)) (\<lambda>_. safe E) (\<lambda>_. safe E) w"
    by (rule keepsD [OF keeps_request [OF E v] w]) simp
  ultimately have "wp (on_conn conn_of put (data_to_send E v))
      (\<lambda>out w'. None \<notin> set out \<and> safe E w') (\<lambda>_ w'. True \<and> safe E w') w"
    by (rule wp_conj)
  then show ?thesis by simp
qed

lemma keeps_output:
  assumes E: "engine_ok E" and f: "\<And>out. None \<notin> set out \<Longrightarrow> keeps (safe E) (f out)"
  shows "keeps (safe E) (bindM (on_conn conn_of put (data_to_send E PyNone)) f)"
proof (rule keepsI)
  fix w
  assume "safe E w"
  then have "wp (on_conn conn_of put (data_to_send E PyNone))
      (\<lambda>out w'. None \<notin> set out \<and> safe E w') (\<lambda>_. safe E) w"
    by (intro wp_output [OF E]) (simp_all add: application_request_def)
  then show "wp (bindM (on_conn conn_of put (data_to_send E PyNone)) f) (\<lambda>_. safe E) (\<lambda>_. safe E) w"
    unfolding wp_bindM by (rule wp_mono) (auto intro: keepsD [OF f])
qed

end

definition ends_safe :: "'s engine \<Rightarrow> 's ends \<Rightarrow> bool" where
  "ends_safe E w \<longleftrightarrow> reachable E (client_end w) \<and> reachable E (server_end w)"

definition task_safe :: "'s engine \<Rightarrow> ('s, 'z) task_scheme \<Rightarrow> bool" where
  "task_safe E w \<longleftrightarrow> reachable E (task_conn w)"

interpretation cl: conn_owner client_end "\<lambda>c w. w\<lparr>client_end := c\<rparr>" ends_safe
  by unfold_locales (simp_all add: ends_safe_def)

interpretation sv: conn_owner server_end "\<lambda>c w. w\<lparr>server_end := c\<rparr>" ends_safe
  by unfold_locales (simp_all add: ends_safe_def)

interpretation tk: conn_owner task_conn "\<lambda>c w. w\<lparr>task_conn := c\<rparr>" task_safe
  by unfold_locales (simp_all add: task_safe_def)

section \<open>Safety\<close>

text \<open>The steps of the programs that do not touch a connection.\<close>

lemma keeps_task_modify:
  "(\<And>w. task_conn (f w) = task_conn w) \<Longrightarrow> keeps (task_safe E) (modifyM f)"
  by (simp add: keeps_def wp_simps task_safe_def)

lemma keeps_liftM [keeps_intros]: "keeps I (liftM r)"
  by (cases r) (simp_all add: liftM_def keeps_intros)

lemma wp_finallyM: "wp (finallyM m f) Q R w =
    wp m (\<lambda>x. wp f (\<lambda>_. Q x) R) (\<lambda>e. wp f (\<lambda>_. R e) R) w"
  by (auto simp: finallyM_def wp_def bindM_def returnM_def raiseM_def split: prod.splits outcome.splits)

lemma keeps_finallyM [keeps_intros]: "keeps I m \<Longrightarrow> keeps I f \<Longrightarrow> keeps I (finallyM m f)"
  by (auto simp: keeps_def wp_finallyM elim!: wp_mono)

lemma keeps_read_bytes [keeps_intros]: "None \<notin> set data \<Longrightarrow> keeps I (read_bytes data)"
  by (drule those_initialised) (auto simp: read_bytes_def keeps_returnM)

lemma keeps_drain [keeps_intros]: "keeps (task_safe E) drain"
  unfolding drain_def by (auto intro!: keeps_intros keeps_task_modify split: list.split option.split)

lemma keeps_write_out [keeps_intros]:
  "None \<notin> set out \<Longrightarrow> keeps (task_safe E) (write_out out)"
  by (auto simp: write_out_def intro!: keeps_intros keeps_task_modify)

lemma keeps_close_writer [keeps_intros]: "keeps (task_safe E) (close_writer es)"
  unfolding close_writer_def by (auto intro!: keeps_intros keeps_task_modify split: option.split)

text \<open>The requests that the programs make.\<close>

lemma keeps_task_request:
  "engine_ok E \<Longrightarrow> application_request E req \<Longrightarrow> perform E req = discard_result m \<Longrightarrow>
    keeps (task_safe E) (at_conn m)"
  unfolding at_conn_def by (rule tk.keeps_request)

lemmas plain_request = application_request_def http_field_def response_fields_def follows_def returnM_def
  interacts.idle

lemma keeps_task:
  assumes "engine_ok E"
  shows "keeps (task_safe E) (at_conn events)"
    and "keeps (task_safe E) (at_conn (receive_data E (PyBytes True bs)))"
    and "keeps (task_safe E) (at_conn (connection_init E r NoConfig))"
    and "keeps (task_safe E) (at_conn (initiate_connection E PyNone))"
    and "keeps (task_safe E) (at_conn (initiate_connection E (PyMapping [(returnM (), PyInt k, PyInt v)])))"
    and "keeps (task_safe E) (at_conn (send_request E (PyList [http_field a b, http_field c d, http_field e f, http_field g h, http_field i j]) (PyBool True)))"
    and "keeps (task_safe E) (at_conn (send_response E (PyInt n) (response_fields st content) (PyBool q)))"
    and "keeps (task_safe E) (at_conn (send_data E (PyInt n) (PyBytes True bs) (PyBool q)))"
  subgoal by (rule keeps_task_request [OF assms, of Events]) (simp_all add: plain_request)
  subgoal by (rule keeps_task_request [OF assms, of "ReceiveData (PyBytes True bs)"]) (simp_all add: plain_request)
  subgoal by (rule keeps_task_request [OF assms, of "Init r NoConfig"]) (simp_all add: plain_request)
  subgoal by (rule keeps_task_request [OF assms, of "InitiateConnection PyNone"]) (simp_all add: plain_request)
  subgoal by (rule keeps_task_request [OF assms,
      of "InitiateConnection (PyMapping [(returnM (), PyInt k, PyInt v)])"]) (simp_all add: plain_request)
  subgoal by (rule keeps_task_request [OF assms, of "SendRequest (PyList
      [http_field a b, http_field c d, http_field e f, http_field g h, http_field i j]) (PyBool True)"]) (simp_all add: plain_request)
  subgoal by (rule keeps_task_request [OF assms,
      of "SendResponse (PyInt n) (response_fields st content) (PyBool q)"]) (simp_all add: plain_request)
  subgoal by (rule keeps_task_request [OF assms,
      of "SendData (PyInt n) (PyBytes True bs) (PyBool q)"]) (simp_all add: plain_request)
  done

lemma keeps_task_output:
  "engine_ok E \<Longrightarrow> (\<And>out. None \<notin> set out \<Longrightarrow> keeps (task_safe E) (f out)) \<Longrightarrow>
    keeps (task_safe E) (bindM (at_conn (data_to_send E PyNone)) f)"
  unfolding at_conn_def by (rule tk.keeps_output)

section \<open>The server\<close>

lemma keeps_server_send_response:
  "engine_ok E \<Longrightarrow> keeps (task_safe E) (server_send_response E i headers)"
  by (auto simp: server_send_response_def intro!: keeps_intros keeps_task split: option.split prod.split)

lemma keeps_process_request_events:
  "engine_ok E \<Longrightarrow> keeps (task_safe E) (process_request_events E order)"
  by (auto simp: process_request_events_def respond_to_def Let_def
      intro!: keeps_intros keeps_task keeps_task_modify keeps_server_send_response split: option.split)

lemma keeps_serve_turn:
  "engine_ok E \<Longrightarrow> keeps (task_safe E) k \<Longrightarrow> keeps (task_safe E) (serve_turn E order k)"
  unfolding serve_turn_def
  by (rule keeps_task_output) (auto intro!: keeps_intros keeps_process_request_events)

lemma keeps_serve: "engine_ok E \<Longrightarrow> keeps (task_safe E) (serve E order reads)"
  by (induction reads)
    (auto intro!: keeps_serve_turn keeps_intros keeps_task keeps_process_request_events)

lemma keeps_handle_connection:
  "engine_ok E \<Longrightarrow> keeps (task_safe E) (handle_connection E order negotiated reads)"
  by (auto simp: handle_connection_def intro!: keeps_intros keeps_task keeps_task_modify keeps_serve)

section \<open>The client\<close>

lemma keeps_process_response_events:
  "engine_ok E \<Longrightarrow> keeps (task_safe E) (process_response_events i st)"
  by (auto simp: process_response_events_def intro!: keeps_intros keeps_task keeps_task_modify
      split: option.split prod.split)

lemma keeps_fetch_turn:
  assumes E: "engine_ok E"
  shows "keeps (task_safe E) (fetch_turn E i data st)"
  unfolding fetch_turn_def split_beta
  by (rule keeps_task_output [OF E] keeps_thenM keeps_bindM keeps_whenM keeps_returnM keeps_write_out
      keeps_task(2) [OF E] keeps_process_response_events [OF E] | assumption)+

lemma keeps_fetch: "engine_ok E \<Longrightarrow> keeps (task_safe E) (fetch E i reads st)"
  by (induction reads arbitrary: st) (auto simp: split_beta intro!: keeps_intros keeps_fetch_turn)

lemma keeps_submit_get: "engine_ok E \<Longrightarrow> keeps (task_safe E) (submit_get E url host)"
  by (auto simp: submit_get_def Let_def intro!: keeps_intros keeps_task)

lemma keeps_exchange:
  assumes E: "engine_ok E"
  shows "keeps (task_safe E) (exchange E url host reads)"
  unfolding exchange_def split_beta
  by (rule keeps_task_output [OF E] keeps_thenM keeps_bindM keeps_write_out keeps_submit_get [OF E]
      keeps_task(3,5) [OF E] keeps_process_response_events [OF E] keeps_if keeps_returnM keeps_fetch [OF E]
      keeps_task_modify | assumption | simp add: keeps_raiseM keeps_bindM keeps_getsM keeps_returnM split: option.split)+

lemma keeps_get: "engine_ok E \<Longrightarrow> keeps (task_safe E) (get E url negotiated reads)"
  by (auto simp: get_def intro!: keeps_intros keeps_exchange split: option.split)

section \<open>Two endpoints\<close>

lemma keeps_ends:
  assumes "engine_ok E"
  shows "keeps (ends_safe E) (at_end side events)"
    and "keeps (ends_safe E) (at_end side (receive_data E (PyBytes True bs)))"
    and "keeps (ends_safe E) (at_end side (initiate_connection E PyNone))"
    and "(\<And>out. None \<notin> set out \<Longrightarrow> keeps (ends_safe E) (f out)) \<Longrightarrow>
      keeps (ends_safe E) (bindM (at_end side (data_to_send E PyNone)) f)"
  by (cases side; simp add: cl.keeps_request [OF assms, of Events] sv.keeps_request [OF assms, of Events]
      cl.keeps_request [OF assms, of "ReceiveData (PyBytes True bs)"]
      sv.keeps_request [OF assms, of "ReceiveData (PyBytes True bs)"]
      cl.keeps_request [OF assms, of "InitiateConnection PyNone"]
      sv.keeps_request [OF assms, of "InitiateConnection PyNone"]
      cl.keeps_output [OF assms] sv.keeps_output [OF assms] application_request_def)+

lemma keeps_transfer: "engine_ok E \<Longrightarrow> keeps (ends_safe E) (transfer E source destination)"
  unfolding transfer_def
  by (rule keeps_ends(4)) (auto simp del: at_end.simps intro!: keeps_intros keeps_ends(2))

lemma keeps_handshake: "engine_ok E \<Longrightarrow> keeps (ends_safe E) (handshake E)"
  by (auto simp: handshake_def simp del: at_end.simps mapM.simps
      intro!: keeps_intros keeps_ends keeps_transfer)

section \<open>Moving everything\<close>

definition end_of :: "side \<Rightarrow> 's ends \<Rightarrow> 's conn" where
  "end_of side w = (case side of ClientSide \<Rightarrow> client_end w | ServerSide \<Rightarrow> server_end w)"

lemma at_end_result:
  "at_end side m w = (r, w') \<Longrightarrow>
    m (end_of side w) = (r, end_of side w') \<and> (\<forall>other. other \<noteq> side \<longrightarrow> end_of other w' = end_of other w)"
  by (cases side) (auto simp: on_conn_def end_of_def split: prod.splits side.splits)

lemma wp_end_output:
  assumes "engine_ok E" and "application_request E (DataToSend v)" and "ends_safe E w"
  shows "wp (at_end side (data_to_send E v)) (\<lambda>out w1. None \<notin> set out \<and> ends_safe E w1) (\<lambda>_. ends_safe E) w"
  by (cases side) (simp_all add: cl.wp_output [OF assms] sv.wp_output [OF assms])

lemma keeps_push:
  assumes "engine_ok E" and "None \<notin> set data"
  shows "keeps (ends_safe E) (bindM (read_bytes data) (\<lambda>bs. at_end side (receive_data E (PyBytes True bs))))"
  by (intro keeps_bindM keeps_read_bytes assms(2) keeps_ends(2) [OF assms(1)])

text \<open>
  What the loop of \<open>transfer\<close> in \<^verbatim>\<open>connection_controls.py\<close> is to do, without the loop: the source on its
  own gives pieces of output, none of them empty, and the destination on its own takes them one after
  the other.
\<close>

definition give :: "'s engine \<Rightarrow> 's conn pyobj \<Rightarrow> byte list \<Rightarrow> 's conn \<Rightarrow> 's conn option" where
  "give E amount piece c = (case data_to_send E amount c of
      (Ok data, c1) \<Rightarrow> if piece \<noteq> [] \<and> data = map Some piece then Some c1 else None
    | _ \<Rightarrow> None)"

definition accept :: "'s engine \<Rightarrow> byte list \<Rightarrow> 's conn \<Rightarrow> 's conn option" where
  "accept E piece d = (case receive_data E (PyBytes True piece) d of (Ok u, d1) \<Rightarrow> Some d1 | _ \<Rightarrow> None)"

primrec gives :: "'s engine \<Rightarrow> 's conn pyobj \<Rightarrow> byte list list \<Rightarrow> 's conn \<Rightarrow> 's conn option" where
  "gives E amount [] = Some"
| "gives E amount (piece # pieces) = (\<lambda>c. Option.bind (give E amount piece c) (gives E amount pieces))"

primrec accepts :: "'s engine \<Rightarrow> byte list list \<Rightarrow> 's conn \<Rightarrow> 's conn option" where
  "accepts E [] = Some"
| "accepts E (piece # pieces) = (\<lambda>d. Option.bind (accept E piece d) (accepts E pieces))"

lemma give_Some: "give E amount piece c = Some c1 \<longleftrightarrow>
   piece \<noteq> [] \<and> data_to_send E amount c = (Ok (map Some piece), c1)"
  by (auto simp: give_def split: prod.split outcome.split)

lemma accept_Some: "accept E piece d = Some d1 \<longleftrightarrow> receive_data E (PyBytes True piece) d = (Ok (), d1)"
  by (auto simp: accept_def split: prod.split outcome.split)

lemma give_unique: "give E amount p c = Some c1 \<Longrightarrow> give E amount q c = Some c2 \<Longrightarrow> p = q \<and> c1 = c2"
  by (simp add: give_Some inj_map_eq_map)

lemma those_eq_Some: "those data = Some bs \<longleftrightarrow> data = map Some bs"
proof (induction data arbitrary: bs)
  case (Cons x data)
  then show ?case by (cases x; cases bs) auto
qed auto

text \<open>Both ends of a transfer, and its loop on them.\<close>

definition joined :: "side \<Rightarrow> 's conn \<Rightarrow> 's conn \<Rightarrow> 's ends" where
  "joined source c d = (case source of
     ClientSide \<Rightarrow> \<lparr>client_end = c, server_end = d\<rparr> | ServerSide \<Rightarrow> \<lparr>client_end = d, server_end = c\<rparr>)"

lemma joined_ends:
  "source \<noteq> destination \<Longrightarrow> joined source (end_of source w) (end_of destination w) = w"
  by (cases source; cases destination) (simp_all add: joined_def end_of_def)

lemma joined_eq [simp]: "joined source c d = joined source c1 d1 \<longleftrightarrow> c = c1 \<and> d = d1"
  by (cases source) (auto simp: joined_def)

lemma end_of_joined:
  "source \<noteq> destination \<Longrightarrow> end_of source (joined source c d) = c"
  "source \<noteq> destination \<Longrightarrow> end_of destination (joined source c d) = d"
  by (cases source; cases destination; simp add: joined_def end_of_def)+

lemma at_joined:
  "source \<noteq> destination \<Longrightarrow> at_end source m (joined source c d) = (case m c of (r, c1) \<Rightarrow> (r, joined source c1 d))"
  "source \<noteq> destination \<Longrightarrow> at_end destination m (joined source c d) = (case m d of (r, d1) \<Rightarrow> (r, joined source c d1))"
  by (cases source; cases destination; simp add: joined_def on_conn_def split: prod.split)+

text \<open>One round of the loop, in terms of what the two ends do.\<close>

lemma transfer_unfold:
  assumes "source \<noteq> destination"
  shows "transfer_all E amount source destination (joined source c d) =
    (case data_to_send E amount c of
       (Ok data, c1) \<Rightarrow> if data = [] then Some (Ok (), joined source c1 d)
         else (case those data of
             None \<Rightarrow> Some (Crash, joined source c1 d)
           | Some piece \<Rightarrow> (case receive_data E (PyBytes True piece) d of
               (Ok u, d1) \<Rightarrow> transfer_all E amount source destination (joined source c1 d1)
             | (Raise e, d1) \<Rightarrow> Some (Raise e, joined source c1 d1)
             | (Crash, d1) \<Rightarrow> Some (Crash, joined source c1 d1)))
     | (Raise e, c1) \<Rightarrow> Some (Raise e, joined source c1 d)
     | (Crash, c1) \<Rightarrow> Some (Crash, joined source c1 d))"
  unfolding transfer_all.simps [of _ _ _ _ "joined source c d"] at_joined [OF assms]
  by (auto simp: read_bytes_def crashM_def returnM_def bindM_def at_joined [OF assms] simp del: at_end.simps
      split: prod.split outcome.split option.split)

text \<open>No output left, a piece that is taken, or an exception (or undefined behaviour).\<close>

lemma transfer_round:
  assumes "source \<noteq> destination"
  obtains (last) c1 where "data_to_send E amount c = (Ok [], c1)"
      and "transfer_all E amount source destination (joined source c d) = Some (Ok (), joined source c1 d)"
    | (moved) piece c1 d1 where "give E amount piece c = Some c1" and "accept E piece d = Some d1"
      and "transfer_all E amount source destination (joined source c d) =
        transfer_all E amount source destination (joined source c1 d1)"
    | (stopped) r w where "r \<noteq> Ok ()" and "\<And>c1. data_to_send E amount c \<noteq> (Ok [], c1)"
      and "\<And>piece c1 d1. give E amount piece c = Some c1 \<Longrightarrow> accept E piece d \<noteq> Some d1"
      and "transfer_all E amount source destination (joined source c d) = Some (r, w)"
proof -
  obtain r c1 where out: "data_to_send E amount c = (r, c1)" by (metis prod.collapse)
  note unfold = transfer_unfold [OF assms, of E amount c d] out give_Some accept_Some
  consider (none) "r = Ok []" | (piece) bs where "r = Ok (map Some bs)" "bs \<noteq> []"
    | (other) "\<And>bs. r \<noteq> Ok (map Some bs)" by (metis list.map_disc_iff)
  then show thesis
  proof cases
    case none
    then show thesis by (intro last [of c1]) (simp_all add: unfold)
  next
    case (piece bs)
    obtain q d1 where push: "receive_data E (PyBytes True bs) d = (q, d1)" by (metis prod.collapse)
    show thesis
    proof (cases "q = Ok ()")
      case True
      with piece push show thesis by (intro moved [of bs c1 d1]) (simp_all add: unfold)
    next
      case False
      show thesis
        by (rule stopped [of q "joined source c1 d1"])
          (use False piece push in \<open>auto simp: unfold inj_map_eq_map split: outcome.split\<close>)
    qed
  next
    case other
    show thesis
      by (rule stopped [of "case r of Ok x \<Rightarrow> Crash | Raise e \<Rightarrow> Raise e | Crash \<Rightarrow> Crash" "joined source c1 d"])
        (use other other [of "[]"] in \<open>auto simp: unfold those_eq_Some split: outcome.split option.split\<close>)
  qed
qed

lemma transfer_moved:
  assumes "source \<noteq> destination"
  shows "gives E amount pieces c = Some c1 \<Longrightarrow> accepts E pieces d = Some d1 \<Longrightarrow>
    transfer_all E amount source destination (joined source c d) =
      transfer_all E amount source destination (joined source c1 d1)"
proof (induction pieces arbitrary: c d)
  case (Cons piece pieces)
  then obtain c2 d2 where first: "give E amount piece c = Some c2" "accept E piece d = Some d2"
    and rest: "gives E amount pieces c2 = Some c1" "accepts E pieces d2 = Some d1"
    by (auto simp: bind_eq_Some_conv)
  have "transfer_all E amount source destination (joined source c d) =
      transfer_all E amount source destination (joined source c2 d2)"
  proof (cases rule: transfer_round [OF assms, of E amount c d, case_names last moved stopped])
    case last
    with first show ?thesis by (auto simp: give_Some)
  next
    case (moved piece' c1 d1)
    from give_unique [OF first(1) moved(1)] moved(2,3) first(2) show ?thesis by simp
  next
    case stopped
    from notE [OF stopped(3) [OF first(1)] first(2)] show ?thesis .
  qed
  with Cons.IH [OF rest] show ?case by simp
qed simp

text \<open>The ends are stuck when no further piece can be moved; then the loop has stopped.\<close>

definition stuck :: "'s engine \<Rightarrow> 's conn pyobj \<Rightarrow> 's conn \<Rightarrow> 's conn \<Rightarrow> bool" where
  "stuck E amount c d \<longleftrightarrow> (\<forall>piece. give E amount piece c \<noteq> None \<longrightarrow> accept E piece d = None)"

lemma stuck_longest:
  "gives E amount ps c = Some c1 \<Longrightarrow> accepts E ps d = Some d1 \<Longrightarrow> stuck E amount c1 d1 \<Longrightarrow>
   gives E amount qs c \<noteq> None \<Longrightarrow> accepts E qs d \<noteq> None \<Longrightarrow> length qs \<le> length ps"
proof (induction ps arbitrary: c d qs)
  case Nil
  then show ?case by (cases qs) (auto simp: stuck_def bind_eq_Some_conv)
next
  case (Cons p ps)
  show ?case
  proof (cases qs)
    case (Cons q rest)
    with Cons.prems obtain c2 d2 c3 d3 where
      "give E amount p c = Some c2" "accept E p d = Some d2" "gives E amount ps c2 = Some c1" "accepts E ps d2 = Some d1"
      "give E amount q c = Some c3" "accept E q d = Some d3" "gives E amount rest c3 \<noteq> None" "accepts E rest d3 \<noteq> None"
      by (auto simp: bind_eq_Some_conv)
    with give_unique [of E amount p c c2 q c3] Cons.IH [of c2 d2 rest] Cons.prems(3) show ?thesis
      by (auto simp: Cons)
  qed simp
qed

text \<open>By fixpoint induction: a loop that returns has got stuck after finitely many pieces.\<close>

lemma transfer_gets_stuck:
  fixes E :: "'s engine"
  assumes "source \<noteq> destination" and "transfer_all E amount source destination (joined source c d) = Some y"
  shows "\<exists>pieces c1 d1. gives E amount pieces c = Some c1 \<and> accepts E pieces d = Some d1 \<and> stuck E amount c1 d1"
proof -
  define ends where "ends = (\<lambda>(E :: 's engine) amount s t w (y :: (exc, unit) outcome \<times> 's ends). s \<noteq> t \<longrightarrow>
    (\<exists>pieces c1 d1. gives E amount pieces (end_of s w) = Some c1 \<and> accepts E pieces (end_of t w) = Some d1 \<and>
       stuck E amount c1 d1))"
  have "ends E amount source destination (joined source c d) y"
  proof (rule transfer_all.raw_induct [where P = ends, OF _ assms(2)])
    fix rec and E :: "'s engine" and amount s t w y
    assume IH: "\<And>E amount s t w y. rec E amount s t w = Some y \<Longrightarrow> ends E amount s t w y"
      and eq: "(case at_end s (data_to_send E amount) w of
        (Ok data, w1) \<Rightarrow> if data = [] then Some (Ok (), w1)
          else case bindM (read_bytes data) (\<lambda>bs. at_end t (receive_data E (PyBytes True bs))) w1 of
            (Ok u, w2) \<Rightarrow> rec E amount s t w2 | (Raise e, w2) \<Rightarrow> Some (Raise e, w2) | (Crash, w2) \<Rightarrow> Some (Crash, w2)
        | (Raise e, w1) \<Rightarrow> Some (Raise e, w1) | (Crash, w1) \<Rightarrow> Some (Crash, w1)) = Some y"
    show "ends E amount s t w y"
      unfolding ends_def
    proof
      assume st: "s \<noteq> t"
      then obtain c d where w: "w = joined s c d" using joined_ends by metis
      show "\<exists>pieces c1 d1. gives E amount pieces (end_of s w) = Some c1 \<and>
          accepts E pieces (end_of t w) = Some d1 \<and> stuck E amount c1 d1"
      proof (cases "stuck E amount c d")
        case True
        then show ?thesis by (intro exI [of _ "[]"]) (simp add: w end_of_joined [OF st])
      next
        case False
        then obtain piece c1 d1 where step: "give E amount piece c = Some c1" "accept E piece d = Some d1"
          by (auto simp: stuck_def)
        have "rec E amount s t (joined s c1 d1) = Some y"
          using eq step unfolding w give_Some accept_Some
          by (simp add: at_joined [OF st] st read_bytes_def del: at_end.simps)
        from IH [OF this, unfolded ends_def] st obtain pieces c2 d2 where
          "gives E amount pieces c1 = Some c2" "accepts E pieces d1 = Some d2" "stuck E amount c2 d2"
          by (auto simp: end_of_joined [OF st])
        with step show ?thesis by (intro exI [of _ "piece # pieces"]) (simp add: w end_of_joined [OF st])
      qed
    qed
  qed
  with assms(1) show ?thesis by (simp add: ends_def end_of_joined [OF assms(1)])
qed

text \<open>When the loop runs forever, when it returns, and what the two ends have done then.\<close>

lemma transfer_forever:
  assumes "source \<noteq> destination"
    and "transfer_all E amount source destination (joined source c d) = None"
  shows "\<exists>pieces. length pieces = n \<and> gives E amount pieces c \<noteq> None \<and> accepts E pieces d \<noteq> None"
  using assms(2)
proof (induction n arbitrary: c d)
  case (Suc n)
  from transfer_round [OF assms(1), of E amount c d] Suc.prems obtain piece c1 d1 where
    first: "give E amount piece c = Some c1" "accept E piece d = Some d1"
    and "transfer_all E amount source destination (joined source c1 d1) = None"
    by (metis option.distinct(1))
  from Suc.IH [OF this(3)] obtain pieces where
    "length pieces = n \<and> gives E amount pieces c1 \<noteq> None \<and> accepts E pieces d1 \<noteq> None" ..
  with first show ?case by (intro exI [of _ "piece # pieces"]) simp
qed simp

lemma transfer_stops:
  assumes "source \<noteq> destination"
    and "transfer_all E amount source destination (joined source c d) = Some y"
  shows "\<exists>n. \<forall>pieces. length pieces = n \<longrightarrow> gives E amount pieces c = None \<or> accepts E pieces d = None"
proof -
  from transfer_gets_stuck [OF assms] obtain ps c1 d1 where
    "gives E amount ps c = Some c1" "accepts E ps d = Some d1" "stuck E amount c1 d1" by blast
  from stuck_longest [OF this] show ?thesis by (metis Suc_n_not_le_n)
qed

lemma transfer_returns:
  assumes "source \<noteq> destination"
  shows "transfer_all E amount source destination (joined source c d) = Some (Ok (), joined source c2 d2) \<longleftrightarrow>
    (\<exists>pieces c1. gives E amount pieces c = Some c1 \<and> data_to_send E amount c1 = (Ok [], c2) \<and>
       accepts E pieces d = Some d2)" (is "?run c d \<longleftrightarrow> ?moves")
proof
  assume run: "?run c d"
  from transfer_gets_stuck [OF assms run] obtain ps c1 d1 where
    ps: "gives E amount ps c = Some c1" "accepts E ps d = Some d1" "stuck E amount c1 d1" by blast
  have "?run c1 d1"
    using transfer_moved [OF assms ps(1,2)] run by simp
  then have "data_to_send E amount c1 = (Ok [], c2) \<and> d1 = d2"
    using ps(3) by (cases rule: transfer_round [OF assms, of E amount c1 d1]) (auto simp: stuck_def)
  with ps show ?moves by blast
next
  assume ?moves
  then obtain ps c1 where ps: "gives E amount ps c = Some c1" "data_to_send E amount c1 = (Ok [], c2)"
    "accepts E ps d = Some d2" by blast
  have "?run c1 d2"
    by (cases rule: transfer_round [OF assms, of E amount c1 d2]) (use ps(2) in \<open>auto simp: give_Some\<close>)
  with transfer_moved [OF assms ps(1,3)] show "?run c d" by simp
qed

text \<open>
  C36. The loop of \<open>transfer\<close> is the composition of its two ends, which do not influence each other: it
  returns exactly when the source, on its own, has no output left after finitely many pieces and the
  destination, on its own, accepts these pieces in this order, and it leaves both in the states they
  have then; and it runs forever exactly when the source gives more pieces than any number and the
  destination accepts them.
\<close>

theorem transfer_all_moves:
  assumes "source \<noteq> destination"
  shows "(transfer_all E amount source destination w = Some (Ok (), w') \<longleftrightarrow>
      (\<exists>pieces c. gives E amount pieces (end_of source w) = Some c \<and>
         data_to_send E amount c = (Ok [], end_of source w') \<and>
         accepts E pieces (end_of destination w) = Some (end_of destination w'))) \<and>
    (transfer_all E amount source destination w = None \<longleftrightarrow>
      (\<forall>n. \<exists>pieces. length pieces = n \<and> gives E amount pieces (end_of source w) \<noteq> None \<and>
         accepts E pieces (end_of destination w) \<noteq> None))"
  using transfer_returns [OF assms, of E amount "end_of source w" "end_of destination w" "end_of source w'" "end_of destination w'"]
    transfer_forever [OF assms, of E amount "end_of source w" "end_of destination w"]
    transfer_stops [OF assms, of E amount "end_of source w" "end_of destination w"]
  unfolding joined_ends [OF assms] by (metis not_None_eq)

text \<open>A client of the concrete library that has its first frame to send.\<close>

definition demo_started :: "demo conn" where
  "demo_started = session_after demo [Init (Some CLIENT) NoConfig, InitiateConnection PyNone]"

lemma reachable_demo_started: "reachable demo demo_started"
  unfolding demo_started_def by (rule reachable_after [OF engine_ok_demo]) (simp add: application_request_def)

lemma demo_started_output:
  obtains c1 c2 where "data_to_send demo (PyInt 24) demo_started = (Ok [Some 4], c1)"
    and "data_to_send demo (PyInt 24) c1 = (Ok [], c2)"
  by (simp add: demo_started_def session_after_def run_simps)

lemma demo_started_input: "\<exists>d. receive_data demo (PyBytes True [4]) demo_started = (Ok (), d)"
  by (simp add: demo_started_def session_after_def run_simps)

theorem transfer_all_moves_witness:
  "\<exists>w'. transfer_all demo (PyInt 24) ClientSide ServerSide
     \<lparr>client_end = demo_started, server_end = demo_started\<rparr> = Some (Ok (), w')"
proof -
  let ?w = "\<lparr>client_end = demo_started, server_end = demo_started\<rparr>"
  obtain c1 c2 d where run: "data_to_send demo (PyInt 24) demo_started = (Ok [Some 4], c1)"
    "data_to_send demo (PyInt 24) c1 = (Ok [], c2)" "receive_data demo (PyBytes True [4]) demo_started = (Ok (), d)"
    using demo_started_output demo_started_input by metis
  then have "gives demo (PyInt 24) [[4]] (end_of ClientSide ?w) = Some c1"
    "accepts demo [[4]] (end_of ServerSide ?w) = Some d"
    by (simp_all add: end_of_def give_def accept_def)
  with run(2) conjunct1 [OF transfer_all_moves [of ClientSide ServerSide demo "PyInt 24" ?w
      "\<lparr>client_end = c2, server_end = d\<rparr>"]] show ?thesis
    by (fastforce simp: end_of_def)
qed

section \<open>The programs\<close>

text \<open>
  C32. The programs on sockets and in memory are safe: whatever the engine does, whatever the transport
  delivers and whenever it fails, and in whatever order the server answers, no call of the programs
  runs into undefined behaviour, none reads a byte of output that was never written, and the
  connections stay reachable, so that every property of reachable connections holds for them.
\<close>

theorem programs_safe:
  assumes "engine_ok E" and "reachable E (task_conn v)" and "reachable E (task_conn w)"
    and "reachable E (client_end u)" and "reachable E (server_end u)"
  shows "fst (handle_connection E order negotiated reads v) \<noteq> Crash \<and>
    reachable E (task_conn (snd (handle_connection E order negotiated reads v))) \<and>
    fst (get E url negotiated reads w) \<noteq> Crash \<and>
    reachable E (task_conn (snd (get E url negotiated reads w))) \<and>
    fst (handshake E u) \<noteq> Crash \<and>
    reachable E (client_end (snd (handshake E u))) \<and> reachable E (server_end (snd (handshake E u)))"
proof -
  note runs = keepsD [OF keeps_handle_connection [OF assms(1)], of v order negotiated reads]
    keepsD [OF keeps_get [OF assms(1)], of w url negotiated reads]
    keepsD [OF keeps_handshake [OF assms(1)], of u]
  from assms(2-5) runs [THEN wp_no_crash] runs [THEN wp_snd] show ?thesis
    by (simp add: task_safe_def ends_safe_def)
qed

text \<open>The programs of the concrete library, on a transport that delivers two chunks and ends.\<close>

definition idle_task :: "'s task" where
  "idle_task = \<lparr>task_conn = new_conn, sent_bytes = [], drains = [], closing_error = Some SSLError,
     closed_writer = False\<rparr>"

definition server_start :: "'s server_task" where
  "server_start = task.extend idle_task (server_task.fields (\<lambda>_. None))"

definition client_start :: "'s client_task" where
  "client_start = task.extend idle_task (client_task.fields [])"

definition front_page :: target where
  "front_page = \<lparr>url_scheme = code_points ''https'', url_host = Some (code_points ''example.test''),
     url_port = Some 8443, url_path = [], url_query = []\<rparr>"

theorem programs_safe_witness:
  "fst (handle_connection demo id True [Inr [1, 2], Inr [3]] server_start) \<noteq> Crash \<and>
   fst (get demo front_page True [Inr [1, 2], Inl ConnectionError] client_start) \<noteq> Crash"
  using programs_safe [OF engine_ok_demo, of server_start client_start
      "\<lparr>client_end = new_conn, server_end = new_conn\<rparr>" id True "[Inr [1, 2], Inr [3]]"]
    programs_safe [OF engine_ok_demo, of server_start client_start
      "\<lparr>client_end = new_conn, server_end = new_conn\<rparr>" id True "[Inr [1, 2], Inl ConnectionError]" front_page]
  by (simp add: reachable_new server_start_def client_start_def idle_task_def task.defs client_task.defs
      server_task.defs)

text \<open>The event that reports the end of the connection.\<close>

definition hangs_up :: "event \<Rightarrow> bool" where
  "hangs_up e = (case e of ConnectionClosed code debug \<Rightarrow> True | _ \<Rightarrow> False)"

section \<open>Manual flow control\<close>

text \<open>The bytes that some events report, on a stream and altogether.\<close>

definition reported :: "event list \<Rightarrow> int \<Rightarrow> int" where
  "reported es i = sum_list (map (\<lambda>e. case e of
     DataReceived j data ends \<Rightarrow> if j = i then int (length data) else 0 | _ \<Rightarrow> 0) es)"

definition reported_total :: "event list \<Rightarrow> int" where
  "reported_total es = sum_list (map (\<lambda>e. case e of
     DataReceived j data ends \<Rightarrow> int (length data) | _ \<Rightarrow> 0) es)"

definition reports_ok :: "event list \<Rightarrow> bool" where
  "reports_ok es \<longleftrightarrow> list_all (\<lambda>e. case e of
     DataReceived j data ends \<Rightarrow> 1 \<le> j \<and> j \<le> 0x7FFFFFFF \<and> int (length data) \<le> 2 ^ 63 - 1
   | _ \<Rightarrow> True) es"

definition consuming :: "'s engine \<Rightarrow> 's conn \<Rightarrow> bool" where
  "consuming E c \<longleftrightarrow> c_active c \<and> \<not> c_failed c \<and> \<not> c_terminating c \<and> \<not> c_auto_window_update c \<and>
     c_session c \<noteq> None"

lemma credit_nonneg: "credits_ok auto (c_unconsumed c) \<Longrightarrow> 0 \<le> credit i c"
  by (auto simp: credits_ok_def credit_def order_le_less split: option.split)

text \<open>
  The calls the program makes of the engine for the DATA events of a batch, one after the other, until
  one is refused.
\<close>

primrec consume_reports :: "'s engine \<Rightarrow> event list \<Rightarrow> 's \<Rightarrow> exc + 's" where
  "consume_reports E [] = Inr"
| "consume_reports E (e # es) = (\<lambda>s. case e of
      DataReceived i data ends \<Rightarrow>
        if data = [] then consume_reports E es s
        else (case eng_session_consume E i (int (length data)) s of
            (RcOk m, s') \<Rightarrow> consume_reports E es s'
          | (RcErr code, s') \<Rightarrow> Inl (nghttp2_error code))
    | _ \<Rightarrow> consume_reports E es s)"

lemma consume_event_step:
  assumes "consuming E c" and "c_session c = Some s" and "credit i c = k"
    and "1 \<le> i" "i \<le> 0x7FFFFFFF" "int (length data) \<le> 2 ^ 63 - 1"
  obtains (no_bytes) "data = []" and "consume_event E (DataReceived i data ends) c = (Ok 0, c)"
    | (short) "data \<noteq> []" and "k < int (length data)" and "consume_event E (DataReceived i data ends) c = (Raise ValueError, c)"
    | (refused) code s' c' where "data \<noteq> []" and "int (length data) \<le> k"
      and "eng_session_consume E i (int (length data)) s = (RcErr code, s')"
      and "consume_event E (DataReceived i data ends) c = (Raise (nghttp2_error code), c')"
    | (taken) m s' c' where "data \<noteq> []" and "int (length data) \<le> k"
      and "eng_session_consume E i (int (length data)) s = (RcOk m, s')"
      and "consume_event E (DataReceived i data ends) c = (Ok (int (length data)), c')"
      and "consuming E c'" and "c_session c' = Some s'" and "credit i c' = k - int (length data)"
      and "\<And>j. j \<noteq> i \<Longrightarrow> credit j c' = credit j c"
proof -
  note run = consuming_def consume_received_data_def credit_def monad_run guard_run conversion_run Let_def
  obtain rc s' where e: "eng_session_consume E i (int (length data)) s = (rc, s')" by (metis prod.collapse)
  consider "data = []" | "data \<noteq> []" "k < int (length data)" | "data \<noteq> []" "int (length data) \<le> k" by linarith
  then show thesis
  proof cases
    case 1
    with assms show thesis by - (rule no_bytes, simp_all add: run)
  next
    case 2
    with assms show thesis by (intro short) (auto simp: run)
  next
    case 3
    show thesis
    proof (cases rc)
      case (RcErr code)
      with 3 assms e show thesis
        by (intro refused [of code s' "snd (consume_event E (DataReceived i data ends) c)"]) (auto simp: run)
    next
      case (RcOk m)
      with 3 assms e show thesis
        by (intro taken [of m s' "snd (consume_event E (DataReceived i data ends) c)"])
          (auto simp: run split: option.split)
    qed
  qed
qed

lemma reported_simps [simp]:
  "reported [] i = 0" "reported (DataReceived j data ends # es) i = (if j = i then int (length data) else 0) + reported es i"
  "reported_total [] = 0" "reported_total (DataReceived j data ends # es) = int (length data) + reported_total es"
  by (simp_all add: reported_def reported_total_def)

lemma reported_nonneg: "0 \<le> reported es i"
  by (induction es) (auto simp: reported_def split: event.split)

lemma reported_other:
  "\<nexists>j data ends. e = DataReceived j data ends \<Longrightarrow>
    reported (e # es) i = reported es i \<and> reported_total (e # es) = reported_total es \<and>
    consume_event E e = returnM 0"
  by (cases e) (simp_all add: reported_def reported_total_def)

lemma consume_reports_other:
  "\<nexists>j data ends. e = DataReceived j data ends \<Longrightarrow> consume_reports E (e # es) = consume_reports E es"
  by (cases e) auto

text \<open>The whole batch: \<open>v\<close> is what the engine makes of it.\<close>

definition settles :: "event list \<Rightarrow> 's conn \<Rightarrow> exc + 's \<Rightarrow> (exc, int) outcome \<Rightarrow> 's conn \<Rightarrow> bool" where
  "settles es c v r c' \<longleftrightarrow>
     (if \<forall>i. reported es i \<le> credit i c then
        (case v of
           Inl e \<Rightarrow> r = Raise e
         | Inr s' \<Rightarrow> r = Ok (reported_total es) \<and> c_session c' = Some s' \<and>
             (\<forall>i. credit i c' = credit i c - reported es i))
      else \<exists>e. r = Raise e)"

definition consume_all :: "'s engine \<Rightarrow> event list \<Rightarrow> ('s, int) meth" where
  "consume_all E es = bindM (mapM (consume_event E) es) (\<lambda>consumed. returnM (sum_list consumed))"

lemma consume_all_Cons:
  "consume_all E (e # es) = bindM (consume_event E e) (\<lambda>n. bindM (consume_all E es) (\<lambda>m. returnM (n + m)))"
  by (auto simp: consume_all_def bindM_def returnM_def fun_eq_iff split: prod.split outcome.split)

lemma settles_taken:
  assumes "settles es c' v r c''" and "\<And>i. credit i c' = credit i c - (if j = i then int (length data) else 0)"
  shows "settles (DataReceived j data ends # es) c v
    (case r of Ok m \<Rightarrow> Ok (int (length data) + m) | Raise e \<Rightarrow> Raise e | Crash \<Rightarrow> Crash) c''"
proof -
  have "(\<forall>i. reported (DataReceived j data ends # es) i \<le> credit i c) \<longleftrightarrow> (\<forall>i. reported es i \<le> credit i c')"
    by (simp add: assms(2) algebra_simps)
  moreover have "credit i c' - reported es i = credit i c - reported (DataReceived j data ends # es) i" for i
    by (simp add: assms(2))
  ultimately show ?thesis
    using assms(1) unfolding settles_def by (cases v) (auto split: if_splits)
qed

lemma consume_events:
  assumes "consuming E c" and "c_session c = Some s" and "reports_ok es" and "\<And>i. 0 \<le> credit i c"
  shows "\<exists>r c'. consume_all E es c = (r, c') \<and> settles es c (consume_reports E es s) r c'"
  using assms
proof (induction es arbitrary: c s)
  case Nil
  then show ?case by (auto simp: consume_all_def settles_def returnM_def bindM_def)
next
  case (Cons e es)
  have rest: "reports_ok es" using Cons.prems(3) by (simp add: reports_ok_def)
  note IH = Cons.IH [OF _ _ rest]
  show ?case
  proof (cases "\<exists>j data ends. e = DataReceived j data ends")
    case True
    then obtain j data ends where e: "e = DataReceived j data ends" by blast
    with Cons.prems(3) have j: "1 \<le> j" "j \<le> 0x7FFFFFFF" "int (length data) \<le> 2 ^ 63 - 1"
      by (simp_all add: reports_ok_def)
    have go_on: ?thesis if step: "consume_event E e c = (Ok (int (length data)), c')" "consuming E c'" "c_session c' = Some s'"
      and credits: "\<And>i. credit i c' = credit i c - (if j = i then int (length data) else 0)"
      and fits: "int (length data) \<le> credit j c" and v: "consume_reports E (e # es) s = consume_reports E es s'" for c' s'
    proof -
      have "0 \<le> credit i c'" for i
        using Cons.prems(4) [of i] fits by (auto simp: credits)
      from IH [OF step(2,3) this] obtain r c'' where "consume_all E es c' = (r, c'')"
        "settles es c' (consume_reports E es s') r c''" by blast
      with settles_taken [OF this(2) credits, of ends] step(1) v show ?thesis
        by (auto simp: consume_all_Cons e bindM_def returnM_def split: outcome.split)
    qed
    show ?thesis
    proof (cases rule: consume_event_step [OF Cons.prems(1,2) refl j, of ends, case_names no_bytes short refused taken])
      case no_bytes
      with Cons.prems show ?thesis by (intro go_on [of c s]) (simp_all add: e del: consume_event.simps)
    next
      case short
      then have "\<not> (\<forall>i. reported (e # es) i \<le> credit i c)"
        using reported_nonneg [of es j] by (auto simp: e intro!: exI [of _ j])
      then have "settles (e # es) c v (Raise ValueError) c" for v by (auto simp: settles_def)
      with short show ?thesis by (simp add: consume_all_Cons e bindM_def del: consume_event.simps)
    next
      case (refused code s' c')
      then show ?thesis
        by (auto simp: consume_all_Cons e bindM_def settles_def simp del: consume_event.simps)
    next
      case (taken m s' c')
      then have "credit i c' = credit i c - (if j = i then int (length data) else 0)" for i
        by (cases "j = i") auto
      with taken show ?thesis by (intro go_on [of c' s']) (simp_all add: e del: consume_event.simps)
    qed
  next
    case False
    then have other: "reported (e # es) i = reported es i" "reported_total (e # es) = reported_total es"
      "consume_event E e = returnM 0" for i
      using reported_other [of e es i E] by blast+
    have "settles (e # es) c = settles es c" by (rule ext)+ (unfold settles_def other, rule refl)
    moreover have "consume_all E (e # es) = consume_all E es"
      by (auto simp: consume_all_Cons other bindM_def returnM_def fun_eq_iff split: prod.split outcome.split)
    ultimately show ?thesis
      using IH [OF Cons.prems(1,2,4)] consume_reports_other [OF False, of E es] by simp
  qed
qed

text \<open>
  C37. \<open>consume_available_data\<close> on a connection with manual flow control: it takes the pending events and,
  when the streams have the credit their DATA events report and the engine accepts each amount in turn,
  it returns the number of bytes reported and has given back exactly these bytes, stream by stream. When
  the engine refuses an amount it raises the engine's error, and it raises when a stream lacks credit.
\<close>

theorem available_data_consumed:
  assumes "engine_ok E" and "reachable E c" and "c_active c" "\<not> c_terminating c"
    and "\<not> c_auto_window_update c" and "c_session c = Some s" and "reports_ok (c_events c)"
  shows "\<exists>r c'. consume_available_data E c = (r, c') \<and>
    (if \<forall>i. reported (c_events c) i \<le> credit i c then
       (case consume_reports E (c_events c) s of
          Inl e \<Rightarrow> r = Raise e
        | Inr s' \<Rightarrow> r = Ok (reported_total (c_events c)) \<and> c_session c' = Some s' \<and>
            (\<forall>i. credit i c' = credit i c - reported (c_events c) i))
     else \<exists>e. r = Raise e)"
proof -
  let ?c = "c\<lparr>c_events := []\<rparr>"
  have "running E False 0 c"
    using active_running [OF assms(1) reachable_inv [OF assms(2,1)] assms(3)] by blast
  then have "0 \<le> credit i ?c" for i
    using credit_nonneg runningD(6) by (fastforce simp: credit_def)
  moreover have "consuming E ?c" "c_session ?c = Some s"
    using assms(3-6) conn_inv_session [OF reachable_inv [OF assms(2,1)]] by (auto simp: consuming_def)
  ultimately obtain r c' where "consume_all E (c_events c) ?c = (r, c')"
    and r: "settles (c_events c) ?c (consume_reports E (c_events c) s) r c'"
    using consume_events [of E ?c s "c_events c"] assms(7) by blast
  then have run: "consume_available_data E c = (r, c')"
    by (simp add: consume_available_data_def consume_all_def events_def monad_run)
  have same: "credit i ?c = credit i c" for i by (simp add: credit_def)
  show ?thesis using run r [unfolded settles_def same] by blast
qed

text \<open>A client that accounts for received bytes itself and was sent two DATA frames.\<close>

definition manual_session :: "demo request list" where
  "manual_session =
     [Init (Some CLIENT) (AConfig (default_configuration\<lparr>auto_window_update := PyBool False\<rparr>)),
      InitiateConnection PyNone, ReceiveData (PyBytes True [7, 8]), ReceiveData (PyBytes True [9])]"

lemma reachable_manual: "reachable demo (session_after demo manual_session)"
  by (rule reachable_after [OF engine_ok_demo])
    (simp add: manual_session_def application_request_def default_configuration_def guided_config_def)

lemma manual_session_after:
  "c_active (session_after demo manual_session)" "\<not> c_terminating (session_after demo manual_session)"
  "\<not> c_auto_window_update (session_after demo manual_session)"
  "c_session (session_after demo manual_session) =
     Some \<lparr>dm_next = 1, dm_out = [4], dm_streams = [], dm_open = True\<rparr>"
  "c_events (session_after demo manual_session) =
     [DataReceived 1 [Some 7, Some 8] False, DataReceived 1 [Some 9] False]"
  "c_unconsumed (session_after demo manual_session) = [1 \<mapsto> 3]"
  by (simp_all add: session_after_def manual_session_def default_configuration_def run_simps)

theorem available_data_consumed_witness:
  "\<exists>r c'. consume_available_data demo (session_after demo manual_session) = (r, c') \<and>
     r = Ok 3 \<and> credit 1 c' = 0"
proof -
  let ?c = "session_after demo manual_session"
  note c = manual_session_after
  have "reports_ok (c_events ?c)"
    by (simp add: c reports_ok_def)
  note result = available_data_consumed [OF engine_ok_demo reachable_manual c(1-4) this]
  have "reported (c_events ?c) i \<le> credit i ?c" "reported (c_events ?c) 1 = 3" "credit 1 ?c = 3"
    "reported_total (c_events ?c) = 3" for i
    by (simp_all add: c credit_def reported_def reported_total_def)
  moreover have "consume_reports demo (c_events ?c) \<lparr>dm_next = 1, dm_out = [4], dm_streams = [], dm_open = True\<rparr> =
      Inr \<lparr>dm_next = 1, dm_out = [4, 8, 8], dm_streams = [], dm_open = True\<rparr>"
    by (simp add: c demo_queue_def)
  ultimately show ?thesis using result by fastforce
qed

end
