(* ===== verification/Client_Spec.thy ===== *)
theory Client_Spec
  imports Driver_Spec
begin

text \<open>
  What the client of \<^verbatim>\<open>examples/python/asyncio_client.py\<close> makes of the events of its connection.
\<close>

section \<open>Collecting a response\<close>

text \<open>
  The events that stop the client and those that complete the response; the body and the status that a list of events reports.
\<close>

definition stops :: "int \<Rightarrow> event \<Rightarrow> bool" where
  "stops i e = (case e of
     ResponseReceived j hs ends \<Rightarrow> j = i \<and> (\<nexists>n. status_of hs = Inr n)
   | StreamReset j code \<Rightarrow> j = i
   | GoAwayReceived l code debug \<Rightarrow> l < i
   | StreamClosed j code err \<Rightarrow> j = i \<and> (err \<noteq> None \<or> error_value_code code \<noteq> 0)
   | _ \<Rightarrow> False)"

definition completes :: "int \<Rightarrow> event \<Rightarrow> bool" where
  "completes i e = (case e of
     StreamClosed j code err \<Rightarrow> j = i \<and> err = None \<and> error_value_code code = 0 | _ \<Rightarrow> False)"

definition body_bytes :: "int \<Rightarrow> event list \<Rightarrow> cell list" where
  "body_bytes i es = concat (map (\<lambda>e. case e of
     DataReceived j data ends \<Rightarrow> if j = i then data else [] | _ \<Rightarrow> []) es)"

definition statuses :: "int \<Rightarrow> event list \<Rightarrow> int list" where
  "statuses i es = concat (map (\<lambda>e. case e of
     ResponseReceived j hs ends \<Rightarrow>
       (if j = i then (case status_of hs of Inl x \<Rightarrow> [] | Inr n \<Rightarrow> [n]) else [])
   | _ \<Rightarrow> []) es)"

definition last_status :: "int option \<Rightarrow> int list \<Rightarrow> int option" where
  "last_status st ns = (if ns = [] then st else Some (last ns))"

text \<open>The connection was reported closed before the response was complete.\<close>

definition cut_off :: "int \<Rightarrow> event list \<Rightarrow> bool" where
  "cut_off i es \<longleftrightarrow> list_ex hangs_up (takeWhile (\<lambda>e. \<not> completes i e) es)"

lemma process_event_ok:
  "process_event i e p = Inr p' \<longleftrightarrow> \<not> stops i e \<and> (hangs_up e \<longrightarrow> p_complete p) \<and>
    p' = \<lparr>p_status = last_status (p_status p) (statuses i [e]), p_body = p_body p @ body_bytes i [e],
      p_complete = (p_complete p \<or> completes i e)\<rparr>"
  by (cases e) (auto simp: stops_def hangs_up_def completes_def statuses_def body_bytes_def last_status_def
      split: sum.split option.split)

lemma process_events_ok:
  "process_events i es p = (None, p') \<longleftrightarrow> list_all (\<lambda>e. \<not> stops i e) es \<and> (p_complete p \<or> \<not> cut_off i es) \<and>
    p' = \<lparr>p_status = last_status (p_status p) (statuses i es), p_body = p_body p @ body_bytes i es,
      p_complete = (p_complete p \<or> list_ex (completes i) es)\<rparr>"
proof (induction es arbitrary: p)
  case Nil
  then show ?case by (auto simp: last_status_def statuses_def body_bytes_def cut_off_def)
next
  case (Cons e es)
  have parts: "body_bytes i (e # es) = body_bytes i [e] @ body_bytes i es"
    "statuses i (e # es) = statuses i [e] @ statuses i es"
    "last_status st (ns @ ns') = last_status (last_status st ns) ns'" for st ns ns'
    by (simp_all add: body_bytes_def statuses_def last_status_def)
  have hang: "hangs_up e \<Longrightarrow> \<not> completes i e"
    by (cases e) (simp_all add: hangs_up_def completes_def)
  let ?ok = "\<not> stops i e \<and> (hangs_up e \<longrightarrow> p_complete p)"
  let ?q = "\<lparr>p_status = last_status (p_status p) (statuses i [e]), p_body = p_body p @ body_bytes i [e],
    p_complete = (p_complete p \<or> completes i e)\<rparr>"
  show ?case
  proof (cases ?ok)
    case True
    then have "process_event i e p = Inr ?q" by (simp add: process_event_ok)
    with True hang Cons.IH [of ?q] show ?thesis by (auto simp: parts cut_off_def)
  next
    case False
    then have "\<forall>q. process_event i e p \<noteq> Inr q" by (simp add: process_event_ok)
    then obtain x where "process_event i e p = Inl x" by (cases "process_event i e p") auto
    with False hang show ?thesis by (auto simp: cut_off_def)
  qed
qed

text \<open>
  C35. Collecting a response: the client accepts a batch of events exactly when none of them ends its
  request (a reset, a GOAWAY that excludes it, a failed closing, a response without a readable status)
  and the connection is not reported closed before the response is complete. It then has the status of
  the last response head, its body is extended by the DATA of its stream and of no other, in order, and
  it is complete exactly when its stream was closed without an error.
\<close>

theorem response_collected:
  "process_response_events i st w = (Ok (st', complete), w') \<longleftrightarrow>
    list_all (\<lambda>e. \<not> stops i e) (c_events (task_conn w)) \<and> \<not> cut_off i (c_events (task_conn w)) \<and>
    st' = last_status st (statuses i (c_events (task_conn w))) \<and>
    complete = list_ex (completes i) (c_events (task_conn w)) \<and>
    w' = w\<lparr>task_conn := (task_conn w)\<lparr>c_events := []\<rparr>, collected_body := collected_body w @ body_bytes i (c_events (task_conn w))\<rparr>"
proof -
  let ?p = "\<lparr>p_status = st, p_body = collected_body w, p_complete = False\<rparr>"
  obtain error p where run: "process_events i (c_events (task_conn w)) ?p = (error, p)"
    by (metis prod.collapse)
  let ?q = "\<lparr>p_status = last_status st (statuses i (c_events (task_conn w))),
    p_body = collected_body w @ body_bytes i (c_events (task_conn w)),
    p_complete = list_ex (completes i) (c_events (task_conn w))\<rparr>"
  from run process_events_ok [of i "c_events (task_conn w)" ?p p]
    process_events_ok [of i "c_events (task_conn w)" ?p ?q] show ?thesis
    by (cases error) (auto simp: process_response_events_def at_conn_def on_conn_def events_def monad_run)
qed

section \<open>A response that completes before the connection closes\<close>

lemma process_events_cut:
  "list_all (\<lambda>e. \<not> stops i e) es \<Longrightarrow> cut_off i es \<Longrightarrow> \<not> p_complete p \<Longrightarrow>
     fst (process_events i es p) = Some ConnectionError"
proof (induction es arbitrary: p)
  case Nil
  then show ?case by (simp add: cut_off_def)
next
  case (Cons e es)
  have go: "\<not> completes i e" and rest: "hangs_up e \<or> cut_off i es"
    using Cons.prems(2) by (auto simp: cut_off_def split: if_splits)
  show ?case
  proof (cases "hangs_up e")
    case True
    with Cons.prems(3) show ?thesis by (cases e) (simp_all add: hangs_up_def)
  next
    case False
    let ?q = "\<lparr>p_status = last_status (p_status p) (statuses i [e]), p_body = p_body p @ body_bytes i [e],
      p_complete = p_complete p\<rparr>"
    have "process_event i e p = Inr ?q" using False go Cons.prems(1) by (simp add: process_event_ok)
    with Cons.IH [of ?q] Cons.prems(1,3) rest False show ?thesis by simp
  qed
qed

lemma cut_off_hangs_up: "list_ex hangs_up es \<Longrightarrow> \<not> list_ex (completes i) es \<Longrightarrow> cut_off i es"
  unfolding cut_off_def by (simp add: takeWhile_eq_all_conv [THEN iffD2] list_ex_iff)

text \<open>
  C38. A defect of the client: it keeps what it learns about completion for one batch of events only.
  Whenever the input of a turn completes the response and the output of the same turn closes the
  connection (as it does when the last frame to send was the only reason to stay open), the client
  raises \<open>ConnectionError\<close> although it has the whole response, whatever else is among the events. The
  same events are accepted when they come in one batch.
\<close>

theorem completed_response_lost:
  assumes "receive_data E (PyBytes True data) (task_conn w) = (Ok (), c1)"
    and "data_to_send E PyNone (c1\<lparr>c_events := []\<rparr>) = (Ok (map Some bs), c2)" and "drains w = []"
    and "list_all (\<lambda>e. \<not> stops i e) (c_events c1 @ c_events c2)"
    and "list_ex (completes i) (c_events c1)" and "\<not> cut_off i (c_events c1)"
    and "\<not> list_ex (completes i) (c_events c2)" and "list_ex hangs_up (c_events c2)"
  shows "fst (fetch_turn E i data st w) = Raise ConnectionError \<and>
    (\<exists>st'. fst (process_response_events i st (w\<lparr>task_conn := c1\<lparr>c_events := c_events c1 @ c_events c2\<rparr>\<rparr>)) =
      Ok (st', True))"
proof
  let ?w1 = "w\<lparr>task_conn := c1\<rparr>"
  let ?w2 = "?w1\<lparr>task_conn := (task_conn ?w1)\<lparr>c_events := []\<rparr>, collected_body := collected_body ?w1 @
    body_bytes i (c_events (task_conn ?w1))\<rparr>"
  have first: "process_response_events i st ?w1 = (Ok (last_status st (statuses i (c_events c1)), True), ?w2)"
    using assms(4-6) by (simp add: response_collected)
  have second: "fst (process_response_events i st' w') = Raise ConnectionError"
    if "task_conn w' = c2" for st' and w' :: "'a client_task"
    using process_events_cut [of i "c_events c2" "\<lparr>p_status = st', p_body = collected_body w', p_complete = False\<rparr>"]
      cut_off_hangs_up [OF assms(8,7)] assms(4) that
    by (auto simp: process_response_events_def at_conn_def on_conn_def events_def monad_run split: prod.split)
  let ?st = "last_status st (statuses i (c_events c1))"
  let ?w3 = "?w2\<lparr>task_conn := c2, sent_bytes := sent_bytes w @ bs\<rparr>"
  have "fetch_turn E i data st w =
      bindM (process_response_events i ?st) (\<lambda>(status, sent_complete).
        returnM (status, True \<or> sent_complete)) ?w3"
    using assms(1-3) first
    by (simp add: fetch_turn_def at_conn_def on_conn_def monad_run write_out_def read_bytes_def drain_def
        split: prod.split outcome.split)
  then show "fst (fetch_turn E i data st w) = Raise ConnectionError"
    using second [of ?w3 ?st] by (auto simp: bindM_def split: prod.splits outcome.splits)
  have "\<not> cut_off i (c_events c1 @ c_events c2)"
    using assms(5,6) by (auto simp: cut_off_def takeWhile_append1 list_ex_iff)
  then show "\<exists>st'. fst (process_response_events i st (w\<lparr>task_conn := c1\<lparr>c_events := c_events c1 @ c_events c2\<rparr>\<rparr>)) =
      Ok (st', True)"
    using assms(4,5) response_collected [of i st "w\<lparr>task_conn := c1\<lparr>c_events := c_events c1 @ c_events c2\<rparr>\<rparr>"]
    by (auto simp: list_ex_append) (metis fst_conv)
qed

text \<open>
  The concrete library with the last input of a response: it closes the stream, leaves an acknowledgement
  to send, and neither reads nor writes once that is sent. A GOAWAY came before.
\<close>

definition closing_demo :: "demo engine" where
  "closing_demo = demo\<lparr>eng_session_mem_recv := \<lambda>bs s.
     Invoke (StreamClosedCall 1 0) s (\<lambda>ans s. after ans s
       (Return (RcOk (length bs)) (s\<lparr>dm_out := [6], dm_open := False\<rparr>)))\<rparr>"

definition last_turn :: "demo client_task" where
  "last_turn = client_start\<lparr>task_conn := new_conn\<lparr>c_role := Some CLIENT, c_initialized := True,
     c_active := True, c_closing := True,
     c_session := Some \<lparr>dm_next = 3, dm_out = [], dm_streams = [], dm_open = True\<rparr>\<rparr>\<rparr>"

lemma no_error_value: "error_value 0 = KnownCode NO_ERROR"
  by (simp add: error_value_def ERROR_CODES_eq all_error_codes_def)

theorem completed_response_lost_witness:
  "fst (fetch_turn closing_demo 1 [0] (Some 200) last_turn) = Raise ConnectionError"
proof -
  note defs = closing_demo_def last_turn_def client_start_def run_simps stream_closed_def
    update_terminal_state_def stream_closed_event_def connection_closed_event_def discard_pending_state_def
    no_error_value
  let ?c1 = "(task_conn last_turn)\<lparr>c_session := Some \<lparr>dm_next = 3, dm_out = [6], dm_streams = [], dm_open = False\<rparr>,
    c_events := [StreamClosed 1 (KnownCode NO_ERROR) None]\<rparr>"
  have recv: "receive_data closing_demo (PyBytes True [0]) (task_conn last_turn) = (Ok (), ?c1)"
    by (simp add: defs)
  obtain c2 where send: "data_to_send closing_demo PyNone (?c1\<lparr>c_events := []\<rparr>) = (Ok (map Some [6]), c2)"
    "c_events c2 = [ConnectionClosed (KnownCode NO_ERROR) []]"
    by (simp add: defs)
  have "drains last_turn = []"
    by (simp add: last_turn_def client_start_def idle_task_def task.defs client_task.defs)
  from completed_response_lost [OF recv send(1) this, of 1 "Some 200"] send(2) show ?thesis
    by (simp add: stops_def completes_def hangs_up_def cut_off_def)
qed

end
