(* ===== verification/Server_Spec.thy ===== *)
theory Server_Spec
  imports Driver_Spec "HOL-Library.Multiset"
begin

text \<open>
  What the server of \<^verbatim>\<open>examples/python/asyncio_server.py\<close> makes of the events of its connection, and
  how it answers.
\<close>

section \<open>Routing\<close>

text \<open>
  The events that drop a stream, that begin a request, that begin and end it at once, and that end one
  that has begun.
\<close>

definition drops :: "int \<Rightarrow> event \<Rightarrow> bool" where
  "drops i e = (case e of
     StreamReset j code \<Rightarrow> j = i | StreamClosed j code err \<Rightarrow> j = i | _ \<Rightarrow> False)"

definition begins :: "int \<Rightarrow> event \<Rightarrow> bool" where
  "begins i e = (case e of RequestReceived j hs ends \<Rightarrow> j = i | _ \<Rightarrow> False)"

definition finishes :: "int \<Rightarrow> event \<Rightarrow> bool" where
  "finishes i e = (case e of
     RequestReceived j hs ends \<Rightarrow> j = i \<and> ends
   | DataReceived j data ends \<Rightarrow> j = i \<and> ends
   | TrailersReceived j hs \<Rightarrow> j = i
   | _ \<Rightarrow> False)"

text \<open>The events of a stream's last life, and whether its request was known when that life began.\<close>

definition last_life :: "int \<Rightarrow> event list \<Rightarrow> event list" where
  "last_life i es = rev (takeWhile (\<lambda>e. \<not> drops i e) (rev es))"

definition known_before :: "int \<Rightarrow> (int \<Rightarrow> header list option) \<Rightarrow> event list \<Rightarrow> bool" where
  "known_before i pending es \<longleftrightarrow> pending i \<noteq> None \<and> \<not> list_ex (drops i) es"

text \<open>The part of the last life in which the request is known.\<close>

definition request_part :: "int \<Rightarrow> (int \<Rightarrow> header list option) \<Rightarrow> event list \<Rightarrow> event list" where
  "request_part i pending es =
     (if known_before i pending es then last_life i es
      else dropWhile (\<lambda>e. \<not> begins i e) (last_life i es))"

definition route :: "event list \<Rightarrow> (int \<Rightarrow> header list option) \<Rightarrow> routing" where
  "route es pending = fold route_event es \<lparr>r_requests = pending, r_ready = [], r_closed = False\<rparr>"

lemma last_life_snoc:
  "last_life i (es @ [e]) = (if drops i e then [] else last_life i es @ [e])"
  by (simp add: last_life_def)

lemma dropWhile_snoc:
  "dropWhile P (xs @ [x]) = (if list_all P xs then (if P x then [] else [x]) else dropWhile P xs @ [x])"
  by (induction xs) auto

lemma route_snoc: "route (es @ [e]) pending = route_event e (route es pending)"
  by (simp add: route_def)

lemma dropWhile_Nil_list_all: "dropWhile P xs = [] \<longleftrightarrow> list_all P xs"
  by (induction xs) auto

lemma request_part_snoc:
  "request_part i pending (es @ [e]) =
     (if drops i e then []
      else if request_part i pending es \<noteq> [] \<or> begins i e \<or> known_before i pending es
      then request_part i pending es @ [e] else [])"
  by (auto simp: request_part_def known_before_def last_life_snoc dropWhile_snoc dropWhile_Nil_list_all
      list_all_iff)

text \<open>What one event does to a stream.\<close>

lemma route_event_known:
  "r_requests (route_event e r) i \<noteq> None \<longleftrightarrow> \<not> drops i e \<and> (begins i e \<or> r_requests r i \<noteq> None)"
  by (cases e) (auto simp: drops_def begins_def Let_def mark_ready_def drop_stream_def)

lemma route_event_ready:
  "i \<in> set (r_ready (route_event e r)) \<longleftrightarrow>
     \<not> drops i e \<and> (i \<in> set (r_ready r) \<or> finishes i e \<and> (begins i e \<or> r_requests r i \<noteq> None))"
  by (cases e) (auto simp: finishes_def drops_def begins_def Let_def mark_ready_def drop_stream_def)

text \<open>When a stream's request is known, and when it is ready.\<close>

lemma route_known:
  "r_requests (route es pending) i \<noteq> None \<longleftrightarrow>
     known_before i pending es \<or> request_part i pending es \<noteq> []"
proof (induction es rule: rev_induct)
  case Nil
  show ?case by (simp add: route_def known_before_def request_part_def last_life_def)
next
  case (snoc e es)
  have "known_before i pending (es @ [e]) \<longleftrightarrow> known_before i pending es \<and> \<not> drops i e"
    by (auto simp: known_before_def)
  with snoc show ?case
    unfolding route_snoc route_event_known request_part_snoc by auto
qed

lemma route_ready:
  "i \<in> set (r_ready (route es pending)) \<longleftrightarrow> list_ex (finishes i) (request_part i pending es)"
proof (induction es rule: rev_induct)
  case Nil
  show ?case by (simp add: route_def request_part_def last_life_def)
next
  case (snoc e es)
  then show ?case
    unfolding route_snoc route_event_ready route_known request_part_snoc by auto
qed

lemma route_distinct: "distinct (r_ready (route es pending))"
proof (induction es rule: rev_induct)
  case (snoc e es)
  then show ?case
    by (cases e) (auto simp: route_snoc mark_ready_def drop_stream_def Let_def distinct_removeAll)
qed (simp add: route_def)

section \<open>Answering\<close>

lemma at_conn_requests: "at_conn m w = (r, w') \<Longrightarrow> requests w' = requests w"
  by (auto simp: at_conn_def on_conn_def split: prod.splits)

lemma at_conn_thenM_requests: "thenM (at_conn m) (at_conn k) w = (r, w') \<Longrightarrow> requests w' = requests w"
  by (auto simp: thenM_def bindM_def dest!: at_conn_requests split: prod.splits outcome.splits)

lemma server_send_response_requests:
  "server_send_response E i hs w = (r, w') \<Longrightarrow> requests w' = requests w"
  by (auto simp: server_send_response_def raiseM_def dest!: at_conn_requests at_conn_thenM_requests
      split: option.splits prod.splits if_splits)

lemma respond_to_requests:
  "respond_to E i w = (r, w') \<Longrightarrow> requests w' = (requests w)(i := None)"
  by (auto simp: respond_to_def monad_run dest: server_send_response_requests
      split: option.splits)

text \<open>
  The headers of a known request: those of the last \<open>RequestReceived\<close> of the stream's last life, or, when
  there is none, those remembered from earlier batches.
\<close>

definition headers_of :: "event \<Rightarrow> header list" where
  "headers_of e = (case e of RequestReceived i hs ends \<Rightarrow> hs | _ \<Rightarrow> [])"

definition asked :: "int \<Rightarrow> (int \<Rightarrow> header list option) \<Rightarrow> event list \<Rightarrow> header list option" where
  "asked i pending es = (case filter (begins i) (last_life i es) of
     [] \<Rightarrow> if list_ex (drops i) es then None else pending i
   | begun \<Rightarrow> Some (headers_of (last begun)))"

lemma route_event_requests:
  "r_requests (route_event e r) i =
     (if drops i e then None else if begins i e then Some (headers_of e) else r_requests r i)"
  by (cases e) (auto simp: drops_def begins_def headers_of_def Let_def mark_ready_def drop_stream_def)

lemma route_requests: "r_requests (route es pending) i = asked i pending es"
proof (induction es rule: rev_induct)
  case Nil
  show ?case by (simp add: route_def asked_def last_life_def)
next
  case (snoc e es)
  then show ?case
    unfolding route_snoc route_event_requests
    by (auto simp: asked_def last_life_snoc split: list.splits)
qed

lemma route_closed: "r_closed (route es pending) \<longleftrightarrow> list_ex hangs_up es"
proof (induction es rule: rev_induct)
  case (snoc e es)
  then show ?case
    by (cases e) (auto simp: route_snoc hangs_up_def mark_ready_def drop_stream_def Let_def)
qed (simp add: route_def)

text \<open>
  The calls that answer a request: the response, whose header fields say how long the content is, and
  the content in one piece that ends the stream, unless the request was HEAD.
\<close>

definition answers :: "int \<Rightarrow> header list option \<Rightarrow> 's request list" where
  "answers i request =
     (case Option.bind request (\<lambda>hs. header_dict hs (ascii '':method'')) of
        None \<Rightarrow> []
      | Some method \<Rightarrow> (case Option.bind request (\<lambda>hs. header_dict hs (ascii '':path'')) of
          None \<Rightarrow> []
        | Some path \<Rightarrow>
            (let (status, content) = choose_answer method path; bodiless = (method = ascii ''HEAD'') in
             SendResponse (PyInt i) (response_fields status content) (PyBool bodiless) #
             (if bodiless then [] else [SendData (PyInt i) (PyBytes True content) (PyBool True)]))))"

text \<open>Calls on a connection that all return.\<close>

primrec returns_all :: "'s engine \<Rightarrow> 's request list \<Rightarrow> 's conn \<Rightarrow> 's conn option" where
  "returns_all E [] = Some"
| "returns_all E (req # reqs) = (\<lambda>c. case perform E req c of
      (Ok u, c') \<Rightarrow> returns_all E reqs c' | _ \<Rightarrow> None)"

lemma returns_all_append:
  "returns_all E (xs @ ys) c = Option.bind (returns_all E xs c) (returns_all E ys)"
  by (induction xs arbitrary: c) (auto split: prod.split outcome.split)

lemma at_conn_Ok: "at_conn m w = (Ok x, w') \<Longrightarrow> m (task_conn w) = (Ok x, task_conn w')"
  by (auto simp: at_conn_def on_conn_def split: prod.splits)

lemma server_send_response_answers:
  fixes w :: "'s server_task"
  assumes "server_send_response E i hs w = (Ok u, w')"
  shows "(answers i (Some hs) :: 's request list) \<noteq> [] \<and> returns_all E (answers i (Some hs)) (task_conn w) = Some (task_conn w')"
  using assms
  by (auto simp: server_send_response_def answers_def thenM_def bindM_def raiseM_def Let_def
      split: option.splits prod.splits outcome.splits if_splits dest!: at_conn_Ok)

lemma respond_to_answers:
  fixes w :: "'s server_task"
  assumes "respond_to E i w = (Ok u, w')" and "requests w i = Some hs"
  shows "(answers i (Some hs) :: 's request list) \<noteq> [] \<and> returns_all E (answers i (Some hs)) (task_conn w) = Some (task_conn w')"
  using assms server_send_response_answers [of E i hs "w\<lparr>requests := (requests w)(i := None)\<rparr>" u w']
  by (auto simp: respond_to_def monad_run)

lemma respond_all_answers:
  assumes "mapM (respond_to E) is w = (Ok us, w')" and "distinct is" and "\<And>i. i \<in> set is \<Longrightarrow> requests w i \<noteq> None"
  shows "requests w' = (requests w) |` (- set is) \<and> [] \<notin> set (map (\<lambda>i. answers i (requests w i) :: 's request list) is) \<and>
    returns_all E (concat (map (\<lambda>i. answers i (requests w i)) is)) (task_conn w) = Some (task_conn (w' :: 's server_task))"
  using assms
proof (induction "is" arbitrary: w us)
  case Nil
  then show ?case by (simp add: returnM_def)
next
  case (Cons i "is")
  then obtain r w1 us1 where step: "respond_to E i w = (Ok r, w1)"
    and rest: "mapM (respond_to E) is w1 = (Ok us1, w')"
    by (auto simp: bindM_def returnM_def split: prod.splits outcome.splits)
  obtain hs where hs: "requests w i = Some hs" using Cons.prems(3) [of i] by auto
  note popped = respond_to_requests [OF step]
  have same: "requests w1 j = requests w j" if "j \<in> set is" for j
    using that Cons.prems(2) by (auto simp: popped)
  have "requests w1 j \<noteq> None" if "j \<in> set is" for j
    using same [OF that] Cons.prems(3) [of j] that by simp
  from Cons.IH [OF rest _ this] Cons.prems(2) have IH: "requests w' = (requests w1) |` (- set is)"
    "[] \<notin> set (map (\<lambda>i. answers i (requests w1 i) :: 's request list) is)"
    "returns_all E (concat (map (\<lambda>i. answers i (requests w1 i)) is)) (task_conn w1) = Some (task_conn w')"
    by simp_all
  have map_same: "map (\<lambda>i. answers i (requests w1 i)) is = (map (\<lambda>i. answers i (requests w i)) is :: 's request list list)"
    using same by simp
  show ?case
    using respond_to_answers [OF step hs] IH [unfolded map_same]
    by (auto simp: hs returns_all_append popped restrict_map_def fun_eq_iff)
qed

text \<open>A batch, with its events taken and its table written: what is left is to answer.\<close>

definition batch :: "'s server_task \<Rightarrow> routing" where
  "batch w = route (c_events (task_conn w)) (requests w)"

definition routed :: "'s server_task \<Rightarrow> 's server_task" where
  "routed w = w\<lparr>task_conn := (task_conn w)\<lparr>c_events := []\<rparr>, requests := r_requests (batch w)\<rparr>"

lemma process_batch:
  "process_request_events E order w =
     (if r_closed (batch w) then (Ok True, routed w)
      else bindM (mapM (respond_to E) (order (r_ready (batch w)))) (\<lambda>_. returnM False) (routed w))"
proof -
  have "requests (w\<lparr>task_conn := c\<rparr>) = requests w" for c by (cases w) simp
  then show ?thesis
    by (auto simp: process_request_events_def at_conn_def on_conn_def events_def monad_run
        Let_def batch_def routed_def route_def [symmetric] split: prod.split outcome.split)
qed

lemma routed_sel:
  "requests (routed w) = (\<lambda>i. asked i (requests w) (c_events (task_conn w)))"
  "task_conn (routed w) = (task_conn w)\<lparr>c_events := []\<rparr>"
  by (simp_all add: routed_def batch_def route_requests fun_eq_iff)

lemma batch_ready:
  assumes "\<And>xs. mset (order xs) = mset xs"
  shows "distinct (order (r_ready (batch w)))"
    and "set (order (r_ready (batch w))) =
      {i. list_ex (finishes i) (request_part i (requests w) (c_events (task_conn w)))}"
    and "i \<in> set (order (r_ready (batch w))) \<Longrightarrow> requests (routed w) i \<noteq> None"
proof -
  show ready: "set (order (r_ready (batch w))) =
      {i. list_ex (finishes i) (request_part i (requests w) (c_events (task_conn w)))}"
    using route_ready [of _ "c_events (task_conn w)" "requests w"] mset_eq_setD [OF assms [of "r_ready (batch w)"]]
    by (auto simp: batch_def)
  show "distinct (order (r_ready (batch w)))"
    using mset_eq_imp_distinct_iff [OF assms [of "r_ready (batch w)"]] route_distinct by (auto simp: batch_def)
  assume "i \<in> set (order (r_ready (batch w)))"
  then have "request_part i (requests w) (c_events (task_conn w)) \<noteq> []" using ready by auto
  then show "requests (routed w) i \<noteq> None"
    using route_known [of "c_events (task_conn w)" "requests w" i] by (simp add: routed_def batch_def)
qed

text \<open>
  C34. What the server does with a batch of events. It remembers exactly the requests that have begun,
  that were not reset or closed since, and that have not ended, with their headers. Those that have
  ended it answers, each of them exactly once and in an order of Python's choice, by the calls that
  answer its headers; when it returns, all these calls have returned and no other call was made on the
  connection. When the connection is reported closed it answers none.
\<close>

theorem requests_routed:
  fixes w :: "'s server_task"
  assumes "process_request_events E order w = (Ok closed, w')" and "\<And>xs. mset (order xs) = mset xs"
  shows "(closed \<longleftrightarrow> list_ex hangs_up (c_events (task_conn w))) \<and>
    (\<exists>served. distinct served \<and>
       set served = (if closed then {}
         else {i. list_ex (finishes i) (request_part i (requests w) (c_events (task_conn w)))}) \<and>
       [] \<notin> set (map (\<lambda>i. answers i (asked i (requests w) (c_events (task_conn w))) :: 's request list) served) \<and>
       returns_all E (concat (map (\<lambda>i. answers i (asked i (requests w) (c_events (task_conn w)))) served))
         ((task_conn w)\<lparr>c_events := []\<rparr>) = Some (task_conn w') \<and>
       requests w' = (\<lambda>i. if i \<in> set served then None else asked i (requests w) (c_events (task_conn w))))"
proof -
  let ?es = "c_events (task_conn w)" and ?served = "if closed then [] else order (r_ready (batch w))"
  have closed: "closed = r_closed (batch w)" and none: "closed \<Longrightarrow> w' = routed w"
    and some: "\<not> closed \<Longrightarrow> \<exists>us. mapM (respond_to E) (order (r_ready (batch w))) (routed w) = (Ok us, w')"
    using assms(1) unfolding process_batch
    by (auto simp: monad_run split: prod.splits outcome.splits if_splits)
  have "requests w' = (\<lambda>i. if i \<in> set ?served then None else asked i (requests w) ?es) \<and>
    [] \<notin> set (map (\<lambda>i. answers i (asked i (requests w) ?es) :: 's request list) ?served) \<and>
    returns_all E (concat (map (\<lambda>i. answers i (asked i (requests w) ?es)) ?served))
      ((task_conn w)\<lparr>c_events := []\<rparr>) = Some (task_conn w')"
  proof (cases closed)
    case True
    with none [OF True] show ?thesis by (simp add: routed_sel)
  next
    case False
    then obtain us where "mapM (respond_to E) (order (r_ready (batch w))) (routed w) = (Ok us, w')"
      using some by blast
    from respond_all_answers [OF this batch_ready(1,3) [OF assms(2)]] False show ?thesis
      unfolding routed_sel by (auto simp: restrict_map_def fun_eq_iff)
  qed
  then show ?thesis
    using batch_ready(1,2) [OF assms(2), of w]
    by (intro conjI exI [of _ ?served]) (auto simp: closed batch_def route_closed)
qed

text \<open>
  A server of the concrete library with an ordinary request that has not ended, a HEAD request that has,
  and one that was reset.
\<close>

definition head_fields :: "header list" where
  "head_fields = [PlainHeader (ascii '':method'') (ascii ''HEAD''), PlainHeader (ascii '':path'') (ascii ''/'')]"

definition busy_server :: "demo server_task" where
  "busy_server = server_start\<lparr>task_conn :=
     (session_after demo [Init (Some SERVER) NoConfig, InitiateConnection PyNone])\<lparr>c_events :=
       [RequestReceived 1 [] False, RequestReceived 3 head_fields True, RequestReceived 5 head_fields True,
        StreamReset 5 (KnownCode CANCEL)]\<rparr>\<rparr>"

lemma head_fields_dict:
  "header_dict head_fields (ascii '':method'') = Some (ascii ''HEAD'')"
  "header_dict head_fields (ascii '':path'') = Some (ascii ''/'')"
  by (simp_all add: head_fields_def header_dict_def) (simp_all add: ascii_def)

lemma busy_server_run: "\<exists>w'. process_request_events demo id busy_server = (Ok False, w')"
proof -
  let ?c = "(session_after demo [Init (Some SERVER) NoConfig, InitiateConnection PyNone])\<lparr>c_events := []\<rparr>"
  obtain c' where answer: "send_response demo (PyInt 3)
      (response_fields (ascii ''200'') (ascii ''Hello over HTTP/2'' @ [10])) (PyBool True) ?c = (Ok (), c')"
    by (simp add: session_after_def response_fields_def http_field_def send_response_def require_stream_def run_simps)
  show ?thesis
    by (simp add: process_request_events_def respond_to_def at_conn_def on_conn_def events_def mark_ready_def
        drop_stream_def monad_run Let_def busy_server_def server_send_response_def head_fields_dict
        choose_answer_def answer)
qed

theorem requests_routed_witness:
  "\<exists>w'. process_request_events demo id busy_server = (Ok False, w') \<and> requests w' 1 = Some [] \<and>
     requests w' 3 = None \<and> requests w' 5 = None \<and>
     returns_all demo (answers 3 (Some head_fields)) ((task_conn busy_server)\<lparr>c_events := []\<rparr>) = Some (task_conn w')"
proof -
  let ?es = "c_events (task_conn busy_server)" and ?m = "requests busy_server"
  obtain w' where run: "process_request_events demo id busy_server = (Ok False, w')"
    using busy_server_run by blast
  have es: "?es = [RequestReceived 1 [] False, RequestReceived 3 head_fields True,
      RequestReceived 5 head_fields True, StreamReset 5 (KnownCode CANCEL)]" "?m = (\<lambda>_. None)"
    by (simp_all add: busy_server_def server_start_def task.defs server_task.defs idle_task_def)
  have ended: "{i. list_ex (finishes i) (request_part i ?m ?es)} = {3}"
    by (auto simp: es request_part_def known_before_def last_life_def drops_def begins_def finishes_def)
  have asked: "asked 1 ?m ?es = Some []" "asked 3 ?m ?es = Some head_fields" "asked 5 ?m ?es = None"
    by (simp_all add: es asked_def last_life_def drops_def begins_def headers_of_def)
  from requests_routed [OF run] obtain served where "distinct served" "set served = {3}"
    and rest: "returns_all demo (concat (map (\<lambda>i. answers i (asked i ?m ?es)) served))
        ((task_conn busy_server)\<lparr>c_events := []\<rparr>) = Some (task_conn w')"
      "requests w' = (\<lambda>i. if i \<in> set served then None else asked i ?m ?es)"
    by (auto simp: ended)
  then have "served = [3]" by (cases served; cases "tl served") auto
  with rest run asked show ?thesis by auto
qed

section \<open>Requests without a path\<close>







end
