(* ===== verification/Examples.thy ===== *)
theory Examples
  imports Drivers
begin

text \<open>
  The in-memory programs of \<^verbatim>\<open>examples/python\<close>: what their \<open>main\<close> functions do with a client and a
  server, step by step. Printing is left out, but what is computed in order to print stays where it can
  raise: looking up a header field, decoding it, reading the bytes of a body. Text is identified with
  its UTF-8 encoding.
\<close>

section \<open>Python steps\<close>

definition StopIteration :: exc where
  "StopIteration = ApplicationError 3"

text \<open>The valid byte strings of \<open>bytes.decode()\<close>.\<close>

definition continues :: "byte \<Rightarrow> bool" where
  "continues b \<longleftrightarrow> 0x80 \<le> b \<and> b \<le> 0xBF"

definition leads_three :: "byte \<Rightarrow> byte \<Rightarrow> bool" where
  "leads_three a b \<longleftrightarrow> a = 0xE0 \<and> 0xA0 \<le> b \<and> b \<le> 0xBF \<or> a = 0xED \<and> 0x80 \<le> b \<and> b \<le> 0x9F \<or>
     (0xE1 \<le> a \<and> a \<le> 0xEC \<or> 0xEE \<le> a \<and> a \<le> 0xEF) \<and> continues b"

definition leads_four :: "byte \<Rightarrow> byte \<Rightarrow> bool" where
  "leads_four a b \<longleftrightarrow> a = 0xF0 \<and> 0x90 \<le> b \<and> b \<le> 0xBF \<or> a = 0xF4 \<and> 0x80 \<le> b \<and> b \<le> 0x8F \<or>
     0xF1 \<le> a \<and> a \<le> 0xF3 \<and> continues b"

fun utf8 :: "byte list \<Rightarrow> bool" where
  "utf8 [] = True"
| "utf8 (a # bs) =
     (if a < 0x80 then utf8 bs else case bs of [] \<Rightarrow> False | b # cs \<Rightarrow>
      if 0xC2 \<le> a \<and> a \<le> 0xDF then continues b \<and> utf8 cs else case cs of [] \<Rightarrow> False | c # ds \<Rightarrow>
      if leads_three a b then continues c \<and> utf8 ds else case ds of [] \<Rightarrow> False | d # es \<Rightarrow>
      leads_four a b \<and> continues c \<and> continues d \<and> utf8 es)"

definition decode :: "byte list \<Rightarrow> exc + byte list" where
  "decode bs = (if utf8 bs then Inr bs else Inl ValueError)"

text \<open>\<open>dict(headers)[name]\<close>, and the same decoded\<close>

definition header_bytes :: "string \<Rightarrow> header list \<Rightarrow> exc + byte list" where
  "header_bytes name headers =
     (case header_dict headers (ascii name) of None \<Rightarrow> Inl KeyError | Some v \<Rightarrow> Inr v)"

definition header_text :: "string \<Rightarrow> header list \<Rightarrow> exc + byte list" where
  "header_text name headers =
     (case header_bytes name headers of Inl e \<Rightarrow> Inl e | Inr v \<Rightarrow> decode v)"

text \<open>\<open>next(event for event in events if isinstance(event, C))\<close>\<close>

definition next_event :: "(event \<Rightarrow> 'a option) \<Rightarrow> event list \<Rightarrow> exc + 'a" where
  "next_event select es =
     (case List.map_filter select es of [] \<Rightarrow> Inl StopIteration | x # _ \<Rightarrow> Inr x)"

fun as_request :: "event \<Rightarrow> (int \<times> header list) option" where
  "as_request (RequestReceived i hs ends) = Some (i, hs)"
| "as_request _ = None"

fun as_response :: "event \<Rightarrow> (int \<times> header list) option" where
  "as_response (ResponseReceived i hs ends) = Some (i, hs)"
| "as_response _ = None"

fun as_data :: "event \<Rightarrow> cell list option" where
  "as_data (DataReceived i data ends) = Some data"
| "as_data _ = None"

fun as_reset :: "event \<Rightarrow> int option" where
  "as_reset (StreamReset i code) = Some i"
| "as_reset _ = None"

fun as_goaway :: "event \<Rightarrow> int option" where
  "as_goaway (GoAwayReceived l code debug) = Some l"
| "as_goaway _ = None"

fun as_closed :: "event \<Rightarrow> (int \<times> error_value \<times> exc option) option" where
  "as_closed (StreamClosed i code local_error) = Some (i, code, local_error)"
| "as_closed _ = None"

fun as_connection_closed :: "event \<Rightarrow> error_value option" where
  "as_connection_closed (ConnectionClosed code debug) = Some code"
| "as_connection_closed _ = None"

fun as_settings :: "event \<Rightarrow> (setting_key \<times> int) list option" where
  "as_settings (SettingsReceived d) = Some d"
| "as_settings _ = None"

fun as_ping :: "event \<Rightarrow> byte list option" where
  "as_ping (PingReceived bs) = Some bs"
| "as_ping _ = None"

fun as_ping_ack :: "event \<Rightarrow> byte list option" where
  "as_ping_ack (PingAcknowledged bs) = Some bs"
| "as_ping_ack _ = None"

fun as_priority_update :: "event \<Rightarrow> (int \<times> byte list) option" where
  "as_priority_update (PriorityUpdateReceived i value) = Some (i, value)"
| "as_priority_update _ = None"

definition on_stream :: "int \<Rightarrow> (event \<Rightarrow> (int \<times> 'a) option) \<Rightarrow> event \<Rightarrow> (int \<times> 'a) option" where
  "on_stream i select e =
     (case select e of None \<Rightarrow> None | Some (j, x) \<Rightarrow> if j = i then Some (j, x) else None)"

text \<open>
  What the programs do with a closed stream: raise its local error, or a \<open>RuntimeError\<close> for another
  code than \<open>NO_ERROR\<close>.
\<close>

definition expect_clean :: "error_value \<Rightarrow> exc option \<Rightarrow> exc + unit" where
  "expect_clean code local_error =
     (case local_error of
        Some e \<Rightarrow> Inl e
      | None \<Rightarrow> if error_value_code code \<noteq> wire_code NO_ERROR then Inl RuntimeError else Inr ())"

text \<open>A \<open>for\<close> loop that updates the variables of its function.\<close>

primrec foldM :: "('a \<Rightarrow> 'b \<Rightarrow> ('w, 'e, 'b) py) \<Rightarrow> 'a list \<Rightarrow> 'b \<Rightarrow> ('w, 'e, 'b) py" where
  "foldM f [] b = returnM b"
| "foldM f (x # xs) b = bindM (f x b) (foldM f xs)"

section \<open>Two endpoints\<close>

type_synonym ('s, 'a) pair = "('s ends, exc, 'a) py"

text \<open>\<open>Connection(role)\<close> makes a new object.\<close>

definition new_end :: "'s engine \<Rightarrow> side \<Rightarrow> role \<Rightarrow> 's config_arg \<Rightarrow> ('s, unit) pair" where
  "new_end E side r config =
     thenM (at_end side (modifyM (\<lambda>_. new_conn))) (at_end side (connection_init E (Some r) config))"

definition new_pair :: "'s engine \<Rightarrow> ('s, unit) pair" where
  "new_pair E = thenM (new_end E ClientSide CLIENT NoConfig) (new_end E ServerSide SERVER NoConfig)"

definition settings_dict :: "(setting \<times> int) list \<Rightarrow> 'w pyobj" where
  "settings_dict kvs = PyMapping (map (\<lambda>(k, v). (returnM (), PyInt (setting_value k), PyInt v)) kvs)"

definition request_fields :: "string \<Rightarrow> string \<Rightarrow> 'w pyobj" where
  "request_fields method path = PyList [http_field '':method'' (ascii method),
     http_field '':scheme'' (ascii ''https''), http_field '':authority'' (ascii ''example.test''),
     http_field '':path'' (ascii path)]"

definition status_fields :: "string \<Rightarrow> 'w pyobj" where
  "status_fields code = PyList [http_field '':status'' (ascii code)]"

definition sized_fields :: "byte list \<Rightarrow> 'w pyobj" where
  "sized_fields content = PyList [http_field '':status'' (ascii ''200''),
     http_field ''content-length'' (map of_nat (decimal (length content)))]"

definition four_transfers :: "'s engine \<Rightarrow> ('s, unit) pair" where
  "four_transfers E =
     thenM (transfer E ClientSide ServerSide) (thenM (transfer E ServerSide ClientSide)
     (thenM (transfer E ClientSide ServerSide) (transfer E ServerSide ClientSide)))"

definition clear_events :: "('s, unit) pair" where
  "clear_events = bindM (at_end ClientSide events) (\<lambda>_. bindM (at_end ServerSide events) (\<lambda>_. returnM ()))"

section \<open>The first round trip\<close>

text \<open>\<^verbatim>\<open>first_round_trip.py\<close>\<close>

definition greeting :: "byte list" where
  "greeting = ascii ''Hello over HTTP/2'' @ [10]"

definition first_round_trip :: "'s engine \<Rightarrow> ('s, unit) pair" where
  "first_round_trip E =
     thenM (new_pair E)
     (thenM (handshake E)
     (bindM (at_end ClientSide (send_request E (request_fields ''GET'' ''/hello'') (PyBool True))) (\<lambda>_.
      thenM (transfer E ClientSide ServerSide)
     (bindM (at_end ServerSide events) (\<lambda>es.
      bindM (liftM (next_event as_request es)) (\<lambda>(stream_id, headers).
      bindM (liftM (header_text '':method'' headers)) (\<lambda>method.
      bindM (liftM (header_text '':path'' headers)) (\<lambda>path.
      thenM (at_end ServerSide (send_response E (PyInt stream_id) (sized_fields greeting) (PyBool False)))
     (thenM (at_end ServerSide (send_data E (PyInt stream_id) (PyBytes True greeting) (PyBool True)))
     (thenM (transfer E ServerSide ClientSide)
     (bindM (at_end ClientSide events) (\<lambda>es.
      bindM (liftM (next_event as_response es)) (\<lambda>(i, headers).
      bindM (liftM (next_event as_data es)) (\<lambda>data.
      bindM (liftM (header_text '':status'' headers)) (\<lambda>status.
      bindM (read_bytes data) (\<lambda>_. returnM ()))))))))))))))))"

section \<open>The life of a message\<close>

text \<open>
  \<^verbatim>\<open>message_lifecycle.py\<close>. The variables of its two event loops: the body, and the trailer that is looked for.
\<close>

fun receive_upload :: "int \<Rightarrow> event \<Rightarrow> cell list \<times> byte list \<Rightarrow> ('w, exc, cell list \<times> byte list) py" where
  "receive_upload upload_id (DataReceived i data ends) (body, trailer) =
     returnM (if i = upload_id then body @ data else body, trailer)"
| "receive_upload upload_id (TrailersReceived i headers) (body, trailer) =
     bindM (liftM (header_bytes ''digest'' headers)) (\<lambda>digest. returnM (body, digest))"
| "receive_upload upload_id _ vars = returnM vars"

fun receive_stored ::
  "int \<Rightarrow> event \<Rightarrow> cell list \<times> byte list option \<Rightarrow> ('w, exc, cell list \<times> byte list option) py" where
  "receive_stored upload_id (InformationalResponseReceived i headers) vars =
     bindM (liftM (header_text '':status'' headers)) (\<lambda>_. returnM vars)"
| "receive_stored upload_id (ResponseReceived i headers ends) vars =
     bindM (liftM (header_text '':status'' headers)) (\<lambda>_. returnM vars)"
| "receive_stored upload_id (DataReceived i data ends) (body, outcome) = returnM (body @ data, outcome)"
| "receive_stored upload_id (TrailersReceived i headers) (body, outcome) =
     bindM (liftM (header_text ''result'' headers)) (\<lambda>r. returnM (body, Some r))"
| "receive_stored upload_id (StreamClosed i code local_error) (body, outcome) =
     (if i = upload_id then
        bindM (liftM (expect_clean code local_error)) (\<lambda>_.
        thenM (raise_if (outcome = None) RuntimeError)
          (bindM (read_bytes body) (\<lambda>_. returnM (body, outcome))))
      else returnM (body, outcome))"
| "receive_stored upload_id _ vars = returnM vars"

definition upload :: "'s engine \<Rightarrow> ('s, int) pair" where
  "upload E =
     bindM (at_end ClientSide (send_request E (request_fields ''POST'' ''/upload'') (PyBool False))) (\<lambda>upload_id.
     thenM (at_end ClientSide (send_data E (PyInt upload_id) (PyBytes True (ascii ''hello '')) (PyBool False)))
     (thenM (at_end ClientSide (send_data E (PyInt upload_id) (PyBytes True (ascii ''world'')) (PyBool False)))
     (thenM (at_end ClientSide (send_trailers E (PyInt upload_id)
        (PyList [http_field ''digest'' (ascii ''sha-256=:demo:'')])))
     (thenM (transfer E ClientSide ServerSide)
     (bindM (at_end ServerSide events) (\<lambda>es.
      bindM (foldM (receive_upload upload_id) es ([], [])) (\<lambda>(body, trailer).
      bindM (read_bytes body) (\<lambda>_.
      bindM (liftM (decode trailer)) (\<lambda>_. returnM upload_id)))))))))"

definition store :: "'s engine \<Rightarrow> int \<Rightarrow> ('s, unit) pair" where
  "store E upload_id =
     thenM (at_end ServerSide (send_informational_response E (PyInt upload_id) (status_fields ''103'')))
     (thenM (at_end ServerSide (send_response E (PyInt upload_id) (status_fields ''200'') (PyBool False)))
     (thenM (at_end ServerSide (send_data E (PyInt upload_id) (PyBytes True (ascii ''stored'')) (PyBool False)))
     (thenM (at_end ServerSide (send_trailers E (PyInt upload_id)
        (PyList [http_field ''result'' (ascii ''accepted'')])))
     (thenM (transfer E ServerSide ClientSide)
     (bindM (at_end ClientSide events) (\<lambda>es.
      bindM (foldM (receive_stored upload_id) es ([], None)) (\<lambda>_. returnM ())))))))"

definition cancel :: "'s engine \<Rightarrow> ('s, unit) pair" where
  "cancel E =
     bindM (at_end ClientSide (send_request E (request_fields ''POST'' ''/cancel'') (PyBool False))) (\<lambda>cancelled_id.
     thenM (at_end ClientSide (end_stream E (PyInt cancelled_id)))
     (thenM (transfer E ClientSide ServerSide)
     (bindM (at_end ServerSide events) (\<lambda>_.
      thenM (at_end ServerSide (reset_stream E (PyInt cancelled_id) (PyInt (wire_code CANCEL)) (PyBool False)))
     (thenM (transfer E ServerSide ClientSide)
     (bindM (at_end ClientSide events) (\<lambda>es.
      bindM (liftM (next_event as_reset es)) (\<lambda>_. returnM ()))))))))"

definition message_lifecycle :: "'s engine \<Rightarrow> ('s, unit) pair" where
  "message_lifecycle E =
     thenM (new_pair E) (thenM (handshake E)
     (bindM (upload E) (\<lambda>upload_id. thenM (store E upload_id) (cancel E))))"

end
