(* ===== verification/ExamplePrograms.thy ===== *)
theory ExamplePrograms
  imports Examples
begin

text \<open>
  The other in-memory programs of \<^verbatim>\<open>examples/python\<close>, in the manner of \<open>Examples\<close>. Two of them
  contain a loop that need not end; they are computations that may have no outcome.
\<close>

section \<open>Several streams\<close>

text \<open>\<^verbatim>\<open>multiplexed_round_trip.py\<close>\<close>

primrec open_paths ::
  "'s engine \<Rightarrow> string list \<Rightarrow> (int \<Rightarrow> string option) \<Rightarrow> ('s, int \<Rightarrow> string option) pair" where
  "open_paths E [] paths = returnM paths"
| "open_paths E (path # rest) paths =
     bindM (at_end ClientSide (send_request E (request_fields ''GET'' path) (PyBool True))) (\<lambda>stream_id.
       open_paths E rest (paths(stream_id \<mapsto> path)))"

definition lookup :: "('k \<Rightarrow> 'v option) \<Rightarrow> 'k \<Rightarrow> exc + 'v" where
  "lookup d k = (case d k of None \<Rightarrow> Inl KeyError | Some v \<Rightarrow> Inr v)"

fun receive_body :: "(int \<Rightarrow> string option) \<Rightarrow> event \<Rightarrow> (int \<Rightarrow> cell list option)
    \<Rightarrow> ('w, exc, int \<Rightarrow> cell list option) py" where
  "receive_body paths (ResponseReceived i headers ends) bodies = returnM (bodies(i \<mapsto> []))"
| "receive_body paths (DataReceived i data ends) bodies =
     bindM (liftM (lookup bodies i)) (\<lambda>body. returnM (bodies(i \<mapsto> body @ data)))"
| "receive_body paths (StreamClosed i code local_error) bodies =
     bindM (liftM (expect_clean code local_error)) (\<lambda>_.
     bindM (liftM (lookup paths i)) (\<lambda>_.
     bindM (liftM (lookup bodies i)) (\<lambda>body.
     bindM (read_bytes body) (\<lambda>bs.
     bindM (liftM (decode bs)) (\<lambda>_. returnM (bodies(i := None)))))))"
| "receive_body paths _ bodies = returnM bodies"

text \<open>One iteration over the requests, and the loop.\<close>

definition finish_stream :: "'s engine \<Rightarrow> (int \<Rightarrow> string option) \<Rightarrow> int \<Rightarrow> (int \<Rightarrow> cell list option)
    \<Rightarrow> ('s, int \<Rightarrow> cell list option) pair" where
  "finish_stream E paths stream_id bodies =
     bindM (liftM (lookup paths stream_id)) (\<lambda>path.
     let content = ascii (''response for '' @ path) @ [10] in
     thenM (at_end ServerSide (send_response E (PyInt stream_id) (sized_fields content) (PyBool False)))
     (thenM (at_end ServerSide (send_data E (PyInt stream_id) (PyBytes True content) (PyBool True)))
     (thenM (transfer E ServerSide ClientSide)
     (bindM (at_end ClientSide events) (\<lambda>es. foldM (receive_body paths) es bodies)))))"

definition multiplexed_round_trip :: "'s engine \<Rightarrow> ('s, unit) pair" where
  "multiplexed_round_trip E =
     thenM (new_pair E) (thenM (handshake E)
     (bindM (open_paths E [''/slow'', ''/fast''] Map.empty) (\<lambda>paths.
      thenM (transfer E ClientSide ServerSide)
     (bindM (at_end ServerSide events) (\<lambda>es.
      bindM (foldM (finish_stream E paths)
        (rev (map fst (dict_of (List.map_filter as_request es)))) Map.empty) (\<lambda>_. returnM ()))))))"

section \<open>Server push\<close>

text \<open>\<^verbatim>\<open>server_push.py\<close>\<close>

definition open_request :: "'s engine \<Rightarrow> string \<Rightarrow> ('s, int) pair" where
  "open_request E path =
     bindM (at_end ClientSide (send_request E (request_fields ''GET'' path) (PyBool True))) (\<lambda>stream_id.
     thenM (transfer E ClientSide ServerSide)
     (bindM (at_end ServerSide events) (\<lambda>_. returnM stream_id)))"

fun receive_push :: "int \<Rightarrow> event \<Rightarrow> cell list \<Rightarrow> ('w, exc, cell list) py" where
  "receive_push pushed_id (PushedStreamReceived i promised headers) body =
     bindM (liftM (header_text '':path'' headers)) (\<lambda>_. returnM body)"
| "receive_push pushed_id (DataReceived i data ends) body =
     returnM (if i = pushed_id then body @ data else body)"
| "receive_push pushed_id (StreamClosed i code local_error) body =
     (if i = pushed_id then
        bindM (liftM (expect_clean code local_error)) (\<lambda>_.
        bindM (read_bytes body) (\<lambda>_. returnM body))
      else returnM body)"
| "receive_push pushed_id _ body = returnM body"

definition push_style :: "'s engine \<Rightarrow> ('s, unit) pair" where
  "push_style E =
     bindM (open_request E ''/'') (\<lambda>parent_id.
     bindM (at_end ServerSide (send_push_promise E (PyInt parent_id) (request_fields ''GET'' ''/style.css'')))
       (\<lambda>pushed_id.
     thenM (at_end ServerSide (send_response E (PyInt pushed_id) (status_fields ''200'') (PyBool False)))
     (thenM (at_end ServerSide (send_data E (PyInt pushed_id) (PyBytes True (ascii ''body {}'')) (PyBool True)))
     (thenM (at_end ServerSide (send_response E (PyInt parent_id) (status_fields ''204'') (PyBool True)))
     (thenM (transfer E ServerSide ClientSide)
     (bindM (at_end ClientSide events) (\<lambda>es.
      bindM (foldM (receive_push pushed_id) es []) (\<lambda>_. returnM ()))))))))"

definition push_ignored :: "'s engine \<Rightarrow> ('s, unit) pair" where
  "push_ignored E =
     thenM (at_end ClientSide (update_settings E (settings_dict [(ENABLE_PUSH, 0)])))
     (thenM (transfer E ClientSide ServerSide)
     (thenM (transfer E ServerSide ClientSide)
     (thenM clear_events
     (bindM (open_request E ''/without-push'') (\<lambda>second_parent.
      bindM (at_end ServerSide (send_push_promise E (PyInt second_parent) (request_fields ''GET'' ''/ignored.css'')))
        (\<lambda>ignored_id.
      bindM (at_end ServerSide (data_to_send E PyNone)) (\<lambda>_.
      bindM (at_end ServerSide events) (\<lambda>es.
      bindM (liftM (next_event (on_stream ignored_id as_closed) es)) (\<lambda>_. returnM ())))))))))"

definition server_push :: "'s engine \<Rightarrow> ('s, unit) pair" where
  "server_push E =
     thenM (new_pair E) (thenM (handshake E) (thenM (push_style E) (push_ignored E)))"

section \<open>Graceful shutdown\<close>

text \<open>\<^verbatim>\<open>graceful_shutdown.py\<close>\<close>

definition shut_down :: "'s engine \<Rightarrow> int \<Rightarrow> ('s, unit) pair" where
  "shut_down E stream_id =
     thenM (at_end ServerSide (send_shutdown_notice E))
     (thenM (transfer E ServerSide ClientSide)
     (bindM (at_end ClientSide events) (\<lambda>es.
      bindM (liftM (next_event as_goaway es)) (\<lambda>_.
      bindM (at_end ClientSide (can_send_request E)) (\<lambda>_.
      thenM (at_end ServerSide (send_goaway E (PyInt (wire_code NO_ERROR)) (PyInt stream_id) (PyBytes True [])))
     (thenM (transfer E ServerSide ClientSide)
     (bindM (at_end ClientSide events) (\<lambda>es.
      bindM (liftM (next_event as_goaway es)) (\<lambda>_. returnM ())))))))))"

definition finish_in_flight :: "'s engine \<Rightarrow> int \<Rightarrow> ('s, unit) pair" where
  "finish_in_flight E stream_id =
     thenM (at_end ServerSide (send_response E (PyInt stream_id) (status_fields ''204'') (PyBool True)))
     (thenM (transfer E ServerSide ClientSide)
     (bindM (at_end ClientSide events) (\<lambda>es.
      bindM (liftM (next_event (on_stream stream_id as_closed) es)) (\<lambda>(i, code, local_error).
      bindM (liftM (expect_clean code local_error)) (\<lambda>_.
      bindM (liftM (next_event as_connection_closed es)) (\<lambda>code.
        liftM (expect_clean code None)))))))"

definition graceful_shutdown :: "'s engine \<Rightarrow> ('s, unit) pair" where
  "graceful_shutdown E =
     thenM (new_pair E) (thenM (handshake E)
     (bindM (at_end ClientSide (send_request E (request_fields ''GET'' ''/in-flight'') (PyBool True))) (\<lambda>stream_id.
      thenM (transfer E ClientSide ServerSide)
     (bindM (at_end ServerSide events) (\<lambda>_.
      thenM (shut_down E stream_id) (finish_in_flight E stream_id))))))"

section \<open>Priorities\<close>

text \<open>\<^verbatim>\<open>priorities.py\<close>\<close>

definition priorities :: "'s engine \<Rightarrow> ('s, unit) pair" where
  "priorities E =
     (let settings = settings_dict [(NO_RFC7540_PRIORITIES, 1)] in
     thenM (new_pair E)
     (thenM (at_end ClientSide (initiate_connection E settings))
     (thenM (at_end ServerSide (initiate_connection E settings))
     (thenM (four_transfers E)
     (thenM clear_events
     (bindM (at_end ClientSide (send_request E (request_fields ''GET'' ''/image.jpg'') (PyBool True))) (\<lambda>stream_id.
      thenM (transfer E ClientSide ServerSide)
     (bindM (at_end ServerSide events) (\<lambda>_.
      bindM (at_end ClientSide (send_priority_update E (PyInt stream_id) (PyBytes True (ascii ''u=1, i'')))) (\<lambda>sent.
      thenM (raise_if (\<not> sent) RuntimeError)
     (thenM (transfer E ClientSide ServerSide)
     (bindM (at_end ServerSide events) (\<lambda>es.
      bindM (liftM (next_event as_priority_update es)) (\<lambda>_.
      bindM (at_end ServerSide (get_stream_priority E (PyInt stream_id))) (\<lambda>applied.
        raise_if (applied = None) RuntimeError)))))))))))))))"

section \<open>Alternative services\<close>

text \<open>\<^verbatim>\<open>alternative_services.py\<close>\<close>

fun show_advertisement :: "event \<Rightarrow> unit \<Rightarrow> ('w, exc, unit) py" where
  "show_advertisement (AltSvcReceived i origin val) u =
     bindM (liftM (decode origin)) (\<lambda>_. bindM (liftM (decode val)) (\<lambda>_. returnM ()))"
| "show_advertisement (OriginReceived origins) u =
     bindM (mapM (\<lambda>origin. liftM (decode origin)) origins) (\<lambda>_. returnM ())"
| "show_advertisement _ u = returnM ()"

definition alternative_services :: "'s engine \<Rightarrow> ('s, unit) pair" where
  "alternative_services E =
     thenM (new_pair E) (thenM (handshake E)
     (thenM (at_end ServerSide (send_alt_svc E (PyBytes True (ascii ''h3=\":443\"; ma=3600'')) (PyInt 0)
        (PyBytes True (ascii ''https://example.test''))))
     (thenM (at_end ServerSide (send_origins E (PyList
        [PyBytes True (ascii ''https://example.test''), PyBytes True (ascii ''https://cdn.example.test'')])))
     (thenM (transfer E ServerSide ClientSide)
     (bindM (at_end ClientSide events) (\<lambda>es. foldM show_advertisement es ()))))))"

section \<open>h2c and extended CONNECT\<close>

text \<open>
  \<^verbatim>\<open>h2c_and_connect.py\<close>. The module function \<open>pack_settings_payload\<close> belongs to no connection; \<open>alloc\<close>
  says which of its allocations succeed.
\<close>

definition packed_settings :: "'s engine \<Rightarrow> (unit \<Rightarrow> nat \<Rightarrow> bool) \<Rightarrow> (setting \<times> int) list \<Rightarrow> ('w, exc, byte list) py" where
  "packed_settings E alloc settings =
     (case fst (pack_settings_payload E alloc (settings_dict settings) ()) of
        Ok payload \<Rightarrow> returnM payload | Raise e \<Rightarrow> raiseM e | Crash \<Rightarrow> crashM)"

definition upgraded_request :: "'s engine \<Rightarrow> (unit \<Rightarrow> nat \<Rightarrow> bool) \<Rightarrow> ('s, unit) pair" where
  "upgraded_request E alloc =
     bindM (packed_settings E alloc [(MAX_CONCURRENT_STREAMS, 10)]) (\<lambda>payload.
     thenM (new_pair E)
     (thenM (at_end ClientSide (initiate_upgrade E (PyBytes True payload) PyNone (PyBool False)))
     (thenM (at_end ServerSide (initiate_upgrade E (PyBytes True payload)
        (settings_dict [(MAX_CONCURRENT_STREAMS, 10)]) (PyBool False)))
     (thenM (transfer E ClientSide ServerSide)
     (thenM (transfer E ServerSide ClientSide)
     (thenM clear_events
     (thenM (at_end ServerSide (send_response E (PyInt 1) (status_fields ''204'') (PyBool True)))
     (thenM (transfer E ServerSide ClientSide)
     (bindM (at_end ClientSide events) (\<lambda>es.
      bindM (liftM (next_event as_response es)) (\<lambda>(i, headers).
      bindM (liftM (header_text '':status'' headers)) (\<lambda>_. returnM ()))))))))))))"

definition connect_fields :: "'w pyobj" where
  "connect_fields = PyList [http_field '':method'' (ascii ''CONNECT''),
     http_field '':protocol'' (ascii ''websocket''), http_field '':scheme'' (ascii ''https''),
     http_field '':authority'' (ascii ''example.test''), http_field '':path'' (ascii ''/chat'')]"

definition extended_connect :: "'s engine \<Rightarrow> ('s, unit) pair" where
  "extended_connect E =
     thenM (new_pair E)
     (thenM (at_end ClientSide (initiate_connection E PyNone))
     (thenM (at_end ServerSide (initiate_connection E (settings_dict [(ENABLE_CONNECT_PROTOCOL, 1)])))
     (thenM (four_transfers E)
     (thenM clear_events
     (bindM (at_end ClientSide (remote_settings E)) (\<lambda>settings.
      thenM (raise_if (map_of settings ENABLE_CONNECT_PROTOCOL \<noteq> Some 1) RuntimeError)
     (bindM (at_end ClientSide (send_request E connect_fields (PyBool False))) (\<lambda>connect_id.
      thenM (transfer E ClientSide ServerSide)
     (bindM (at_end ServerSide events) (\<lambda>es.
      bindM (liftM (next_event as_request es)) (\<lambda>(i, headers).
      bindM (liftM (header_text '':protocol'' headers)) (\<lambda>_. returnM ()))))))))))))"

definition h2c_and_connect :: "'s engine \<Rightarrow> (unit \<Rightarrow> nat \<Rightarrow> bool) \<Rightarrow> ('s, unit) pair" where
  "h2c_and_connect E alloc = thenM (upgraded_request E alloc) (extended_connect E)"

section \<open>Programs that may not return\<close>

text \<open>A computation that may have no outcome.\<close>

type_synonym ('w, 'a) prog = "'w \<Rightarrow> ((exc, 'a) outcome \<times> 'w) option"

definition runP :: "('w, exc, 'a) py \<Rightarrow> ('w, 'a) prog" where
  "runP m = (\<lambda>w. Some (m w))"

definition bindP :: "('w, 'a) prog \<Rightarrow> ('a \<Rightarrow> ('w, 'b) prog) \<Rightarrow> ('w, 'b) prog" where
  "bindP m f = (\<lambda>w. case m w of
       None \<Rightarrow> None
     | Some (Ok x, w') \<Rightarrow> f x w'
     | Some (Raise e, w') \<Rightarrow> Some (Raise e, w')
     | Some (Crash, w') \<Rightarrow> Some (Crash, w'))"

text \<open>\<^verbatim>\<open>connection_controls.py\<close>: its \<open>handshake\<close> moves 24 bytes at a time to the server.\<close>

definition piecewise_handshake :: "'s engine \<Rightarrow> ('s ends, unit) prog" where
  "piecewise_handshake E =
     bindP (runP (thenM (at_end ClientSide (initiate_connection E PyNone))
        (at_end ServerSide (initiate_connection E PyNone)))) (\<lambda>_.
     bindP (transfer_all E (PyInt 24) ClientSide ServerSide) (\<lambda>_.
     bindP (transfer_all E PyNone ServerSide ClientSide) (\<lambda>_.
     bindP (transfer_all E PyNone ClientSide ServerSide) (\<lambda>_.
     bindP (transfer_all E PyNone ServerSide ClientSide) (\<lambda>_. runP clear_events)))))"

definition show_state :: "'s engine \<Rightarrow> ('s, unit) pair" where
  "show_state E =
     bindM (at_end ClientSide (getsM c_role)) (\<lambda>role.
     thenM (raise_if (role = None) AttributeError)
     (bindM (at_end ClientSide (next_stream_id E)) (\<lambda>_.
      bindM (at_end ClientSide (want_read E)) (\<lambda>_.
      bindM (at_end ClientSide (want_write E)) (\<lambda>_.
      bindM (at_end ClientSide (local_window_size E (PyInt 0))) (\<lambda>_.
      bindM (at_end ClientSide (remote_window_size E (PyInt 0))) (\<lambda>_. returnM ())))))))"

definition show_received :: "('s, unit) pair" where
  "show_received =
     bindM (at_end ServerSide events) (\<lambda>received.
     bindM (liftM (next_event as_settings received)) (\<lambda>settings.
     bindM (liftM (next_event as_ping received)) (\<lambda>_.
     bindM (liftM (lookup (map_of settings) (KnownSetting MAX_FRAME_SIZE))) (\<lambda>_. returnM ()))))"

definition show_acknowledged :: "'s engine \<Rightarrow> ('s, unit) pair" where
  "show_acknowledged E =
     bindM (at_end ClientSide events) (\<lambda>acknowledgements.
     thenM (if SettingsAcknowledged \<in> set acknowledgements
        then bindM (at_end ClientSide (local_settings E)) (\<lambda>settings.
          bindM (liftM (lookup (map_of settings) MAX_FRAME_SIZE)) (\<lambda>_. returnM ()))
        else returnM ())
     (bindM (liftM (next_event as_ping_ack acknowledgements)) (\<lambda>_.
      bindM (at_end ServerSide (remote_settings E)) (\<lambda>settings.
      bindM (liftM (lookup (map_of settings) MAX_FRAME_SIZE)) (\<lambda>_. returnM ())))))"

definition connection_controls :: "'s engine \<Rightarrow> ('s ends, unit) prog" where
  "connection_controls E =
     bindP (runP (new_pair E)) (\<lambda>_.
     bindP (piecewise_handshake E) (\<lambda>_.
     bindP (runP (thenM (show_state E)
        (thenM (at_end ClientSide (update_settings E (settings_dict [(MAX_FRAME_SIZE, 32768)])))
          (at_end ClientSide (send_ping E (PyBytes True (ascii ''health01''))))))) (\<lambda>_.
     bindP (transfer_all E PyNone ClientSide ServerSide) (\<lambda>_.
     bindP (runP show_received) (\<lambda>_.
     bindP (transfer_all E PyNone ServerSide ClientSide) (\<lambda>_. runP (show_acknowledged E)))))))"

text \<open>
  \<^verbatim>\<open>manual_flow_control.py\<close>: the pieces of the body, each with whether it is the last, and the two loops
  of \<open>main\<close>. The second ends when nothing is queued any more.
\<close>

definition flow_body :: "byte list" where
  "flow_body = replicate 70000 0x78"

definition pieces :: "nat \<Rightarrow> byte list \<Rightarrow> (byte list \<times> bool) list" where
  "pieces n bs = map (\<lambda>k. (take n (drop (k * n) bs), length bs \<le> Suc k * n)) [0 ..< (length bs + n - 1) div n]"

primrec upload_pieces :: "'s engine \<Rightarrow> int \<Rightarrow> (byte list \<times> bool) list \<Rightarrow> int \<Rightarrow> ('s, int) pair" where
  "upload_pieces E stream_id [] received = returnM received"
| "upload_pieces E stream_id (p # rest) received =
     bindM (at_end ClientSide (queued_body_size_of (PyInt stream_id))) (\<lambda>queued.
     if queued \<noteq> 0 then returnM received
     else
       thenM (at_end ClientSide (send_data E (PyInt stream_id) (PyBytes True (fst p)) (PyBool (snd p))))
       (thenM (transfer E ClientSide ServerSide)
       (bindM (at_end ServerSide (consume_available_data E)) (\<lambda>n.
          upload_pieces E stream_id rest (received + n)))))"

definition drain_round :: "'s engine \<Rightarrow> int \<Rightarrow> ('s, int) pair" where
  "drain_round E stream_id =
     thenM (transfer E ClientSide ServerSide)
     (bindM (at_end ServerSide (consume_available_data E)) (\<lambda>n.
      bindM (at_end ClientSide (queued_body_size_of (PyInt stream_id))) (\<lambda>_. returnM n)))"

partial_function (option) drain_upload ::
  "'s engine \<Rightarrow> int \<Rightarrow> int \<Rightarrow> 's ends \<Rightarrow> ((exc, int) outcome \<times> 's ends) option" where
  "drain_upload E stream_id received w =
     (case at_end ClientSide (queued_body_size_of (PyInt stream_id)) w of
        (Ok queued, w1) \<Rightarrow>
          if queued = 0 then Some (Ok received, w1)
          else (case drain_round E stream_id w1 of
              (Ok n, w2) \<Rightarrow> drain_upload E stream_id (received + n) w2
            | (Raise e, w2) \<Rightarrow> Some (Raise e, w2)
            | (Crash, w2) \<Rightarrow> Some (Crash, w2))
      | (Raise e, w1) \<Rightarrow> Some (Raise e, w1)
      | (Crash, w1) \<Rightarrow> Some (Crash, w1))"

definition start_upload :: "'s engine \<Rightarrow> ('s, int \<times> int) pair" where
  "start_upload E =
     thenM (new_end E ClientSide CLIENT NoConfig)
     (thenM (new_end E ServerSide SERVER (AConfig (default_configuration\<lparr>auto_window_update := PyBool False\<rparr>)))
     (thenM (handshake E)
     (bindM (at_end ClientSide (send_request E (request_fields ''POST'' ''/upload'') (PyBool False))) (\<lambda>stream_id.
      bindM (upload_pieces E stream_id (pieces 20000 flow_body) 0) (\<lambda>received.
      bindM (at_end ClientSide (queued_body_size_of (PyInt stream_id))) (\<lambda>_.
      thenM (transfer E ServerSide ClientSide)
     (bindM (at_end ClientSide events) (\<lambda>_. returnM (stream_id, received)))))))))"

definition manual_flow_control :: "'s engine \<Rightarrow> ('s ends, unit) prog" where
  "manual_flow_control E =
     bindP (runP (start_upload E)) (\<lambda>(stream_id, received).
     bindP (drain_upload E stream_id received) (\<lambda>_. runP (returnM ())))"

section \<open>All of them\<close>

definition in_memory_programs :: "'s engine \<Rightarrow> (unit \<Rightarrow> nat \<Rightarrow> bool) \<Rightarrow> ('s ends, unit) prog list" where
  "in_memory_programs E alloc = map runP [first_round_trip E, message_lifecycle E,
     multiplexed_round_trip E, server_push E, graceful_shutdown E, priorities E, alternative_services E,
     h2c_and_connect E alloc] @ [connection_controls E, manual_flow_control E]"

end
