(* ===== verification/Example_Spec.thy ===== *)
theory Example_Spec
  imports Driver_Spec ExamplePrograms
begin

text \<open>
  The in-memory programs of \<^verbatim>\<open>examples/python\<close> (\<open>Examples\<close>, \<open>ExamplePrograms\<close>) use their connections
  safely. A proof walks through a program with one rule per kind of step (\<open>walk\<close>); between the steps
  both connections are reachable, and the events that are read carry received bytes only.
\<close>

section \<open>Calls\<close>

lemma keeps_end:
  assumes "engine_ok E" and "application_request E req" and "perform E req = discard_result m"
  shows "keeps (ends_safe E) (at_end side m)"
  by (cases side) (simp_all add: cl.keeps_request [OF assms] sv.keeps_request [OF assms])

lemma keeps_call:
  assumes "engine_ok E" and "list_all (guided (interacts E True)) (arguments req)" and "config_of req = NoConfig"
    and "perform E req = discard_result m"
  shows "keeps (ends_safe E) (at_end side m)"
  by (rule keeps_end [OF assms(1) _ assms(4)]) (simp add: application_request_def assms(2,3))

lemma guided_fields [simp]:
  "guided R (http_field n v)" "guided R (request_fields m p)" "guided R (status_fields c)"
  "guided R (sized_fields content)" "guided R connect_fields"
  by (simp_all add: http_field_def request_fields_def status_fields_def sized_fields_def connect_fields_def)

lemma guided_settings_dict [simp]: "guided (interacts E inits) (settings_dict kvs)"
  by (auto simp: settings_dict_def follows_def returnM_def interacts.idle)

abbreviation plain :: "'s engine \<Rightarrow> 's conn pyobj list \<Rightarrow> bool" where
  "plain E vs \<equiv> list_all (guided (interacts E True)) vs"

text \<open>The methods the programs call, on arguments whose code leaves the connections to the application.\<close>

lemma keeps_calls:
  assumes E: "engine_ok E"
  shows "plain E [a] \<Longrightarrow> keeps (ends_safe E) (at_end side (initiate_connection E a))"
    and "plain E [a, b, c] \<Longrightarrow> keeps (ends_safe E) (at_end side (initiate_upgrade E a b c))"
    and "plain E [a, b] \<Longrightarrow> keeps (ends_safe E) (at_end side (send_request E a b))"
    and "plain E [a, b, c] \<Longrightarrow> keeps (ends_safe E) (at_end side (send_response E a b c))"
    and "plain E [a, b] \<Longrightarrow> keeps (ends_safe E) (at_end side (send_informational_response E a b))"
    and "plain E [a, b] \<Longrightarrow> keeps (ends_safe E) (at_end side (send_trailers E a b))"
    and "plain E [a, b] \<Longrightarrow> keeps (ends_safe E) (at_end side (send_push_promise E a b))"
    and "plain E [a, b, c] \<Longrightarrow> keeps (ends_safe E) (at_end side (send_data E a b c))"
    and "plain E [a] \<Longrightarrow> keeps (ends_safe E) (at_end side (end_stream E a))"
    and "plain E [a, b, c] \<Longrightarrow> keeps (ends_safe E) (at_end side (reset_stream E a b c))"
    and "plain E [a] \<Longrightarrow> keeps (ends_safe E) (at_end side (update_settings E a))"
    and "plain E [a] \<Longrightarrow> keeps (ends_safe E) (at_end side (send_ping E a))"
    and "plain E [a, b, c] \<Longrightarrow> keeps (ends_safe E) (at_end side (send_goaway E a b c))"
    and "keeps (ends_safe E) (at_end side (send_shutdown_notice E))"
    and "plain E [a, b] \<Longrightarrow> keeps (ends_safe E) (at_end side (send_priority_update E a b))"
    and "plain E [a] \<Longrightarrow> keeps (ends_safe E) (at_end side (get_stream_priority E a))"
    and "plain E [a, b, c] \<Longrightarrow> keeps (ends_safe E) (at_end side (send_alt_svc E a b c))"
    and "plain E [a] \<Longrightarrow> keeps (ends_safe E) (at_end side (send_origins E a))"
    and "keeps (ends_safe E) (at_end side (want_read E))"
    and "keeps (ends_safe E) (at_end side (want_write E))"
    and "keeps (ends_safe E) (at_end side (next_stream_id E))"
    and "keeps (ends_safe E) (at_end side (can_send_request E))"
    and "plain E [a] \<Longrightarrow> keeps (ends_safe E) (at_end side (queued_body_size_of a))"
    and "plain E [a] \<Longrightarrow> keeps (ends_safe E) (at_end side (remote_window_size E a))"
    and "plain E [a] \<Longrightarrow> keeps (ends_safe E) (at_end side (local_window_size E a))"
    and "keeps (ends_safe E) (at_end side (local_settings E))"
    and "keeps (ends_safe E) (at_end side (remote_settings E))"
    and "plain E [a] \<Longrightarrow> keeps (ends_safe E) (at_end side (data_to_send E a))"
    and "keeps (ends_safe E) (at_end side events)"
  subgoal by (rule keeps_call [OF E, of "InitiateConnection a"]) simp_all
  subgoal by (rule keeps_call [OF E, of "InitiateUpgrade a b c"]) simp_all
  subgoal by (rule keeps_call [OF E, of "SendRequest a b"]) simp_all
  subgoal by (rule keeps_call [OF E, of "SendResponse a b c"]) simp_all
  subgoal by (rule keeps_call [OF E, of "SendInformationalResponse a b"]) simp_all
  subgoal by (rule keeps_call [OF E, of "SendTrailers a b"]) simp_all
  subgoal by (rule keeps_call [OF E, of "SendPushPromise a b"]) simp_all
  subgoal by (rule keeps_call [OF E, of "SendData a b c"]) simp_all
  subgoal by (rule keeps_call [OF E, of "EndStream a"]) simp_all
  subgoal by (rule keeps_call [OF E, of "ResetStream a b c"]) simp_all
  subgoal by (rule keeps_call [OF E, of "UpdateSettings a"]) simp_all
  subgoal by (rule keeps_call [OF E, of "SendPing a"]) simp_all
  subgoal by (rule keeps_call [OF E, of "SendGoaway a b c"]) simp_all
  subgoal by (rule keeps_call [OF E, of "SendShutdownNotice"]) simp_all
  subgoal by (rule keeps_call [OF E, of "SendPriorityUpdate a b"]) simp_all
  subgoal by (rule keeps_call [OF E, of "GetStreamPriority a"]) simp_all
  subgoal by (rule keeps_call [OF E, of "SendAltSvc a b c"]) simp_all
  subgoal by (rule keeps_call [OF E, of "SendOrigins a"]) simp_all
  subgoal by (rule keeps_call [OF E, of "WantRead"]) simp_all
  subgoal by (rule keeps_call [OF E, of "WantWrite"]) simp_all
  subgoal by (rule keeps_call [OF E, of "NextStreamId"]) simp_all
  subgoal by (rule keeps_call [OF E, of "CanSendRequest"]) simp_all
  subgoal by (rule keeps_call [OF E, of "QueuedBodySize a"]) simp_all
  subgoal by (rule keeps_call [OF E, of "RemoteWindowSize a"]) simp_all
  subgoal by (rule keeps_call [OF E, of "LocalWindowSize a"]) simp_all
  subgoal by (rule keeps_call [OF E, of "LocalSettings"]) simp_all
  subgoal by (rule keeps_call [OF E, of "RemoteSettings"]) simp_all
  subgoal by (rule keeps_call [OF E, of "DataToSend a"]) simp_all
  subgoal by (rule keeps_call [OF E, of "Events"]) simp_all
  done

section \<open>Events and loops\<close>

definition clean :: "event \<Rightarrow> bool" where
  "clean e \<longleftrightarrow> (case as_data e of None \<Rightarrow> True | Some data \<Rightarrow> None \<notin> set data)"

lemma clean_event: "event_ok m n e \<Longrightarrow> clean e"
  by (cases e) (simp_all add: clean_def)

lemma clean_data [simp]: "clean (DataReceived i data ends) \<longleftrightarrow> None \<notin> set data"
  by (simp add: clean_def)

lemma reachable_clean: "engine_ok E \<Longrightarrow> reachable E c \<Longrightarrow> list_all clean (c_events c)"
  using reachable_inv [of E c]
  by (auto simp: conn_inv_def core_inv_def base_inv_def events_ok_def list_all_iff dest: clean_event)

lemma collects_events:
  assumes E: "engine_ok E"
  shows "collects (ends_safe E) (list_all clean) (at_end side events)"
  unfolding collects_def
proof (intro allI impI)
  fix w
  assume w: "ends_safe E w"
  have "wp (at_end side events) (\<lambda>es _. list_all clean es) (\<lambda>_ _. True) w"
    using w by (cases side) (simp_all add: cl.wp_on_conn sv.wp_on_conn events_def wp_simps ends_safe_def
        reachable_clean [OF E])
  from wp_conj [OF keepsD [OF keeps_calls(29) [OF E] w] this]
  show "wp (at_end side events) (\<lambda>es w. ends_safe E w \<and> list_all clean es) (\<lambda>_. ends_safe E) w"
    by simp
qed

lemmas keeps_events = keeps_collects_bindM [OF collects_events]

lemma collects_liftM: "(\<And>x. r = Inr x \<Longrightarrow> P x) \<Longrightarrow> collects I P (liftM r)"
  by (cases r) (simp_all add: liftM_def collects_returnM collects_raiseM)

lemma next_event_data: "next_event as_data es = Inr data \<Longrightarrow> list_all clean es \<Longrightarrow> None \<notin> set data"
  by (induction es) (auto simp: next_event_def map_filter_simps clean_def split: list.splits option.splits)

text \<open>A loop over received events keeps its variables in \<open>P\<close> if every iteration does.\<close>

lemma collects_foldM:
  assumes "\<And>x b. G x \<Longrightarrow> P b \<Longrightarrow> collects I P (f x b)"
  shows "list_all G xs \<Longrightarrow> P b \<Longrightarrow> collects I P (foldM f xs b)"
proof (induction xs arbitrary: b)
  case Nil
  then show ?case by (simp add: collects_returnM)
next
  case (Cons x xs)
  then show ?case by (auto intro!: collects_bindM [where P = P] assms)
qed

lemma collects_lift_bindM: "(\<And>x. collects I Q (f x)) \<Longrightarrow> collects I Q (bindM (liftM r) f)"
  by (rule collects_keeps_bindM [OF keeps_liftM])

lemmas collects_steps = collects_returnM collects_raiseM collects_lift_bindM
  collects_keeps_bindM [OF keeps_read_bytes]

section \<open>The programs\<close>

lemma keeps_new_end:
  assumes E: "engine_ok E" and "guided_config_arg (interacts E False) config"
  shows "keeps (ends_safe E) (new_end E side r config)"
proof -
  have "keeps (ends_safe E) (at_end side (modifyM (\<lambda>_. new_conn)))"
    by (cases side) (simp_all add: keeps_def cl.wp_on_conn sv.wp_on_conn wp_simps ends_safe_def reachable_new)
  moreover have "keeps (ends_safe E) (at_end side (connection_init E (Some r) config))"
    using assms(2) by (intro keeps_end [OF E, of "Init (Some r) config"]) (simp_all add: application_request_def)
  ultimately show ?thesis unfolding new_end_def by (rule keeps_thenM)
qed

lemma keeps_new_pair: "engine_ok E \<Longrightarrow> keeps (ends_safe E) (new_pair E)"
  unfolding new_pair_def by (intro keeps_thenM keeps_new_end) simp_all

lemma keeps_four_transfers: "engine_ok E \<Longrightarrow> keeps (ends_safe E) (four_transfers E)"
  unfolding four_transfers_def by (intro keeps_thenM keeps_transfer)

lemma keeps_clear_events: "engine_ok E \<Longrightarrow> keeps (ends_safe E) clear_events"
  unfolding clear_events_def by (intro keeps_bindM keeps_returnM keeps_calls(29))

lemma keeps_next_data:
  "list_all clean es \<Longrightarrow> (\<And>data. None \<notin> set data \<Longrightarrow> keeps I (f data)) \<Longrightarrow>
    keeps I (bindM (liftM (next_event as_data es)) f)"
  by (rule keeps_collects_bindM [OF collects_liftM [where P = "\<lambda>data. None \<notin> set data"]])
    (simp_all add: next_event_data)

text \<open>The steps of a walk, the more specific ones first.\<close>

lemmas walk = keeps_events keeps_transfer keeps_handshake keeps_new_pair keeps_four_transfers
  keeps_clear_events keeps_calls

lemmas steps = keeps_next_data keeps_thenM keeps_bindM keeps_returnM keeps_raiseM keeps_liftM
  keeps_raise_if keeps_read_bytes

lemma keeps_first_round_trip:
  assumes E: "engine_ok E"
  shows "keeps (ends_safe E) (first_round_trip E)"
  unfolding first_round_trip_def split_beta
  by (rule walk [OF E] steps | simp)+

text \<open>The loops: their bodies hold received bytes only.\<close>

lemma collects_receive_upload:
  "clean e \<Longrightarrow> None \<notin> set (fst vars) \<Longrightarrow>
    collects I (\<lambda>vars. None \<notin> set (fst vars)) (receive_upload i e vars)"
  by (cases e; cases vars) (auto intro!: collects_steps)

lemma collects_receive_stored:
  "clean e \<Longrightarrow> None \<notin> set (fst vars) \<Longrightarrow>
    collects I (\<lambda>vars. None \<notin> set (fst vars)) (receive_stored i e vars)"
  by (cases e; cases vars) (auto simp: thenM_def raise_if_def intro!: collects_steps)

lemma keeps_upload:
  assumes E: "engine_ok E"
  shows "keeps (ends_safe E) (upload E)"
  unfolding upload_def split_beta
  by (rule keeps_collects_bindM [OF collects_foldM [where P = "\<lambda>vars. None \<notin> set (fst vars)", OF collects_receive_upload]]
      walk [OF E] steps | assumption | simp)+

lemma keeps_store:
  assumes E: "engine_ok E"
  shows "keeps (ends_safe E) (store E i)"
  unfolding store_def
  by (rule keeps_collects_bindM [OF collects_foldM [where P = "\<lambda>vars. None \<notin> set (fst vars)", OF collects_receive_stored]]
      walk [OF E] steps | assumption | simp)+

lemma keeps_message_lifecycle:
  assumes E: "engine_ok E"
  shows "keeps (ends_safe E) (message_lifecycle E)"
  unfolding message_lifecycle_def cancel_def
  by (rule keeps_upload [OF E] keeps_store [OF E] walk [OF E] steps | simp)+

text \<open>The bodies of several streams.\<close>

definition clean_bodies :: "(int \<Rightarrow> cell list option) \<Rightarrow> bool" where
  "clean_bodies bodies \<longleftrightarrow> (\<forall>body \<in> ran bodies. None \<notin> set body)"

lemma clean_bodies_upd [simp]:
  "clean_bodies bodies \<Longrightarrow> None \<notin> set body \<Longrightarrow> clean_bodies (bodies(i \<mapsto> body))"
  "clean_bodies bodies \<Longrightarrow> clean_bodies (bodies(i := None))" "clean_bodies Map.empty"
  by (auto simp: clean_bodies_def ran_def split: if_splits)

lemma collects_lookup_bindM:
  "clean_bodies bodies \<Longrightarrow> (\<And>body. None \<notin> set body \<Longrightarrow> collects I Q (f body)) \<Longrightarrow>
    collects I Q (bindM (liftM (lookup bodies i)) f)"
  by (rule collects_bindM [OF collects_liftM [where P = "\<lambda>body. None \<notin> set body"]])
    (auto simp: lookup_def clean_bodies_def ran_def split: option.splits)

lemma collects_receive_body:
  assumes "clean e" and "clean_bodies bodies"
  shows "collects I clean_bodies (receive_body paths e bodies)"
  using assms by (cases e) (simp_all, (rule collects_lookup_bindM collects_steps | assumption | simp)+)

lemma collects_finish_stream:
  assumes E: "engine_ok E" and "clean_bodies bodies"
  shows "collects (ends_safe E) clean_bodies (finish_stream E paths i bodies)"
  unfolding finish_stream_def Let_def thenM_def
  by (rule collects_lift_bindM collects_bindM [OF collects_events [OF E]]
      collects_foldM [where P = clean_bodies, OF collects_receive_body]
      collects_keeps_bindM walk [OF E] steps | assumption | simp add: assms(2))+

lemma keeps_open_paths:
  assumes E: "engine_ok E"
  shows "keeps (ends_safe E) (open_paths E ps paths)"
  by (induction ps arbitrary: paths) (auto simp del: at_end.simps intro!: keeps_calls [OF E] steps)

lemma keeps_multiplexed_round_trip:
  assumes E: "engine_ok E"
  shows "keeps (ends_safe E) (multiplexed_round_trip E)"
  unfolding multiplexed_round_trip_def
  by (rule keeps_collects_bindM [OF collects_foldM [where P = clean_bodies and G = "\<lambda>_. True", OF collects_finish_stream [OF E]]]
      keeps_open_paths [OF E] walk [OF E] steps | assumption | simp add: list_all_iff)+

lemma collects_receive_push:
  "clean e \<Longrightarrow> None \<notin> set body \<Longrightarrow> collects I (\<lambda>body. None \<notin> set body) (receive_push i e body)"
  by (cases e) (auto intro!: collects_steps)

lemma keeps_open_request:
  assumes E: "engine_ok E"
  shows "keeps (ends_safe E) (open_request E path)"
  unfolding open_request_def by (rule walk [OF E] steps | simp)+

lemma keeps_server_push:
  assumes E: "engine_ok E"
  shows "keeps (ends_safe E) (server_push E)"
  unfolding server_push_def push_style_def push_ignored_def
  by (rule keeps_collects_bindM [OF collects_foldM [where P = "\<lambda>body. None \<notin> set body", OF collects_receive_push]]
      keeps_open_request [OF E] walk [OF E] steps | assumption | simp)+

lemma keeps_graceful_shutdown:
  assumes E: "engine_ok E"
  shows "keeps (ends_safe E) (graceful_shutdown E)"
  unfolding graceful_shutdown_def shut_down_def finish_in_flight_def split_beta
  by (rule walk [OF E] steps | simp)+

lemma keeps_priorities:
  assumes E: "engine_ok E"
  shows "keeps (ends_safe E) (priorities E)"
  unfolding priorities_def Let_def by (rule walk [OF E] steps | simp)+

lemma keeps_show_advertisement: "keeps I (show_advertisement e u)"
  by (cases e) (auto intro!: steps keeps_mapM)

lemma keeps_foldM: "(\<And>x b. keeps I (f x b)) \<Longrightarrow> keeps I (foldM f xs b)"
  by (induction xs arbitrary: b) (auto intro!: steps)

lemma keeps_alternative_services:
  assumes E: "engine_ok E"
  shows "keeps (ends_safe E) (alternative_services E)"
  unfolding alternative_services_def
  by (rule keeps_foldM keeps_show_advertisement walk [OF E] steps | simp)+

lemma packed_no_crash: "fst (pack_settings_payload E alloc (settings_dict kvs) ()) \<noteq> Crash"
proof -
  have "polite (\<lambda>_. True) (settings_dict kvs :: unit pyobj)"
    by (auto simp: settings_dict_def keeps_returnM)
  from collects_keeps [OF collects_normalize_settings [OF this]]
  have "keeps (\<lambda>_. True) (pack_settings_payload E alloc (settings_dict kvs))"
    unfolding pack_settings_payload_def
    by (intro keeps_bindM keeps_getsM keeps_if keeps_raiseM keeps_returnM keeps_make_settings)
      (auto split: prod.split status.split intro!: keeps_intros)
  from wp_no_crash [OF keepsD [OF this]] show ?thesis by simp
qed

lemma keeps_packed_settings: "keeps I (packed_settings E alloc kvs)"
  using packed_no_crash [of E alloc kvs]
  by (auto simp: packed_settings_def intro!: steps split: outcome.split)

lemma keeps_h2c_and_connect:
  assumes E: "engine_ok E"
  shows "keeps (ends_safe E) (h2c_and_connect E alloc)"
  unfolding h2c_and_connect_def upgraded_request_def extended_connect_def split_beta
  by (rule keeps_packed_settings walk [OF E] steps | simp)+

section \<open>Programs that may not return\<close>

text \<open>If such a program returns, it has kept the invariant.\<close>

definition keepsP :: "('w \<Rightarrow> bool) \<Rightarrow> ('w, 'a) prog \<Rightarrow> bool" where
  "keepsP I m \<longleftrightarrow> (\<forall>w r w'. I w \<longrightarrow> m w = Some (r, w') \<longrightarrow> r \<noteq> Crash \<and> I w')"

lemma keepsP_runP: "keeps I m \<Longrightarrow> keepsP I (runP m)"
  unfolding keepsP_def runP_def by (auto dest!: keepsD simp: wp_def split: outcome.splits)

lemma keepsP_bindP:
  assumes "keepsP I m" and "\<And>x. keepsP I (f x)"
  shows "keepsP I (bindP m f)"
  unfolding keepsP_def
proof (intro allI impI)
  fix w r w'
  assume w: "I w" and run: "bindP m f w = Some (r, w')"
  then obtain r1 w1 where m: "m w = Some (r1, w1)"
    by (auto simp: bindP_def split: option.splits)
  with assms(1) w have "r1 \<noteq> Crash" "I w1" by (auto simp: keepsP_def)
  with run m assms(2) show "r \<noteq> Crash \<and> I w'"
    by (cases r1) (auto simp: bindP_def keepsP_def)
qed

text \<open>One round of a loop that stops, goes on or raises.\<close>

lemma loop_round:
  assumes "wp m (\<lambda>x w1. G x \<and> I w1) (\<lambda>_. I) w" and "\<And>x. G x \<Longrightarrow> keeps I (k x)"
    and "\<And>y w2 p. I w2 \<Longrightarrow> rec y w2 = Some p \<Longrightarrow> fst p \<noteq> Crash \<and> I (snd p)"
    and "(case m w of
        (Ok x, w1) \<Rightarrow> if stop x then Some (Ok (res x), w1)
          else (case k x w1 of
              (Ok y, w2) \<Rightarrow> rec y w2 | (Raise e, w2) \<Rightarrow> Some (Raise e, w2) | (Crash, w2) \<Rightarrow> Some (Crash, w2))
      | (Raise e, w1) \<Rightarrow> Some (Raise e, w1) | (Crash, w1) \<Rightarrow> Some (Crash, w1)) = Some p"
  shows "fst p \<noteq> Crash \<and> I (snd p)"
proof (cases "m w")
  case (Pair r w1)
  show ?thesis
  proof (cases "\<exists>x. r = Ok x \<and> \<not> stop x")
    case True
    then obtain x where x: "r = Ok x" "\<not> stop x" by blast
    with assms(1) Pair have "G x" "I w1" by (simp_all add: wp_def)
    then have "wp (k x) (\<lambda>_. I) (\<lambda>_. I) w1" using assms(2) by (blast dest: keepsD)
    with assms(3,4) Pair x show ?thesis
      by (cases "k x w1"; cases "fst (k x w1)") (auto simp: wp_def)
  next
    case False
    with assms(1,4) Pair show ?thesis by (cases r) (auto simp: wp_def)
  qed
qed

lemma keepsP_transfer_all:
  assumes E: "engine_ok E" and v: "application_request E (DataToSend v)"
  shows "keepsP (ends_safe E) (transfer_all E v source destination)"
  unfolding keepsP_def
proof (intro allI impI)
  fix w r w'
  assume w: "ends_safe E w" and run: "transfer_all E v source destination w = Some (r, w')"
  define good where "good = (\<lambda>E' v' (s :: side) (d :: side) w (p :: (exc, unit) outcome \<times> _). E' = E \<longrightarrow> v' = v \<longrightarrow>
    ends_safe E w \<longrightarrow> fst p \<noteq> Crash \<and> ends_safe E (snd p))"
  have "good E v source destination w (r, w')"
  proof (rule transfer_all.raw_induct [where P = good, OF _ run])
    fix rec E' v' s d w p
    assume IH: "\<And>E v s d w p. rec E v s d w = Some p \<Longrightarrow> good E v s d w p"
      and eq: "(case at_end s (data_to_send E' v') w of
        (Ok data, w1) \<Rightarrow> if data = [] then Some (Ok (), w1)
          else case bindM (read_bytes data) (\<lambda>bs. at_end d (receive_data E' (PyBytes True bs))) w1 of
            (Ok u, w2) \<Rightarrow> rec E' v' s d w2 | (Raise e, w2) \<Rightarrow> Some (Raise e, w2) | (Crash, w2) \<Rightarrow> Some (Crash, w2)
        | (Raise e, w1) \<Rightarrow> Some (Raise e, w1) | (Crash, w1) \<Rightarrow> Some (Crash, w1)) = Some p"
    show "good E' v' s d w p"
      unfolding good_def
    proof (intro impI)
      assume same: "E' = E" "v' = v" and w: "ends_safe E w"
      show "fst p \<noteq> Crash \<and> ends_safe E (snd p)"
        by (rule loop_round [OF wp_end_output [OF E v w] keeps_push [OF E] _ eq [unfolded same]])
          (use IH [unfolded good_def] in blast)+
    qed
  qed
  with w show "r \<noteq> Crash \<and> ends_safe E w'" by (simp add: good_def)
qed

lemma keeps_at_end: "keeps (reachable E) m \<Longrightarrow> keeps (ends_safe E) (at_end side m)"
  by (cases side) (simp_all add: cl.keeps_on_conn sv.keeps_on_conn)

lemma keeps_consume_available_data:
  assumes E: "engine_ok E"
  shows "keeps (ends_safe E) (at_end side (consume_available_data E))"
proof (rule keeps_at_end)
  have "keeps (reachable E) events"
    by (rule keeps_reachable [OF E, of Events]) (simp_all add: application_request_def)
  moreover have "keeps (reachable E) (consume_received_data E (PyInt i) (PyInt n))" for i n
    by (rule keeps_reachable [OF E, of "ConsumeReceivedData (PyInt i) (PyInt n)"])
      (simp_all add: application_request_def)
  then have "keeps (reachable E) (consume_event E e)" for e
    by (cases e) (auto intro!: keeps_thenM keeps_returnM)
  ultimately show "keeps (reachable E) (consume_available_data E)"
    unfolding consume_available_data_def by (intro keeps_bindM keeps_mapM keeps_returnM)
qed

lemma keeps_upload_pieces:
  assumes E: "engine_ok E"
  shows "keeps (ends_safe E) (upload_pieces E i ps received)"
  by (induction ps arbitrary: received) (auto simp del: at_end.simps
      intro!: keeps_consume_available_data [OF E] keeps_transfer [OF E] keeps_calls [OF E] steps)

lemma keeps_drain_round:
  assumes E: "engine_ok E"
  shows "keeps (ends_safe E) (drain_round E i)"
  unfolding drain_round_def by (rule keeps_consume_available_data [OF E] walk [OF E] steps | simp)+

lemma keepsP_drain_upload:
  assumes E: "engine_ok E"
  shows "keepsP (ends_safe E) (drain_upload E i received)"
  unfolding keepsP_def
proof (intro allI impI)
  fix w r w'
  assume w: "ends_safe E w" and run: "drain_upload E i received w = Some (r, w')"
  define good where "good = (\<lambda>E' (i :: int) (n :: int) w (p :: (exc, int) outcome \<times> _). E' = E \<longrightarrow>
    ends_safe E w \<longrightarrow> fst p \<noteq> Crash \<and> ends_safe E (snd p))"
  have "good E i received w (r, w')"
  proof (rule drain_upload.raw_induct [where P = good, OF _ run])
    fix rec E' i n w p
    assume IH: "\<And>E i n w p. rec E i n w = Some p \<Longrightarrow> good E i n w p"
      and eq: "(case at_end ClientSide (queued_body_size_of (PyInt i)) w of
        (Ok queued, w1) \<Rightarrow> if queued = 0 then Some (Ok n, w1)
          else (case drain_round E' i w1 of
            (Ok k, w2) \<Rightarrow> rec E' i (n + k) w2 | (Raise e, w2) \<Rightarrow> Some (Raise e, w2) | (Crash, w2) \<Rightarrow> Some (Crash, w2))
        | (Raise e, w1) \<Rightarrow> Some (Raise e, w1) | (Crash, w1) \<Rightarrow> Some (Crash, w1)) = Some p"
    show "good E' i n w p"
      unfolding good_def
    proof (intro impI)
      assume same: "E' = E" and w: "ends_safe E w"
      have size: "wp (at_end ClientSide (queued_body_size_of (PyInt i))) (\<lambda>_ w1. True \<and> ends_safe E w1)
          (\<lambda>_. ends_safe E) w"
        using keepsD [OF keeps_calls(23) [OF E, of "PyInt i" ClientSide] w] by (simp del: at_end.simps)
      show "fst p \<noteq> Crash \<and> ends_safe E (snd p)"
        by (rule loop_round [OF size keeps_drain_round [OF E] _ eq [unfolded same]])
          (use IH [unfolded good_def] in blast)
    qed
  qed
  with w show "r \<noteq> Crash \<and> ends_safe E w'" by (simp add: good_def)
qed

lemma keepsP_manual_flow_control:
  assumes E: "engine_ok E"
  shows "keepsP (ends_safe E) (manual_flow_control E)"
proof -
  have "guided_config_arg (interacts E False) (AConfig (default_configuration\<lparr>auto_window_update := PyBool False\<rparr>))"
    by (simp add: guided_config_def default_configuration_def)
  then have "keeps (ends_safe E) (start_upload E)"
    unfolding start_upload_def
    by - (rule keeps_new_end [OF E] keeps_upload_pieces [OF E] walk [OF E] steps | assumption | simp)+
  then show ?thesis
    unfolding manual_flow_control_def split_beta
    by (intro keepsP_bindP keepsP_runP keepsP_drain_upload [OF E] keeps_returnM)
qed

lemma keepsP_connection_controls:
  assumes E: "engine_ok E"
  shows "keepsP (ends_safe E) (connection_controls E)"
proof -
  have "keeps (ends_safe E) (show_state E)" "keeps (ends_safe E) show_received"
    "keeps (ends_safe E) (show_acknowledged E)"
    unfolding show_state_def show_received_def show_acknowledged_def
    by (rule keeps_if keeps_bindM keeps_getsM keeps_at_end walk [OF E] steps | simp)+
  then show ?thesis
    unfolding connection_controls_def piecewise_handshake_def
    by - (rule keepsP_bindP keepsP_runP keepsP_transfer_all [OF E] walk [OF E] steps | assumption
        | simp add: application_request_def)+
qed

section \<open>All of them\<close>

lemma runP_returns [simp]: "runP m w \<noteq> None"
  by (simp add: runP_def)

lemma in_memory_program_cases:
  "m \<in> set (in_memory_programs E alloc) \<Longrightarrow>
    m = connection_controls E \<or> m = manual_flow_control E \<or> m \<in> range runP"
  unfolding in_memory_programs_def set_append set_map list.set by blast

lemma keepsP_in_memory_programs:
  assumes E: "engine_ok E" and "m \<in> set (in_memory_programs E alloc)"
  shows "keepsP (ends_safe E) m"
  using assms(2) unfolding in_memory_programs_def
  by (auto intro: keepsP_runP keeps_first_round_trip [OF E] keeps_message_lifecycle [OF E]
      keeps_multiplexed_round_trip [OF E] keeps_server_push [OF E] keeps_graceful_shutdown [OF E]
      keeps_priorities [OF E] keeps_alternative_services [OF E] keeps_h2c_and_connect [OF E]
      keepsP_connection_controls [OF E] keepsP_manual_flow_control [OF E])

text \<open>
  C33. The in-memory programs are safe: on every engine, whatever it lets the two connections send to each
  other, no call of a program runs into undefined behaviour, a program reads no byte of output or of
  a body that was never written, and the connections stay reachable, so that every property of
  reachable connections holds for them. The two programs that may run forever are safe if they
  return; the others always do.
\<close>

theorem in_memory_programs_safe:
  assumes "engine_ok E" and "reachable E (client_end w)" and "reachable E (server_end w)"
    and "m \<in> set (in_memory_programs E alloc)"
  shows "(m w = None \<longrightarrow> m \<in> {connection_controls E, manual_flow_control E}) \<and>
    (\<forall>r w'. m w = Some (r, w') \<longrightarrow>
       r \<noteq> Crash \<and> reachable E (client_end w') \<and> reachable E (server_end w'))"
proof
  show "m w = None \<longrightarrow> m \<in> {connection_controls E, manual_flow_control E}"
    using in_memory_program_cases [OF assms(4)] by (elim disjE) (simp, simp, fastforce)
  show "\<forall>r w'. m w = Some (r, w') \<longrightarrow>
       r \<noteq> Crash \<and> reachable E (client_end w') \<and> reachable E (server_end w')"
  proof (intro allI impI)
    fix r w'
    assume "m w = Some (r, w')"
    moreover have "ends_safe E w" using assms(2,3) by (simp add: ends_safe_def)
    ultimately have "r \<noteq> Crash \<and> ends_safe E w'"
      using keepsP_in_memory_programs [OF assms(1,4)] unfolding keepsP_def by blast
    then show "r \<noteq> Crash \<and> reachable E (client_end w') \<and> reachable E (server_end w')"
      by (simp add: ends_safe_def)
  qed
qed

theorem in_memory_programs_safe_witness:
  "\<exists>r w'. runP (message_lifecycle demo) \<lparr>client_end = new_conn, server_end = new_conn\<rparr> = Some (r, w') \<and>
    r \<noteq> Crash \<and> reachable demo (server_end w')"
proof -
  let ?w = "\<lparr>client_end = new_conn, server_end = new_conn\<rparr> :: demo ends"
  have mem: "runP (message_lifecycle demo) \<in> set (in_memory_programs demo (\<lambda>_ _. True))"
    by (simp add: in_memory_programs_def)
  have "reachable demo (client_end ?w)" "reachable demo (server_end ?w)" by (simp_all add: reachable_new)
  note safe = in_memory_programs_safe [OF engine_ok_demo this mem, THEN conjunct2]
  obtain r w' where "runP (message_lifecycle demo) ?w = Some (r, w')"
    unfolding runP_def by (metis prod.collapse)
  with safe show ?thesis by blast
qed

end
