(* ===== verification/Spec2Isabelle.thy ===== *)
theory Spec2Isabelle
  imports Phase_Spec Transfer_Spec Control_Spec Argument_Spec Session_Spec Client_Spec Server_Spec Example_Spec
begin

text \<open>
  A verification of \<^verbatim>\<open>ngh2\<close>, a Sans-I/O HTTP/2 library for Python: the class \<open>Connection\<close> of
  \<^verbatim>\<open>src/ngh2/_core.pyx\<close> (Cython), which drives the C library libnghttp2, queues what the application
  wants to send, stages what the engine produces, and turns what the engine receives into the events
  of \<^verbatim>\<open>src/ngh2/events.pyx\<close>.

  The program and the model. A method call converts its Python arguments, checks the state of the
  connection, calls the engine, and the engine calls back into the connection. The model follows this:
  a method or callback of the class is a computation on the record \<open>conn\<close> (its fields are the
  attributes of the class, \<open>c_x\<close> for \<open>_x\<close>) that returns, raises a Python exception, or runs into
  undefined behaviour of C, written \<open>Crash\<close>: a call on a NULL session, a read or write outside a
  buffer, an exception that leaves a \<open>noexcept\<close> callback. Machine arithmetic on \<open>size_t\<close> is on 64-bit
  words or reduced modulo the word size where the code relies on it.

  The engine is not part of the repository. It is a parameter, the record \<open>'s engine\<close> with one function
  per declaration of \<^verbatim>\<open>src/ngh2/_nghttp2.pxd\<close> that the binding calls; a call that runs callbacks is an
  interaction tree, so every order of callbacks and every answer is covered. \<open>engine_ok\<close> (in
  \<open>Contract\<close>) states what the binding relies on: a call whose callback failed returns that failure
  without running another callback, the buffers given to callbacks are C objects and a frame header
  has nine bytes, and the identifiers of new streams do not decrease. \<open>Demo\<close> is a small engine that
  meets it; the witnesses run it. Allocation may fail at any time; \<open>eng_alloc\<close> decides.

  Python objects are the datatype \<open>pyobj\<close>: what the binding can tell apart, with the code that a
  conversion can run (\<open>__index__\<close>, \<open>__bool__\<close>, \<open>__buffer__\<close>, iteration) as a computation on the
  connection itself, since such code may call the connection again.

  Theories of the model, in the order they build on each other:

    \<^item> \<open>Prelude\<close>: the monad, its weakest preconditions (\<open>wp_simps\<close>) and invariants (\<open>keeps_intros\<close>);
    \<^item> \<open>Exceptions\<close>, \<open>Enums\<close>: \<^verbatim>\<open>exceptions.py\<close>, \<^verbatim>\<open>enums.py\<close>, the error codes and their translation;
    \<^item> \<open>PyObjects\<close>, \<open>Conversions\<close>, \<open>Headers\<close>: arguments; integers, header lists, SETTINGS;
    \<^item> \<open>BodyQueue\<close>: \<open>_BodySource\<close> and \<open>_copy_body\<close>; \<open>Events\<close>: \<^verbatim>\<open>events.pyx\<close>;
    \<^item> \<open>Engine\<close>, \<open>Lifecycle\<close>: the engine's interface, the fields of \<open>Connection\<close>, guards and failure;
    \<^item> \<open>Outbound\<close>, \<open>Inbound\<close>: the callbacks for output and input, and the callback table (\<open>handle\<close>);
    \<^item> \<open>Connection\<close>: \<open>__init__\<close>, initiation, upgrade, \<open>receive_data\<close>, \<open>events\<close>, \<open>data_to_send\<close>;
    \<^item> \<open>Streams\<close>, \<open>Control\<close>: all other public methods;
    \<^item> \<open>Drivers\<close>, \<open>Examples\<close>, \<open>ExamplePrograms\<close>, \<open>AsyncClient\<close>, \<open>AsyncServer\<close>: the programs of
      \<^verbatim>\<open>examples/python\<close>: ten that join a client and a server in memory, and the coroutines of
      \<^verbatim>\<open>asyncio_client.py\<close> and \<^verbatim>\<open>asyncio_server.py\<close>, whose stream transport is given by the outcomes
      of its calls.

  Theories of the proofs:

    \<^item> \<open>Contract\<close>, \<open>Demo\<close>, \<open>Invariant\<close>: the contract of the engine, an engine that meets it, and the
      class invariant \<open>conn_inv\<close> with its parts;
    \<^item> \<open>Staging\<close>, \<open>Callbacks\<close>, \<open>Frames\<close>: the output buffer as an append-only string; every callback
      keeps the invariant or fails; what no callback changes. The locale \<open>callback_contract\<close> carries the
      invariant through a library call, and is interpreted on \<open>handle\<close>;
    \<^item> \<open>Methods\<close>, \<open>Requests\<close>: every public method keeps the invariant; methods as requests;
    \<^item> \<open>Refusals\<close>, \<open>Application\<close>: refused methods, and what application code can do to a connection,
      re-entrant calls included, to any depth (\<open>interacts\<close>, \<open>reachable\<close>);
    \<^item> \<open>Partial\<close>, \<open>Phases\<close>, \<open>Phase_Spec\<close>: the lifecycle as an abstract state machine (\<open>phase\<close>, a linear
      order, and the step relation \<open>life\<close>), which every request refines, and the refusal of requests
      out of phase;
    \<^item> \<open>Runs\<close>: sessions of the demo engine, evaluated for the witnesses;
    \<^item> \<open>Output_Spec\<close>, \<open>Frame_Spec\<close>, \<open>Input_Spec\<close>, \<open>Control_Spec\<close>, \<open>Stream_Spec\<close>, \<open>Transfer_Spec\<close>,
      \<open>Argument_Spec\<close>, \<open>Session_Spec\<close>: what the operations achieve, component by component. Body queues
      refine FIFOs of bytes (locale \<open>byte_queue\<close>, interpreted on one body and on a whole connection),
      integer converters are exact (locale \<open>checked_integer\<close>, interpreted on all seven);
    \<^item> \<open>Driver_Spec\<close>, \<open>Example_Spec\<close>, \<open>Client_Spec\<close>, \<open>Server_Spec\<close>: the example programs use their connections safely
      (locale \<open>conn_owner\<close>, interpreted on every place a program keeps a connection in), and what they
      make of the events; two theorems exhibit defects of theirs;
    \<^item> this theory: the properties of the whole interface.

  Bounds and fuel. No fuel occurs in the model of the code. The loop of \<open>_copy_body\<close> terminates because
  every round takes a byte or a chunk; library calls terminate because their trees are inductive; the
  loops of the socket programs recurse over what their reads return, with the end of the stream after
  the last. The two loops that may run forever are \<^theory_text>\<open>partial_function\<close>s: \<open>transfer\<close> of
  \<^verbatim>\<open>connection_controls.py\<close> (\<open>transfer_all\<close>; \<open>transfer_all_moves\<close> says exactly when it ends) and the last
  loop of \<^verbatim>\<open>manual_flow_control.py\<close> (\<open>drain_upload\<close>). The number of
  rounds in \<open>send_whole_body\<close> (\<open>Transfer_Spec\<close>) is a parameter of the property about it, which says how
  many rounds are enough.

  Not modelled: the texts of exceptions, pickling and equality of events, \<open>__dealloc__\<close> (which releases
  the two owned pointers), the version query, the type stubs, and threads (a connection may not be
  shared between threads). Allocations of Python objects other than byte strings and C arrays are
  assumed to succeed; so is the arithmetic on the NULL address of an output buffer that was never
  allocated, for a write of no bytes. Of SETTINGS mappings, an \<open>items()\<close> that raises or yields anything
  but pairs is not represented, and of buffers the code that their release may run. Calls of \<open>__init__\<close> from inside \<open>__init__\<close> are modelled and excluded from
  \<open>interacts\<close>; \<open>nested_init_replaces_session\<close> shows why. Of the example programs, URL parsing, TLS,
  printing and logging are left out.
\<close>

section \<open>Safety of the whole interface\<close>

text \<open>
  C1. No request runs into undefined behaviour: whatever an application does to a new connection, the
  code of its objects calling the connection in the middle of a request included, no public method makes a
  library call without a session, copies outside a buffer, or lets an exception escape from a
  callback.
\<close>

theorem no_undefined_behaviour:
  assumes "engine_ok E" and "interacts E inits new_conn (crashed, c)"
  shows "\<not> crashed"
  using interacts_harmless [OF assms] conn_inv_new by (fastforce simp: harmless_def)

text \<open>
  The witness sends data in a session whose Boolean argument, when it is tested, takes the pending
  events and then the output of the same connection.
\<close>

definition demo_reentrant :: "demo request" where
  "demo_reentrant = SendData (PyInt 1) (PyBytes True [7, 8, 9])
     (PyBoolable (call_back demo [Events, DataToSend PyNone] True))"

lemma demo_reentrant_request: "application_request demo demo_reentrant"
  using follows_call_back [of demo "[Events, DataToSend PyNone]" True]
  by (simp add: demo_reentrant_def application_request_def)

lemma demo_reentrant_interacts:
  "interacts demo True new_conn
     (fst (perform demo demo_reentrant (session_after demo demo_session)) = Crash,
      snd (perform demo demo_reentrant (session_after demo demo_session)))"
  using demo_reentrant_request reachable_demo
  by (intro interacts.request) (simp_all add: reachable_def application_request_def)

theorem no_undefined_behaviour_witness:
  "fst (perform demo demo_reentrant (session_after demo demo_session)) \<noteq> Crash"
  by (rule no_undefined_behaviour [OF engine_ok_demo demo_reentrant_interacts])

text \<open>
  C3. Outbound accounting: in every reachable connection the counter of each body is the number of
  bytes still in its queue, and the counter of the connection is the sum over its bodies (as machine
  words of the size of \<open>size_t\<close>).
\<close>

theorem queue_accounting:
  assumes "engine_ok E" and "reachable E c"
  shows "finite (dom (c_bodies c)) \<and>
    (\<forall>i b. c_bodies c i = Some b \<longrightarrow> queued_size b = of_nat (length (body_contents b))) \<and>
    c_queued_body_size c = (\<Sum>i\<in>dom (c_bodies c). queued_size (the (c_bodies c i)))"
  using reachable_inv [OF assms(2,1)]
  by (auto simp: conn_inv_def core_inv_def bodies_ok_def total_queued_def body_wf_queued)

theorem queue_accounting_witness:
  "c_queued_body_size (session_after demo demo_session) =
     (\<Sum>i\<in>dom (c_bodies (session_after demo demo_session)).
        queued_size (the (c_bodies (session_after demo demo_session) i)))"
  using queue_accounting [OF engine_ok_demo reachable_demo] by simp

text \<open>
  C10. Staged output: whatever an argument's code does, bytes that \<open>data_to_send\<close> returns were all
  written by the engine, an explicit limit is never exceeded, and no output stays staged.
\<close>

theorem bounded_output:
  assumes "engine_ok E" and "reachable E c" and "application_request E (DataToSend v)"
    and "data_to_send E v c = (Ok out, c')"
  shows "None \<notin> set out \<and> (\<forall>n. v = PyInt n \<longrightarrow> int (length out) \<le> n) \<and>
    c_output c' = None \<and> c_output_remaining c' = 0"
proof -
  have "polite (conn_inv E False) v"
    using application_polite [OF assms(1,3), of False] by (simp add: polite_request_def)
  from wp_Ok [OF wp_data_to_send [OF assms(1) reachable_inv [OF assms(2,1)] this] assms(4)]
  show ?thesis by (simp add: conn_inv_def output_ok_def)
qed

theorem bounded_output_witness:
  "\<exists>out c'. data_to_send demo (PyInt 20) (session_after demo demo_session) = (Ok out, c') \<and>
    length out = 2 \<and> None \<notin> set out \<and> c_output c' = None"
proof -
  obtain c' where run: "data_to_send demo (PyInt 20) (session_after demo demo_session) = (Ok [Some 4, Some 1], c')"
    using demo_output by (metis prod.collapse)
  have "application_request demo (DataToSend (PyInt 20))"
    by (simp add: application_request_def)
  from bounded_output [OF engine_ok_demo reachable_demo this run] run show ?thesis by simp
qed

text \<open>
  C11. When \<open>data_to_send\<close> with a valid limit raises, the connection has failed and has released its
  session, staged output, bodies and every other piece of pending state.
\<close>

theorem failed_output:
  assumes "engine_ok E" and "reachable E c"
    and "v = PyNone \<or> v = PyInt n \<and> 0 \<le> n \<and> n \<le> 2 ^ 63 - 1"
    and "data_to_send E v c = (Raise e, c')"
  shows "c_failed c' \<and> c_closed c' \<and> released c'"
proof -
  have inv: "conn_inv E False c" by (rule reachable_inv [OF assms(2,1)])
  have "wp (data_to_send E v) (\<lambda>_ _. True) (\<lambda>_ c'. conn_inv E False c' \<and> c_failed c') c"
    using assms(3) wp_send_limited [OF assms(1) inv, of "-1"] wp_send_limited [OF assms(1) inv, of n]
    by (auto simp: data_to_send_def output_limit_def wp_bindM conv_nonnegative_size.wp_conv
        wp_returnM elim!: wp_mono)
  from wp_Raise [OF this assms(4)] show ?thesis
    by (auto simp: conn_inv_def core_inv_def base_inv_def flags_ok_def)
qed

theorem failed_output_witness:
  "\<exists>c'. data_to_send small_demo PyNone (session_after small_demo demo_start) = (Raise MemoryError, c') \<and>
    c_failed c' \<and> c_closed c' \<and> released c'"
proof -
  obtain c' where run: "data_to_send small_demo PyNone (session_after small_demo demo_start) = (Raise MemoryError, c')"
    by (simp add: session_after_def demo_start_def small_demo_def run_simps)
  with failed_output [OF engine_ok_small_demo reachable_demo_start _ run] show ?thesis by simp
qed

section \<open>The life of a connection\<close>

text \<open>
  C12. The lifecycle flags of a reachable connection: it owns a session exactly from the end of its
  construction to its failure; it can only be active, failed or terminating once constructed, and
  active excludes failed; it terminates only while active and closing; and it is closed exactly when
  the application may no longer drive it, after a failure or at the end of its termination.
\<close>

theorem lifecycle_flags:
  assumes "engine_ok E" and "reachable E c"
  shows "(c_session c \<noteq> None \<longleftrightarrow> c_initialized c \<and> \<not> c_failed c) \<and>
    (c_active c \<longrightarrow> c_initialized c \<and> \<not> c_failed c) \<and> (c_failed c \<longrightarrow> c_initialized c \<and> c_closed c) \<and>
    (c_terminating c \<longrightarrow> c_active c \<and> c_closing c) \<and> (c_closed c \<longrightarrow> c_failed c \<or> c_terminating c) \<and>
    c_callback_error c = None"
  using reachable_inv [OF assms(2,1)] by (auto simp: conn_inv_def core_inv_def base_inv_def flags_ok_def)

definition demo_farewell :: "demo request list" where
  "demo_farewell = [Init (Some CLIENT) NoConfig, InitiateConnection PyNone,
     TerminateConnection (PyInt 0) PyNone, DataToSend PyNone, Events, Events]"

lemma demo_farewell_requests: "list_all (application_request demo) demo_farewell"
  by (simp add: demo_farewell_def application_request_def)

lemma reachable_demo_farewell: "reachable demo (session_after demo demo_farewell)"
  by (rule reachable_after [OF engine_ok_demo demo_farewell_requests])

lemma demo_farewell_closed:
  "c_closed (session_after demo demo_farewell)" "\<not> c_failed (session_after demo demo_farewell)"
  by (simp_all add: session_after_def demo_farewell_def terminate_connection_def optional_stream_id_def
      discard_pending_state_def run_simps)

theorem lifecycle_flags_witness:
  "c_terminating (session_after demo demo_farewell) \<and> c_closing (session_after demo demo_farewell)"
  using lifecycle_flags [OF engine_ok_demo reachable_demo_farewell] demo_farewell_closed by simp

text \<open>
  C13. Failure is final: once a connection has failed, nothing an application does changes it again,
  except that its pending events may be taken, and nothing crashes.
\<close>

theorem failure_is_final:
  assumes "engine_ok E" and "reachable E c" and "c_failed c" and "interacts E inits c (crashed, c')"
  shows "\<not> crashed \<and> (c' = c \<or> c' = c\<lparr>c_events := []\<rparr>)"
proof -
  have "\<not> c_active c" "c_initialized c"
    using reachable_inv [OF assms(2,1)] assms(3)
    by (auto simp: conn_inv_def core_inv_def base_inv_def flags_ok_def)
  from interacts_settled [OF assms(3) this assms(4)] show ?thesis by (simp add: settled_def)
qed

definition small_demo_failed :: "demo conn" where
  "small_demo_failed = session_after small_demo (demo_start @ [DataToSend PyNone])"

lemma reachable_small_demo_failed: "reachable small_demo small_demo_failed"
  unfolding small_demo_failed_def
  by (rule reachable_after [OF engine_ok_small_demo]) (simp add: demo_start_def application_request_def)

lemma small_demo_failed: "c_failed small_demo_failed" "c_initialized small_demo_failed"
  by (simp_all add: small_demo_failed_def session_after_def demo_start_def small_demo_def fail_conn_def
      discard_pending_state_def run_simps)

theorem failure_is_final_witness:
  "snd (perform small_demo (SendPing (PyBytes True (replicate 8 0))) small_demo_failed)
     \<in> {small_demo_failed, small_demo_failed\<lparr>c_events := []\<rparr>}"
proof -
  have "interacts small_demo True small_demo_failed
    (fst (perform small_demo (SendPing (PyBytes True (replicate 8 0))) small_demo_failed) = Crash,
     snd (perform small_demo (SendPing (PyBytes True (replicate 8 0))) small_demo_failed))"
    by (rule interacts.request [OF interacts.idle]) simp_all
  from failure_is_final [OF engine_ok_small_demo reachable_small_demo_failed small_demo_failed(1) this]
  show ?thesis by auto
qed

text \<open>
  C16. In the life of a connection \<open>ConnectionClosed\<close> is delivered to the application at most once.
\<close>

theorem closed_once:
  assumes "engine_ok E" and "list_all (application_request E) reqs"
  shows "closings (delivered E reqs new_conn) \<le> 1"
  using closings_delivered [OF assms conn_inv_new] by simp

lemma demo_farewell_delivered: "closings (delivered demo demo_farewell new_conn) = 1"
  by (simp add: demo_farewell_def terminate_connection_def optional_stream_id_def
      discard_pending_state_def closings_def connection_closed_event_def run_simps)

theorem closed_once_witness: "closings (delivered demo demo_farewell new_conn) \<le> 1"
  by (rule closed_once [OF engine_ok_demo demo_farewell_requests])

section \<open>Construction from the inside\<close>

text \<open>
  What the engine is asked for with the default configuration and \<open>n\<close> as \<open>max_settings\<close>.
\<close>

definition default_options :: "int \<Rightarrow> options" where
  "default_options n = \<lparr>opt_no_auto_window_update = False, opt_peer_max_concurrent_streams = 100,
     opt_max_reserved_remote_streams = 200, opt_max_send_header_block_length = 65536,
     opt_max_deflate_dynamic_table_size = 4096, opt_max_outbound_ack = 1000, opt_max_settings = n,
     opt_stream_reset_rate_limit = (1000, 33), opt_max_continuations = 8,
     opt_glitch_rate_limit = (10000, 330)\<rparr>"

text \<open>
  C40. \<open>__init__\<close> refuses a connection that is initialised, but it tests this before it converts the
  configuration, and the conversion can run code, here the \<open>__index__\<close> of \<open>max_settings\<close>. Whatever that
  code does, if it leaves the connection initialised, then the outer \<open>__init__\<close>, which would be refused
  now, returns as soon as the engine gives it a session: this session replaces the one the code set up,
  which is not deleted, while the connection stays active if the code has started it and keeps the
  bodies, responses and events of the lost session.
\<close>

theorem nested_init_replaces_session:
  assumes "eng_callbacks_new E = RcOk a" and "eng_option_new E = RcOk b"
    and "hook new_conn = (Ok n, c1)" and "1 \<le> n" "n \<le> 2 ^ 64 - 1" and "c_initialized c1"
    and "eng_session_new E (r = SERVER) (default_options n) = (RcOk l, fresh)"
  shows "connection_init E (Some r) config c1 = (Raise ConnectionStateError, c1) \<and>
    (\<exists>c2. connection_init E (Some r) (AConfig (default_configuration\<lparr>max_settings := PyIndexable hook\<rparr>)) new_conn =
        (Ok (), c2) \<and>
      c_session c2 = Some fresh \<and> c_role c2 = Some r \<and> c_active c2 = c_active c1 \<and>
      c_bodies c2 = c_bodies c1 \<and> c_responses c2 = c_responses c1 \<and> c_events c2 = c_events c1)"
  using assms
  by (simp add: default_options_def connection_init_def apply_configuration_def default_configuration_def
      conv_positive_size.conv_exact checked_index_def conversion_run monad_run guard_run new_conn_def)

text \<open>Code that initialises the connection as a server and starts it.\<close>

definition nested_start :: "demo request list" where
  "nested_start = [Init (Some SERVER) NoConfig, InitiateConnection PyNone]"

theorem nested_init_replaces_session_witness:
  "\<exists>c2. connection_init demo (Some CLIENT)
      (AConfig (default_configuration\<lparr>max_settings := PyIndexable (call_back demo nested_start 32)\<rparr>)) new_conn = (Ok (), c2) \<and>
    c_session c2 = Some \<lparr>dm_next = 1, dm_out = [], dm_streams = [], dm_open = True\<rparr> \<and> c_active c2 \<and>
    c_session (session_after demo nested_start) = Some \<lparr>dm_next = 2, dm_out = [4], dm_streams = [], dm_open = True\<rparr>"
proof -
  let ?c = "session_after demo nested_start"
  have "call_back demo nested_start (32 :: int) new_conn = (Ok 32, ?c)" "c_initialized ?c" "c_active ?c"
    "c_session ?c = Some \<lparr>dm_next = 2, dm_out = [4], dm_streams = [], dm_open = True\<rparr>"
    by (simp_all add: nested_start_def session_after_def run_simps)
  with nested_init_replaces_session [of demo 0 0 "call_back demo nested_start 32" 32 ?c CLIENT 0
      "\<lparr>dm_next = 1, dm_out = [], dm_streams = [], dm_open = True\<rparr>" NoConfig] show ?thesis by auto
qed

end
